(* ===== verification/Prelude.thy ===== *)
theory Prelude
  imports Main "HOL-Library.List_Lexorder" "HOL-Library.Char_ord"
begin

text \<open>
  Shared vocabulary of the development: fallible results, keyed tables (the shape every
  SQL table of the service has), and the collections of facts the component proofs use.
  A fallible Go call \<open>(v, err)\<close> is a sum: \<open>Inl err\<close> when the error is not nil, \<open>Inr v\<close>
  otherwise.
\<close>

named_theorems frame_simps \<open>fields an operation leaves alone\<close>
named_theorems inv_intros \<open>operations that keep a component's invariant\<close>

section \<open>Fallible results\<close>

definition is_ok :: "'e + 'a \<Rightarrow> bool" where
  "is_ok r = (case r of Inl _ \<Rightarrow> False | Inr _ \<Rightarrow> True)"

lemma is_ok_simps [simp]: "is_ok (Inr x)" "\<not> is_ok (Inl e)"
  by (simp_all add: is_ok_def)

lemma is_ok_iff: "is_ok r \<longleftrightarrow> (\<exists>x. r = Inr x)"
  by (cases r) auto

section \<open>Keyed tables\<close>

text \<open>
  A table is the list of its rows in rowid order. The operations below are the ones the
  SQL statements of the repository use: the first row that satisfies a condition, an update
  of every row that satisfies it, its deletion, its count.
\<close>

definition upd_where :: "('r \<Rightarrow> bool) \<Rightarrow> ('r \<Rightarrow> 'r) \<Rightarrow> 'r list \<Rightarrow> 'r list" where
  "upd_where p f rows = map (\<lambda>r. if p r then f r else r) rows"

definition del_where :: "('r \<Rightarrow> bool) \<Rightarrow> 'r list \<Rightarrow> 'r list" where
  "del_where p rows = filter (\<lambda>r. \<not> p r) rows"

definition count_where :: "('r \<Rightarrow> bool) \<Rightarrow> 'r list \<Rightarrow> nat" where
  "count_where p rows = length (filter p rows)"

definition has_row :: "('r \<Rightarrow> bool) \<Rightarrow> 'r list \<Rightarrow> bool" where
  "has_row p rows = list_ex p rows"

text \<open>\<open>INSERT ... ON CONFLICT DO UPDATE\<close>: update the conflicting row, append otherwise.\<close>

definition upsert_row :: "('r \<Rightarrow> bool) \<Rightarrow> ('r \<Rightarrow> 'r) \<Rightarrow> 'r \<Rightarrow> 'r list \<Rightarrow> 'r list" where
  "upsert_row p f row rows = (if has_row p rows then upd_where p f rows else rows @ [row])"

lemma has_row_iff: "has_row p rows \<longleftrightarrow> (\<exists>r \<in> set rows. p r)"
  by (simp add: has_row_def list_ex_iff)

lemma has_row_simps [simp]:
  "has_row p [] = False" "has_row p (r # rs) = (p r \<or> has_row p rs)"
  "has_row p (rs @ ss) = (has_row p rs \<or> has_row p ss)"
  by (auto simp: has_row_iff)

lemma upd_where_simps [simp]:
  "upd_where p f [] = []"
  "upd_where p f (r # rs) = (if p r then f r else r) # upd_where p f rs"
  "upd_where p f (rs @ ss) = upd_where p f rs @ upd_where p f ss"
  by (simp_all add: upd_where_def)

lemma length_upd_where [simp]: "length (upd_where p f rows) = length rows"
  by (simp add: upd_where_def)

lemma map_upd_where [simp]: "(\<And>r. p r \<Longrightarrow> key (f r) = key r) \<Longrightarrow> map key (upd_where p f rows) = map key rows"
  by (induction rows) auto

lemma set_upd_where: "set (upd_where p f rows) = f ` {r \<in> set rows. p r} \<union> {r \<in> set rows. \<not> p r}"
  by (induction rows) auto

lemma upd_where_none: "\<not> has_row p rows \<Longrightarrow> upd_where p f rows = rows"
  by (induction rows) auto

lemma has_row_upd_where: "(\<And>r. p r \<Longrightarrow> p (f r)) \<Longrightarrow> has_row p (upd_where p f rows) = has_row p rows"
  by (induction rows) auto

lemma set_del_where [simp]: "set (del_where p rows) = {r \<in> set rows. \<not> p r}"
  by (auto simp: del_where_def)

lemma del_where_simps [simp]:
  "del_where p [] = []"
  "del_where p (r # rs) = (if p r then del_where p rs else r # del_where p rs)"
  "del_where p (rs @ ss) = del_where p rs @ del_where p ss"
  by (simp_all add: del_where_def)

lemma has_row_del_where [simp]: "\<not> has_row p (del_where p rows)"
  by (simp add: has_row_iff)

lemma distinct_del_where: "distinct (map key rows) \<Longrightarrow> distinct (map key (del_where p rows))"
  by (simp add: del_where_def distinct_map_filter)

lemma count_where_simps [simp]:
  "count_where p [] = 0"
  "count_where p (r # rs) = (if p r then Suc (count_where p rs) else count_where p rs)"
  "count_where p (rs @ ss) = count_where p rs + count_where p ss"
  by (simp_all add: count_where_def)

lemma count_where_0 [simp]: "count_where p rows = 0 \<longleftrightarrow> \<not> has_row p rows"
  by (induction rows) auto

lemma count_where_pos: "0 < count_where p rows \<longleftrightarrow> has_row p rows"
  by (metis count_where_0 neq0_conv)

lemma count_le_1_if_distinct:
  "distinct (map key rows) \<Longrightarrow> count_where (\<lambda>r. key r = k) rows \<le> 1"
proof (induction rows)
  case Nil
  then show ?case by simp
next
  case (Cons r rs)
  show ?case
  proof (cases "key r = k")
    case True
    with Cons.prems have "\<not> has_row (\<lambda>r. key r = k) rs"
      by (auto simp: has_row_iff image_iff)
    with True show ?thesis by (simp flip: count_where_0)
  next
    case False
    with Cons show ?thesis by simp
  qed
qed

lemma find_upd_where_key:
  assumes "\<And>r. key (f r) = key r"
  shows "find (\<lambda>r. key r = k) (upd_where (\<lambda>r. key r = k) f rows) =
    map_option f (find (\<lambda>r. key r = k) rows)"
  by (induction rows) (auto simp: assms)

lemma find_upd_where_other:
  assumes "\<And>r. key (f r) = key r" and "k \<noteq> k'"
  shows "find (\<lambda>r. key r = k) (upd_where (\<lambda>r. key r = k') f rows) = find (\<lambda>r. key r = k) rows"
  using assms by (induction rows) auto

lemma find_None_has_row: "find p rows = None \<longleftrightarrow> \<not> has_row p rows"
  by (auto simp: find_None_iff has_row_iff)

lemma find_Some_has_row: "find p rows = Some r \<Longrightarrow> has_row p rows"
  by (auto simp: find_Some_iff has_row_iff)

lemma find_SomeD: "find p rows = Some r \<Longrightarrow> r \<in> set rows \<and> p r"
  by (auto simp: find_Some_iff)

lemma find_append: "find p (xs @ ys) = (case find p xs of None \<Rightarrow> find p ys | Some x \<Rightarrow> Some x)"
  by (induction xs) auto

lemma find_key_distinct:
  "distinct (map key rows) \<Longrightarrow> r \<in> set rows \<Longrightarrow> find (\<lambda>x. key x = key r) rows = Some r"
proof (induction rows)
  case Nil
  then show ?case by simp
next
  case (Cons x xs)
  show ?case
  proof (cases "x = r")
    case True
    then show ?thesis by simp
  next
    case False
    with Cons.prems have "r \<in> set xs" and "key x \<noteq> key r" by (auto simp: image_iff)
    with Cons show ?thesis by simp
  qed
qed

lemma upsert_row_keys:
  assumes "\<And>r. p r \<longleftrightarrow> key r = key row" and "\<And>r. key r = key row \<Longrightarrow> key (f r) = key r"
    and "distinct (map key rows)"
  shows "distinct (map key (upsert_row p f row rows))"
proof (cases "has_row p rows")
  case True
  have "map key (upd_where p f rows) = map key rows"
    by (rule map_upd_where) (simp add: assms)
  with True assms(3) show ?thesis by (simp add: upsert_row_def)
next
  case False
  then have "key row \<notin> key ` set rows" by (auto simp: has_row_iff assms(1))
  with False assms(3) show ?thesis by (simp add: upsert_row_def)
qed

section \<open>Lists\<close>

lemma takeWhile_all: "(\<And>x. x \<in> set xs \<Longrightarrow> P x) \<Longrightarrow> takeWhile P xs = xs"
  by (simp add: takeWhile_eq_all_conv)

lemma filter_sort_key: "filter P (sort_key f xs) = sort_key f (filter P xs)"
proof (induction xs)
  case Nil
  then show ?case by simp
next
  case (Cons x xs)
  have "filter P (insort_key f x ys) = (if P x then insort_key f x (filter P ys) else filter P ys)"
    if "sorted (map f ys)" for ys
    using that by (auto simp: filter_insort filter_insort_triv)
  with Cons show ?case by simp
qed

end
