(* ===== verification/GoLib.thy ===== *)
theory GoLib
  imports Prelude
begin

text \<open>
  What the source uses of Go's standard library: \<open>strings\<close>, \<open>net\<close> (\<open>SplitHostPort\<close>,
  \<open>ParseIP\<close>, \<open>IsLoopback\<close>) and \<open>time.Parse(time.RFC3339, _)\<close>. A Go string is its bytes, so
  a \<open>string\<close> here. Case folding and white space are the ASCII ones: the source folds header
  prefixes and host names, and trims header values. Instants are \<open>int\<close> nanoseconds since
  the Unix epoch.
\<close>

section \<open>strings\<close>

definition has_prefix :: "string \<Rightarrow> string \<Rightarrow> bool" where
  "has_prefix s p \<longleftrightarrow> take (length p) s = p"

definition has_suffix :: "string \<Rightarrow> string \<Rightarrow> bool" where
  "has_suffix s p \<longleftrightarrow> has_prefix (rev s) (rev p)"

definition trim_prefix :: "string \<Rightarrow> string \<Rightarrow> string" where
  "trim_prefix s p = (if has_prefix s p then drop (length p) s else s)"

definition trim_suffix :: "string \<Rightarrow> string \<Rightarrow> string" where
  "trim_suffix s p = (if has_suffix s p then take (length s - length p) s else s)"

text \<open>\<open>strings.Contains(s, sub)\<close>\<close>

fun str_contains :: "string \<Rightarrow> string \<Rightarrow> bool" where
  "str_contains [] sub = (sub = [])"
| "str_contains (c # s) sub = (has_prefix (c # s) sub \<or> str_contains s sub)"

definition is_space :: "char \<Rightarrow> bool" where
  "is_space c \<longleftrightarrow> c \<in> {CHR '' '', CHR 0x09, CHR 0x0A, CHR 0x0B, CHR 0x0C, CHR 0x0D}"

definition trim_left_of :: "(char \<Rightarrow> bool) \<Rightarrow> string \<Rightarrow> string" where
  "trim_left_of p s = dropWhile p s"

definition trim_right_of :: "(char \<Rightarrow> bool) \<Rightarrow> string \<Rightarrow> string" where
  "trim_right_of p s = rev (dropWhile p (rev s))"

definition trim_of :: "(char \<Rightarrow> bool) \<Rightarrow> string \<Rightarrow> string" where
  "trim_of p s = trim_right_of p (trim_left_of p s)"

definition trim_space :: "string \<Rightarrow> string" where
  "trim_space s = trim_of is_space s"

text \<open>Character classes are written as tables of their members, which the kernel evaluates.\<close>

definition lower_char :: "char \<Rightarrow> char" where
  "lower_char c = (case map_of (zip ''ABCDEFGHIJKLMNOPQRSTUVWXYZ'' ''abcdefghijklmnopqrstuvwxyz'') c of
     None \<Rightarrow> c | Some l \<Rightarrow> l)"

definition to_lower :: "string \<Rightarrow> string" where
  "to_lower s = map lower_char s"

definition equal_fold :: "string \<Rightarrow> string \<Rightarrow> bool" where
  "equal_fold a b \<longleftrightarrow> to_lower a = to_lower b"

text \<open>\<open>strings.IndexByte\<close> and \<open>strings.LastIndexByte\<close>: \<open>None\<close> for -1.\<close>

fun index_byte :: "string \<Rightarrow> char \<Rightarrow> nat option" where
  "index_byte [] c = None"
| "index_byte (x # xs) c = (if x = c then Some 0 else map_option Suc (index_byte xs c))"

definition last_index_byte :: "string \<Rightarrow> char \<Rightarrow> nat option" where
  "last_index_byte s c =
     map_option (\<lambda>i. length s - Suc i) (index_byte (rev s) c)"

text \<open>\<open>strings.Split(s, sep)\<close> for a one-byte separator.\<close>

fun split_on :: "char \<Rightarrow> string \<Rightarrow> string list" where
  "split_on sep [] = [[]]"
| "split_on sep (c # s) =
     (if c = sep then [] # split_on sep s
      else (case split_on sep s of [] \<Rightarrow> [[c]] | w # ws \<Rightarrow> (c # w) # ws))"

fun join_with :: "string \<Rightarrow> string list \<Rightarrow> string" where
  "join_with sep [] = []"
| "join_with sep [w] = w"
| "join_with sep (w # v # ws) = w @ sep @ join_with sep (v # ws)"

text \<open>\<open>strconv.Itoa\<close>\<close>

function (sequential) nat_digits :: "nat \<Rightarrow> string" where
  "nat_digits n = (if n < 10 then [''0123456789'' ! n]
     else nat_digits (n div 10) @ [''0123456789'' ! (n mod 10)])"
  by pat_completeness auto
termination
  by (relation "measure id") auto

declare nat_digits.simps [simp del]

definition itoa :: "int \<Rightarrow> string" where
  "itoa i = (if i < 0 then CHR ''-'' # nat_digits (nat (- i)) else nat_digits (nat i))"

lemma has_prefix_append [simp]: "has_prefix (p @ s) p"
  by (simp add: has_prefix_def)

lemma has_prefix_iff: "has_prefix s p \<longleftrightarrow> (\<exists>r. s = p @ r)"
  by (metis has_prefix_def append_eq_conv_conj)

lemma has_prefix_self [simp]: "has_prefix s s"
  by (simp add: has_prefix_def)

lemma split_on_nonempty [simp]: "split_on sep s \<noteq> []"
  by (induction s) (auto split: list.splits)

lemma join_split: "join_with [sep] (split_on sep s) = s"
proof (induction s)
  case Nil
  then show ?case by simp
next
  case (Cons c s)
  obtain w ws where "split_on sep s = w # ws"
    by (meson split_on_nonempty neq_Nil_conv)
  with Cons show ?case by (cases ws) auto
qed

lemma index_byte_Some: "index_byte s c = Some i \<Longrightarrow> i < length s \<and> s ! i = c"
  by (induction s arbitrary: i) (auto split: if_splits)

lemma index_byte_append:
  "c \<notin> set s \<Longrightarrow> index_byte (s @ c # t) c = Some (length s)"
  by (induction s) auto

section \<open>net\<close>

text \<open>\<open>net.SplitHostPort\<close>: \<open>None\<close> for each of its address errors.\<close>

definition split_host_port :: "string \<Rightarrow> (string \<times> string) option" where
  "split_host_port hp =
    (case last_index_byte hp (CHR '':'') of
       None \<Rightarrow> None
     | Some i \<Rightarrow>
         if hp \<noteq> [] \<and> hd hp = CHR ''['' then
           (case index_byte hp (CHR '']'') of
              None \<Rightarrow> None
            | Some e \<Rightarrow>
                if Suc e = i \<and> CHR ''['' \<notin> set (drop 1 hp) \<and> CHR '']'' \<notin> set (drop (Suc e) hp)
                then Some (take (e - 1) (drop 1 hp), drop (Suc i) hp) else None)
         else if CHR '':'' \<in> set (take i hp) \<or> CHR ''['' \<in> set hp \<or> CHR '']'' \<in> set hp then None
         else Some (take i hp, drop (Suc i) hp))"

definition digit_table :: "(char \<times> int) list" where
  "digit_table = zip ''0123456789'' [0, 1, 2, 3, 4, 5, 6, 7, 8, 9]"

definition is_digit :: "char \<Rightarrow> bool" where
  "is_digit c \<longleftrightarrow> map_of digit_table c \<noteq> None"

definition digit_val :: "char \<Rightarrow> int" where
  "digit_val c = (case map_of digit_table c of None \<Rightarrow> 0 | Some d \<Rightarrow> d)"

definition dec_val :: "string \<Rightarrow> int" where
  "dec_val s = foldl (\<lambda>v c. 10 * v + digit_val c) 0 s"

text \<open>One field of a dotted IPv4 address: decimal, at most 255, no leading zero.\<close>

definition ipv4_field :: "string \<Rightarrow> int option" where
  "ipv4_field s = (if s \<noteq> [] \<and> list_all is_digit s \<and> length s \<le> 3 \<and> dec_val s \<le> 255
      \<and> (length s = 1 \<or> hd s \<noteq> CHR ''0'') then Some (dec_val s) else None)"

definition parse_ipv4 :: "string \<Rightarrow> int list option" where
  "parse_ipv4 s = (case map ipv4_field (split_on (CHR ''.'') s) of
      [Some a, Some b, Some c, Some d] \<Rightarrow> Some [a, b, c, d] | _ \<Rightarrow> None)"

definition hex_digit :: "char \<Rightarrow> int option" where
  "hex_digit c = map_of (zip ''0123456789abcdefABCDEF''
     [0, 1, 2, 3, 4, 5, 6, 7, 8, 9, 10, 11, 12, 13, 14, 15, 10, 11, 12, 13, 14, 15]) c"

text \<open>The leading hexadecimal digits of a string, and what follows them.\<close>

fun hex_span :: "string \<Rightarrow> int list \<times> string" where
  "hex_span [] = ([], [])"
| "hex_span (c # s) = (case hex_digit c of None \<Rightarrow> ([], c # s)
     | Some d \<Rightarrow> (d # fst (hex_span s), snd (hex_span s)))"

definition hex_val :: "int list \<Rightarrow> int" where
  "hex_val ds = foldl (\<lambda>v d. 16 * v + d) 0 ds"

text \<open>
  The loop of \<open>netip.parseIPv6\<close>: \<open>n\<close> is the number of 16-bit groups still to fill, \<open>ip\<close>
  the bytes read so far and \<open>ell\<close> the position of the ellipsis. A trailing dotted IPv4
  address fills the last two groups.
\<close>

fun parse_ipv6_loop :: "nat \<Rightarrow> int list \<Rightarrow> nat option \<Rightarrow> string \<Rightarrow> (int list \<times> nat option) option" where
  "parse_ipv6_loop 0 ip ell s = (if s = [] then Some (ip, ell) else None)"
| "parse_ipv6_loop (Suc n) ip ell s =
     (let (ds, rest) = hex_span s in
      if ds = [] \<or> 4 < length ds then None
      else if rest \<noteq> [] \<and> hd rest = CHR ''.'' then
        (if ell = None \<and> length ip \<noteq> 12 then None
         else if 16 < length ip + 4 then None
         else map_option (\<lambda>q. (ip @ q, ell)) (parse_ipv4 s))
      else let ip' = ip @ [hex_val ds div 256, hex_val ds mod 256] in
        if rest = [] then Some (ip', ell)
        else if hd rest \<noteq> CHR '':'' \<or> length rest = 1 then None
        else let s2 = tl rest in
          if hd s2 = CHR '':'' then
            (if ell \<noteq> None then None
             else if length s2 = 1 then Some (ip', Some (length ip'))
             else parse_ipv6_loop n ip' (Some (length ip')) (tl s2))
          else parse_ipv6_loop n ip' ell s2)"

definition parse_ipv6 :: "string \<Rightarrow> int list option" where
  "parse_ipv6 s =
     (if s = ''::'' then Some (replicate 16 0)
      else let (ell, body) = (if has_prefix s ''::'' then (Some 0, drop 2 s) else (None, s)) in
        (case parse_ipv6_loop 8 [] ell body of
           None \<Rightarrow> None
         | Some (ip, e) \<Rightarrow>
             if length ip < 16 then
               (case e of None \<Rightarrow> None
                | Some k \<Rightarrow> Some (take k ip @ replicate (16 - length ip) 0 @ drop k ip))
             else if e \<noteq> None then None else Some ip))"

text \<open>\<open>net.ParseIP\<close>: 4 or 16 bytes; an address with a zone is no IP.\<close>

definition parse_ip :: "string \<Rightarrow> int list option" where
  "parse_ip s = (case find (\<lambda>c. c = CHR ''.'' \<or> c = CHR '':'' \<or> c = CHR ''%'') s of
      None \<Rightarrow> None
    | Some c \<Rightarrow>
        if c = CHR ''.'' then parse_ipv4 s
        else if c = CHR '':'' \<and> CHR ''%'' \<notin> set s then parse_ipv6 s else None)"

text \<open>\<open>IP.IsLoopback\<close>: 127.0.0.0/8 (also as an IPv4-mapped address) and \<open>::1\<close>.\<close>

definition ip_is_loopback :: "int list \<Rightarrow> bool" where
  "ip_is_loopback ip \<longleftrightarrow>
     (length ip = 4 \<and> hd ip = 127) \<or>
     (length ip = 16 \<and>
       (if take 12 ip = replicate 10 0 @ [255, 255] then ip ! 12 = 127
        else ip = replicate 15 0 @ [1]))"

lemma parse_ip_examples:
  "parse_ip ''127.0.0.1'' = Some [127, 0, 0, 1]"
  "parse_ip ''::1'' = Some (replicate 15 0 @ [1])"
  "parse_ip ''::ffff:127.0.0.1'' = Some (replicate 10 0 @ [255, 255, 127, 0, 0, 1])"
  "parse_ip ''fe80::1%eth0'' = None"
  "parse_ip ''127.0.0.01'' = None"
  "parse_ip ''evil.example'' = None"
  by code_simp+

lemma split_host_port_examples:
  "split_host_port ''[::1]:8080'' = Some (''::1'', ''8080'')"
  "split_host_port ''localhost:18100'' = Some (''localhost'', ''18100'')"
  "split_host_port ''localhost'' = None"
  "split_host_port ''::1'' = None"
  by code_simp+

section \<open>time\<close>

text \<open>Days before the civil date, counted from 1970-01-01 in the proleptic Gregorian calendar.\<close>

definition leap_year :: "int \<Rightarrow> bool" where
  "leap_year y \<longleftrightarrow> y mod 4 = 0 \<and> (y mod 100 \<noteq> 0 \<or> y mod 400 = 0)"

definition days_before_year :: "int \<Rightarrow> int" where
  "days_before_year y = 365 * y + (y - 1) div 4 - (y - 1) div 100 + (y - 1) div 400"

definition month_lengths :: "int \<Rightarrow> int list" where
  "month_lengths y = [31, if leap_year y then 29 else 28, 31, 30, 31, 30, 31, 31, 30, 31, 30, 31]"

definition epoch_days :: "int \<Rightarrow> int \<Rightarrow> int \<Rightarrow> int" where
  "epoch_days y m d =
     days_before_year y - days_before_year 1970 + sum_list (take (nat (m - 1)) (month_lengths y)) + d - 1"

definition all_digits :: "string \<Rightarrow> bool" where
  "all_digits s \<longleftrightarrow> s \<noteq> [] \<and> list_all is_digit s"

text \<open>Nanoseconds of a fraction's digits: the first nine count.\<close>

definition frac_nanos :: "string \<Rightarrow> int" where
  "frac_nanos ds = dec_val (take 9 (ds @ replicate 9 (CHR ''0'')))"

text \<open>The zone of an RFC 3339 time: \<open>Z\<close> or a signed offset; its seconds east of UTC.\<close>

definition parse_zone :: "string \<Rightarrow> int option" where
  "parse_zone z =
     (if z = ''Z'' then Some 0
      else if length z = 6 \<and> z ! 3 = CHR '':'' \<and> (z ! 0 = CHR ''+'' \<or> z ! 0 = CHR ''-'')
        \<and> all_digits (take 2 (drop 1 z)) \<and> all_digits (drop 4 z)
        \<and> dec_val (take 2 (drop 1 z)) \<le> 23 \<and> dec_val (drop 4 z) \<le> 59
      then (let off = dec_val (take 2 (drop 1 z)) * 3600 + dec_val (drop 4 z) * 60
            in Some (if z ! 0 = CHR ''-'' then - off else off))
      else None)"

text \<open>
  \<open>time.Parse(time.RFC3339, s)\<close>, the grammar of RFC 3339 with its field ranges. The forms
  Go's parser also takes for compatibility (a one-digit hour, a comma before the fraction)
  are not modelled.
\<close>

definition parse_rfc3339 :: "string \<Rightarrow> int option" where
  "parse_rfc3339 s =
    (if length s < 20 then None
     else let ys = take 4 s; ms = take 2 (drop 5 s); ds = take 2 (drop 8 s);
              hs = take 2 (drop 11 s); mi = take 2 (drop 14 s); ss = take 2 (drop 17 s);
              rest = drop 19 s;
              frac = (if hd rest = CHR ''.'' then takeWhile is_digit (tl rest) else []);
              zone = (if frac = [] then rest else drop (Suc (length frac)) rest)
       in if list_all all_digits [ys, ms, ds, hs, mi, ss]
             \<and> s ! 4 = CHR ''-'' \<and> s ! 7 = CHR ''-'' \<and> s ! 10 = CHR ''T''
             \<and> s ! 13 = CHR '':'' \<and> s ! 16 = CHR '':''
             \<and> 1 \<le> dec_val ms \<and> dec_val ms \<le> 12
             \<and> 1 \<le> dec_val ds \<and> dec_val ds \<le> month_lengths (dec_val ys) ! nat (dec_val ms - 1)
             \<and> dec_val hs \<le> 23 \<and> dec_val mi \<le> 59 \<and> dec_val ss \<le> 59
          then map_option (\<lambda>off.
                 (epoch_days (dec_val ys) (dec_val ms) (dec_val ds) * 86400
                   + dec_val hs * 3600 + dec_val mi * 60 + dec_val ss - off)
                 * 1000000000 + frac_nanos frac)
               (parse_zone zone)
          else None)"

lemma parse_rfc3339_examples:
  "parse_rfc3339 ''1970-01-01T00:00:00Z'' = Some 0"
  "parse_rfc3339 ''2024-02-29T12:00:00.5+08:00'' = Some 1709179200500000000"
  "parse_rfc3339 ''2023-02-29T12:00:00Z'' = None"
  "parse_rfc3339 '''' = None"
  by code_simp+

definition seconds :: "int \<Rightarrow> int" where
  "seconds n = n * 1000000000"

definition minutes :: "int \<Rightarrow> int" where
  "minutes n = seconds (60 * n)"

definition hours :: "int \<Rightarrow> int" where
  "hours n = minutes (60 * n)"

lemma duration_mono [simp]:
  "0 < seconds n \<longleftrightarrow> 0 < n" "0 < minutes n \<longleftrightarrow> 0 < n" "0 < hours n \<longleftrightarrow> 0 < n"
  "0 \<le> seconds n \<longleftrightarrow> 0 \<le> n"
  by (auto simp: seconds_def minutes_def hours_def)

end
