(* ===== verification/Domain.thy ===== *)
theory Domain
  imports Complex_Main GoLib
begin

text \<open>
  The domain model (\<open>internal/domain/domain.go\<close>). The enumerations of the source are Go
  strings, so strings here: a column may hold any text. A \<open>*T\<close> field is an \<open>option\<close>, where
  \<open>None\<close> is \<open>nil\<close> (unknown), and a \<open>float64\<close> is a \<open>real\<close>.
\<close>

section \<open>Enumerations\<close>

definition ModeMonitorOnly :: string where "ModeMonitorOnly = ''monitor_only''"
definition ModeRelayAndMonitor :: string where "ModeRelayAndMonitor = ''relay_and_monitor''"

definition AuthAPIKey :: string where "AuthAPIKey = ''api_key''"
definition AuthOAuth :: string where "AuthOAuth = ''oauth''"
definition AuthManual :: string where "AuthManual = ''manual''"

definition BillingSubscription :: string where "BillingSubscription = ''subscription''"
definition BillingMetered :: string where "BillingMetered = ''metered''"
definition BillingUnknown :: string where "BillingUnknown = ''unknown''"

definition AuthStateOK :: string where "AuthStateOK = ''ok''"
definition AuthStateExpired :: string where "AuthStateExpired = ''expired''"
definition AuthStateReauthRequired :: string where "AuthStateReauthRequired = ''reauth_required''"
definition AuthStateUnknown :: string where "AuthStateUnknown = ''unknown''"

definition CapabilitySupported :: string where "CapabilitySupported = ''supported''"
definition CapabilityUnsupported :: string where "CapabilityUnsupported = ''unsupported''"
definition CapabilityPermissionRequired :: string where
  "CapabilityPermissionRequired = ''permission_required''"
definition CapabilityReauthRequired :: string where "CapabilityReauthRequired = ''reauth_required''"
definition CapabilityError :: string where "CapabilityError = ''error''"
definition CapabilityUnknown :: string where "CapabilityUnknown = ''unknown''"

text \<open>The capability names of an account (\<open>domain.CapabilityName\<close>).\<close>

definition CapNameVerifyCredential :: string where "CapNameVerifyCredential = ''verifyCredential''"
definition CapNameDiscoverModels :: string where "CapNameDiscoverModels = ''discoverModels''"
definition CapNameForward :: string where "CapNameForward = ''forward''"
definition CapNameOAuth :: string where "CapNameOAuth = ''oauth''"
definition CapNameSubscription :: string where "CapNameSubscription = ''subscription''"
definition CapNameQuota :: string where "CapNameQuota = ''quota''"
definition CapNameRefresh :: string where "CapNameRefresh = ''refresh''"
definition CapNameProbeHealth :: string where "CapNameProbeHealth = ''probeHealth''"

definition QuotaSourceOfficial :: string where "QuotaSourceOfficial = ''official''"
definition QuotaSourceReported :: string where "QuotaSourceReported = ''reported''"
definition QuotaSourceObserved :: string where "QuotaSourceObserved = ''observed''"
definition QuotaSourceEstimated :: string where "QuotaSourceEstimated = ''estimated''"
definition QuotaSourceManual :: string where "QuotaSourceManual = ''manual''"

definition QuotaConfExact :: string where "QuotaConfExact = ''exact''"
definition QuotaConfReported :: string where "QuotaConfReported = ''reported''"
definition QuotaConfEstimated :: string where "QuotaConfEstimated = ''estimated''"
definition QuotaConfUnavailable :: string where "QuotaConfUnavailable = ''unavailable''"

definition QuotaFreshFresh :: string where "QuotaFreshFresh = ''fresh''"
definition QuotaFreshStale :: string where "QuotaFreshStale = ''stale''"
definition QuotaFreshUnknown :: string where "QuotaFreshUnknown = ''unknown''"

definition QuotaWindowPrimary :: string where "QuotaWindowPrimary = ''primary''"
definition QuotaWindowSecondary :: string where "QuotaWindowSecondary = ''secondary''"
definition QuotaWindowAdditional :: string where "QuotaWindowAdditional = ''additional''"
definition QuotaWindowCodeReview :: string where "QuotaWindowCodeReview = ''code-review''"

section \<open>Records\<close>

record provider =
  pv_ID :: string
  pv_Kind :: string
  pv_Name :: string
  pv_BaseURL :: string
  pv_Capabilities :: string

record account_capability =
  cap_AccountID :: string
  cap_Capability :: string
  cap_Status :: string
  cap_Reason :: string
  cap_ConnectorVersion :: string
  cap_CheckedAt :: string

record quota_snapshot =
  qs_ID :: string
  qs_AccountID :: string
  qs_PoolID :: string
  qs_WindowType :: string
  qs_Limit :: "real option"
  qs_Used :: "real option"
  qs_Remaining :: "real option"
  qs_ResetAt :: "string option"
  qs_Source :: string
  qs_SourceRef :: string
  qs_Confidence :: string
  qs_Freshness :: string
  qs_Unit :: string
  qs_ConnectorVersion :: string
  qs_Operator :: string
  qs_ManualExpiresAt :: "string option"
  qs_TakenAt :: string
  qs_LastSuccessAt :: string

record quota_pool =
  qp_ID :: string
  qp_ProviderID :: string
  qp_ExternalOrg :: string
  qp_Scope :: string
  qp_MemberIDs :: "string list"

record price_version =
  pr_ID :: string
  pr_ProviderID :: string
  pr_ModelID :: string
  pr_InputPriceNano :: int
  pr_OutputPriceNano :: int
  pr_CacheReadPriceNano :: int
  pr_CacheWritePriceNano :: int
  pr_Currency :: string
  pr_EffectiveAt :: string
  pr_Source :: string

record usage_row =
  ur_ProviderID :: string
  ur_AccountID :: string
  ur_ModelID :: string
  ur_ProjectID :: string
  ur_Requests :: int
  ur_InputTokens :: int
  ur_OutputTokens :: int
  ur_CacheReadTokens :: int
  ur_CacheWriteTokens :: int
  ur_ReasoningTokens :: int
  ur_CostNanoUSD :: int
  ur_Source :: string

record account =
  ac_ID :: string
  ac_ProviderID :: string
  ac_Name :: string
  ac_Status :: string
  ac_Mode :: string
  ac_AuthType :: string
  ac_BillingMode :: string
  ac_AuthState :: string
  ac_VaultProvider :: string
  ac_SecretService :: string
  ac_SecretAccount :: string
  ac_SecretFingerprint :: string
  ac_LastVerifiedAt :: string

record model =
  mo_ID :: string
  mo_ProviderID :: string
  mo_UpstreamID :: string
  mo_CanonicalAlias :: string
  mo_ContextLimit :: int
  mo_Capabilities :: string

record candidate =
  cd_AccountID :: string
  cd_ModelID :: string
  cd_Priority :: int
  cd_Weight :: int

record routing_policy =
  rp_ID :: string
  rp_Name :: string
  rp_Alias :: string
  rp_Candidates :: "candidate list"
  rp_Enabled :: bool

record token =
  tk_ID :: string
  tk_Name :: string
  tk_KeyHash :: string
  tk_KeyPrefix :: string
  tk_Enabled :: bool
  tk_CreatedAt :: string
  tk_LastUsedAt :: string
  tk_ProjectID :: string
  tk_ModelWhitelist :: string
  tk_ExpiresAt :: string
  tk_MaxConcurrency :: int

record project =
  pj_ID :: string
  pj_Name :: string
  pj_CreatedAt :: string
  pj_UpdatedAt :: string

record response_binding =
  rb_ResponseID :: string
  rb_AccountID :: string
  rb_ModelID :: string
  rb_CreatedAt :: string
  rb_ExpiresAt :: string

end
