(* ===== verification/Errs.thy ===== *)
theory Errs
  imports GoLib
begin

text \<open>
  Go error values and the service's stable errors (\<open>internal/errs/errs.go\<close>).
  A sentinel made by \<open>errors.New\<close> at package level is identified by its text. Literals of
  the source that are Chinese are given in English.
\<close>

section \<open>Error values\<close>

datatype code =
    CodeInvalidRequest | CodeUnauthorized | CodeForbidden | CodeNotFound | CodeRateLimited
  | CodeUpstreamError | CodeUpstreamTimeout | CodeUpstreamAuth | CodeQuotaExhausted
  | CodeModelUnavailable | CodeInternal | CodeUnsupported | CodeConflict

fun code_string :: "code \<Rightarrow> string" where
  "code_string CodeInvalidRequest = ''invalid_request''"
| "code_string CodeUnauthorized = ''unauthorized''"
| "code_string CodeForbidden = ''forbidden''"
| "code_string CodeNotFound = ''not_found''"
| "code_string CodeRateLimited = ''rate_limited''"
| "code_string CodeUpstreamError = ''upstream_error''"
| "code_string CodeUpstreamTimeout = ''upstream_timeout''"
| "code_string CodeUpstreamAuth = ''upstream_auth''"
| "code_string CodeQuotaExhausted = ''quota_exhausted''"
| "code_string CodeModelUnavailable = ''model_unavailable''"
| "code_string CodeInternal = ''internal_error''"
| "code_string CodeUnsupported = ''unsupported''"
| "code_string CodeConflict = ''conflict''"

text \<open>
  \<^item> \<open>Sentinel\<close>: a package-level \<open>errors.New\<close>;
  \<^item> \<open>NetError\<close>: a library error whose type has the methods of \<open>net.Error\<close>
    (\<open>*url.Error\<close>, \<open>*net.OpError\<close>, \<open>syscall.Errno\<close>), with the error it wraps;
  \<^item> \<open>TextError\<close>: any other library error, or \<open>errors.New\<close>/\<open>fmt.Errorf\<close> on the spot;
  \<^item> \<open>WrapError\<close>: \<open>fmt.Errorf\<close> with one \<open>%w\<close>, the text before and after it;
  \<^item> \<open>UpstreamError\<close>: \<open>connectors.UpstreamError\<close> (kind, status, body, cause);
  \<^item> \<open>StatusError\<close>: \<open>responses.StatusError\<close> (status, code, body);
  \<^item> \<open>JoinError\<close>: \<open>errors.Join\<close> of two;
  \<^item> \<open>BizErr\<close>: a \<open>*errs.Error\<close>, the record of the service's stable errors.

  The record comes first, over the type of its cause, and the error values are nested in it.
\<close>

datatype 'e coded =
    Biz (biz_code: code) (biz_msg: string) (biz_retryable: bool) (biz_cause: "'e option")

datatype go_error =
    Sentinel string
  | NetError string "go_error option"
  | TextError string
  | WrapError string go_error string
  | UpstreamError go_error int string "go_error option"
  | StatusError int string string
  | JoinError go_error go_error
  | BizErr "go_error coded"

type_synonym biz_error = "go_error coded"

text \<open>The methods \<open>Unwrap\<close> and \<open>Error\<close> of \<open>*errs.Error\<close>; the latter gets the text of the cause.\<close>

fun biz_unwrap :: "'e coded \<Rightarrow> 'e option" where
  "biz_unwrap (Biz c m r e) = e"

fun biz_text :: "'e coded \<Rightarrow> string option \<Rightarrow> string" where
  "biz_text (Biz c m r e) None = code_string c @ '': '' @ m"
| "biz_text (Biz c m r e) (Some s) = code_string c @ '': '' @ m @ '' ('' @ s @ '')''"

lemma biz_unwrap_smaller [termination_simp]:
  "biz_unwrap b = Some e \<Longrightarrow> size e < Suc (size_coded size b)"
  by (cases b) simp

text \<open>\<open>err.Error()\<close>\<close>

fun error_text :: "go_error \<Rightarrow> string" where
  "error_text (Sentinel s) = s"
| "error_text (NetError s c) = s"
| "error_text (TextError s) = s"
| "error_text (WrapError p e q) = p @ error_text e @ q"
| "error_text (UpstreamError k st b c) =
     error_text k @ (case c of None \<Rightarrow> [] | Some e \<Rightarrow> '': '' @ error_text e)
       @ (if b = [] then [] else '' ('' @ b @ '')'')"
| "error_text (StatusError st c b) = ''responses: upstream status '' @ itoa st"
| "error_text (JoinError a b) = error_text a @ [CHR 0x0A] @ error_text b"
| "error_text (BizErr b) = biz_text b (map_option error_text (biz_unwrap b))"

text \<open>The errors \<open>errors.Is\<close> and \<open>errors.As\<close> visit, in their order (\<open>Unwrap\<close> depth first).\<close>

fun err_tree :: "go_error \<Rightarrow> go_error list" where
  "err_tree (Sentinel s) = [Sentinel s]"
| "err_tree (NetError s c) = NetError s c # (case c of None \<Rightarrow> [] | Some e \<Rightarrow> err_tree e)"
| "err_tree (TextError s) = [TextError s]"
| "err_tree (WrapError p e q) = WrapError p e q # err_tree e"
| "err_tree (UpstreamError k st b c) = UpstreamError k st b c # err_tree k"
| "err_tree (StatusError st c b) = [StatusError st c b]"
| "err_tree (JoinError a b) = JoinError a b # err_tree a @ err_tree b"
| "err_tree (BizErr b) = BizErr b # (case biz_unwrap b of None \<Rightarrow> [] | Some e \<Rightarrow> err_tree e)"

text \<open>The \<open>Is\<close> method of \<open>*UpstreamError\<close>; no other error type has one.\<close>

fun is_method :: "go_error \<Rightarrow> go_error \<Rightarrow> bool" where
  "is_method (UpstreamError k st b c) target = (k = target)"
| "is_method _ target = False"

definition errors_is :: "go_error \<Rightarrow> go_error \<Rightarrow> bool" where
  "errors_is err target = list_ex (\<lambda>e. e = target \<or> is_method e target) (err_tree err)"

lemma err_tree_self: "err \<in> set (err_tree err)"
  by (cases err) auto

lemma errors_is_refl [simp]: "errors_is t t"
  using err_tree_self [of t] by (auto simp: errors_is_def list_ex_iff)

lemma errors_is_simps [simp]:
  "errors_is (Sentinel s) (Sentinel t) \<longleftrightarrow> s = t"
  "errors_is (TextError s) (Sentinel t) \<longleftrightarrow> False"
  "errors_is (StatusError st cd bd) (Sentinel t) \<longleftrightarrow> False"
  "errors_is (WrapError p e q) (Sentinel t) \<longleftrightarrow> errors_is e (Sentinel t)"
  "errors_is (UpstreamError k st bd c) (Sentinel t) \<longleftrightarrow> errors_is k (Sentinel t)"
  "errors_is (JoinError e e') (Sentinel t) \<longleftrightarrow> errors_is e (Sentinel t) \<or> errors_is e' (Sentinel t)"
  "errors_is (NetError s None) (Sentinel t) \<longleftrightarrow> False"
  "errors_is (NetError s (Some e)) (Sentinel t) \<longleftrightarrow> errors_is e (Sentinel t)"
  "errors_is (BizErr (Biz code m r None)) (Sentinel t) \<longleftrightarrow> False"
  "errors_is (BizErr (Biz code m r (Some e))) (Sentinel t) \<longleftrightarrow> errors_is e (Sentinel t)"
  using err_tree_self [of k] by (auto simp: errors_is_def list_ex_iff)

definition ErrNoRows :: go_error where
  "ErrNoRows = Sentinel ''sql: no rows in result set''"

definition io_EOF :: go_error where
  "io_EOF = Sentinel ''EOF''"

definition context_Canceled :: go_error where
  "context_Canceled = Sentinel ''context canceled''"

text \<open>\<open>context.DeadlineExceeded\<close> and \<open>syscall.ECONNRESET\<close> have the methods of \<open>net.Error\<close>.\<close>

definition context_DeadlineExceeded :: go_error where
  "context_DeadlineExceeded = NetError ''context deadline exceeded'' None"

definition ECONNRESET :: go_error where
  "ECONNRESET = NetError ''connection reset by peer'' None"

section \<open>Stable errors\<close>

definition errs_new :: "code \<Rightarrow> string \<Rightarrow> biz_error" where
  "errs_new c m = Biz c m False None"

definition errs_wrap :: "code \<Rightarrow> string \<Rightarrow> go_error \<Rightarrow> biz_error" where
  "errs_wrap c m e = Biz c m False (Some e)"

definition errs_retryable :: "biz_error \<Rightarrow> biz_error" where
  "errs_retryable e = Biz (biz_code e) (biz_msg e) True (biz_cause e)"

fun HTTPStatus :: "code \<Rightarrow> int" where
  "HTTPStatus CodeInvalidRequest = 400"
| "HTTPStatus CodeUnsupported = 400"
| "HTTPStatus CodeConflict = 409"
| "HTTPStatus CodeUnauthorized = 401"
| "HTTPStatus CodeUpstreamAuth = 401"
| "HTTPStatus CodeForbidden = 403"
| "HTTPStatus CodeNotFound = 404"
| "HTTPStatus CodeRateLimited = 429"
| "HTTPStatus CodeQuotaExhausted = 429"
| "HTTPStatus CodeUpstreamTimeout = 504"
| "HTTPStatus CodeUpstreamError = 502"
| "HTTPStatus CodeModelUnavailable = 502"
| "HTTPStatus CodeInternal = 500"

text \<open>\<open>errs.As\<close>: the first \<open>*errs.Error\<close> of the chain.\<close>

fun as_biz :: "go_error \<Rightarrow> biz_error option" where
  "as_biz (BizErr b) = Some b"
| "as_biz _ = None"

definition errs_as :: "go_error \<Rightarrow> biz_error option" where
  "errs_as err = (case find (\<lambda>e. as_biz e \<noteq> None) (err_tree err) of None \<Rightarrow> None | Some e \<Rightarrow> as_biz e)"

definition errs_from :: "go_error option \<Rightarrow> biz_error option" where
  "errs_from err = (case err of None \<Rightarrow> None
     | Some e \<Rightarrow> (case errs_as e of Some b \<Rightarrow> Some b
         | None \<Rightarrow> Some (errs_wrap CodeInternal ''internal error'' e)))"

lemma biz_simps [simp]:
  "biz_code (errs_new c m) = c" "biz_msg (errs_new c m) = m" "biz_cause (errs_new c m) = None"
  "biz_retryable (errs_new c m) = False"
  "biz_code (errs_wrap c m e) = c" "biz_msg (errs_wrap c m e) = m"
  "biz_retryable (errs_wrap c m e) = False" "biz_cause (errs_wrap c m e) = Some e"
  "biz_code (errs_retryable b) = biz_code b" "biz_retryable (errs_retryable b) = True"
  "biz_cause (errs_retryable b) = biz_cause b" "biz_msg (errs_retryable b) = biz_msg b"
  by (simp_all add: errs_new_def errs_wrap_def errs_retryable_def)

lemma errs_as_biz [simp]: "errs_as (BizErr b) = Some b"
  by (simp add: errs_as_def)

lemma errs_as_wrap: "errs_as (WrapError p e q) = errs_as e"
  by (simp add: errs_as_def)

lemma HTTPStatus_range: "400 \<le> HTTPStatus c \<and> HTTPStatus c \<le> 504"
  by (cases c) auto

lemma code_string_inj: "code_string c = code_string d \<Longrightarrow> c = d"
  by (cases c; cases d) auto

lemma errs_from_Some: "\<exists>b. errs_from (Some e) = Some b"
  by (simp add: errs_from_def split: option.split)

end
