(* ===== verification/Store.thy ===== *)
theory Store
  imports Domain Errs
begin

text \<open>
  The SQLite store (\<open>internal/repository/repository.go\<close>) over the schema of
  \<open>internal/db/db.go\<close>. A table is the list of its rows in rowid order; a row record extends
  the domain record it stores with its bookkeeping columns. Every method is one statement
  or one transaction, so it is a function to an error, which leaves the database as it was,
  or to the new database and result. The schema's constraints (primary keys, \<open>UNIQUE\<close>,
  \<open>REFERENCES\<close> with \<open>foreign_keys(ON)\<close>, \<open>CHECK\<close>) are branches of the statements that can
  violate them; as in SQLite, the conflict target of an upsert is tested before the other
  uniqueness constraints. \<open>db_down\<close> is a failure of the driver, which every method returns.
  Order among rows with equal sort keys, which SQL leaves open, is rowid order. The clock
  is an argument: \<open>nw\<close> for \<open>now()\<close>, \<open>t_now\<close> for an instant.
\<close>

section \<open>Rows and tables\<close>

record provider_row = provider +
  pv_created_at :: string
  pv_updated_at :: string

record account_row = account +
  ac_created_at :: string
  ac_updated_at :: string

record model_row = model +
  mo_created_at :: string

record account_model_row =
  am_AccountID :: string
  am_ModelID :: string
  am_Listed :: bool
  am_Probed :: bool
  am_Usable :: bool
  am_last_checked_at :: string

record model_info_row =
  mir_ModelID :: string
  mir_Listed :: bool
  mir_Probed :: bool
  mir_Usable :: bool

record account_capability_row = account_capability +
  cap_updated_at :: string

record quota_pool_row =
  qpr_ID :: string
  qpr_ProviderID :: string
  qpr_ExternalOrg :: string
  qpr_Scope :: string
  qpr_created_at :: string
  qpr_updated_at :: string

record pool_member_row =
  pm_PoolID :: string
  pm_AccountID :: string
  pm_ModelScope :: string

record routing_policy_row = routing_policy +
  rp_created_at :: string

record usage_event =
  ue_ID :: string
  ue_RequestID :: string
  ue_AccountID :: string
  ue_ModelID :: string
  ue_InputTokens :: int
  ue_OutputTokens :: int
  ue_CacheTokens :: int
  ue_ReasoningTokens :: int
  ue_StatusCode :: int
  ue_LatencyMS :: int
  ue_ErrorClass :: string

record usage_event_row = usage_event +
  ue_occurred_at :: string

record refresh_job =
  rj_ID :: string
  rj_AccountID :: string
  rj_Capability :: string
  rj_State :: string
  rj_StartedAt :: string
  rj_FinishedAt :: string
  rj_NextRunAt :: string
  rj_LastSuccessAt :: string
  rj_RetryCount :: int
  rj_LastErrorCode :: string
  rj_CreatedAt :: string
  rj_UpdatedAt :: string

record request_attempt =
  ra_ID :: string
  ra_RequestID :: string
  ra_AttemptID :: string
  ra_AccountID :: string
  ra_ProviderID :: string
  ra_LogicalModel :: string
  ra_ActualModel :: string
  ra_Protocol :: string
  ra_AccessTokenID :: string
  ra_ProjectID :: string
  ra_Status :: string
  ra_InputTokens :: int
  ra_OutputTokens :: int
  ra_CacheReadTokens :: int
  ra_CacheWriteTokens :: int
  ra_ReasoningTokens :: int
  ra_Metering :: string
  ra_LatencyMS :: int
  ra_StatusCode :: int
  ra_ErrorClass :: string
  ra_ReasonCode :: string
  ra_PriceVersion :: string
  ra_OccurredAt :: string
  ra_FinishedAt :: string

record audit_event =
  ae_ID :: string
  ae_Actor :: string
  ae_Action :: string
  ae_Target :: string
  ae_Detail :: string
  ae_OccurredAt :: string

record db =
  providers :: "provider_row list"
  accounts :: "account_row list"
  models :: "model_row list"
  account_models :: "account_model_row list"
  account_capabilities :: "account_capability_row list"
  quota_pools :: "quota_pool_row list"
  quota_pool_members :: "pool_member_row list"
  quota_snapshots :: "quota_snapshot list"
  usage_events :: "usage_event_row list"
  routing_policies :: "routing_policy_row list"
  price_versions :: "price_version list"
  access_tokens :: "token list"
  projects :: "project list"
  response_bindings :: "response_binding list"
  refresh_jobs :: "refresh_job list"
  request_attempts :: "request_attempt list"
  audit_events :: "audit_event list"
  db_down :: "go_error option"

text \<open>The database of a fresh installation: every table empty.\<close>

definition empty_db :: db where
  "empty_db = \<lparr>providers = [], accounts = [], models = [], account_models = [],
     account_capabilities = [], quota_pools = [], quota_pool_members = [], quota_snapshots = [],
     usage_events = [], routing_policies = [], price_versions = [], access_tokens = [],
     projects = [], response_bindings = [], refresh_jobs = [], request_attempts = [],
     audit_events = [], db_down = None\<rparr>"

section \<open>Statements\<close>

definition unique_failed :: go_error where
  "unique_failed = TextError ''constraint failed: UNIQUE constraint failed''"

definition fk_failed :: go_error where
  "fk_failed = TextError ''constraint failed: FOREIGN KEY constraint failed''"

definition check_failed :: go_error where
  "check_failed = TextError ''constraint failed: CHECK constraint failed''"

definition with_db :: "db \<Rightarrow> (go_error + 'a) \<Rightarrow> go_error + 'a" where
  "with_db s r = (case db_down s of Some e \<Rightarrow> Inl e | None \<Rightarrow> r)"

text \<open>\<open>if n, _ := res.RowsAffected(); n == 0 { return sql.ErrNoRows }\<close>\<close>

definition affected :: "bool \<Rightarrow> 'a \<Rightarrow> go_error + 'a" where
  "affected hit s = (if hit then Inr s else Inl ErrNoRows)"

text \<open>The row of \<open>QueryRow\<close>, or \<open>sql.ErrNoRows\<close>.\<close>

definition query_row :: "('r \<Rightarrow> bool) \<Rightarrow> 'r list \<Rightarrow> go_error + 'r" where
  "query_row p rows = (case find p rows of None \<Rightarrow> Inl ErrNoRows | Some r \<Rightarrow> Inr r)"

text \<open>\<open>ORDER BY key\<close> and \<open>ORDER BY key DESC\<close>.\<close>

definition order_by :: "('r \<Rightarrow> string) \<Rightarrow> 'r list \<Rightarrow> 'r list" where
  "order_by key rows = sort_key key rows"

definition order_desc :: "('r \<Rightarrow> string) \<Rightarrow> 'r list \<Rightarrow> 'r list" where
  "order_desc key rows = rev (sort_key key (rev rows))"

text \<open>The statements of one transaction: the first error aborts it.\<close>

fun in_tx :: "('a \<Rightarrow> 's \<Rightarrow> go_error + 's) \<Rightarrow> 'a list \<Rightarrow> 's \<Rightarrow> go_error + 's" where
  "in_tx f [] s = Inr s"
| "in_tx f (x # xs) s = (case f x s of Inl e \<Rightarrow> Inl e | Inr s' \<Rightarrow> in_tx f xs s')"

section \<open>providers\<close>

definition CreateProvider :: "provider \<Rightarrow> string \<Rightarrow> db \<Rightarrow> go_error + db" where
  "CreateProvider p nw s = with_db s
     (if has_row (\<lambda>r. pv_ID r = pv_ID p) (providers s) then Inl unique_failed
      else Inr (s\<lparr>providers := providers s @ [provider.extend p (provider_row.fields nw nw)]\<rparr>))"

definition ListProviders :: "db \<Rightarrow> go_error + provider list" where
  "ListProviders s = with_db s (Inr (map provider.truncate (order_by pv_created_at (providers s))))"

definition GetProvider :: "string \<Rightarrow> db \<Rightarrow> go_error + provider" where
  "GetProvider i s = with_db s
     (map_sum id provider.truncate (query_row (\<lambda>r. pv_ID r = i) (providers s)))"

definition patched :: "string option \<Rightarrow> string \<Rightarrow> string" where
  "patched new old = (case new of None \<Rightarrow> old | Some v \<Rightarrow> if v \<noteq> [] then v else old)"

definition UpdateProvider ::
  "string \<Rightarrow> string option \<Rightarrow> string option \<Rightarrow> string \<Rightarrow> db \<Rightarrow> go_error + db" where
  "UpdateProvider i name base nw s =
    (case GetProvider i s of
       Inl e \<Rightarrow> Inl e
     | Inr p \<Rightarrow> with_db s (affected (has_row (\<lambda>r. pv_ID r = i) (providers s))
         (s\<lparr>providers := upd_where (\<lambda>r. pv_ID r = i)
             (\<lambda>r. r\<lparr>pv_Name := patched name (pv_Name p), pv_BaseURL := patched base (pv_BaseURL p),
                    pv_updated_at := nw\<rparr>) (providers s)\<rparr>)))"

text \<open>A provider that accounts, models or pools still reference cannot be deleted.\<close>

definition DeleteProvider :: "string \<Rightarrow> db \<Rightarrow> go_error + db" where
  "DeleteProvider i s = with_db s
     (if \<not> has_row (\<lambda>r. pv_ID r = i) (providers s) then Inl ErrNoRows
      else if has_row (\<lambda>r. ac_ProviderID r = i) (accounts s)
         \<or> has_row (\<lambda>r. mo_ProviderID r = i) (models s)
         \<or> has_row (\<lambda>r. qpr_ProviderID r = i) (quota_pools s) then Inl fk_failed
      else Inr (s\<lparr>providers := del_where (\<lambda>r. pv_ID r = i) (providers s)\<rparr>))"

definition CountAccountsByProvider :: "string \<Rightarrow> db \<Rightarrow> go_error + nat" where
  "CountAccountsByProvider i s = with_db s (Inr (count_where (\<lambda>r. ac_ProviderID r = i) (accounts s)))"

section \<open>accounts\<close>

definition CreateAccount :: "account \<Rightarrow> string \<Rightarrow> db \<Rightarrow> go_error + db" where
  "CreateAccount a nw s = with_db s
     (if has_row (\<lambda>r. ac_ID r = ac_ID a) (accounts s) then Inl unique_failed
      else if \<not> has_row (\<lambda>r. pv_ID r = ac_ProviderID a) (providers s) then Inl fk_failed
      else Inr (s\<lparr>accounts := accounts s @ [account.extend a (account_row.fields nw nw)]\<rparr>))"

definition ListAccounts :: "db \<Rightarrow> go_error + account list" where
  "ListAccounts s = with_db s (Inr (map account.truncate (order_by ac_created_at (accounts s))))"

definition GetAccount :: "string \<Rightarrow> db \<Rightarrow> go_error + account" where
  "GetAccount i s = with_db s
     (map_sum id account.truncate (query_row (\<lambda>r. ac_ID r = i) (accounts s)))"

text \<open>Updates of one account: the columns they set and \<open>updated_at\<close>.\<close>

definition update_account :: "string \<Rightarrow> (account_row \<Rightarrow> account_row) \<Rightarrow> db \<Rightarrow> db" where
  "update_account i f s = s\<lparr>accounts := upd_where (\<lambda>r. ac_ID r = i) f (accounts s)\<rparr>"

definition SetAccountStatus :: "string \<Rightarrow> string \<Rightarrow> string \<Rightarrow> db \<Rightarrow> go_error + db" where
  "SetAccountStatus i status nw s = with_db s
     (Inr (update_account i (\<lambda>r. r\<lparr>ac_Status := status, ac_updated_at := nw\<rparr>) s))"

definition SetAccountAuthState :: "string \<Rightarrow> string \<Rightarrow> string \<Rightarrow> db \<Rightarrow> go_error + db" where
  "SetAccountAuthState i state nw s = with_db s
     (Inr (update_account i (\<lambda>r. r\<lparr>ac_AuthState := state, ac_updated_at := nw\<rparr>) s))"

definition set_secret_ref ::
  "string \<Rightarrow> string \<Rightarrow> string \<Rightarrow> string \<Rightarrow> string \<Rightarrow> account_row \<Rightarrow> account_row" where
  "set_secret_ref vp svc acct fp nw r = r\<lparr>ac_VaultProvider := vp, ac_SecretService := svc,
     ac_SecretAccount := acct, ac_SecretFingerprint := fp, ac_updated_at := nw\<rparr>"

definition UpdateAccountSecretRef :: "string \<Rightarrow> account \<Rightarrow> string \<Rightarrow> db \<Rightarrow> go_error + db" where
  "UpdateAccountSecretRef i ref nw s = with_db s
     (Inr (update_account i (set_secret_ref (ac_VaultProvider ref) (ac_SecretService ref)
        (ac_SecretAccount ref) (ac_SecretFingerprint ref) nw) s))"

definition SetAccountVerifiedAt :: "string \<Rightarrow> string \<Rightarrow> string \<Rightarrow> db \<Rightarrow> go_error + db" where
  "SetAccountVerifiedAt i tm nw s = with_db s
     (Inr (update_account i (\<lambda>r. r\<lparr>ac_LastVerifiedAt := tm, ac_updated_at := nw\<rparr>) s))"

definition SetAccountCredentialRef ::
  "string \<Rightarrow> string \<Rightarrow> string \<Rightarrow> string \<Rightarrow> string \<Rightarrow> string \<Rightarrow> db \<Rightarrow> go_error + db" where
  "SetAccountCredentialRef i vp svc acct fp nw s = with_db s
     (affected (has_row (\<lambda>r. ac_ID r = i) (accounts s))
        (update_account i (set_secret_ref vp svc acct fp nw) s))"

definition SetAccountName :: "string \<Rightarrow> string \<Rightarrow> string \<Rightarrow> db \<Rightarrow> go_error + db" where
  "SetAccountName i name nw s = with_db s
     (affected (has_row (\<lambda>r. ac_ID r = i) (accounts s))
        (update_account i (\<lambda>r. r\<lparr>ac_Name := name, ac_updated_at := nw\<rparr>) s))"

text \<open>An account with models, capabilities, pool memberships or snapshots cannot be deleted.\<close>

definition DeleteAccount :: "string \<Rightarrow> db \<Rightarrow> go_error + db" where
  "DeleteAccount i s = with_db s
     (if \<not> has_row (\<lambda>r. ac_ID r = i) (accounts s) then Inl ErrNoRows
      else if has_row (\<lambda>r. am_AccountID r = i) (account_models s)
         \<or> has_row (\<lambda>r. cap_AccountID r = i) (account_capabilities s)
         \<or> has_row (\<lambda>r. pm_AccountID r = i) (quota_pool_members s)
         \<or> has_row (\<lambda>r. qs_AccountID r = i) (quota_snapshots s) then Inl fk_failed
      else Inr (s\<lparr>accounts := del_where (\<lambda>r. ac_ID r = i) (accounts s)\<rparr>))"

section \<open>models and account_models\<close>

definition upsert_model :: "string \<Rightarrow> model \<Rightarrow> db \<Rightarrow> go_error + db" where
  "upsert_model nw m0 s =
    (let m = (if mo_ID m0 = [] then m0\<lparr>mo_ID := mo_ProviderID m0 @ ''|'' @ mo_UpstreamID m0\<rparr> else m0) in
     if has_row (\<lambda>r. mo_ID r = mo_ID m) (models s) then
       Inr (s\<lparr>models := upd_where (\<lambda>r. mo_ID r = mo_ID m)
              (\<lambda>r. r\<lparr>mo_ContextLimit := mo_ContextLimit m, mo_Capabilities := mo_Capabilities m\<rparr>) (models s)\<rparr>)
     else if has_row (\<lambda>r. mo_ProviderID r = mo_ProviderID m \<and> mo_UpstreamID r = mo_UpstreamID m) (models s)
       then Inl unique_failed
     else if \<not> has_row (\<lambda>r. pv_ID r = mo_ProviderID m) (providers s) then Inl fk_failed
     else Inr (s\<lparr>models := models s @ [model.extend m (model_row.fields nw)]\<rparr>))"

definition UpsertModels :: "model list \<Rightarrow> string \<Rightarrow> db \<Rightarrow> go_error + db" where
  "UpsertModels ms nw s = with_db s (in_tx (upsert_model nw) ms s)"

definition ListModels :: "db \<Rightarrow> go_error + model list" where
  "ListModels s = with_db s
     (Inr (map model.truncate (order_by mo_ProviderID (order_by mo_UpstreamID (models s)))))"

definition upsert_account_model :: "string \<Rightarrow> string \<Rightarrow> model_info_row \<Rightarrow> db \<Rightarrow> go_error + db" where
  "upsert_account_model aid nw mi s =
    (let p = (\<lambda>r. am_AccountID r = aid \<and> am_ModelID r = mir_ModelID mi) in
     if has_row p (account_models s) then
       Inr (s\<lparr>account_models := upd_where p
              (\<lambda>r. r\<lparr>am_Listed := mir_Listed mi, am_Probed := mir_Probed mi, am_Usable := mir_Usable mi,
                     am_last_checked_at := nw\<rparr>) (account_models s)\<rparr>)
     else if \<not> has_row (\<lambda>r. ac_ID r = aid) (accounts s) \<or> \<not> has_row (\<lambda>r. mo_ID r = mir_ModelID mi) (models s)
       then Inl fk_failed
     else Inr (s\<lparr>account_models := account_models s @
            [\<lparr>am_AccountID = aid, am_ModelID = mir_ModelID mi, am_Listed = mir_Listed mi,
              am_Probed = mir_Probed mi, am_Usable = mir_Usable mi, am_last_checked_at = nw\<rparr>]\<rparr>))"

definition SaveAccountModels :: "string \<Rightarrow> model_info_row list \<Rightarrow> string \<Rightarrow> db \<Rightarrow> go_error + db" where
  "SaveAccountModels aid infos nw s = with_db s (in_tx (upsert_account_model aid nw) infos s)"

definition CountAccountModel :: "string \<Rightarrow> string \<Rightarrow> db \<Rightarrow> go_error + nat" where
  "CountAccountModel aid mid s = with_db s
     (Inr (count_where (\<lambda>r. am_AccountID r = aid \<and> am_ModelID r = mid) (account_models s)))"

section \<open>routing_policies and usage_events\<close>

text \<open>
  The candidates column holds the JSON of the list the table keeps here; an upsert by id
  replaces the candidates and the switch, and keeps the name and the alias.
\<close>

definition SaveRoutingPolicy :: "routing_policy \<Rightarrow> string \<Rightarrow> db \<Rightarrow> go_error + db" where
  "SaveRoutingPolicy p nw s = with_db s
     (Inr (s\<lparr>routing_policies := upsert_row (\<lambda>r. rp_ID r = rp_ID p)
        (\<lambda>r. r\<lparr>rp_Candidates := rp_Candidates p, rp_Enabled := rp_Enabled p\<rparr>)
        (routing_policy.extend p (routing_policy_row.fields nw)) (routing_policies s)\<rparr>))"

definition ListRoutingPolicies :: "db \<Rightarrow> go_error + routing_policy list" where
  "ListRoutingPolicies s = with_db s (Inr (map routing_policy.truncate (routing_policies s)))"

definition DeleteRoutingPolicy :: "string \<Rightarrow> db \<Rightarrow> go_error + db" where
  "DeleteRoutingPolicy i s = with_db s
     (affected (has_row (\<lambda>r. rp_ID r = i) (routing_policies s))
        (s\<lparr>routing_policies := del_where (\<lambda>r. rp_ID r = i) (routing_policies s)\<rparr>))"

definition GetRoutingPolicyByAlias :: "string \<Rightarrow> db \<Rightarrow> go_error + routing_policy" where
  "GetRoutingPolicyByAlias alias s = with_db s
     (map_sum id routing_policy.truncate (query_row (\<lambda>r. rp_Alias r = alias) (routing_policies s)))"

definition CountRoutingCandidatesByAccount :: "string \<Rightarrow> db \<Rightarrow> go_error + nat" where
  "CountRoutingCandidatesByAccount aid s = with_db s
     (Inr (sum_list (map (\<lambda>r. count_where (\<lambda>c. cd_AccountID c = aid) (rp_Candidates r)) (routing_policies s))))"

definition RecordUsageEvent :: "usage_event \<Rightarrow> string \<Rightarrow> db \<Rightarrow> go_error + db" where
  "RecordUsageEvent e nw s = with_db s
     (if has_row (\<lambda>r. ue_ID r = ue_ID e) (usage_events s) then Inl unique_failed
      else Inr (s\<lparr>usage_events := usage_events s @ [usage_event.extend e (usage_event_row.fields nw)]\<rparr>))"

text \<open>A negative \<open>LIMIT\<close> is no limit.\<close>

definition sql_limit :: "int \<Rightarrow> 'r list \<Rightarrow> 'r list" where
  "sql_limit n rows = (if n < 0 then rows else take (nat n) rows)"

definition ListUsageEvents :: "int \<Rightarrow> db \<Rightarrow> go_error + usage_event list" where
  "ListUsageEvents n s = with_db s
     (Inr (map usage_event.truncate
        (sql_limit n (order_desc ue_occurred_at (order_desc ue_ID (usage_events s))))))"

definition CountUsageEventsByAccount :: "string \<Rightarrow> db \<Rightarrow> go_error + nat" where
  "CountUsageEventsByAccount aid s = with_db s (Inr (count_where (\<lambda>r. ue_AccountID r = aid) (usage_events s)))"

section \<open>account_capabilities\<close>

definition upsert_capability :: "string \<Rightarrow> string \<Rightarrow> account_capability \<Rightarrow> db \<Rightarrow> go_error + db" where
  "upsert_capability aid nw c0 s =
    (let c = (if cap_AccountID c0 = [] then c0\<lparr>cap_AccountID := aid\<rparr> else c0);
         p = (\<lambda>r. cap_AccountID r = cap_AccountID c \<and> cap_Capability r = cap_Capability c) in
     if has_row p (account_capabilities s) then
       Inr (s\<lparr>account_capabilities := upd_where p
              (\<lambda>r. r\<lparr>cap_Status := cap_Status c, cap_Reason := cap_Reason c,
                     cap_ConnectorVersion := cap_ConnectorVersion c, cap_CheckedAt := cap_CheckedAt c,
                     cap_updated_at := nw\<rparr>) (account_capabilities s)\<rparr>)
     else if \<not> has_row (\<lambda>r. ac_ID r = cap_AccountID c) (accounts s) then Inl fk_failed
     else Inr (s\<lparr>account_capabilities := account_capabilities s @
            [account_capability.extend c (account_capability_row.fields nw)]\<rparr>))"

definition SaveAccountCapabilities ::
  "string \<Rightarrow> account_capability list \<Rightarrow> string \<Rightarrow> db \<Rightarrow> go_error + db" where
  "SaveAccountCapabilities aid caps nw s = with_db s (in_tx (upsert_capability aid nw) caps s)"

definition ListAccountCapabilities :: "string \<Rightarrow> db \<Rightarrow> go_error + account_capability list" where
  "ListAccountCapabilities aid s = with_db s
     (Inr (map account_capability.truncate
        (order_by cap_Capability (filter (\<lambda>r. cap_AccountID r = aid) (account_capabilities s)))))"

section \<open>quota_pools and quota_snapshots\<close>

definition insert_pool_member :: "string \<Rightarrow> string \<Rightarrow> db \<Rightarrow> go_error + db" where
  "insert_pool_member pid aid s =
    (if has_row (\<lambda>r. pm_PoolID r = pid \<and> pm_AccountID r = aid) (quota_pool_members s) then Inr s
     else if \<not> has_row (\<lambda>r. qpr_ID r = pid) (quota_pools s) \<or> \<not> has_row (\<lambda>r. ac_ID r = aid) (accounts s)
       then Inl fk_failed
     else Inr (s\<lparr>quota_pool_members := quota_pool_members s @
            [\<lparr>pm_PoolID = pid, pm_AccountID = aid, pm_ModelScope = ''*''\<rparr>]\<rparr>))"

definition upsert_pool :: "quota_pool \<Rightarrow> string \<Rightarrow> db \<Rightarrow> go_error + db" where
  "upsert_pool p nw s =
    (if has_row (\<lambda>r. qpr_ID r = qp_ID p) (quota_pools s) then
       Inr (s\<lparr>quota_pools := upd_where (\<lambda>r. qpr_ID r = qp_ID p)
              (\<lambda>r. r\<lparr>qpr_ExternalOrg := qp_ExternalOrg p, qpr_Scope := qp_Scope p, qpr_updated_at := nw\<rparr>)
              (quota_pools s)\<rparr>)
     else if \<not> has_row (\<lambda>r. pv_ID r = qp_ProviderID p) (providers s) then Inl fk_failed
     else Inr (s\<lparr>quota_pools := quota_pools s @
            [\<lparr>qpr_ID = qp_ID p, qpr_ProviderID = qp_ProviderID p, qpr_ExternalOrg = qp_ExternalOrg p,
              qpr_Scope = qp_Scope p, qpr_created_at = nw, qpr_updated_at = nw\<rparr>]\<rparr>))"

definition SaveQuotaPool :: "quota_pool \<Rightarrow> string \<Rightarrow> db \<Rightarrow> go_error + db" where
  "SaveQuotaPool p nw s = with_db s
     (case upsert_pool p nw s of
        Inl e \<Rightarrow> Inl e
      | Inr s' \<Rightarrow> in_tx (insert_pool_member (qp_ID p)) (qp_MemberIDs p) s')"

definition pool_members :: "string \<Rightarrow> db \<Rightarrow> string list" where
  "pool_members pid s = map pm_AccountID (filter (\<lambda>r. pm_PoolID r = pid) (quota_pool_members s))"

definition ListQuotaPools :: "db \<Rightarrow> go_error + quota_pool list" where
  "ListQuotaPools s = with_db s
     (Inr (map (\<lambda>r. \<lparr>qp_ID = qpr_ID r, qp_ProviderID = qpr_ProviderID r, qp_ExternalOrg = qpr_ExternalOrg r,
                     qp_Scope = qpr_Scope r, qp_MemberIDs = pool_members (qpr_ID r) s\<rparr>)
        (order_by qpr_created_at (quota_pools s))))"

definition GetQuotaPool :: "string \<Rightarrow> db \<Rightarrow> go_error + quota_pool" where
  "GetQuotaPool i s = (case ListQuotaPools s of
       Inl e \<Rightarrow> Inl e
     | Inr pools \<Rightarrow> (case find (\<lambda>p. qp_ID p = i) pools of None \<Rightarrow> Inl ErrNoRows | Some p \<Rightarrow> Inr p))"

text \<open>\<open>strOrEmpty\<close>: what is stored for an absent manual expiry is the empty text.\<close>

definition strOrEmpty :: "string option \<Rightarrow> string" where
  "strOrEmpty v = (case v of None \<Rightarrow> [] | Some x \<Rightarrow> x)"

definition SaveQuotaSnapshot :: "quota_snapshot \<Rightarrow> db \<Rightarrow> go_error + db" where
  "SaveQuotaSnapshot snap0 s = with_db s
    (let snap = snap0\<lparr>qs_ManualExpiresAt := Some (strOrEmpty (qs_ManualExpiresAt snap0))\<rparr> in
     if qs_PoolID snap = [] \<and> qs_WindowType snap = [] then Inl check_failed
     else if has_row (\<lambda>r. qs_ID r = qs_ID snap) (quota_snapshots s) then
       Inr (s\<lparr>quota_snapshots := upd_where (\<lambda>r. qs_ID r = qs_ID snap)
              (\<lambda>r. r\<lparr>qs_Limit := qs_Limit snap, qs_Used := qs_Used snap, qs_Remaining := qs_Remaining snap,
                     qs_ResetAt := qs_ResetAt snap, qs_Source := qs_Source snap, qs_SourceRef := qs_SourceRef snap,
                     qs_Confidence := qs_Confidence snap, qs_Freshness := qs_Freshness snap,
                     qs_ConnectorVersion := qs_ConnectorVersion snap, qs_TakenAt := qs_TakenAt snap,
                     qs_LastSuccessAt := qs_LastSuccessAt snap\<rparr>) (quota_snapshots s)\<rparr>)
     else if \<not> has_row (\<lambda>r. ac_ID r = qs_AccountID snap) (accounts s) then Inl fk_failed
     else Inr (s\<lparr>quota_snapshots := quota_snapshots s @ [snap]\<rparr>))"

definition order_snapshots :: "quota_snapshot list \<Rightarrow> quota_snapshot list" where
  "order_snapshots rows = order_desc qs_TakenAt (order_by qs_WindowType rows)"

definition ListQuotaSnapshots :: "string \<Rightarrow> db \<Rightarrow> go_error + quota_snapshot list" where
  "ListQuotaSnapshots aid s = with_db s
     (Inr (order_snapshots (filter (\<lambda>r. qs_AccountID r = aid) (quota_snapshots s))))"

definition ListPoolSnapshots :: "string \<Rightarrow> db \<Rightarrow> go_error + quota_snapshot list" where
  "ListPoolSnapshots pid s = with_db s
     (Inr (order_snapshots (filter (\<lambda>r. qs_PoolID r = pid) (quota_snapshots s))))"

text \<open>The head of a query's rows, for \<open>LIMIT 1\<close>.\<close>

definition first_row :: "'r list \<Rightarrow> 'r option" where
  "first_row rows = (case rows of [] \<Rightarrow> None | r # _ \<Rightarrow> Some r)"

definition LatestQuotaSnapshot :: "string \<Rightarrow> string \<Rightarrow> db \<Rightarrow> go_error + quota_snapshot option" where
  "LatestQuotaSnapshot aid wt s = with_db s
     (Inr (first_row (order_desc qs_TakenAt
        (filter (\<lambda>r. qs_AccountID r = aid \<and> qs_WindowType r = wt \<and> qs_Source r \<noteq> QuotaSourceManual)
           (quota_snapshots s)))))"

definition CountQuotaSnapshotsByAccount :: "string \<Rightarrow> db \<Rightarrow> go_error + nat" where
  "CountQuotaSnapshotsByAccount aid s = with_db s
     (Inr (count_where (\<lambda>r. qs_AccountID r = aid) (quota_snapshots s)))"

section \<open>refresh_jobs\<close>

definition job_key :: "refresh_job \<Rightarrow> string \<times> string" where
  "job_key j = (rj_AccountID j, rj_Capability j)"

text \<open>
  The upsert is keyed by account and capability and takes the new id: it fails when another
  row already has that id.
\<close>

definition UpsertRefreshJob :: "refresh_job \<Rightarrow> string \<Rightarrow> db \<Rightarrow> go_error + db" where
  "UpsertRefreshJob j nw s = with_db s
    (if has_row (\<lambda>r. rj_ID r = rj_ID j \<and> job_key r \<noteq> job_key j) (refresh_jobs s) then Inl unique_failed
     else Inr (s\<lparr>refresh_jobs := upsert_row (\<lambda>r. job_key r = job_key j)
        (\<lambda>r. r\<lparr>rj_ID := rj_ID j, rj_State := rj_State j, rj_StartedAt := rj_StartedAt j,
               rj_FinishedAt := rj_FinishedAt j, rj_NextRunAt := rj_NextRunAt j,
               rj_LastSuccessAt := rj_LastSuccessAt j, rj_RetryCount := rj_RetryCount j,
               rj_LastErrorCode := rj_LastErrorCode j, rj_UpdatedAt := nw\<rparr>)
        (j\<lparr>rj_CreatedAt := nw, rj_UpdatedAt := nw\<rparr>) (refresh_jobs s)\<rparr>))"

definition GetRefreshJob :: "string \<Rightarrow> db \<Rightarrow> go_error + refresh_job" where
  "GetRefreshJob i s = with_db s (query_row (\<lambda>r. rj_ID r = i) (refresh_jobs s))"

definition GetRefreshJobByKey :: "string \<Rightarrow> string \<Rightarrow> db \<Rightarrow> go_error + refresh_job option" where
  "GetRefreshJobByKey aid cp s = with_db s (Inr (find (\<lambda>r. job_key r = (aid, cp)) (refresh_jobs s)))"

definition UpdateRefreshJobState ::
  "string \<Rightarrow> string \<Rightarrow> string \<Rightarrow> string \<Rightarrow> string \<Rightarrow> int \<Rightarrow> string \<Rightarrow> string \<Rightarrow> db \<Rightarrow> go_error + db" where
  "UpdateRefreshJobState i state fin nxt succ_at retry code nw s = with_db s
     (Inr (s\<lparr>refresh_jobs := upd_where (\<lambda>r. rj_ID r = i)
        (\<lambda>r. r\<lparr>rj_State := state, rj_FinishedAt := fin, rj_NextRunAt := nxt, rj_LastSuccessAt := succ_at,
               rj_RetryCount := retry, rj_LastErrorCode := code, rj_UpdatedAt := nw\<rparr>) (refresh_jobs s)\<rparr>))"

definition ListRefreshJobs :: "string \<Rightarrow> db \<Rightarrow> go_error + refresh_job list" where
  "ListRefreshJobs aid s = with_db s
     (Inr (order_desc rj_CreatedAt
        (if aid \<noteq> [] then filter (\<lambda>r. rj_AccountID r = aid) (refresh_jobs s) else refresh_jobs s)))"

definition job_active :: "refresh_job \<Rightarrow> bool" where
  "job_active j \<longleftrightarrow> rj_State j = ''running'' \<or> rj_State j = ''pending''"

definition MarkInterruptedRefreshJobs :: "string \<Rightarrow> db \<Rightarrow> go_error + nat \<times> db" where
  "MarkInterruptedRefreshJobs nw s = with_db s
     (Inr (count_where job_active (refresh_jobs s),
        s\<lparr>refresh_jobs := upd_where job_active
            (\<lambda>r. r\<lparr>rj_State := ''interrupted'', rj_UpdatedAt := nw\<rparr>) (refresh_jobs s)\<rparr>))"

section \<open>request_attempts\<close>

definition attempt_key :: "request_attempt \<Rightarrow> string \<times> string" where
  "attempt_key a = (ra_RequestID a, ra_AttemptID a)"

text \<open>The row of a new attempt: the columns that are not inserted take their defaults.\<close>

definition started_attempt :: "request_attempt \<Rightarrow> string \<Rightarrow> request_attempt" where
  "started_attempt a nw =
     a\<lparr>ra_Status := ''started'', ra_InputTokens := 0, ra_OutputTokens := 0, ra_CacheReadTokens := 0,
       ra_CacheWriteTokens := 0, ra_ReasoningTokens := 0, ra_Metering := ''unknown'', ra_LatencyMS := 0,
       ra_StatusCode := 0, ra_ErrorClass := [], ra_ReasonCode := [], ra_PriceVersion := [],
       ra_OccurredAt := (if ra_OccurredAt a = [] then nw else ra_OccurredAt a), ra_FinishedAt := []\<rparr>"

definition CreateAttempt :: "request_attempt \<Rightarrow> string \<Rightarrow> db \<Rightarrow> go_error + db" where
  "CreateAttempt a nw s = with_db s
    (if has_row (\<lambda>r. attempt_key r = attempt_key a) (request_attempts s) then Inr s
     else if has_row (\<lambda>r. ra_ID r = ra_ID a) (request_attempts s) then Inl unique_failed
     else Inr (s\<lparr>request_attempts := request_attempts s @ [started_attempt a nw]\<rparr>))"

definition finish_row :: "request_attempt \<Rightarrow> string \<Rightarrow> request_attempt \<Rightarrow> request_attempt" where
  "finish_row a nw r =
     r\<lparr>ra_Status := ra_Status a, ra_InputTokens := ra_InputTokens a, ra_OutputTokens := ra_OutputTokens a,
       ra_CacheReadTokens := ra_CacheReadTokens a, ra_CacheWriteTokens := ra_CacheWriteTokens a,
       ra_ReasoningTokens := ra_ReasoningTokens a, ra_Metering := ra_Metering a,
       ra_LatencyMS := ra_LatencyMS a, ra_StatusCode := ra_StatusCode a, ra_ErrorClass := ra_ErrorClass a,
       ra_ReasonCode := ra_ReasonCode a,
       ra_ActualModel := (if ra_ActualModel a \<noteq> [] then ra_ActualModel a else ra_ActualModel r),
       ra_FinishedAt := nw\<rparr>"

definition FinishAttempt :: "request_attempt \<Rightarrow> string \<Rightarrow> db \<Rightarrow> go_error + db" where
  "FinishAttempt a nw s = with_db s
     (affected (has_row (\<lambda>r. attempt_key r = attempt_key a) (request_attempts s))
        (s\<lparr>request_attempts :=
             upd_where (\<lambda>r. attempt_key r = attempt_key a) (finish_row a nw) (request_attempts s)\<rparr>))"

definition ListAttemptsByRequest :: "string \<Rightarrow> db \<Rightarrow> go_error + request_attempt list" where
  "ListAttemptsByRequest rid s = with_db s
     (Inr (order_by ra_OccurredAt (order_by ra_AttemptID
        (filter (\<lambda>r. ra_RequestID r = rid) (request_attempts s)))))"

definition ListRecentAttempts :: "int \<Rightarrow> db \<Rightarrow> go_error + request_attempt list" where
  "ListRecentAttempts n s = with_db s
    (let lim = (if n \<le> 0 \<or> 500 < n then 100 else n)
     in Inr (sql_limit lim (order_desc ra_OccurredAt (request_attempts s))))"

definition MarkStaleAttemptsInterrupted :: "string \<Rightarrow> db \<Rightarrow> go_error + nat \<times> db" where
  "MarkStaleAttemptsInterrupted nw s = with_db s
     (Inr (count_where (\<lambda>r. ra_Status r = ''started'') (request_attempts s),
        s\<lparr>request_attempts := upd_where (\<lambda>r. ra_Status r = ''started'')
            (\<lambda>r. r\<lparr>ra_Status := ''interrupted'', ra_Metering := ''unknown'', ra_FinishedAt := nw\<rparr>)
            (request_attempts s)\<rparr>))"

section \<open>price_versions and usage\<close>

definition UpsertPriceVersion :: "price_version \<Rightarrow> db \<Rightarrow> go_error + db" where
  "UpsertPriceVersion p s = with_db s
     (if has_row (\<lambda>r. pr_ID r = pr_ID p) (price_versions s) then Inl unique_failed
      else Inr (s\<lparr>price_versions := price_versions s @ [p]\<rparr>))"

text \<open>The version in force at a time: the latest one that is not later.\<close>

definition price_in_force :: "price_version list \<Rightarrow> string \<Rightarrow> string \<Rightarrow> price_version option" where
  "price_in_force rows mid tm = first_row (order_desc pr_EffectiveAt
     (filter (\<lambda>r. pr_ModelID r = mid \<and> pr_EffectiveAt r \<le> tm) rows))"

definition PriceAt :: "string \<Rightarrow> string \<Rightarrow> db \<Rightarrow> go_error + price_version option" where
  "PriceAt mid tm s = with_db s (Inr (price_in_force (price_versions s) mid tm))"

definition ListPriceVersions :: "string \<Rightarrow> db \<Rightarrow> go_error + price_version list" where
  "ListPriceVersions mid s = with_db s
     (Inr (order_by pr_EffectiveAt
        (if mid \<noteq> [] then filter (\<lambda>r. pr_ModelID r = mid) (price_versions s) else price_versions s)))"

text \<open>SQL's \<open>SUM\<close>: nulls are skipped, and a sum of nothing but nulls is null.\<close>

definition sql_sum :: "int option list \<Rightarrow> int option" where
  "sql_sum vs = (if list_all (\<lambda>v. v = None) vs then None
     else Some (sum_list (map (\<lambda>v. case v of None \<Rightarrow> 0 | Some x \<Rightarrow> x) vs)))"

definition attempt_price ::
  "price_version list \<Rightarrow> (price_version \<Rightarrow> int) \<Rightarrow> (request_attempt \<Rightarrow> int) \<Rightarrow> request_attempt \<Rightarrow> int option" where
  "attempt_price pvs price toks a =
     map_option (\<lambda>p. toks a * price p) (price_in_force pvs (ra_ActualModel a) (ra_OccurredAt a))"

definition usage_group :: "request_attempt \<Rightarrow> string \<times> string \<times> string \<times> string" where
  "usage_group a = (ra_ProviderID a, ra_AccountID a, ra_ActualModel a, ra_ProjectID a)"

definition scan_null :: go_error where
  "scan_null = TextError ''sql: Scan error: converting NULL to int64 is unsupported''"

definition usage_row_of ::
  "price_version list \<Rightarrow> string \<times> string \<times> string \<times> string \<Rightarrow> request_attempt list \<Rightarrow> go_error + usage_row" where
  "usage_row_of pvs g rows =
    (case (sql_sum (map (attempt_price pvs pr_InputPriceNano ra_InputTokens) rows),
           sql_sum (map (attempt_price pvs pr_OutputPriceNano ra_OutputTokens) rows),
           sql_sum (map (attempt_price pvs pr_CacheReadPriceNano ra_CacheReadTokens) rows),
           sql_sum (map (attempt_price pvs pr_CacheWritePriceNano ra_CacheWriteTokens) rows)) of
       (Some ci, Some co, Some cr, Some cw) \<Rightarrow>
         Inr \<lparr>ur_ProviderID = fst g, ur_AccountID = fst (snd g), ur_ModelID = fst (snd (snd g)),
              ur_ProjectID = snd (snd (snd g)), ur_Requests = int (length rows),
              ur_InputTokens = sum_list (map ra_InputTokens rows),
              ur_OutputTokens = sum_list (map ra_OutputTokens rows),
              ur_CacheReadTokens = sum_list (map ra_CacheReadTokens rows),
              ur_CacheWriteTokens = sum_list (map ra_CacheWriteTokens rows),
              ur_ReasoningTokens = sum_list (map ra_ReasoningTokens rows),
              ur_CostNanoUSD = ci + co + cr + cw, ur_Source = ''observed''\<rparr>
     | _ \<Rightarrow> Inl scan_null)"

fun collect_ok :: "('e + 'a) list \<Rightarrow> 'e + 'a list" where
  "collect_ok [] = Inr []"
| "collect_ok (Inl e # rs) = Inl e"
| "collect_ok (Inr x # rs) = (case collect_ok rs of Inl e \<Rightarrow> Inl e | Inr xs \<Rightarrow> Inr (x # xs))"

text \<open>
  The aggregation groups the successful attempts that satisfy the filter by provider,
  account, actual model and project (the grouping its one caller passes); groups come in
  the order of their keys.
\<close>

definition AggregateUsage :: "(request_attempt \<Rightarrow> bool) \<Rightarrow> db \<Rightarrow> go_error + usage_row list" where
  "AggregateUsage cond s = with_db s
    (let rows = filter (\<lambda>a. ra_Status a = ''success'' \<and> cond a) (request_attempts s);
         sorted = order_by ra_ProviderID (order_by ra_AccountID
                    (order_by ra_ActualModel (order_by ra_ProjectID rows)))
     in collect_ok (map (\<lambda>g. usage_row_of (price_versions s) g (filter (\<lambda>a. usage_group a = g) rows))
          (remdups_adj (map usage_group sorted))))"

section \<open>access_tokens\<close>

definition CreateToken :: "token \<Rightarrow> db \<Rightarrow> go_error + db" where
  "CreateToken t0 s = with_db s
    (let t = (if tk_ModelWhitelist t0 = [] then t0\<lparr>tk_ModelWhitelist := ''[]''\<rparr> else t0) in
     if has_row (\<lambda>r. tk_ID r = tk_ID t \<or> tk_KeyHash r = tk_KeyHash t) (access_tokens s) then Inl unique_failed
     else Inr (s\<lparr>access_tokens := access_tokens s @ [t]\<rparr>))"

text \<open>The queries never read the hash back: a scanned token has none.\<close>

definition scanToken :: "token \<Rightarrow> token" where
  "scanToken t = t\<lparr>tk_KeyHash := []\<rparr>"

definition ListTokens :: "db \<Rightarrow> go_error + token list" where
  "ListTokens s = with_db s (Inr (map scanToken (order_by tk_CreatedAt (access_tokens s))))"

definition SetTokenEnabled :: "string \<Rightarrow> bool \<Rightarrow> db \<Rightarrow> go_error + db" where
  "SetTokenEnabled i en s = with_db s
     (affected (has_row (\<lambda>r. tk_ID r = i) (access_tokens s))
        (s\<lparr>access_tokens := upd_where (\<lambda>r. tk_ID r = i) (\<lambda>r. r\<lparr>tk_Enabled := en\<rparr>) (access_tokens s)\<rparr>))"

definition DeleteToken :: "string \<Rightarrow> db \<Rightarrow> go_error + db" where
  "DeleteToken i s = with_db s
     (affected (has_row (\<lambda>r. tk_ID r = i) (access_tokens s))
        (s\<lparr>access_tokens := del_where (\<lambda>r. tk_ID r = i) (access_tokens s)\<rparr>))"

definition FindTokenByKeyHash :: "string \<Rightarrow> db \<Rightarrow> go_error + token" where
  "FindTokenByKeyHash h s = with_db s
     (map_sum id scanToken (query_row (\<lambda>r. tk_KeyHash r = h) (access_tokens s)))"

definition TouchToken :: "string \<Rightarrow> string \<Rightarrow> db \<Rightarrow> go_error + db" where
  "TouchToken i nw s = with_db s
     (Inr (s\<lparr>access_tokens := upd_where (\<lambda>r. tk_ID r = i) (\<lambda>r. r\<lparr>tk_LastUsedAt := nw\<rparr>) (access_tokens s)\<rparr>))"

section \<open>projects, response_bindings and audit_events\<close>

definition CreateProject :: "project \<Rightarrow> string \<Rightarrow> db \<Rightarrow> go_error + db" where
  "CreateProject p nw s = with_db s
     (if has_row (\<lambda>r. pj_ID r = pj_ID p) (projects s) then Inl unique_failed
      else Inr (s\<lparr>projects := projects s @ [p\<lparr>pj_CreatedAt := nw, pj_UpdatedAt := nw\<rparr>]\<rparr>))"

definition ListProjects :: "db \<Rightarrow> go_error + project list" where
  "ListProjects s = with_db s (Inr (order_by pj_CreatedAt (projects s)))"

definition GetProject :: "string \<Rightarrow> db \<Rightarrow> go_error + project" where
  "GetProject i s = with_db s (query_row (\<lambda>r. pj_ID r = i) (projects s))"

definition DeleteProject :: "string \<Rightarrow> db \<Rightarrow> go_error + db" where
  "DeleteProject i s = with_db s
     (affected (has_row (\<lambda>r. pj_ID r = i) (projects s))
        (s\<lparr>projects := del_where (\<lambda>r. pj_ID r = i) (projects s)\<rparr>))"

definition SaveResponseBinding :: "response_binding \<Rightarrow> string \<Rightarrow> db \<Rightarrow> go_error + db" where
  "SaveResponseBinding b nw s = with_db s
     (Inr (s\<lparr>response_bindings := upsert_row (\<lambda>r. rb_ResponseID r = rb_ResponseID b)
        (\<lambda>r. r\<lparr>rb_ExpiresAt := rb_ExpiresAt b\<rparr>) (b\<lparr>rb_CreatedAt := nw\<rparr>) (response_bindings s)\<rparr>))"

text \<open>A binding whose expiry cannot be parsed does not expire.\<close>

definition binding_expired :: "int \<Rightarrow> response_binding \<Rightarrow> bool" where
  "binding_expired t_now b \<longleftrightarrow> rb_ExpiresAt b \<noteq> [] \<and>
     (case parse_rfc3339 (rb_ExpiresAt b) of None \<Rightarrow> False | Some x \<Rightarrow> x < t_now)"

definition GetResponseBinding :: "int \<Rightarrow> string \<Rightarrow> db \<Rightarrow> go_error + response_binding" where
  "GetResponseBinding t_now rid s = with_db s
    (case query_row (\<lambda>r. rb_ResponseID r = rid) (response_bindings s) of
       Inl e \<Rightarrow> Inl e
     | Inr b \<Rightarrow> if binding_expired t_now b then Inl ErrNoRows else Inr b)"

definition RecordAuditEvent ::
  "string \<Rightarrow> string \<Rightarrow> string \<Rightarrow> string \<Rightarrow> int \<Rightarrow> string \<Rightarrow> db \<Rightarrow> go_error + db" where
  "RecordAuditEvent actor action tgt detail t_now nw s = with_db s
    (let i = ''aud_'' @ itoa t_now in
     if has_row (\<lambda>r. ae_ID r = i) (audit_events s) then Inl unique_failed
     else Inr (s\<lparr>audit_events := audit_events s @
       [\<lparr>ae_ID = i, ae_Actor = actor, ae_Action = action, ae_Target = tgt, ae_Detail = detail,
         ae_OccurredAt = nw\<rparr>]\<rparr>))"

definition CountAuditEvents :: "db \<Rightarrow> go_error + nat" where
  "CountAuditEvents s = with_db s (Inr (length (audit_events s)))"

end
