(* ===== verification/StoreInv.thy ===== *)
theory StoreInv
  imports Store
begin

text \<open>
  The integrity of the store: primary keys and unique indexes are distinct and every
  reference has its parent row, whatever sequence of repository calls has run. The write
  operations are listed as a datatype whose interpreter is the repository's own functions,
  and a database is reachable when a sequence of calls, each of which may fail, leads to it
  from the empty one.
\<close>

section \<open>The invariant\<close>

definition keys_wf :: "db \<Rightarrow> bool" where
  "keys_wf s \<longleftrightarrow>
     distinct (map pv_ID (providers s)) \<and> distinct (map ac_ID (accounts s)) \<and>
     distinct (map mo_ID (models s)) \<and>
     distinct (map (\<lambda>r. (mo_ProviderID r, mo_UpstreamID r)) (models s)) \<and>
     distinct (map (\<lambda>r. (am_AccountID r, am_ModelID r)) (account_models s)) \<and>
     distinct (map (\<lambda>r. (cap_AccountID r, cap_Capability r)) (account_capabilities s)) \<and>
     distinct (map qpr_ID (quota_pools s)) \<and>
     distinct (map (\<lambda>r. (pm_PoolID r, pm_AccountID r)) (quota_pool_members s)) \<and>
     distinct (map qs_ID (quota_snapshots s)) \<and> distinct (map ue_ID (usage_events s)) \<and>
     distinct (map rp_ID (routing_policies s)) \<and> distinct (map pr_ID (price_versions s)) \<and>
     distinct (map tk_ID (access_tokens s)) \<and> distinct (map tk_KeyHash (access_tokens s)) \<and>
     distinct (map pj_ID (projects s)) \<and> distinct (map rb_ResponseID (response_bindings s)) \<and>
     distinct (map rj_ID (refresh_jobs s)) \<and> distinct (map job_key (refresh_jobs s)) \<and>
     distinct (map ra_ID (request_attempts s)) \<and> distinct (map attempt_key (request_attempts s)) \<and>
     distinct (map ae_ID (audit_events s))"

definition refs_wf :: "db \<Rightarrow> bool" where
  "refs_wf s \<longleftrightarrow>
     set (map ac_ProviderID (accounts s)) \<subseteq> set (map pv_ID (providers s)) \<and>
     set (map mo_ProviderID (models s)) \<subseteq> set (map pv_ID (providers s)) \<and>
     set (map am_AccountID (account_models s)) \<subseteq> set (map ac_ID (accounts s)) \<and>
     set (map am_ModelID (account_models s)) \<subseteq> set (map mo_ID (models s)) \<and>
     set (map cap_AccountID (account_capabilities s)) \<subseteq> set (map ac_ID (accounts s)) \<and>
     set (map qpr_ProviderID (quota_pools s)) \<subseteq> set (map pv_ID (providers s)) \<and>
     set (map pm_PoolID (quota_pool_members s)) \<subseteq> set (map qpr_ID (quota_pools s)) \<and>
     set (map pm_AccountID (quota_pool_members s)) \<subseteq> set (map ac_ID (accounts s)) \<and>
     set (map qs_AccountID (quota_snapshots s)) \<subseteq> set (map ac_ID (accounts s))"

definition db_wf :: "db \<Rightarrow> bool" where
  "db_wf s \<longleftrightarrow> keys_wf s \<and> refs_wf s"

lemmas wf_defs = db_wf_def keys_wf_def refs_wf_def

lemma db_wf_empty: "db_wf empty_db"
  by (simp add: wf_defs empty_db_def)

section \<open>Tests as memberships\<close>

lemma has_row_key: "has_row (\<lambda>r. key r = k) rows \<longleftrightarrow> k \<in> set (map key rows)"
  by (auto simp: has_row_iff)

lemma has_row_key2:
  "has_row (\<lambda>r. key1 r = k1 \<and> key2 r = k2) rows \<longleftrightarrow> (k1, k2) \<in> set (map (\<lambda>r. (key1 r, key2 r)) rows)"
  by (auto simp: has_row_iff)

lemma has_row_or:
  "has_row (\<lambda>r. key1 r = k1 \<or> key2 r = k2) rows \<longleftrightarrow> k1 \<in> set (map key1 rows) \<or> k2 \<in> set (map key2 rows)"
  by (auto simp: has_row_iff)

lemma map_del_where_key:
  "set (map key (del_where (\<lambda>r. key r = k) rows)) = set (map key rows) - {k}"
  by auto

lemma extend_keys [simp]:
  "pv_ID (provider.extend p x) = pv_ID p"
  "ac_ID (account.extend a y) = ac_ID a" "ac_ProviderID (account.extend a y) = ac_ProviderID a"
  "mo_ID (model.extend m z) = mo_ID m" "mo_ProviderID (model.extend m z) = mo_ProviderID m"
  "mo_UpstreamID (model.extend m z) = mo_UpstreamID m"
  "cap_AccountID (account_capability.extend c v) = cap_AccountID c"
  "cap_Capability (account_capability.extend c v) = cap_Capability c"
  "rp_ID (routing_policy.extend q w) = rp_ID q"
  "ue_ID (usage_event.extend e u) = ue_ID e"
  by (simp_all add: provider.defs account.defs model.defs account_capability.defs
      routing_policy.defs usage_event.defs)

lemma with_db_Inr: "with_db s r = Inr x \<longleftrightarrow> db_down s = None \<and> r = Inr x"
  by (simp add: with_db_def split: option.split)

lemma affected_Inr: "affected c s = Inr s' \<longleftrightarrow> c \<and> s' = s"
  by (auto simp: affected_def)

lemmas op_simps = with_db_Inr affected_Inr has_row_key has_row_key2 update_account_def
  set_secret_ref_def

section \<open>One table at a time\<close>

text \<open>What the invariant says of each table, and when replacing one table keeps it.\<close>

lemma db_wf_keys:
  assumes "db_wf s"
  shows "distinct (map pv_ID (providers s))" "distinct (map ac_ID (accounts s))"
    "distinct (map mo_ID (models s))" "distinct (map (\<lambda>r. (mo_ProviderID r, mo_UpstreamID r)) (models s))"
    "distinct (map (\<lambda>r. (am_AccountID r, am_ModelID r)) (account_models s))"
    "distinct (map (\<lambda>r. (cap_AccountID r, cap_Capability r)) (account_capabilities s))"
    "distinct (map qpr_ID (quota_pools s))"
    "distinct (map (\<lambda>r. (pm_PoolID r, pm_AccountID r)) (quota_pool_members s))"
    "distinct (map qs_ID (quota_snapshots s))" "distinct (map ue_ID (usage_events s))"
    "distinct (map rp_ID (routing_policies s))" "distinct (map pr_ID (price_versions s))"
    "distinct (map tk_ID (access_tokens s))" "distinct (map tk_KeyHash (access_tokens s))"
    "distinct (map pj_ID (projects s))" "distinct (map rb_ResponseID (response_bindings s))"
    "distinct (map rj_ID (refresh_jobs s))" "distinct (map job_key (refresh_jobs s))"
    "distinct (map ra_ID (request_attempts s))" "distinct (map attempt_key (request_attempts s))"
    "distinct (map ae_ID (audit_events s))"
  using assms by (simp_all only: wf_defs)

lemma db_wf_refs:
  assumes "db_wf s"
  shows "set (map ac_ProviderID (accounts s)) \<subseteq> set (map pv_ID (providers s))"
    "set (map mo_ProviderID (models s)) \<subseteq> set (map pv_ID (providers s))"
    "set (map am_AccountID (account_models s)) \<subseteq> set (map ac_ID (accounts s))"
    "set (map am_ModelID (account_models s)) \<subseteq> set (map mo_ID (models s))"
    "set (map cap_AccountID (account_capabilities s)) \<subseteq> set (map ac_ID (accounts s))"
    "set (map qpr_ProviderID (quota_pools s)) \<subseteq> set (map pv_ID (providers s))"
    "set (map pm_PoolID (quota_pool_members s)) \<subseteq> set (map qpr_ID (quota_pools s))"
    "set (map pm_AccountID (quota_pool_members s)) \<subseteq> set (map ac_ID (accounts s))"
    "set (map qs_AccountID (quota_snapshots s)) \<subseteq> set (map ac_ID (accounts s))"
  using assms by (simp_all only: wf_defs)

lemma db_wf_providers:
  assumes "db_wf s" and "distinct (map pv_ID xs)"
    and "set (map ac_ProviderID (accounts s)) \<union> set (map mo_ProviderID (models s))
         \<union> set (map qpr_ProviderID (quota_pools s)) \<subseteq> set (map pv_ID xs)"
  shows "db_wf (s\<lparr>providers := xs\<rparr>)"
  using assms by (simp add: wf_defs del: set_map)

lemma db_wf_accounts:
  assumes "db_wf s" and "distinct (map ac_ID xs)"
    and "set (map ac_ProviderID xs) \<subseteq> set (map pv_ID (providers s))"
    and "set (map am_AccountID (account_models s)) \<union> set (map cap_AccountID (account_capabilities s))
         \<union> set (map pm_AccountID (quota_pool_members s)) \<union> set (map qs_AccountID (quota_snapshots s))
         \<subseteq> set (map ac_ID xs)"
  shows "db_wf (s\<lparr>accounts := xs\<rparr>)"
  using assms by (simp add: wf_defs del: set_map)

lemma db_wf_models:
  assumes "db_wf s" and "distinct (map mo_ID xs)"
    and "distinct (map (\<lambda>r. (mo_ProviderID r, mo_UpstreamID r)) xs)"
    and "set (map mo_ProviderID xs) \<subseteq> set (map pv_ID (providers s))"
    and "set (map mo_ID (models s)) \<subseteq> set (map mo_ID xs)"
  shows "db_wf (s\<lparr>models := xs\<rparr>)"
  using assms by (simp add: wf_defs subset_trans [OF _ assms(5)] del: set_map)

lemma db_wf_children:
  assumes "db_wf s"
  shows
    "distinct (map (\<lambda>r. (am_AccountID r, am_ModelID r)) ams) \<Longrightarrow>
       set (map am_AccountID ams) \<subseteq> set (map ac_ID (accounts s)) \<Longrightarrow>
       set (map am_ModelID ams) \<subseteq> set (map mo_ID (models s)) \<Longrightarrow> db_wf (s\<lparr>account_models := ams\<rparr>)"
    "distinct (map (\<lambda>r. (cap_AccountID r, cap_Capability r)) cs) \<Longrightarrow>
       set (map cap_AccountID cs) \<subseteq> set (map ac_ID (accounts s)) \<Longrightarrow>
       db_wf (s\<lparr>account_capabilities := cs\<rparr>)"
    "distinct (map (\<lambda>r. (pm_PoolID r, pm_AccountID r)) pms) \<Longrightarrow>
       set (map pm_PoolID pms) \<subseteq> set (map qpr_ID (quota_pools s)) \<Longrightarrow>
       set (map pm_AccountID pms) \<subseteq> set (map ac_ID (accounts s)) \<Longrightarrow>
       db_wf (s\<lparr>quota_pool_members := pms\<rparr>)"
    "distinct (map qs_ID qss) \<Longrightarrow> set (map qs_AccountID qss) \<subseteq> set (map ac_ID (accounts s)) \<Longrightarrow>
       db_wf (s\<lparr>quota_snapshots := qss\<rparr>)"
  using assms by (simp_all add: wf_defs del: set_map)

lemma db_wf_pools:
  assumes "db_wf s" and "distinct (map qpr_ID xs)"
    and "set (map qpr_ProviderID xs) \<subseteq> set (map pv_ID (providers s))"
    and "set (map qpr_ID (quota_pools s)) \<subseteq> set (map qpr_ID xs)"
  shows "db_wf (s\<lparr>quota_pools := xs\<rparr>)"
  using assms by (simp add: wf_defs subset_trans [OF _ assms(4)] del: set_map)

lemma db_wf_plain:
  assumes "db_wf s"
  shows "distinct (map ue_ID ues) \<Longrightarrow> db_wf (s\<lparr>usage_events := ues\<rparr>)"
    "distinct (map rp_ID rps) \<Longrightarrow> db_wf (s\<lparr>routing_policies := rps\<rparr>)"
    "distinct (map pr_ID prs) \<Longrightarrow> db_wf (s\<lparr>price_versions := prs\<rparr>)"
    "distinct (map tk_ID tks) \<Longrightarrow> distinct (map tk_KeyHash tks) \<Longrightarrow> db_wf (s\<lparr>access_tokens := tks\<rparr>)"
    "distinct (map pj_ID pjs) \<Longrightarrow> db_wf (s\<lparr>projects := pjs\<rparr>)"
    "distinct (map rb_ResponseID rbs) \<Longrightarrow> db_wf (s\<lparr>response_bindings := rbs\<rparr>)"
    "distinct (map rj_ID rjs) \<Longrightarrow> distinct (map job_key rjs) \<Longrightarrow> db_wf (s\<lparr>refresh_jobs := rjs\<rparr>)"
    "distinct (map ra_ID ras) \<Longrightarrow> distinct (map attempt_key ras) \<Longrightarrow> db_wf (s\<lparr>request_attempts := ras\<rparr>)"
    "distinct (map ae_ID aes) \<Longrightarrow> db_wf (s\<lparr>audit_events := aes\<rparr>)"
    "db_wf (s\<lparr>db_down := e\<rparr>)"
  using assms by (simp_all add: wf_defs del: set_map)

lemmas db_wf_intros = db_wf_providers db_wf_accounts db_wf_models db_wf_children db_wf_pools db_wf_plain

section \<open>Every operation keeps it\<close>

lemma CreateProvider_wf [inv_intros]: "db_wf s \<Longrightarrow> CreateProvider p nw s = Inr s' \<Longrightarrow> db_wf s'"
  using db_wf_refs [of s]
  by (auto simp: CreateProvider_def op_simps db_wf_keys simp del: set_map
      split: if_splits intro!: db_wf_intros)

lemma UpdateProvider_wf [inv_intros]: "db_wf s \<Longrightarrow> UpdateProvider i n b nw s = Inr s' \<Longrightarrow> db_wf s'"
  using db_wf_refs [of s]
  by (auto simp: UpdateProvider_def op_simps db_wf_keys simp del: set_map
      split: if_splits sum.splits intro!: db_wf_intros)

lemma CreateAccount_wf [inv_intros]: "db_wf s \<Longrightarrow> CreateAccount a nw s = Inr s' \<Longrightarrow> db_wf s'"
  using db_wf_refs [of s]
  by (auto simp: CreateAccount_def op_simps db_wf_keys simp del: set_map
      split: if_splits intro!: db_wf_intros)

lemma update_account_wf:
  assumes "db_wf s" and "\<And>r. ac_ID (f r) = ac_ID r" and "\<And>r. ac_ProviderID (f r) = ac_ProviderID r"
  shows "db_wf (update_account i f s)"
  using assms db_wf_refs [OF assms(1)]
  by (auto simp: update_account_def db_wf_keys simp del: set_map intro!: db_wf_intros)

lemma account_updates_wf [inv_intros]:
  "db_wf s \<Longrightarrow> SetAccountStatus i st nw s = Inr s' \<Longrightarrow> db_wf s'"
  "db_wf s \<Longrightarrow> SetAccountAuthState i st nw s = Inr s' \<Longrightarrow> db_wf s'"
  "db_wf s \<Longrightarrow> UpdateAccountSecretRef i ref nw s = Inr s' \<Longrightarrow> db_wf s'"
  "db_wf s \<Longrightarrow> SetAccountVerifiedAt i st nw s = Inr s' \<Longrightarrow> db_wf s'"
  "db_wf s \<Longrightarrow> SetAccountCredentialRef i vp svc acct fp nw s = Inr s' \<Longrightarrow> db_wf s'"
  "db_wf s \<Longrightarrow> SetAccountName i st nw s = Inr s' \<Longrightarrow> db_wf s'"
  by (auto simp: SetAccountStatus_def SetAccountAuthState_def UpdateAccountSecretRef_def
      SetAccountVerifiedAt_def SetAccountCredentialRef_def SetAccountName_def with_db_Inr affected_Inr
      set_secret_ref_def intro!: update_account_wf)

lemma in_tx_wf:
  assumes "\<And>x s s'. P s \<Longrightarrow> f x s = Inr s' \<Longrightarrow> P s'"
  shows "P s \<Longrightarrow> in_tx f xs s = Inr s' \<Longrightarrow> P s'"
  by (induction xs arbitrary: s) (auto split: sum.splits intro: assms)

lemma upsert_model_wf: "db_wf s \<Longrightarrow> upsert_model nw m s = Inr s' \<Longrightarrow> db_wf s'"
  using db_wf_refs [of s]
  by (auto simp: upsert_model_def op_simps db_wf_keys Let_def simp del: set_map split: if_splits intro!: db_wf_intros)

lemma UpsertModels_wf [inv_intros]: "db_wf s \<Longrightarrow> UpsertModels ms nw s = Inr s' \<Longrightarrow> db_wf s'"
  by (auto simp: UpsertModels_def with_db_Inr intro: in_tx_wf [of db_wf, OF upsert_model_wf])

lemma upsert_account_model_wf: "db_wf s \<Longrightarrow> upsert_account_model aid nw mi s = Inr s' \<Longrightarrow> db_wf s'"
  using db_wf_refs [of s]
  by (auto simp: upsert_account_model_def op_simps db_wf_keys Let_def simp del: set_map split: if_splits intro!: db_wf_intros)

lemma SaveAccountModels_wf [inv_intros]:
  "db_wf s \<Longrightarrow> SaveAccountModels aid infos nw s = Inr s' \<Longrightarrow> db_wf s'"
  by (auto simp: SaveAccountModels_def with_db_Inr intro: in_tx_wf [of db_wf, OF upsert_account_model_wf])

lemma upsert_capability_wf: "db_wf s \<Longrightarrow> upsert_capability aid nw c s = Inr s' \<Longrightarrow> db_wf s'"
  using db_wf_refs [of s]
  by (auto simp: upsert_capability_def op_simps db_wf_keys Let_def simp del: set_map split: if_splits intro!: db_wf_intros)

lemma SaveAccountCapabilities_wf [inv_intros]:
  "db_wf s \<Longrightarrow> SaveAccountCapabilities aid caps nw s = Inr s' \<Longrightarrow> db_wf s'"
  by (auto simp: SaveAccountCapabilities_def with_db_Inr intro: in_tx_wf [of db_wf, OF upsert_capability_wf])

lemma insert_pool_member_wf: "db_wf s \<Longrightarrow> insert_pool_member pid aid s = Inr s' \<Longrightarrow> db_wf s'"
  using db_wf_refs [of s]
  by (auto simp: insert_pool_member_def op_simps db_wf_keys simp del: set_map split: if_splits intro!: db_wf_intros)

lemma upsert_pool_wf: "db_wf s \<Longrightarrow> upsert_pool p nw s = Inr s' \<Longrightarrow> db_wf s'"
  using db_wf_refs [of s]
  by (auto simp: upsert_pool_def op_simps db_wf_keys simp del: set_map split: if_splits intro!: db_wf_intros)

lemma SaveQuotaPool_wf [inv_intros]: "db_wf s \<Longrightarrow> SaveQuotaPool p nw s = Inr s' \<Longrightarrow> db_wf s'"
  by (auto simp: SaveQuotaPool_def with_db_Inr split: sum.splits
      intro: upsert_pool_wf in_tx_wf [of db_wf, OF insert_pool_member_wf])

lemma SaveQuotaSnapshot_wf [inv_intros]: "db_wf s \<Longrightarrow> SaveQuotaSnapshot q s = Inr s' \<Longrightarrow> db_wf s'"
  using db_wf_refs [of s]
  by (auto simp: SaveQuotaSnapshot_def op_simps db_wf_keys Let_def simp del: set_map split: if_splits intro!: db_wf_intros)

lemma upsert_row_keys_wf:
  assumes "\<And>r. key r = key row \<Longrightarrow> key (f r) = key r" and "distinct (map key rows)"
  shows "distinct (map key (upsert_row (\<lambda>r. key r = key row) f row rows))"
  using assms by (intro upsert_row_keys) auto

lemma SaveRoutingPolicy_wf [inv_intros]: "db_wf s \<Longrightarrow> SaveRoutingPolicy p nw s = Inr s' \<Longrightarrow> db_wf s'"
  using upsert_row_keys_wf [of rp_ID "routing_policy.extend p (routing_policy_row.fields nw)"
      "\<lambda>r. r\<lparr>rp_Candidates := rp_Candidates p, rp_Enabled := rp_Enabled p\<rparr>" "routing_policies s"]
  by (auto simp: SaveRoutingPolicy_def with_db_Inr db_wf_keys simp del: set_map intro!: db_wf_intros)

lemma SaveResponseBinding_wf [inv_intros]: "db_wf s \<Longrightarrow> SaveResponseBinding b nw s = Inr s' \<Longrightarrow> db_wf s'"
  using upsert_row_keys_wf [of rb_ResponseID "b\<lparr>rb_CreatedAt := nw\<rparr>"
      "\<lambda>r. r\<lparr>rb_ExpiresAt := rb_ExpiresAt b\<rparr>" "response_bindings s"]
  by (auto simp: SaveResponseBinding_def with_db_Inr db_wf_keys simp del: set_map intro!: db_wf_intros)

lemma inserts_wf [inv_intros]:
  "db_wf s \<Longrightarrow> RecordUsageEvent e nw s = Inr s' \<Longrightarrow> db_wf s'"
  "db_wf s \<Longrightarrow> UpsertPriceVersion p s = Inr s' \<Longrightarrow> db_wf s'"
  "db_wf s \<Longrightarrow> CreateProject q nw s = Inr s' \<Longrightarrow> db_wf s'"
  "db_wf s \<Longrightarrow> RecordAuditEvent a1 a2 a3 a4 ti nw s = Inr s' \<Longrightarrow> db_wf s'"
  by (auto simp: RecordUsageEvent_def UpsertPriceVersion_def CreateProject_def RecordAuditEvent_def
      Let_def op_simps db_wf_keys simp del: set_map split: if_splits intro!: db_wf_intros)

lemma CreateToken_wf [inv_intros]: "db_wf s \<Longrightarrow> CreateToken t s = Inr s' \<Longrightarrow> db_wf s'"
  by (auto simp: CreateToken_def with_db_Inr has_row_or db_wf_keys Let_def simp del: set_map split: if_splits intro!: db_wf_intros)

lemma token_updates_wf [inv_intros]:
  "db_wf s \<Longrightarrow> SetTokenEnabled i en s = Inr s' \<Longrightarrow> db_wf s'"
  "db_wf s \<Longrightarrow> TouchToken i nw s = Inr s' \<Longrightarrow> db_wf s'"
  by (auto simp: SetTokenEnabled_def TouchToken_def op_simps db_wf_keys simp del: set_map intro!: db_wf_intros)

lemma deletes_wf [inv_intros]:
  "db_wf s \<Longrightarrow> DeleteRoutingPolicy i s = Inr s' \<Longrightarrow> db_wf s'"
  "db_wf s \<Longrightarrow> DeleteToken i s = Inr s' \<Longrightarrow> db_wf s'"
  "db_wf s \<Longrightarrow> DeleteProject i s = Inr s' \<Longrightarrow> db_wf s'"
  by (auto simp: DeleteRoutingPolicy_def DeleteToken_def DeleteProject_def op_simps db_wf_keys
      distinct_del_where simp del: set_map intro!: db_wf_intros)

lemma DeleteProvider_wf [inv_intros]: "db_wf s \<Longrightarrow> DeleteProvider i s = Inr s' \<Longrightarrow> db_wf s'"
  using db_wf_refs [of s]
  by (auto simp: DeleteProvider_def with_db_Inr has_row_key db_wf_keys distinct_del_where
      map_del_where_key simp del: set_map split: if_splits intro!: db_wf_intros)

lemma DeleteAccount_wf [inv_intros]:
  assumes "db_wf s" and "DeleteAccount i s = Inr s'"
  shows "db_wf s'"
proof -
  from assms(2) have s': "s' = s\<lparr>accounts := del_where (\<lambda>r. ac_ID r = i) (accounts s)\<rparr>"
    and unused: "i \<notin> set (map am_AccountID (account_models s))"
      "i \<notin> set (map cap_AccountID (account_capabilities s))"
      "i \<notin> set (map pm_AccountID (quota_pool_members s))" "i \<notin> set (map qs_AccountID (quota_snapshots s))"
    by (auto simp: DeleteAccount_def with_db_Inr has_row_key simp del: set_map split: if_splits)
  have "set (map ac_ProviderID (del_where (\<lambda>r. ac_ID r = i) (accounts s))) \<subseteq> set (map pv_ID (providers s))"
    using db_wf_refs(1) [OF assms(1)] by auto
  moreover note db_wf_refs [OF assms(1)] unused
  ultimately show ?thesis
    unfolding s' using assms(1)
    by (intro db_wf_accounts) (auto simp: db_wf_keys distinct_del_where map_del_where_key simp del: set_map)
qed

lemma upd_job_wf:
  assumes "distinct (map job_key rows)" and "distinct (map rj_ID rows)"
    and "\<not> has_row (\<lambda>r. rj_ID r = i \<and> job_key r \<noteq> k) rows"
    and "\<And>r. job_key (f r) = job_key r" and "\<And>r. rj_ID (f r) = i"
  shows "distinct (map rj_ID (upd_where (\<lambda>r. job_key r = k) f rows))"
  using assms(1-3)
proof (induction rows)
  case Nil
  then show ?case by simp
next
  case (Cons r rs)
  then have IH: "distinct (map rj_ID (upd_where (\<lambda>r. job_key r = k) f rs))" by simp
  show ?case
  proof (cases "job_key r = k")
    case True
    with Cons.prems have "\<not> has_row (\<lambda>r. job_key r = k) rs"
      by (auto simp: has_row_iff image_iff)
    with True Cons.prems IH show ?thesis
      by (auto simp: upd_where_none assms has_row_iff image_iff)
  next
    case False
    with Cons.prems IH show ?thesis
      by (auto simp: set_upd_where assms has_row_iff image_iff)
  qed
qed

lemma UpsertRefreshJob_wf [inv_intros]:
  assumes "db_wf s" and "UpsertRefreshJob j nw s = Inr s'"
  shows "db_wf s'"
proof -
  let ?row = "j\<lparr>rj_CreatedAt := nw, rj_UpdatedAt := nw\<rparr>"
  let ?f = "\<lambda>r. r\<lparr>rj_ID := rj_ID j, rj_State := rj_State j, rj_StartedAt := rj_StartedAt j,
               rj_FinishedAt := rj_FinishedAt j, rj_NextRunAt := rj_NextRunAt j,
               rj_LastSuccessAt := rj_LastSuccessAt j, rj_RetryCount := rj_RetryCount j,
               rj_LastErrorCode := rj_LastErrorCode j, rj_UpdatedAt := nw\<rparr>"
  let ?rows = "upsert_row (\<lambda>r. job_key r = job_key j) ?f ?row (refresh_jobs s)"
  from assms have s': "s' = s\<lparr>refresh_jobs := ?rows\<rparr>"
    and free: "\<not> has_row (\<lambda>r. rj_ID r = rj_ID j \<and> job_key r \<noteq> job_key j) (refresh_jobs s)"
    by (auto simp: UpsertRefreshJob_def with_db_Inr split: if_splits)
  note d = db_wf_keys(18,17) [OF assms(1)]
  have "distinct (map job_key ?rows)"
    using upsert_row_keys_wf [of job_key ?row ?f "refresh_jobs s"] d by (simp add: job_key_def)
  moreover have "distinct (map rj_ID ?rows)"
  proof (cases "has_row (\<lambda>r. job_key r = job_key j) (refresh_jobs s)")
    case True
    with upd_job_wf [OF d free, of ?f] show ?thesis by (simp add: upsert_row_def job_key_def)
  next
    case False
    with d free show ?thesis by (auto simp: upsert_row_def has_row_iff)
  qed
  ultimately show ?thesis
    using assms(1) by (simp add: s' db_wf_plain)
qed

lemma job_updates_wf [inv_intros]:
  "db_wf s \<Longrightarrow> UpdateRefreshJobState i st fin nxt su rc cd nw s = Inr s' \<Longrightarrow> db_wf s'"
  "db_wf s \<Longrightarrow> MarkInterruptedRefreshJobs nw s = Inr (n, s') \<Longrightarrow> db_wf s'"
  by (auto simp: UpdateRefreshJobState_def MarkInterruptedRefreshJobs_def with_db_Inr
      job_key_def db_wf_keys simp del: set_map intro!: db_wf_intros)

lemma finish_row_keys [simp]:
  "attempt_key (finish_row a nw r) = attempt_key r" "ra_ID (finish_row a nw r) = ra_ID r"
  by (simp_all add: finish_row_def attempt_key_def)

lemma started_attempt_keys [simp]:
  "attempt_key (started_attempt a nw) = attempt_key a" "ra_ID (started_attempt a nw) = ra_ID a"
  by (simp_all add: started_attempt_def attempt_key_def)

lemma attempts_wf [inv_intros]:
  "db_wf s \<Longrightarrow> CreateAttempt a nw s = Inr s' \<Longrightarrow> db_wf s'"
  "db_wf s \<Longrightarrow> FinishAttempt a nw s = Inr s' \<Longrightarrow> db_wf s'"
  by (auto simp: CreateAttempt_def FinishAttempt_def op_simps db_wf_keys simp del: set_map split: if_splits intro!: db_wf_intros)

lemma MarkStaleAttempts_wf [inv_intros]:
  "db_wf s \<Longrightarrow> MarkStaleAttemptsInterrupted nw s = Inr (n, s') \<Longrightarrow> db_wf s'"
  by (auto simp: MarkStaleAttemptsInterrupted_def with_db_Inr attempt_key_def
      db_wf_keys simp del: set_map intro!: db_wf_intros)

section \<open>Sequences of calls\<close>

datatype store_op =
    OpCreateProvider provider
  | OpUpdateProvider string "string option" "string option"
  | OpDeleteProvider string
  | OpCreateAccount account
  | OpSetAccountStatus string string
  | OpSetAccountAuthState string string
  | OpUpdateAccountSecretRef string account
  | OpSetAccountVerifiedAt string string
  | OpSetAccountCredentialRef string string string string string
  | OpSetAccountName string string
  | OpDeleteAccount string
  | OpUpsertModels "model list"
  | OpSaveAccountModels string "model_info_row list"
  | OpSaveRoutingPolicy routing_policy
  | OpDeleteRoutingPolicy string
  | OpRecordUsageEvent usage_event
  | OpSaveAccountCapabilities string "account_capability list"
  | OpSaveQuotaPool quota_pool
  | OpSaveQuotaSnapshot quota_snapshot
  | OpUpsertRefreshJob refresh_job
  | OpUpdateRefreshJobState string string string string string int string
  | OpMarkInterruptedRefreshJobs
  | OpCreateAttempt request_attempt
  | OpFinishAttempt request_attempt
  | OpMarkStaleAttemptsInterrupted
  | OpUpsertPriceVersion price_version
  | OpCreateToken token
  | OpSetTokenEnabled string bool
  | OpDeleteToken string
  | OpTouchToken string
  | OpCreateProject project
  | OpDeleteProject string
  | OpSaveResponseBinding response_binding
  | OpRecordAuditEvent string string string string int

fun run_op :: "string \<Rightarrow> store_op \<Rightarrow> db \<Rightarrow> go_error + db" where
  "run_op nw (OpCreateProvider p) s = CreateProvider p nw s"
| "run_op nw (OpUpdateProvider i n b) s = UpdateProvider i n b nw s"
| "run_op nw (OpDeleteProvider i) s = DeleteProvider i s"
| "run_op nw (OpCreateAccount a) s = CreateAccount a nw s"
| "run_op nw (OpSetAccountStatus i v) s = SetAccountStatus i v nw s"
| "run_op nw (OpSetAccountAuthState i v) s = SetAccountAuthState i v nw s"
| "run_op nw (OpUpdateAccountSecretRef i r) s = UpdateAccountSecretRef i r nw s"
| "run_op nw (OpSetAccountVerifiedAt i v) s = SetAccountVerifiedAt i v nw s"
| "run_op nw (OpSetAccountCredentialRef i v sv ac fp) s = SetAccountCredentialRef i v sv ac fp nw s"
| "run_op nw (OpSetAccountName i v) s = SetAccountName i v nw s"
| "run_op nw (OpDeleteAccount i) s = DeleteAccount i s"
| "run_op nw (OpUpsertModels ms) s = UpsertModels ms nw s"
| "run_op nw (OpSaveAccountModels i ms) s = SaveAccountModels i ms nw s"
| "run_op nw (OpSaveRoutingPolicy p) s = SaveRoutingPolicy p nw s"
| "run_op nw (OpDeleteRoutingPolicy i) s = DeleteRoutingPolicy i s"
| "run_op nw (OpRecordUsageEvent e) s = RecordUsageEvent e nw s"
| "run_op nw (OpSaveAccountCapabilities i cs) s = SaveAccountCapabilities i cs nw s"
| "run_op nw (OpSaveQuotaPool p) s = SaveQuotaPool p nw s"
| "run_op nw (OpSaveQuotaSnapshot q) s = SaveQuotaSnapshot q s"
| "run_op nw (OpUpsertRefreshJob j) s = UpsertRefreshJob j nw s"
| "run_op nw (OpUpdateRefreshJobState i st fi nx su rc cd) s = UpdateRefreshJobState i st fi nx su rc cd nw s"
| "run_op nw OpMarkInterruptedRefreshJobs s = map_sum id snd (MarkInterruptedRefreshJobs nw s)"
| "run_op nw (OpCreateAttempt a) s = CreateAttempt a nw s"
| "run_op nw (OpFinishAttempt a) s = FinishAttempt a nw s"
| "run_op nw OpMarkStaleAttemptsInterrupted s = map_sum id snd (MarkStaleAttemptsInterrupted nw s)"
| "run_op nw (OpUpsertPriceVersion p) s = UpsertPriceVersion p s"
| "run_op nw (OpCreateToken t) s = CreateToken t s"
| "run_op nw (OpSetTokenEnabled i b) s = SetTokenEnabled i b s"
| "run_op nw (OpDeleteToken i) s = DeleteToken i s"
| "run_op nw (OpTouchToken i) s = TouchToken i nw s"
| "run_op nw (OpCreateProject p) s = CreateProject p nw s"
| "run_op nw (OpDeleteProject i) s = DeleteProject i s"
| "run_op nw (OpSaveResponseBinding b) s = SaveResponseBinding b nw s"
| "run_op nw (OpRecordAuditEvent ac an tg dt ti) s = RecordAuditEvent ac an tg dt ti nw s"

lemma map_sum_Inr: "map_sum id f r = Inr y \<longleftrightarrow> (\<exists>x. r = Inr x \<and> y = f x)"
  by (cases r) auto

lemma run_op_wf: "db_wf s \<Longrightarrow> run_op nw op s = Inr s' \<Longrightarrow> db_wf s'"
  by (cases op) (simp_all add: map_sum_Inr, (elim exE conjE | blast intro: inv_intros)+)

text \<open>The state after a call: a failed call leaves the database as it was.\<close>

definition after_op :: "string \<Rightarrow> store_op \<Rightarrow> db \<Rightarrow> db" where
  "after_op nw op s = (case run_op nw op s of Inl e \<Rightarrow> s | Inr s' \<Rightarrow> s')"

inductive db_reachable :: "db \<Rightarrow> bool" where
  db_init: "db_reachable empty_db"
| db_call: "db_reachable s \<Longrightarrow> db_reachable (after_op nw op s)"
| db_fault: "db_reachable s \<Longrightarrow> db_reachable (s\<lparr>db_down := e\<rparr>)"

inductive_cases db_reachableE: "db_reachable s"

text \<open>
  C4: in every database the repository's calls can lead to, with any of them failing and the
  driver failing at any time, primary keys and unique indexes are distinct and every
  reference (account to provider, model to provider, capability, snapshot and pool
  membership to account, account model to account and model) has its parent row.
\<close>

theorem reachable_db_integrity: "db_reachable s \<Longrightarrow> keys_wf s \<and> refs_wf s"
proof (induction rule: db_reachable.induct)
  case db_init
  then show ?case using db_wf_empty by (simp add: db_wf_def)
next
  case (db_call s nw op)
  then show ?case
    using run_op_wf [of s nw op] by (auto simp: after_op_def db_wf_def split: sum.splits)
next
  case (db_fault s e)
  then show ?case using db_wf_plain(10) [of s e] by (simp add: db_wf_def)
qed

lemma reachable_db_integrity_witness:
  "keys_wf (after_op ''t'' (OpCreateProject \<lparr>pj_ID = ''p'', pj_Name = ''n'', pj_CreatedAt = [], pj_UpdatedAt = []\<rparr>) empty_db)
   \<and> refs_wf (after_op ''t'' (OpCreateProject \<lparr>pj_ID = ''p'', pj_Name = ''n'', pj_CreatedAt = [], pj_UpdatedAt = []\<rparr>) empty_db)"
  by (rule reachable_db_integrity) (intro db_reachable.intros)

end
