(* ===== verification/Connector.thy ===== *)
theory Connector
  imports Errs
begin

text \<open>
  The connector contract (\<open>internal/connectors/connector.go\<close>, \<open>factory.go\<close>, the body
  readers of \<open>httpclient.go\<close>): the target of a call, the OpenAI-compatible request and
  response, and the classification of upstream errors on which retries rest. An \<open>int64\<close> is
  an \<open>int\<close>; a \<open>*float64\<close> is an optional decimal literal.
\<close>

section \<open>Data\<close>

type_synonym provider_kind = string

definition KindOpenAI :: provider_kind where "KindOpenAI = ''openai''"
definition KindAnthropic :: provider_kind where "KindAnthropic = ''anthropic''"
definition KindGemini :: provider_kind where "KindGemini = ''gemini''"
definition KindOpenAICompatible :: provider_kind where "KindOpenAICompatible = ''openai-compatible''"

datatype capability =
  CapValidateCredential | CapDiscoverModels | CapForward | CapStream | CapProbeHealth | CapFetchQuota

record target =
  t_ProviderKind :: provider_kind
  t_BaseURL :: string
  t_APIKey :: string
  t_ModelID :: string

record model_info =
  mi_UpstreamID :: string
  mi_ContextLimit :: int

record token_usage =
  InputTokens :: int
  OutputTokens :: int
  CacheTokens :: int
  ReasoningTokens :: int

definition zero_usage :: token_usage where
  "zero_usage = \<lparr>InputTokens = 0, OutputTokens = 0, CacheTokens = 0, ReasoningTokens = 0\<rparr>"

record health_probe =
  hp_OK :: bool
  hp_LatencyMS :: int
  hp_Status :: int
  hp_Error :: string

text \<open>A decimal literal: \<open>Dec m e\<close> is \<open>m * 10 ^ e\<close> for an integer \<open>e\<close>.\<close>

datatype decimal = Dec int int

record tool_call =
  tc_ID :: string
  tc_Type :: string
  tc_Name :: string
  tc_Arguments :: string

record chat_message =
  Role :: string
  Content :: string
  cm_Name :: string
  ToolCalls :: "tool_call list"
  ToolCallID :: string

text \<open>\<open>Tools []any\<close> is passed through: a list over any type \<open>'j\<close> of JSON values.\<close>

record 'j chat_request =
  cr_Model :: string
  Messages :: "chat_message list"
  Stream :: bool
  Temperature :: "decimal option"
  MaxTokens :: "int option"
  TopP :: "decimal option"
  Stop :: "string list"
  Tools :: "'j list"
  IncludeUsage :: "bool option"

record usage_dto =
  PromptTokens :: int
  CompletionTokens :: int
  TotalTokens :: int
  CachedTokens :: "int option"
  CompletionReasoning :: "int option"

record chat_choice =
  ch_Index :: int
  ch_Message :: chat_message
  FinishReason :: string

record chat_response =
  cp_ID :: string
  cp_Object :: string
  cp_Created :: int
  cp_Model :: string
  Choices :: "chat_choice list"
  cp_Usage :: "usage_dto option"

definition NewChatRequest :: "string \<Rightarrow> chat_message list \<Rightarrow> 'j chat_request" where
  "NewChatRequest model msgs = \<lparr>cr_Model = model, Messages = msgs, Stream = False, Temperature = None,
     MaxTokens = None, TopP = None, Stop = [], Tools = [], IncludeUsage = None\<rparr>"

section \<open>Which connector serves a platform\<close>

datatype connector_impl = AnthropicImpl | GeminiImpl | OpenAICompatibleImpl provider_kind

definition NewConnector :: "provider_kind \<Rightarrow> connector_impl" where
  "NewConnector kind =
     (if kind = KindAnthropic then AnthropicImpl
      else if kind = KindGemini then GeminiImpl
      else OpenAICompatibleImpl kind)"

fun connector_Kind :: "connector_impl \<Rightarrow> provider_kind" where
  "connector_Kind AnthropicImpl = KindAnthropic"
| "connector_Kind GeminiImpl = KindGemini"
| "connector_Kind (OpenAICompatibleImpl k) = k"

definition connector_Capabilities :: "connector_impl \<Rightarrow> capability list" where
  "connector_Capabilities c =
     [CapValidateCredential, CapDiscoverModels, CapForward, CapStream, CapProbeHealth]"

lemma connector_Kind_NewConnector [simp]: "connector_Kind (NewConnector kind) = kind"
  by (simp add: NewConnector_def)

text \<open>\<open>baseURL\<close>: the configured address without trailing slashes.\<close>

definition baseURL :: "target \<Rightarrow> string" where
  "baseURL t = trim_right_of (\<lambda>c. c = CHR ''/'') (t_BaseURL t)"

section \<open>Classification of upstream errors\<close>

definition ErrUnsupported :: go_error where
  "ErrUnsupported = Sentinel ''connectors: capability unsupported''"
definition ErrQuotaExhausted :: go_error where
  "ErrQuotaExhausted = Sentinel ''connectors: quota exhausted''"
definition ErrRateLimited :: go_error where
  "ErrRateLimited = Sentinel ''connectors: upstream rate limited''"
definition ErrAuth :: go_error where
  "ErrAuth = Sentinel ''connectors: upstream authentication failed''"
definition ErrTimeout :: go_error where
  "ErrTimeout = Sentinel ''connectors: upstream timeout''"
definition ErrNetwork :: go_error where
  "ErrNetwork = Sentinel ''connectors: network error''"
definition ErrUpstream :: go_error where
  "ErrUpstream = Sentinel ''connectors: upstream server error''"
definition ErrTruncated :: go_error where
  "ErrTruncated = Sentinel ''connectors: upstream stream truncated''"
definition ErrModelUnavailable :: go_error where
  "ErrModelUnavailable = Sentinel ''connectors: upstream model unavailable''"

lemmas connector_sentinels =
  ErrUnsupported_def ErrQuotaExhausted_def ErrRateLimited_def ErrAuth_def ErrTimeout_def
  ErrNetwork_def ErrUpstream_def ErrTruncated_def ErrModelUnavailable_def

definition Retryable :: "go_error option \<Rightarrow> bool" where
  "Retryable err = (case err of None \<Rightarrow> False
     | Some e \<Rightarrow>
         if errors_is e ErrRateLimited then True
         else if errors_is e ErrTimeout then True
         else if errors_is e ErrNetwork then True
         else if errors_is e ErrTruncated then True
         else if errors_is e ErrUpstream then True
         else False)"

text \<open>\<open>errors.As(err, &ne)\<close> with a \<open>net.Error\<close>: an error of the chain has its methods.\<close>

fun is_net_error_value :: "go_error \<Rightarrow> bool" where
  "is_net_error_value (NetError s c) = True"
| "is_net_error_value _ = False"

definition isNetErr :: "go_error \<Rightarrow> bool" where
  "isNetErr err \<longleftrightarrow>
     list_ex is_net_error_value (err_tree err) \<or> errors_is err io_EOF \<or> errors_is err ECONNRESET"

definition Classify :: "int \<Rightarrow> go_error option \<Rightarrow> go_error" where
  "Classify status err =
    (if err \<noteq> None \<and> errors_is (the err) context_DeadlineExceeded
       then UpstreamError ErrTimeout status [] err
     else if err \<noteq> None \<and> isNetErr (the err) then UpstreamError ErrNetwork status [] err
     else if status = 429 then UpstreamError ErrRateLimited status [] None
     else if status = 401 \<or> status = 403 then UpstreamError ErrAuth status [] None
     else if status = 404 then UpstreamError ErrModelUnavailable status [] None
     else if 500 \<le> status \<and> status \<le> 599 then UpstreamError ErrUpstream status [] None
     else (case err of Some e \<Rightarrow> e | None \<Rightarrow> UpstreamError ErrUpstream status [] None))"

definition redactInline :: "string \<Rightarrow> string" where
  "redactInline s = (if 300 < length s then take 300 s @ ''...'' else s)"

fun set_body :: "go_error \<Rightarrow> string \<Rightarrow> go_error" where
  "set_body (UpstreamError k st b c) body = UpstreamError k st (redactInline body) c"
| "set_body e body = e"

definition ClassifyWithBody :: "int \<Rightarrow> string \<Rightarrow> go_error" where
  "ClassifyWithBody status body = set_body (Classify status None) body"

text \<open>Facts about the classification the clients use.\<close>

lemma Retryable_None [simp]: "\<not> Retryable None"
  by (simp add: Retryable_def)

lemma Retryable_Upstream_sentinel:
  "Retryable (Some (UpstreamError (Sentinel s) st b c)) \<longleftrightarrow>
     Sentinel s \<in> {ErrRateLimited, ErrTimeout, ErrNetwork, ErrTruncated, ErrUpstream}"
  by (auto simp: Retryable_def connector_sentinels)

lemma Retryable_kinds [simp]:
  "Retryable (Some (UpstreamError ErrRateLimited st b c))"
  "Retryable (Some (UpstreamError ErrTimeout st b c))"
  "Retryable (Some (UpstreamError ErrNetwork st b c))"
  "Retryable (Some (UpstreamError ErrTruncated st b c))"
  "Retryable (Some (UpstreamError ErrUpstream st b c))"
  "\<not> Retryable (Some (UpstreamError ErrAuth st b c))"
  "\<not> Retryable (Some (UpstreamError ErrModelUnavailable st b c))"
  "Retryable (Some ErrTruncated)"
  by (simp_all add: Retryable_def connector_sentinels)

lemma Retryable_Wrap [simp]: "Retryable (Some (WrapError p e q)) = Retryable (Some e)"
  by (simp add: Retryable_def connector_sentinels)

lemma Retryable_TextError [simp]: "\<not> Retryable (Some (TextError s))"
  by (simp add: Retryable_def connector_sentinels)

lemma Classify_None_UpstreamError:
  "\<exists>k. Classify status None = UpstreamError (Sentinel k) status [] None"
  by (simp add: Classify_def connector_sentinels)

lemma ClassifyWithBody_shape:
  "\<exists>k. Classify status None = UpstreamError (Sentinel k) status [] None \<and>
       ClassifyWithBody status body = UpstreamError (Sentinel k) status (redactInline body) None"
  using Classify_None_UpstreamError [of status] by (auto simp: ClassifyWithBody_def)

lemma Retryable_ClassifyWithBody:
  "Retryable (Some (ClassifyWithBody status body)) = Retryable (Some (Classify status None))"
  using ClassifyWithBody_shape [of status body] by (auto simp: Retryable_Upstream_sentinel)

lemma length_redactInline: "length (redactInline s) \<le> 303"
  by (simp add: redactInline_def)

text \<open>
  Exactly which classified failures are retryable. A deadline and a network error are,
  whatever the status; then 429 and every status outside 401, 403 and 404 when there is no
  underlying error, and otherwise a 5xx status or an underlying error that is itself
  retryable. In particular the classification of a bare 400 (or any other status that is
  not listed) is retryable.
\<close>

theorem Classify_Retryable_iff:
  "Retryable (Some (Classify status err)) \<longleftrightarrow>
    (case err of
       None \<Rightarrow> status \<notin> {401, 403, 404}
     | Some e \<Rightarrow> errors_is e context_DeadlineExceeded \<or> isNetErr e \<or>
         (status \<notin> {401, 403, 404} \<and>
           (status = 429 \<or> (500 \<le> status \<and> status \<le> 599) \<or> Retryable (Some e))))"
  by (cases err) (auto simp: Classify_def)

end
