(* ===== verification/Router.thy ===== *)
theory Router
  imports Store Connector
begin

text \<open>
  The routing engine (\<open>internal/router/router.go\<close>): which accounts may serve a model name,
  and the failover loops of a plain and of a streamed request. The resolver (which opens
  the credential), the connectors and the clock are arguments indexed by the position of
  the candidate, since two attempts may see different answers. The state \<open>'s\<close> is whatever
  the attempt hook, the resolver and the client's callback act on.
\<close>

section \<open>Data\<close>

record decision =
  d_RequestID :: string
  d_Alias :: string
  d_PolicyID :: string
  d_Selected :: string
  d_Candidates :: "string list"
  d_ReasonCodes :: "string list"
  d_CreatedAt :: int

record resolved_target =
  rt_AccountID :: string
  rt_ModelID :: string
  rt_Target :: target

record attempt_info =
  ai_RequestID :: string
  ai_AccountID :: string
  ai_ProviderID :: string
  ai_LogicalModel :: string
  ai_ActualModel :: string
  ai_Protocol :: string

record attempt_result =
  ar_Status :: string
  ar_InputTokens :: int
  ar_OutputTokens :: int
  ar_CacheReadTokens :: int
  ar_CacheWriteTokens :: int
  ar_ReasoningTokens :: int
  ar_Metering :: string
  ar_LatencyMS :: int
  ar_StatusCode :: int
  ar_ErrorClass :: string
  ar_ReasonCode :: string

text \<open>The hook; the number is the position of the candidate (the source of fresh ids and times).\<close>

record 's attempt_hook =
  hook_Start :: "nat \<Rightarrow> attempt_info \<Rightarrow> 's \<Rightarrow> string \<times> 's"
  hook_Finish :: "nat \<Rightarrow> string \<Rightarrow> string \<Rightarrow> attempt_result \<Rightarrow> 's \<Rightarrow> 's"

definition ErrNoCandidate :: go_error where
  "ErrNoCandidate = Sentinel ''router: no usable candidate''"

section \<open>Candidates\<close>

definition account_routable :: "account \<Rightarrow> bool" where
  "account_routable a \<longleftrightarrow> ac_Status a = ''active'' \<and> ac_Mode a \<noteq> ModeMonitorOnly"

definition accountUsable :: "string \<Rightarrow> db \<Rightarrow> go_error + bool" where
  "accountUsable aid s = (case GetAccount aid s of
       Inl e \<Rightarrow> Inl e
     | Inr a \<Rightarrow> if ac_Status a \<noteq> ''active'' then Inr False
                else if ac_Mode a = ModeMonitorOnly then Inr False
                else Inr True)"

definition accountHasModel :: "string \<Rightarrow> string \<Rightarrow> db \<Rightarrow> go_error + bool" where
  "accountHasModel aid mid s = map_sum id (\<lambda>n. 0 < n) (CountAccountModel aid mid s)"

definition defaultCandidates :: "string \<Rightarrow> db \<Rightarrow> go_error + candidate list \<times> string" where
  "defaultCandidates m s = (case ListAccounts s of
       Inl e \<Rightarrow> Inl e
     | Inr accs \<Rightarrow>
         let cands = map (\<lambda>a. \<lparr>cd_AccountID = ac_ID a, cd_ModelID = m, cd_Priority = 1, cd_Weight = 1\<rparr>)
               (filter (\<lambda>a. \<not> (ac_Status a \<noteq> ''active'' \<or> ac_Mode a = ModeMonitorOnly)
                            \<and> accountHasModel (ac_ID a) m s = Inr True) accs)
         in if cands = [] then Inl ErrNoCandidate else Inr (cands, []))"

definition resolveCandidates :: "string \<Rightarrow> db \<Rightarrow> go_error + candidate list \<times> string" where
  "resolveCandidates m s = (case GetRoutingPolicyByAlias m s of
       Inr policy \<Rightarrow>
         if \<not> rp_Enabled policy then Inl ErrNoCandidate
         else if rp_Candidates policy = [] then Inl ErrNoCandidate
         else let usable = filter (\<lambda>c. accountUsable (cd_AccountID c) s = Inr True) (rp_Candidates policy)
              in if usable = [] then Inl ErrNoCandidate
                 else Inr (sort_key cd_Priority usable, rp_ID policy)
     | Inl e \<Rightarrow> if \<not> errors_is e ErrNoRows then Inl e else defaultCandidates m s)"

section \<open>Attempt bookkeeping\<close>

definition errClass :: "go_error \<Rightarrow> string" where
  "errClass e =
    (if errors_is e ErrRateLimited then ''rate_limited''
     else if errors_is e ErrAuth then ''auth''
     else if errors_is e ErrTimeout then ''timeout''
     else if errors_is e ErrNetwork then ''network''
     else if errors_is e ErrTruncated then ''truncated''
     else if errors_is e ErrQuotaExhausted then ''quota_exhausted''
     else ''upstream_error'')"

definition safeToRetry :: "go_error option \<Rightarrow> bool" where
  "safeToRetry err = (if err = None then False else Retryable err)"

definition blank_result :: "string \<Rightarrow> int \<Rightarrow> attempt_result" where
  "blank_result status lat = \<lparr>ar_Status = status, ar_InputTokens = 0, ar_OutputTokens = 0,
     ar_CacheReadTokens = 0, ar_CacheWriteTokens = 0, ar_ReasoningTokens = 0, ar_Metering = [],
     ar_LatencyMS = lat, ar_StatusCode = 0, ar_ErrorClass = [], ar_ReasonCode = []\<rparr>"

definition startAttempt ::
  "'s attempt_hook option \<Rightarrow> string \<Rightarrow> candidate \<Rightarrow> string \<Rightarrow> nat \<Rightarrow> 's \<Rightarrow> string \<times> 's" where
  "startAttempt hook rid c alias i s = (case hook of
       None \<Rightarrow> ([], s)
     | Some h \<Rightarrow> hook_Start h i
         \<lparr>ai_RequestID = rid, ai_AccountID = cd_AccountID c, ai_ProviderID = [], ai_LogicalModel = alias,
          ai_ActualModel = cd_ModelID c, ai_Protocol = ''chat.completions''\<rparr> s)"

definition success_result :: "chat_response \<Rightarrow> int \<Rightarrow> string \<Rightarrow> attempt_result" where
  "success_result resp lat status =
    (let r = (blank_result status lat)\<lparr>ar_ReasonCode := ''ok''\<rparr> in
     case cp_Usage resp of
       None \<Rightarrow> r\<lparr>ar_Metering := ''unknown''\<rparr>
     | Some u \<Rightarrow> r\<lparr>ar_InputTokens := PromptTokens u, ar_OutputTokens := CompletionTokens u,
         ar_Metering := ''reported'',
         ar_CacheReadTokens := (case CachedTokens u of None \<Rightarrow> 0 | Some n \<Rightarrow> n)\<rparr>)"

text \<open>All three finishers do nothing without a hook or without an attempt id.\<close>

definition finish_with ::
  "'s attempt_hook option \<Rightarrow> nat \<Rightarrow> string \<Rightarrow> string \<Rightarrow> attempt_result \<Rightarrow> 's \<Rightarrow> 's" where
  "finish_with hook i rid att res s = (case hook of
       None \<Rightarrow> s
     | Some h \<Rightarrow> if att = [] then s else hook_Finish h i rid att res s)"

definition finishAttempt ::
  "'s attempt_hook option \<Rightarrow> nat \<Rightarrow> string \<Rightarrow> string \<Rightarrow> chat_response \<Rightarrow> int \<Rightarrow> string \<Rightarrow> 's \<Rightarrow> 's" where
  "finishAttempt hook i rid att resp lat status s =
     finish_with hook i rid att (success_result resp lat status) s"

fun upstream_status :: "go_error \<Rightarrow> int" where
  "upstream_status (UpstreamError k st b c) = st"
| "upstream_status _ = 0"

definition error_result :: "go_error \<Rightarrow> int \<Rightarrow> string \<Rightarrow> attempt_result" where
  "error_result e lat status = (blank_result status lat)\<lparr>ar_Metering := ''unknown'',
     ar_ErrorClass := errClass e, ar_ReasonCode := ''upstream_error'', ar_StatusCode := upstream_status e\<rparr>"

definition finishAttemptError ::
  "'s attempt_hook option \<Rightarrow> nat \<Rightarrow> string \<Rightarrow> string \<Rightarrow> go_error \<Rightarrow> int \<Rightarrow> string \<Rightarrow> 's \<Rightarrow> 's" where
  "finishAttemptError hook i rid att e lat status s =
     finish_with hook i rid att (error_result e lat status) s"

definition stream_result :: "token_usage option \<Rightarrow> int \<Rightarrow> string \<Rightarrow> go_error option \<Rightarrow> attempt_result" where
  "stream_result usage lat status err =
    (let r = (blank_result status lat)\<lparr>ar_Metering := ''unknown''\<rparr>;
         r1 = (case usage of None \<Rightarrow> r
               | Some u \<Rightarrow> r\<lparr>ar_InputTokens := InputTokens u, ar_OutputTokens := OutputTokens u,
                   ar_CacheReadTokens := CacheTokens u, ar_Metering := ''reported''\<rparr>)
     in case err of None \<Rightarrow> r1
        | Some e \<Rightarrow> r1\<lparr>ar_ErrorClass := errClass e, ar_ReasonCode := ''upstream_error''\<rparr>)"

definition finishAttemptStream ::
  "'s attempt_hook option \<Rightarrow> nat \<Rightarrow> string \<Rightarrow> string \<Rightarrow> token_usage option \<Rightarrow> int \<Rightarrow> string
     \<Rightarrow> go_error option \<Rightarrow> 's \<Rightarrow> 's" where
  "finishAttemptStream hook i rid att usage lat status err s =
     finish_with hook i rid att (stream_result usage lat status err) s"

lemma result_status [simp]:
  "ar_Status (success_result r l st) = st" "ar_Status (error_result e l st) = st"
  "ar_Status (stream_result u l st er) = st"
  by (simp_all add: success_result_def error_result_def stream_result_def blank_result_def Let_def
      split: option.split)

section \<open>Forwarding\<close>

type_synonym 's resolver = "nat \<Rightarrow> string \<Rightarrow> 's \<Rightarrow> (go_error + resolved_target) \<times> 's"
type_synonym 'j forwarder = "nat \<Rightarrow> connector_impl \<Rightarrow> target \<Rightarrow> 'j chat_request \<Rightarrow> go_error + chat_response"

definition select :: "candidate \<Rightarrow> decision \<Rightarrow> decision" where
  "select c d = (let sel = cd_AccountID c @ ''@'' @ cd_ModelID c
     in d\<lparr>d_Selected := sel, d_Candidates := d_Candidates d @ [sel]\<rparr>)"

definition add_reason :: "string \<Rightarrow> decision \<Rightarrow> decision" where
  "add_reason code d = d\<lparr>d_ReasonCodes := d_ReasonCodes d @ [code]\<rparr>"

fun forward_loop ::
  "'s attempt_hook option \<Rightarrow> 's resolver \<Rightarrow> 'j forwarder \<Rightarrow> (nat \<Rightarrow> int) \<Rightarrow> string \<Rightarrow> 'j chat_request \<Rightarrow> string
     \<Rightarrow> nat \<Rightarrow> candidate list \<Rightarrow> decision \<Rightarrow> go_error \<Rightarrow> 's \<Rightarrow> ((go_error + chat_response) \<times> decision) \<times> 's" where
  "forward_loop hook resolve fwd lat alias req rid i [] d lastErr s = ((Inl lastErr, d), s)"
| "forward_loop hook resolve fwd lat alias req rid i (c # cs) d lastErr s =
    (case resolve i (cd_AccountID c) s of
       (Inl e, s0) \<Rightarrow> forward_loop hook resolve fwd lat alias req rid (Suc i) cs d e s0
     | (Inr tgt, s0) \<Rightarrow>
         let d1 = select c d;
             (att, s1) = startAttempt hook rid c alias i s0
         in (case fwd i (NewConnector (t_ProviderKind (rt_Target tgt))) (rt_Target tgt)
                   (req\<lparr>cr_Model := cd_ModelID c\<rparr>) of
               Inr resp \<Rightarrow>
                 ((Inr resp, add_reason ''ok'' d1), finishAttempt hook i rid att resp (lat i) ''success'' s1)
             | Inl e \<Rightarrow>
                 let s2 = finishAttemptError hook i rid att e (lat i) ''failed'' s1;
                     d2 = add_reason ''failover'' d1
                 in if \<not> safeToRetry (Some e) then ((Inl e, d2), s2)
                    else forward_loop hook resolve fwd lat alias req rid (Suc i) cs d2 e s2))"

definition new_decision :: "string \<Rightarrow> string \<Rightarrow> string \<Rightarrow> int \<Rightarrow> decision" where
  "new_decision rid alias pid t_unix = \<lparr>d_RequestID = rid, d_Alias = alias, d_PolicyID = pid,
     d_Selected = [], d_Candidates = [], d_ReasonCodes = [], d_CreatedAt = t_unix\<rparr>"

definition Forward ::
  "('s \<Rightarrow> db) \<Rightarrow> 's attempt_hook option \<Rightarrow> 's resolver \<Rightarrow> 'j forwarder \<Rightarrow> (nat \<Rightarrow> int) \<Rightarrow> int \<Rightarrow> string
     \<Rightarrow> 'j chat_request \<Rightarrow> string \<Rightarrow> 's \<Rightarrow> ((go_error + chat_response) \<times> decision option) \<times> 's" where
  "Forward store hook resolve fwd lat t_unix alias req rid s =
    (case resolveCandidates alias (store s) of
       Inl e \<Rightarrow> ((Inl e, None), s)
     | Inr (cands, pid) \<Rightarrow>
         let ((r, d), s') = forward_loop hook resolve fwd lat alias req rid 0 cands
                              (new_decision rid alias pid t_unix) ErrNoCandidate s
         in ((r, Some d), s'))"

text \<open>
  The streamed request. The connector calls the client's callback, wrapped to note that
  something was output; the note is the first component of the state it runs on.
\<close>

type_synonym 'w callback = "string \<Rightarrow> 'w \<Rightarrow> go_error option \<times> 'w"
type_synonym ('j, 's) streamer =
  "nat \<Rightarrow> connector_impl \<Rightarrow> target \<Rightarrow> 'j chat_request \<Rightarrow> (bool \<times> 's) callback \<Rightarrow> bool \<times> 's
     \<Rightarrow> (token_usage option \<times> go_error option) \<times> (bool \<times> 's)"

definition wrapped :: "'s callback \<Rightarrow> (bool \<times> 's) callback" where
  "wrapped onChunk b w = (let (e, s') = onChunk b (snd w) in (e, (True, s')))"

fun stream_loop ::
  "'s attempt_hook option \<Rightarrow> 's resolver \<Rightarrow> ('j, 's) streamer \<Rightarrow> (nat \<Rightarrow> int) \<Rightarrow> string \<Rightarrow> 'j chat_request \<Rightarrow> string
     \<Rightarrow> 's callback \<Rightarrow> nat \<Rightarrow> candidate list \<Rightarrow> decision \<Rightarrow> go_error \<Rightarrow> bool \<times> 's
     \<Rightarrow> ((go_error + token_usage option) \<times> decision) \<times> (bool \<times> 's)" where
  "stream_loop hook resolve fs lat alias req rid cb i [] d lastErr w = ((Inl lastErr, d), w)"
| "stream_loop hook resolve fs lat alias req rid cb i (c # cs) d lastErr w =
    (case resolve i (cd_AccountID c) (snd w) of
       (Inl e, s0) \<Rightarrow> stream_loop hook resolve fs lat alias req rid cb (Suc i) cs d e (fst w, s0)
     | (Inr tgt, s0) \<Rightarrow>
         let d1 = select c d;
             (att, s1) = startAttempt hook rid c alias i s0;
             ((usage, err), (streamed, s2)) =
               fs i (NewConnector (t_ProviderKind (rt_Target tgt))) (rt_Target tgt)
                 (req\<lparr>cr_Model := cd_ModelID c\<rparr>) (wrapped cb) (fst w, s1)
         in (case err of
               None \<Rightarrow>
                 ((Inr usage, add_reason ''ok'' d1),
                  (streamed, finishAttemptStream hook i rid att usage (lat i) ''success'' None s2))
             | Some e \<Rightarrow>
                 let s3 = finishAttemptStream hook i rid att usage (lat i)
                            (if streamed then ''partial'' else ''failed'') (Some e) s2;
                     d2 = add_reason ''failover'' d1
                 in if streamed then ((Inl e, d2), (streamed, s3))
                    else if \<not> safeToRetry (Some e) then ((Inl e, d2), (streamed, s3))
                    else stream_loop hook resolve fs lat alias req rid cb (Suc i) cs d2 e (streamed, s3)))"

definition ForwardStream ::
  "('s \<Rightarrow> db) \<Rightarrow> 's attempt_hook option \<Rightarrow> 's resolver \<Rightarrow> ('j, 's) streamer \<Rightarrow> (nat \<Rightarrow> int) \<Rightarrow> int \<Rightarrow> string
     \<Rightarrow> 'j chat_request \<Rightarrow> string \<Rightarrow> 's callback \<Rightarrow> 's
     \<Rightarrow> ((go_error + token_usage option) \<times> decision option) \<times> 's" where
  "ForwardStream store hook resolve fs lat t_unix alias req rid cb s =
    (case resolveCandidates alias (store s) of
       Inl e \<Rightarrow> ((Inl e, None), s)
     | Inr (cands, pid) \<Rightarrow>
         let ((r, d), w) = stream_loop hook resolve fs lat alias req rid cb 0 cands
                             (new_decision rid alias pid t_unix) ErrNoCandidate (False, s)
         in ((r, Some d), snd w))"

section \<open>Which candidates are chosen\<close>

lemma accountUsable_iff:
  "accountUsable aid s = Inr True \<longleftrightarrow> (\<exists>a. GetAccount aid s = Inr a \<and> account_routable a)"
  by (auto simp: accountUsable_def account_routable_def split: sum.splits)

lemma GetAccount_Inr:
  "GetAccount aid s = Inr a \<Longrightarrow> \<exists>r \<in> set (accounts s). ac_ID r = aid \<and> a = account.truncate r"
  by (auto simp: GetAccount_def with_db_def query_row_def split: option.splits dest: find_SomeD)

lemma truncate_account [simp]:
  "ac_ID (account.truncate r) = ac_ID r" "ac_Status (account.truncate r) = ac_Status r"
  "ac_Mode (account.truncate r) = ac_Mode r" "ac_ProviderID (account.truncate r) = ac_ProviderID r"
  "ac_AuthType (account.truncate r) = ac_AuthType r"
  by (simp_all add: account.truncate_def)

lemma sort_key_Nil [simp]: "sort_key f xs = [] \<longleftrightarrow> xs = []"
  by (metis set_empty set_sort)

lemma resolveCandidates_cases:
  assumes "resolveCandidates m s = Inr (cands, pid)"
  shows "(\<exists>p. GetRoutingPolicyByAlias m s = Inr p \<and> rp_Enabled p \<and> pid = rp_ID p \<and>
            cands = sort_key cd_Priority
              (filter (\<lambda>c. accountUsable (cd_AccountID c) s = Inr True) (rp_Candidates p)) \<and> cands \<noteq> [])
       \<or> (GetRoutingPolicyByAlias m s = Inl ErrNoRows \<and> defaultCandidates m s = Inr (cands, pid))"
proof (cases "GetRoutingPolicyByAlias m s")
  case (Inl e)
  with assms have d: "defaultCandidates m s = Inr (cands, pid)"
    by (auto simp: resolveCandidates_def split: if_splits)
  moreover from Inl have "e = ErrNoRows \<or> db_down s = Some e"
    by (auto simp: GetRoutingPolicyByAlias_def with_db_def query_row_def split: option.splits)
  moreover from d have "db_down s = None"
    by (auto simp: defaultCandidates_def ListAccounts_def with_db_def split: sum.splits option.splits)
  ultimately show ?thesis using Inl by auto
next
  case (Inr p)
  with assms show ?thesis
    by (auto simp: resolveCandidates_def Let_def split: if_splits)
qed

lemma defaultCandidates_routable:
  assumes "defaultCandidates m s = Inr (cands, pid)"
  shows "cands \<noteq> [] \<and> (\<forall>c \<in> set cands. cd_Priority c = 1 \<and>
    (\<exists>a \<in> set (accounts s). ac_ID a = cd_AccountID c \<and> ac_Status a = ''active'' \<and> ac_Mode a \<noteq> ModeMonitorOnly))"
  using assms
  by (fastforce simp: defaultCandidates_def ListAccounts_def with_db_def order_by_def Let_def
      split: sum.splits option.splits if_splits)

text \<open>
  C9: the candidates of a model name are never empty, come in non-decreasing priority, and
  each belongs to an account that exists, is active and is not monitor-only; when a policy
  has the name as its alias they are exactly the policy's usable candidates, in the order of
  their priorities and, for equal priorities, in the policy's own order.
\<close>

theorem resolveCandidates_sound:
  assumes "resolveCandidates m s = Inr (cands, pid)"
  shows "cands \<noteq> [] \<and> sorted (map cd_Priority cands) \<and>
    (\<forall>c \<in> set cands. \<exists>a \<in> set (accounts s). ac_ID a = cd_AccountID c \<and>
        ac_Status a = ''active'' \<and> ac_Mode a \<noteq> ModeMonitorOnly) \<and>
    (\<forall>p. GetRoutingPolicyByAlias m s = Inr p \<longrightarrow> rp_Enabled p \<and>
       (\<forall>n. filter (\<lambda>c. cd_Priority c = n) cands =
            filter (\<lambda>c. cd_Priority c = n \<and> accountUsable (cd_AccountID c) s = Inr True) (rp_Candidates p)))"
  using resolveCandidates_cases [OF assms]
proof (elim disjE exE conjE)
  fix p assume p: "GetRoutingPolicyByAlias m s = Inr p" "rp_Enabled p" "cands \<noteq> []"
    and c: "cands = sort_key cd_Priority
       (filter (\<lambda>c. accountUsable (cd_AccountID c) s = Inr True) (rp_Candidates p))"
  have "\<exists>a \<in> set (accounts s). ac_ID a = cd_AccountID c \<and> ac_Status a = ''active'' \<and> ac_Mode a \<noteq> ModeMonitorOnly"
    if "c \<in> set cands" for c
    using that by (auto simp: c accountUsable_iff account_routable_def dest!: GetAccount_Inr)
  moreover have "filter (\<lambda>c. cd_Priority c = n) cands =
      filter (\<lambda>c. cd_Priority c = n \<and> accountUsable (cd_AccountID c) s = Inr True) (rp_Candidates p)" for n
    unfolding c sort_key_stable by (simp add: conj_commute)
  ultimately show ?thesis using p by (auto simp: c)
next
  assume d: "GetRoutingPolicyByAlias m s = Inl ErrNoRows" "defaultCandidates m s = Inr (cands, pid)"
  then have "map cd_Priority cands = map (\<lambda>c. 1) cands"
    using defaultCandidates_routable [OF d(2)] by auto
  with d show ?thesis using defaultCandidates_routable [OF d(2)]
    by (auto simp: map_replicate_const)
qed

section \<open>What a plain request returns\<close>

text \<open>What happens to one candidate, and whether the next one is then tried.\<close>

datatype 'r outcome = Skipped go_error | Failed go_error | Served 'r

definition try_candidate ::
  "'s attempt_hook option \<Rightarrow> 's resolver \<Rightarrow> 'j forwarder \<Rightarrow> (nat \<Rightarrow> int) \<Rightarrow> string \<Rightarrow> 'j chat_request \<Rightarrow> string
     \<Rightarrow> nat \<Rightarrow> candidate \<Rightarrow> 's \<Rightarrow> chat_response outcome \<times> 's" where
  "try_candidate hook resolve fwd lat alias req rid i c s = (case resolve i (cd_AccountID c) s of
       (Inl e, s0) \<Rightarrow> (Skipped e, s0)
     | (Inr tgt, s0) \<Rightarrow>
         let (att, s1) = startAttempt hook rid c alias i s0
         in (case fwd i (NewConnector (t_ProviderKind (rt_Target tgt))) (rt_Target tgt) (req\<lparr>cr_Model := cd_ModelID c\<rparr>) of
               Inl e \<Rightarrow> (Failed e, finishAttemptError hook i rid att e (lat i) ''failed'' s1)
             | Inr r \<Rightarrow> (Served r, finishAttempt hook i rid att r (lat i) ''success'' s1)))"

text \<open>The outcome of candidate \<open>k\<close> of a list, when all before it have been tried, and the state after it.\<close>

primrec nth_try ::
  "(nat \<Rightarrow> candidate \<Rightarrow> 's \<Rightarrow> 'r outcome \<times> 's) \<Rightarrow> nat \<Rightarrow> candidate list \<Rightarrow> 's \<Rightarrow> nat \<Rightarrow> 'r outcome \<times> 's" where
  "nth_try f i cs s 0 = f i (cs ! 0) s"
| "nth_try f i cs s (Suc k) = f (i + Suc k) (cs ! Suc k) (snd (nth_try f i cs s k))"

lemma nth_try_Cons: "nth_try f i (c # cs) s (Suc k) = nth_try f (Suc i) cs (snd (f i c s)) k"
  by (induction k) simp_all

fun moves_on :: "'r outcome \<Rightarrow> bool" where
  "moves_on (Skipped e) = True"
| "moves_on (Failed e) = Retryable (Some e)"
| "moves_on (Served r) = False"

fun verdict :: "'r outcome \<Rightarrow> go_error + 'r" where
  "verdict (Skipped e) = Inl e"
| "verdict (Failed e) = Inl e"
| "verdict (Served r) = Inr r"

lemma safeToRetry_Retryable [simp]: "safeToRetry e = Retryable e"
  by (simp add: safeToRetry_def)

lemma forward_loop_step:
  assumes "try_candidate hook resolve fwd lat al req rid i c s = (out, s')"
  shows "\<exists>d'. forward_loop hook resolve fwd lat al req rid i (c # cs) d le s =
     (if moves_on out then forward_loop hook resolve fwd lat al req rid (Suc i) cs d' (projl (verdict out)) s'
      else ((verdict out, d'), s'))"
  using assms by (auto simp: try_candidate_def Let_def split: sum.splits prod.splits)

lemma all_less_Suc: "(\<forall>j < Suc k. P j) \<longleftrightarrow> P 0 \<and> (\<forall>j < k. P (Suc j))"
  using less_Suc_eq_0_disj by auto

lemma moves_on_verdict: "moves_on out \<Longrightarrow> verdict out = Inl (projl (verdict out))"
  by (cases out) auto

lemma forward_loop_outcome:
  fixes hook :: "'s attempt_hook option"
  assumes "cs \<noteq> []"
  shows "\<exists>k < length cs. (\<forall>j < k. moves_on (fst (nth_try (try_candidate hook resolve fwd lat al req rid) i cs s j))) \<and>
     (if moves_on (fst (nth_try (try_candidate hook resolve fwd lat al req rid) i cs s k)) then Suc k = length cs else True) \<and>
     (\<exists>d'. forward_loop hook resolve fwd lat al req rid i cs d le s =
       ((verdict (fst (nth_try (try_candidate hook resolve fwd lat al req rid) i cs s k)), d'),
        snd (nth_try (try_candidate hook resolve fwd lat al req rid) i cs s k)))"
  using assms
proof (induction cs arbitrary: i d le s)
  case (Cons c cs)
  let ?go = "try_candidate hook resolve fwd lat al req rid"
  obtain out s' where o: "?go i c s = (out, s')" by (metis surj_pair)
  from forward_loop_step [OF this, of cs d le] obtain d' where
    step: "forward_loop hook resolve fwd lat al req rid i (c # cs) d le s =
     (if moves_on out then forward_loop hook resolve fwd lat al req rid (Suc i) cs d' (projl (verdict out)) s'
      else ((verdict out, d'), s'))" by blast
  show ?case
  proof (cases "moves_on out \<and> cs \<noteq> []")
    case True
    from Cons.IH [of "Suc i" s' d' "projl (verdict out)"] True obtain k where
      "k < length cs" "\<forall>j < k. moves_on (fst (nth_try ?go (Suc i) cs s' j))"
      "if moves_on (fst (nth_try ?go (Suc i) cs s' k)) then Suc k = length cs else True"
      "\<exists>d''. forward_loop hook resolve fwd lat al req rid (Suc i) cs d' (projl (verdict out)) s' =
        ((verdict (fst (nth_try ?go (Suc i) cs s' k)), d''), snd (nth_try ?go (Suc i) cs s' k))" by blast
    with True show ?thesis
      unfolding step by (intro exI [of _ "Suc k"]) (simp add: nth_try_Cons o all_less_Suc del: nth_try.simps(2) forward_loop.simps)
  next
    case False
    then show ?thesis unfolding step by (intro exI [of _ 0]) (auto simp: o moves_on_verdict [symmetric])
  qed
qed simp

text \<open>
  C5: a plain request is settled by one of its candidates. Every candidate before that one was
  skipped (its credential could not be resolved) or failed retryably, and that one was served,
  or failed for good, or was the last; its response or its error is the answer, and the state
  is the one it left: no later candidate is resolved, recorded or called. Resolving a
  candidate may itself change the state the later ones are resolved in.
\<close>

theorem Forward_outcome:
  fixes hook :: "'s attempt_hook option"
  assumes "resolveCandidates al (store s) = Inr (cands, pid)"
  shows "\<exists>k < length cands. (\<forall>j < k. moves_on (fst (nth_try (try_candidate hook resolve fwd lat al req rid) 0 cands s j))) \<and>
     (if moves_on (fst (nth_try (try_candidate hook resolve fwd lat al req rid) 0 cands s k)) then Suc k = length cands else True) \<and>
     (\<exists>d. Forward store hook resolve fwd lat t_unix al req rid s =
       ((verdict (fst (nth_try (try_candidate hook resolve fwd lat al req rid) 0 cands s k)), Some d),
        snd (nth_try (try_candidate hook resolve fwd lat al req rid) 0 cands s k)))"
proof -
  from assms have ne: "cands \<noteq> []"
    using resolveCandidates_cases [OF assms] defaultCandidates_routable by blast
  from forward_loop_outcome [OF ne, of hook resolve fwd lat al req rid 0 s "new_decision rid al pid t_unix" ErrNoCandidate]
  show ?thesis by (fastforce simp: Forward_def assms)
qed

lemma Forward_snd:
  "resolveCandidates al (store s) = Inr (cands, pid) \<Longrightarrow>
     snd (Forward store hook resolve fwd lat t_unix al req rid s) =
     snd (forward_loop hook resolve fwd lat al req rid 0 cands (new_decision rid al pid t_unix) ErrNoCandidate s)"
  by (simp add: Forward_def split: prod.splits)

lemma Forward_refused:
  "resolveCandidates al (store s) = Inl e \<Longrightarrow>
     Forward store hook resolve fwd lat t_unix al req rid s = ((Inl e, None), s)"
  by (simp add: Forward_def)

section \<open>The attempt hook as an interface\<close>

text \<open>A hook on a part of the state (read by \<open>rd\<close>, written by \<open>wr\<close>) is one on the whole.\<close>

definition hook_on :: "('t \<Rightarrow> 's) \<Rightarrow> ('s \<Rightarrow> 't \<Rightarrow> 't) \<Rightarrow> 's attempt_hook \<Rightarrow> 't attempt_hook" where
  "hook_on rd wr h = \<lparr>hook_Start = (\<lambda>i info t. let (a, s) = hook_Start h i info (rd t) in (a, wr s t)),
     hook_Finish = (\<lambda>i rid att res t. wr (hook_Finish h i rid att res (rd t)) t)\<rparr>"

text \<open>
  What the router relies on in an attempt hook: an attempt is pending from its start to its
  finish, and finishing it settles it.
\<close>

locale attempt_ledger =
  fixes hook :: "'s attempt_hook" and ok :: "'s \<Rightarrow> bool" and pending :: "'s \<Rightarrow> (string \<times> string) set"
  assumes start_ok: "ok s \<Longrightarrow> ok (snd (hook_Start hook i info s))"
    and start_pending: "ok s \<Longrightarrow> pending (snd (hook_Start hook i info s))
          \<subseteq> insert (ai_RequestID info, fst (hook_Start hook i info s)) (pending s)"
    and start_named: "fst (hook_Start hook i info s) \<noteq> []"
    and finish_ok: "ok s \<Longrightarrow> ok (hook_Finish hook i rid att res s)"
    and finish_pending: "ok s \<Longrightarrow> ar_Status res \<noteq> ''started'' \<Longrightarrow>
          pending (hook_Finish hook i rid att res s) \<subseteq> pending s - {(rid, att)}"
begin

lemma start_attempt:
  assumes "ok s" and "startAttempt (Some hook) rid c al i s = (att, s1)"
  shows "ok s1 \<and> att \<noteq> [] \<and> pending s1 \<subseteq> insert (rid, att) (pending s)"
proof -
  define info where "info = \<lparr>ai_RequestID = rid, ai_AccountID = cd_AccountID c, ai_ProviderID = [],
      ai_LogicalModel = al, ai_ActualModel = cd_ModelID c, ai_Protocol = ''chat.completions''\<rparr>"
  from assms(2) have "hook_Start hook i info s = (att, s1)"
    by (simp add: startAttempt_def info_def)
  with start_ok [OF assms(1), of i info] start_pending [OF assms(1), of i info] start_named [of i info s]
  show ?thesis by (simp add: info_def)
qed

lemma finish_attempt:
  assumes "ok s" and "att \<noteq> []" and "ar_Status res \<noteq> ''started''"
    and "pending s \<subseteq> insert (rid, att) P"
  shows "ok (finish_with (Some hook) i rid att res s) \<and> pending (finish_with (Some hook) i rid att res s) \<subseteq> P"
  using assms finish_ok finish_pending [OF assms(1,3), of i rid att] by (auto simp: finish_with_def)

text \<open>A hook that works on a part of a larger state keeps the contract there.\<close>

lemma lifted:
  assumes "\<And>s t. rd (wr s t) = s"
  shows "attempt_ledger (hook_on rd wr hook) (\<lambda>t. ok (rd t)) (\<lambda>t. pending (rd t))"
proof (unfold_locales, goal_cases)
  case (1 t i info)
  then show ?case using start_ok [of "rd t" i info] by (auto simp: hook_on_def assms split: prod.splits)
next
  case (2 t i info)
  then show ?case using start_pending [of "rd t" i info] by (auto simp: hook_on_def assms split: prod.splits)
next
  case (3 i info t)
  then show ?case using start_named [of i info "rd t"] by (auto simp: hook_on_def split: prod.splits)
next
  case (4 t i rid att res)
  then show ?case using finish_ok [of "rd t" i rid att res] by (simp add: hook_on_def assms)
next
  case (5 t res i rid att)
  then show ?case using finish_pending [of "rd t" res i rid att] by (simp add: hook_on_def assms)
qed

end

text \<open>Resolving a candidate may change the state, but starts and settles no attempt.\<close>

locale routed_ledger = attempt_ledger hook ok pending
  for hook :: "'s attempt_hook" and ok :: "'s \<Rightarrow> bool" and pending :: "'s \<Rightarrow> (string \<times> string) set" +
  fixes resolve :: "'s resolver"
  assumes resolve_frame: "ok s \<Longrightarrow> ok (snd (resolve i a s)) \<and> pending (snd (resolve i a s)) = pending s"
begin

lemma resolved:
  assumes "ok s" and "resolve i a s = (r, s0)"
  shows "ok s0 \<and> pending s0 = pending s"
  using resolve_frame [OF assms(1), of i a] assms(2) by simp

lemma forward_loop_settles:
  "ok s \<Longrightarrow> ok (snd (forward_loop (Some hook) resolve fwd lat al req rid i cs d le s)) \<and>
     pending (snd (forward_loop (Some hook) resolve fwd lat al req rid i cs d le s)) \<subseteq> pending s"
proof (induction cs arbitrary: i d le s)
  case Nil
  then show ?case by simp
next
  case (Cons c cs)
  obtain r s0 where res: "resolve i (cd_AccountID c) s = (r, s0)" by (metis surj_pair)
  note res0 = resolved [OF Cons.prems res]
  show ?case
  proof (cases r)
    case (Inl e)
    with res res0 Cons.IH [of s0 "Suc i" d e] show ?thesis by simp
  next
    case (Inr tgt)
    obtain att s1 where st: "startAttempt (Some hook) rid c al i s0 = (att, s1)" by fastforce
    note st1 = start_attempt [OF conjunct1 [OF res0] st]
    show ?thesis
    proof (cases "fwd i (NewConnector (t_ProviderKind (rt_Target tgt))) (rt_Target tgt) (req\<lparr>cr_Model := cd_ModelID c\<rparr>)")
      case (Inr resp)
      with \<open>r = Inr tgt\<close> show ?thesis
        using st1 finish_attempt [of s1 att _ rid "pending s" i] res0
        by (simp add: res st Let_def finishAttempt_def)
    next
      case (Inl e)
      have "ok (finishAttemptError (Some hook) i rid att e (lat i) ''failed'' s1) \<and>
            pending (finishAttemptError (Some hook) i rid att e (lat i) ''failed'' s1) \<subseteq> pending s"
        using st1 finish_attempt [of s1 att _ rid "pending s" i] res0 by (simp add: finishAttemptError_def)
      with \<open>r = Inr tgt\<close> Inl Cons.IH show ?thesis
        by (simp add: res st Let_def) (meson subset_trans)
    qed
  qed
qed

lemma Forward_settles:
  assumes "ok s"
  shows "pending (snd (Forward store (Some hook) resolve fwd lat t_unix al req rid s)) \<subseteq> pending s"
proof (cases "resolveCandidates al (store s)")
  case (Inl e)
  then show ?thesis by (simp add: Forward_refused)
next
  case (Inr r)
  then obtain cands pid where "resolveCandidates al (store s) = Inr (cands, pid)" by (cases r) auto
  then show ?thesis by (simp add: Forward_snd forward_loop_settles [OF assms])
qed

end

section \<open>What the failover keeps\<close>

text \<open>A property kept by the hook, the resolver and the connector is kept by the whole failover.\<close>

lemma bookkeeping_keeps:
  assumes "\<And>i info s. Q s \<Longrightarrow> Q (snd (hook_Start h i info s))" and "\<And>i rid att res s. Q s \<Longrightarrow> Q (hook_Finish h i rid att res s)"
    and "Q s"
  shows "Q (snd (startAttempt (Some h) rid c al i s))" "Q (finish_with (Some h) i rid att res s)"
  using assms by (simp_all add: startAttempt_def finish_with_def)

lemma forward_loop_keeps:
  assumes h: "\<And>i info s. Q s \<Longrightarrow> Q (snd (hook_Start h i info s))" "\<And>i rid att res s. Q s \<Longrightarrow> Q (hook_Finish h i rid att res s)"
    and r: "\<And>i a s. Q s \<Longrightarrow> Q (snd (resolve i a s))"
  shows "Q s \<Longrightarrow> Q (snd (forward_loop (Some h) resolve fwd lat al req rid i cs d le s))"
proof (induction cs arbitrary: i d le s)
  case Nil
  then show ?case by simp
next
  case (Cons c cs)
  obtain res s0 where res: "resolve i (cd_AccountID c) s = (res, s0)" by (metis surj_pair)
  with r [OF Cons.prems, of i "cd_AccountID c"] have s0: "Q s0" by simp
  obtain att s1 where a: "startAttempt (Some h) rid c al i s0 = (att, s1)" by (metis surj_pair)
  with bookkeeping_keeps(1) [where Q = Q, OF h s0, of rid c al i] have "Q s1" by simp
  with Cons s0 show ?case
    by (simp add: res a Let_def finishAttempt_def finishAttemptError_def bookkeeping_keeps(2) [where Q = Q, OF h] split: sum.split)
qed

lemma Forward_keeps:
  assumes "\<And>i info s. Q s \<Longrightarrow> Q (snd (hook_Start h i info s))" and "\<And>i rid att res s. Q s \<Longrightarrow> Q (hook_Finish h i rid att res s)"
    and "\<And>i a s. Q s \<Longrightarrow> Q (snd (resolve i a s))" and "Q s"
  shows "Q (snd (Forward store (Some h) resolve fwd lat t_unix al req rid s))"
proof -
  have k: "Q (snd (forward_loop (Some h) resolve fwd lat al req rid 0 cs d le s))" for cs d le
    by (rule forward_loop_keeps [where Q = Q]; fact assms)
  show ?thesis
  proof (cases "resolveCandidates al (store s)")
    case (Inr x)
    obtain cands pid where x: "x = (cands, pid)" by (metis surj_pair)
    obtain r s' where "forward_loop (Some h) resolve fwd lat al req rid 0 cands (new_decision rid al pid t_unix) ErrNoCandidate s = (r, s')"
      by (metis surj_pair)
    with k [of cands "new_decision rid al pid t_unix" ErrNoCandidate] show ?thesis
      by (simp add: Forward_def Inr x split: prod.split)
  qed (simp add: Forward_def assms(4))
qed

lemma stream_loop_keeps:
  assumes h: "\<And>i info s. Q s \<Longrightarrow> Q (snd (hook_Start h i info s))" "\<And>i rid att res s. Q s \<Longrightarrow> Q (hook_Finish h i rid att res s)"
    and r: "\<And>i a s. Q s \<Longrightarrow> Q (snd (resolve i a s))"
    and f: "\<And>i impl t req fl s. Q s \<Longrightarrow> Q (snd (snd (fs i impl t req (wrapped cb) (fl, s))))"
  shows "Q (snd w) \<Longrightarrow> Q (snd (snd (stream_loop (Some h) resolve fs lat al req rid cb i cs d le w)))"
proof (induction cs arbitrary: i d le w)
  case Nil
  then show ?case by simp
next
  case (Cons c cs)
  obtain res s0 where res: "resolve i (cd_AccountID c) (snd w) = (res, s0)" by (metis surj_pair)
  with r [OF Cons.prems, of i "cd_AccountID c"] have s0: "Q s0" by simp
  show ?case
  proof (cases res)
    case (Inl e)
    with res s0 Cons.IH [of "(fst w, s0)" "Suc i" d e] show ?thesis by simp
  next
    case (Inr tgt)
    obtain att s1 where a: "startAttempt (Some h) rid c al i s0 = (att, s1)" by (metis surj_pair)
    with bookkeeping_keeps(1) [where Q = Q, OF h s0, of rid c al i] have s1: "Q s1" by simp
    obtain usage err fl s2 where run: "fs i (NewConnector (t_ProviderKind (rt_Target tgt))) (rt_Target tgt)
        (req\<lparr>cr_Model := cd_ModelID c\<rparr>) (wrapped cb) (fst w, s1) = ((usage, err), (fl, s2))" by (metis surj_pair)
    with f [OF s1] have s2: "Q s2" by (metis snd_conv)
    show ?thesis
      using bookkeeping_keeps(2) [where Q = Q, OF h s2] Cons.IH
      by (simp add: res Inr a run Let_def finishAttemptStream_def split: option.split)
  qed
qed

lemma ForwardStream_keeps:
  assumes "\<And>i info s. Q s \<Longrightarrow> Q (snd (hook_Start h i info s))" and "\<And>i rid att res s. Q s \<Longrightarrow> Q (hook_Finish h i rid att res s)"
    and "\<And>i a s. Q s \<Longrightarrow> Q (snd (resolve i a s))"
    and "\<And>i impl t req fl s. Q s \<Longrightarrow> Q (snd (snd (fs i impl t req (wrapped cb) (fl, s))))" and "Q s"
  shows "Q (snd (ForwardStream store (Some h) resolve fs lat t_unix al req rid cb s))"
proof -
  have k: "Q (snd (snd (stream_loop (Some h) resolve fs lat al req rid cb 0 cs d le (False, s))))" for cs d le
    by (rule stream_loop_keeps [where Q = Q]) (simp_all add: assms)
  show ?thesis
  proof (cases "resolveCandidates al (store s)")
    case (Inr x)
    obtain cands pid where x: "x = (cands, pid)" by (metis surj_pair)
    obtain r w where "stream_loop (Some h) resolve fs lat al req rid cb 0 cands (new_decision rid al pid t_unix) ErrNoCandidate (False, s) = (r, w)"
      by (metis surj_pair)
    with k [of cands "new_decision rid al pid t_unix" ErrNoCandidate] show ?thesis
      by (simp add: ForwardStream_def Inr x split: prod.split)
  qed (simp add: ForwardStream_def assms(5))
qed

section \<open>A streaming connector as an interface\<close>

text \<open>A connector hands the client a sequence of chunks, and stops at the first error of the callback.\<close>

fun feed :: "'w callback \<Rightarrow> string list \<Rightarrow> 'w \<Rightarrow> go_error option \<times> 'w" where
  "feed cb [] w = (None, w)"
| "feed cb (b # bs) w = (case cb b w of (Some e, w') \<Rightarrow> (Some e, w') | (None, w') \<Rightarrow> feed cb bs w')"

lemma feed_wrapped: "snd (feed (wrapped cb) bs (fl, s)) = (fl \<or> bs \<noteq> [], snd (feed cb bs s))"
  by (induction bs arbitrary: fl s) (auto simp: wrapped_def split: prod.splits option.splits)

lemma feed_append:
  "feed cb (xs @ ys) w = (case feed cb xs w of (Some e, w') \<Rightarrow> (Some e, w') | (None, w') \<Rightarrow> feed cb ys w')"
  by (induction xs arbitrary: w) (auto split: prod.splits option.splits)

locale streaming_connector =
  fixes fs :: "('j, 's) streamer"
  assumes only_callback: "\<exists>bs. snd (fs i impl t req cb w) = snd (feed cb bs w)"
begin

lemma emits: "\<exists>bs. snd (fs i impl t req (wrapped cb) (False, s)) = (bs \<noteq> [], snd (feed cb bs s))"
  using only_callback [of i impl t req "wrapped cb" "(False, s)"] by (simp add: feed_wrapped)

text \<open>
  Whatever the client sees (\<open>out\<close>, which the hook does not touch) comes from one run of the
  connector, and only the last candidate tried can have output anything.
\<close>

lemma one_run_outputs:
  assumes "\<And>i info s. out (snd (hook_Start h i info s)) = out s"
    and "\<And>i rid att res s. out (hook_Finish h i rid att res s) = out s"
    and "\<And>i a s. out (snd (resolve i a s)) = out s"
  shows "\<exists>bs s0. out s0 = out s \<and>
     out (snd (snd (stream_loop (Some h) resolve fs lat al req rid cb i cs d le (False, s)))) = out (snd (feed cb bs s0)) \<and>
     (bs \<noteq> [] \<longrightarrow> (\<exists>j c impl t. (j, c) \<in> set (enumerate i cs) \<and>
        snd (fs j impl t (req\<lparr>cr_Model := cd_ModelID c\<rparr>) (wrapped cb) (False, s0)) = (True, snd (feed cb bs s0)) \<and>
        d_Selected (snd (fst (stream_loop (Some h) resolve fs lat al req rid cb i cs d le (False, s))))
          = cd_AccountID c @ ''@'' @ cd_ModelID c))"
proof (induction cs arbitrary: i d le s)
  case Nil
  show ?case by (rule exI [of _ "[]"]) auto
next
  case (Cons c cs)
  obtain r s' where res: "resolve i (cd_AccountID c) s = (r, s')" by (metis surj_pair)
  then have s': "out s' = out s" using assms(3) [of i "cd_AccountID c" s] by simp
  show ?case
  proof (cases r)
    case (Inl e)
    with res have "stream_loop (Some h) resolve fs lat al req rid cb i (c # cs) d le (False, s) =
        stream_loop (Some h) resolve fs lat al req rid cb (Suc i) cs d e (False, s')" by simp
    with Cons [of s' "Suc i" d e] s' show ?thesis by (simp only: enumerate_simps list.set) blast
  next
    case (Inr tgt)
    let ?impl = "NewConnector (t_ProviderKind (rt_Target tgt))"
    obtain att s1 where st: "startAttempt (Some h) rid c al i s' = (att, s1)" by fastforce
    then have s1: "out s1 = out s" using assms(1) s' by (auto simp: startAttempt_def) (metis snd_conv)
    obtain usage err fl s2 where run:
      "fs i ?impl (rt_Target tgt) (req\<lparr>cr_Model := cd_ModelID c\<rparr>) (wrapped cb) (False, s1) = ((usage, err), (fl, s2))"
      by (metis prod.exhaust)
    with emits [of i ?impl "rt_Target tgt" "req\<lparr>cr_Model := cd_ModelID c\<rparr>" cb s1]
    obtain bs where bs: "fl = (bs \<noteq> [])" "s2 = snd (feed cb bs s1)" by auto
    have fin: "out (finishAttemptStream (Some h) i rid att u l st er w) = out w" for u l st er w
      by (simp add: finishAttemptStream_def finish_with_def assms(2))
    show ?thesis
    proof (cases "err = None \<or> fl \<or> \<not> Retryable err")
      case True
      then have "\<exists>d' w. stream_loop (Some h) resolve fs lat al req rid cb i (c # cs) d le (False, s) = (d', w) \<and>
          out (snd w) = out s2 \<and> d_Selected (snd d') = cd_AccountID c @ ''@'' @ cd_ModelID c"
        by (auto simp: res Inr st run Let_def fin add_reason_def select_def split: option.split)
      then obtain d' w where "stream_loop (Some h) resolve fs lat al req rid cb i (c # cs) d le (False, s) = (d', w)"
          "out (snd w) = out s2" "d_Selected (snd d') = cd_AccountID c @ ''@'' @ cd_ModelID c"
        by blast
      moreover have "(i, c) \<in> set (enumerate i (c # cs))" by simp
      moreover have "bs \<noteq> [] \<Longrightarrow> snd (fs i ?impl (rt_Target tgt) (req\<lparr>cr_Model := cd_ModelID c\<rparr>) (wrapped cb) (False, s1))
          = (True, snd (feed cb bs s1))" by (simp add: run bs)
      ultimately show ?thesis using s1 bs(2) by (metis fst_conv snd_conv)
    next
      case False
      then obtain e where e: "err = Some e" "Retryable (Some e)" "bs = []" "s2 = s1" using bs by auto
      let ?s3 = "finishAttemptStream (Some h) i rid att usage (lat i) ''failed'' (Some e) s1"
      have step: "stream_loop (Some h) resolve fs lat al req rid cb i (c # cs) d le (False, s) =
        stream_loop (Some h) resolve fs lat al req rid cb (Suc i) cs (add_reason ''failover'' (select c d)) e (False, ?s3)"
        using False e bs by (simp add: res Inr st run Let_def)
      have "out ?s3 = out s" by (simp add: fin s1)
      with Cons [of ?s3 "Suc i" "add_reason ''failover'' (select c d)" e] show ?thesis
        unfolding step by (simp only: enumerate_simps list.set) blast
    qed
  qed
qed

end

text \<open>A streamed request on a ledger: the callback keeps out of the ledger's way.\<close>

locale recorded_stream = routed_ledger hook ok pending resolve + streaming_connector fs
  for hook :: "'s attempt_hook" and ok :: "'s \<Rightarrow> bool" and pending :: "'s \<Rightarrow> (string \<times> string) set"
    and resolve :: "'s resolver" and fs :: "('j, 's) streamer"
begin

lemma feed_frame:
  assumes "\<And>b s. ok s \<Longrightarrow> ok (snd (cb b s)) \<and> pending (snd (cb b s)) = pending s"
  shows "ok s \<Longrightarrow> ok (snd (feed cb bs s)) \<and> pending (snd (feed cb bs s)) = pending s"
proof (induction bs arbitrary: s)
  case Nil
  then show ?case by simp
next
  case (Cons b bs)
  then show ?case using assms [of s b] by (auto split: prod.splits option.splits)
qed

lemma stream_loop_settles:
  assumes cb: "\<And>b s. ok s \<Longrightarrow> ok (snd (cb b s)) \<and> pending (snd (cb b s)) = pending s"
  shows "ok (snd w) \<Longrightarrow>
     pending (snd (snd (stream_loop (Some hook) resolve fs lat al req rid cb i cs d le w))) \<subseteq> pending (snd w)"
proof (induction cs arbitrary: i d le w)
  case Nil
  then show ?case by simp
next
  case (Cons c cs)
  obtain fl s where w: "w = (fl, s)" by fastforce
  obtain r s0 where res: "resolve i (cd_AccountID c) s = (r, s0)" by (metis surj_pair)
  from resolved [OF _ res] Cons.prems w have res0: "ok s0" "pending s0 = pending s" by auto
  show ?case
  proof (cases r)
    case (Inl e)
    with w res res0 Cons.IH [of "(fl, s0)" "Suc i" d e] show ?thesis by simp
  next
    case (Inr tgt)
    let ?impl = "NewConnector (t_ProviderKind (rt_Target tgt))"
    obtain att s1 where st: "startAttempt (Some hook) rid c al i s0 = (att, s1)" by fastforce
    from start_attempt [OF res0(1) st] res0
    have st1: "ok s1" "att \<noteq> []" "pending s1 \<subseteq> insert (rid, att) (pending s)" by auto
    obtain usage err fl' s2 where run:
      "fs i ?impl (rt_Target tgt) (req\<lparr>cr_Model := cd_ModelID c\<rparr>) (wrapped cb) (fl, s1) = ((usage, err), (fl', s2))"
      by (metis prod.exhaust)
    have "\<exists>bs. s2 = snd (feed cb bs s1)"
      using only_callback [of i ?impl "rt_Target tgt" "req\<lparr>cr_Model := cd_ModelID c\<rparr>" "wrapped cb" "(fl, s1)"]
      by (auto simp: run feed_wrapped)
    then have s2: "ok s2" "pending s2 = pending s1" using feed_frame [OF cb] st1 by auto
    have fin: "ok (finishAttemptStream (Some hook) i rid att u l m er s2) \<and>
        pending (finishAttemptStream (Some hook) i rid att u l m er s2) \<subseteq> pending s"
      if "m \<noteq> ''started''" for u l m er
      using finish_attempt [of s2 att _ rid "pending s" i] that st1 s2 by (simp add: finishAttemptStream_def)
    have rest: "pending (snd (snd (stream_loop (Some hook) resolve fs lat al req rid cb j cs d' e (fl, x)))) \<subseteq> pending s"
      if "ok x \<and> pending x \<subseteq> pending s" for j d' e fl x
      using Cons.IH [of "(fl, x)"] that by (metis snd_conv subset_trans)
    show ?thesis
      by (simp add: w res Inr st run Let_def fin rest split: option.split)
  qed
qed

end

section \<open>A concrete run\<close>

text \<open>Two active accounts and a policy whose second candidate comes first.\<close>

definition demo_account :: "string \<Rightarrow> account_row" where
  "demo_account i = \<lparr>ac_ID = i, ac_ProviderID = ''p'', ac_Name = i, ac_Status = ''active'',
     ac_Mode = ModeRelayAndMonitor, ac_AuthType = AuthAPIKey, ac_BillingMode = BillingUnknown,
     ac_AuthState = AuthStateOK, ac_VaultProvider = ''mem'', ac_SecretService = ''s'', ac_SecretAccount = i,
     ac_SecretFingerprint = [], ac_LastVerifiedAt = [], ac_created_at = ''t'', ac_updated_at = ''t''\<rparr>"

definition demo_policy :: routing_policy_row where
  "demo_policy = \<lparr>rp_ID = ''pol'', rp_Name = ''n'', rp_Alias = ''fast'',
     rp_Candidates = [\<lparr>cd_AccountID = ''a1'', cd_ModelID = ''m1'', cd_Priority = 2, cd_Weight = 1\<rparr>,
                      \<lparr>cd_AccountID = ''a2'', cd_ModelID = ''m2'', cd_Priority = 1, cd_Weight = 1\<rparr>],
     rp_Enabled = True, rp_created_at = ''t''\<rparr>"

definition demo_routes :: db where
  "demo_routes = empty_db\<lparr>accounts := [demo_account ''a1'', demo_account ''a2''],
     routing_policies := [demo_policy]\<rparr>"

definition demo_target :: "string \<Rightarrow> resolved_target" where
  "demo_target i = \<lparr>rt_AccountID = i, rt_ModelID = [],
     rt_Target = \<lparr>t_ProviderKind = KindOpenAI, t_BaseURL = [], t_APIKey = i, t_ModelID = []\<rparr>\<rparr>"

definition demo_response :: "string \<Rightarrow> chat_response" where
  "demo_response m = \<lparr>cp_ID = ''x'', cp_Object = ''chat.completion'', cp_Created = 0, cp_Model = m,
     Choices = [], cp_Usage = None\<rparr>"

text \<open>The first candidate is rate limited, the second serves.\<close>

definition demo_forward :: "unit forwarder" where
  "demo_forward i impl t req = (if i = 0 then Inl (Classify 429 None) else Inr (demo_response (cr_Model req)))"

lemma demo_resolves:
  "resolveCandidates ''fast'' demo_routes =
     Inr ([\<lparr>cd_AccountID = ''a2'', cd_ModelID = ''m2'', cd_Priority = 1, cd_Weight = 1\<rparr>,
           \<lparr>cd_AccountID = ''a1'', cd_ModelID = ''m1'', cd_Priority = 2, cd_Weight = 1\<rparr>], ''pol'')"
  by (simp add: resolveCandidates_def GetRoutingPolicyByAlias_def with_db_def query_row_def demo_routes_def
      empty_db_def demo_policy_def routing_policy.truncate_def accountUsable_def GetAccount_def
      demo_account_def account.truncate_def ModeRelayAndMonitor_def ModeMonitorOnly_def)

lemma resolveCandidates_sound_witness:
  "sorted (map cd_Priority (fst (projr (resolveCandidates ''fast'' demo_routes))))"
  using resolveCandidates_sound [OF demo_resolves] by (simp add: demo_resolves)

lemma demo_outcomes:
  "try_candidate None (\<lambda>i a s. (Inr (demo_target a), s)) demo_forward lat al (NewChatRequest ''fast'' []) rid 0 c s =
     (Failed (Classify 429 None), s)"
  "try_candidate None (\<lambda>i a s. (Inr (demo_target a), s)) demo_forward lat al (NewChatRequest ''fast'' []) rid (Suc 0) c s =
     (Served (demo_response (cd_ModelID c)), s)"
  "Retryable (Some (Classify 429 None))"
  by (simp_all add: try_candidate_def startAttempt_def finishAttemptError_def finishAttempt_def finish_with_def
      demo_forward_def Classify_def)

lemma Forward_outcome_witness:
  "\<exists>d. Forward id (None :: db attempt_hook option) (\<lambda>i a s. (Inr (demo_target a), s)) demo_forward (\<lambda>i. 0) 0
        ''fast'' (NewChatRequest ''fast'' []) ''rid'' demo_routes = ((Inr (demo_response ''m1''), Some d), demo_routes)"
proof -
  have "resolveCandidates ''fast'' (id demo_routes) =
     Inr ([\<lparr>cd_AccountID = ''a2'', cd_ModelID = ''m2'', cd_Priority = 1, cd_Weight = 1\<rparr>,
           \<lparr>cd_AccountID = ''a1'', cd_ModelID = ''m1'', cd_Priority = 2, cd_Weight = 1\<rparr>], ''pol'')"
    by (simp add: demo_resolves)
  from Forward_outcome [where store = id and s = demo_routes and hook = None and
      resolve = "\<lambda>i a s. (Inr (demo_target a), s)" and fwd = demo_forward and lat = "\<lambda>i. 0" and t_unix = 0 and
      req = "NewChatRequest ''fast'' []" and rid = "''rid''", OF this]
  show ?thesis by (auto simp: less_Suc_eq demo_outcomes)
qed

end
