(* ===== verification/Attempts.thy ===== *)
theory Attempts
  imports Router StoreInv
begin

text \<open>
  The attempt recorder (\<open>internal/usage/attempts/recorder.go\<close>): the router's hook on the
  \<open>request_attempts\<close> table. The random ids (\<open>att_\<close> and \<open>ra_\<close> followed by hexadecimal
  digits) and the clock are functions of the attempt's position; the identity of the access
  token and project comes from the request's context. Errors of the store are dropped.
\<close>

record recorder_ctx =
  rc_TokenID :: string
  rc_ProjectID :: string
  rc_AttemptHex :: "nat \<Rightarrow> string"
  rc_RowHex :: "nat \<Rightarrow> string"
  rc_Now :: "nat \<Rightarrow> string"

definition blank_attempt :: request_attempt where
  "blank_attempt = \<lparr>ra_ID = [], ra_RequestID = [], ra_AttemptID = [], ra_AccountID = [], ra_ProviderID = [],
     ra_LogicalModel = [], ra_ActualModel = [], ra_Protocol = [], ra_AccessTokenID = [], ra_ProjectID = [],
     ra_Status = [], ra_InputTokens = 0, ra_OutputTokens = 0, ra_CacheReadTokens = 0,
     ra_CacheWriteTokens = 0, ra_ReasoningTokens = 0, ra_Metering = [], ra_LatencyMS = 0,
     ra_StatusCode = 0, ra_ErrorClass = [], ra_ReasonCode = [], ra_PriceVersion = [],
     ra_OccurredAt = [], ra_FinishedAt = []\<rparr>"

definition keep_db :: "db \<Rightarrow> go_error + db \<Rightarrow> db" where
  "keep_db s r = (case r of Inl e \<Rightarrow> s | Inr s' \<Rightarrow> s')"

definition start_row :: "recorder_ctx \<Rightarrow> nat \<Rightarrow> attempt_info \<Rightarrow> request_attempt" where
  "start_row rc i info = blank_attempt\<lparr>
       ra_ID := ''ra_'' @ rc_RowHex rc i, ra_RequestID := ai_RequestID info,
       ra_AttemptID := ''att_'' @ rc_AttemptHex rc i, ra_AccountID := ai_AccountID info,
       ra_LogicalModel := ai_LogicalModel info, ra_ActualModel := ai_ActualModel info,
       ra_Protocol := ai_Protocol info, ra_AccessTokenID := rc_TokenID rc,
       ra_ProjectID := rc_ProjectID rc, ra_Status := ''started'', ra_OccurredAt := rc_Now rc i\<rparr>"

definition Recorder_StartAttempt :: "recorder_ctx \<Rightarrow> nat \<Rightarrow> attempt_info \<Rightarrow> db \<Rightarrow> string \<times> db" where
  "Recorder_StartAttempt rc i info s =
     (''att_'' @ rc_AttemptHex rc i, keep_db s (CreateAttempt (start_row rc i info) (rc_Now rc i) s))"

definition finish_record :: "recorder_ctx \<Rightarrow> nat \<Rightarrow> string \<Rightarrow> string \<Rightarrow> attempt_result \<Rightarrow> request_attempt" where
  "finish_record rc i rid att res = blank_attempt\<lparr>
       ra_RequestID := rid, ra_AttemptID := att, ra_Status := ar_Status res,
       ra_InputTokens := ar_InputTokens res, ra_OutputTokens := ar_OutputTokens res,
       ra_CacheReadTokens := ar_CacheReadTokens res, ra_CacheWriteTokens := ar_CacheWriteTokens res,
       ra_ReasoningTokens := ar_ReasoningTokens res, ra_Metering := ar_Metering res,
       ra_LatencyMS := ar_LatencyMS res, ra_StatusCode := ar_StatusCode res,
       ra_ErrorClass := ar_ErrorClass res, ra_ReasonCode := ar_ReasonCode res,
       ra_FinishedAt := rc_Now rc i\<rparr>"

definition Recorder_FinishAttempt ::
  "recorder_ctx \<Rightarrow> nat \<Rightarrow> string \<Rightarrow> string \<Rightarrow> attempt_result \<Rightarrow> db \<Rightarrow> db" where
  "Recorder_FinishAttempt rc i rid att res s =
     keep_db s (FinishAttempt (finish_record rc i rid att res) (rc_Now rc i) s)"

definition Recorder :: "recorder_ctx \<Rightarrow> db attempt_hook" where
  "Recorder rc = \<lparr>hook_Start = Recorder_StartAttempt rc, hook_Finish = Recorder_FinishAttempt rc\<rparr>"

section \<open>Pending attempts\<close>

definition pending_attempts :: "db \<Rightarrow> (string \<times> string) set" where
  "pending_attempts s = attempt_key ` {r \<in> set (request_attempts s). ra_Status r = ''started''}"

lemma CreateAttempt_pending:
  "CreateAttempt a nw s = Inr s' \<Longrightarrow> pending_attempts s' \<subseteq> insert (attempt_key a) (pending_attempts s)"
  by (auto simp: CreateAttempt_def with_db_Inr pending_attempts_def split: if_splits)

lemma FinishAttempt_pending:
  assumes "FinishAttempt a nw s = Inr s'" and "ra_Status a \<noteq> ''started''"
  shows "pending_attempts s' = pending_attempts s - {attempt_key a}"
proof -
  have "ra_Status (finish_row a nw r) = ra_Status a" for r by (simp add: finish_row_def)
  with assms show ?thesis
    by (auto simp: FinishAttempt_def with_db_Inr affected_Inr pending_attempts_def set_upd_where)
qed

lemma FinishAttempt_refused:
  assumes "FinishAttempt a nw s = Inl e" and "db_down s = None"
  shows "attempt_key a \<notin> pending_attempts s"
  using assms by (auto simp: FinishAttempt_def with_db_def affected_def pending_attempts_def has_row_iff
      split: if_splits)

lemma store_down_frame [frame_simps]:
  "CreateAttempt a nw s = Inr s' \<Longrightarrow> db_down s' = db_down s"
  "FinishAttempt a nw s = Inr s' \<Longrightarrow> db_down s' = db_down s"
  by (auto simp: CreateAttempt_def FinishAttempt_def with_db_Inr affected_Inr split: if_splits)

interpretation recorder: attempt_ledger "Recorder rc" "\<lambda>s. db_down s = None" pending_attempts
proof (unfold_locales, goal_cases)
  case (1 s i info)
  then show ?case
    by (auto simp: Recorder_def Recorder_StartAttempt_def keep_db_def frame_simps split: sum.splits)
next
  case (2 s i info)
  have "attempt_key (start_row rc i info) = (ai_RequestID info, ''att_'' @ rc_AttemptHex rc i)"
    by (simp add: start_row_def attempt_key_def)
  then show ?case
    by (auto simp: Recorder_def Recorder_StartAttempt_def keep_db_def dest!: CreateAttempt_pending
        split: sum.splits)
next
  case (3 i info s)
  then show ?case by (simp add: Recorder_def Recorder_StartAttempt_def)
next
  case (4 s i rid att res)
  then show ?case
    by (auto simp: Recorder_def Recorder_FinishAttempt_def keep_db_def frame_simps split: sum.splits)
next
  case (5 s res i rid att)
  have k: "attempt_key (finish_record rc i rid att res) = (rid, att)"
    "ra_Status (finish_record rc i rid att res) = ar_Status res"
    by (simp_all add: finish_record_def attempt_key_def)
  show ?case
    using 5 FinishAttempt_pending [of "finish_record rc i rid att res" "rc_Now rc i" s]
      FinishAttempt_refused [of "finish_record rc i rid att res" "rc_Now rc i" s]
    by (auto simp: Recorder_def Recorder_FinishAttempt_def keep_db_def k split: sum.splits)
qed

text \<open>
  A plain request forwarded with the recorder leaves no attempt of its own unfinished:
  whatever the resolver and the upstreams answer, every attempt that is still in state
  \<open>started\<close> afterwards was so before.
\<close>

theorem Forward_leaves_nothing_started:
  assumes keeps: "\<And>i a s. db_down (snd (resolve i a s)) = db_down s \<and> request_attempts (snd (resolve i a s)) = request_attempts s"
    and "db_down s = None" and "a \<in> set (request_attempts
      (snd (Forward id (Some (Recorder rc)) resolve fwd lat t_unix al req rid s)))"
    and "ra_Status a = ''started''"
  shows "attempt_key a \<in> attempt_key ` {r \<in> set (request_attempts s). ra_Status r = ''started''}"
proof -
  have "routed_ledger (Recorder rc) (\<lambda>s. db_down s = None) pending_attempts resolve"
    by (intro routed_ledger.intro recorder.attempt_ledger_axioms routed_ledger_axioms.intro)
      (simp add: keeps pending_attempts_def)
  from routed_ledger.Forward_settles [OF this, of s] assms(2)
  have "pending_attempts (snd (Forward id (Some (Recorder rc)) resolve fwd lat t_unix al req rid s)) \<subseteq> pending_attempts s"
    by blast
  with assms(3,4) show ?thesis by (auto simp: pending_attempts_def)
qed


text \<open>Witnesses: one candidate that cannot be resolved, and one stored attempt.\<close>

definition demo_rc :: recorder_ctx where
  "demo_rc = \<lparr>rc_TokenID = ''t'', rc_ProjectID = [], rc_AttemptHex = (\<lambda>i. ''a''), rc_RowHex = (\<lambda>i. ''b''),
     rc_Now = (\<lambda>i. ''now'')\<rparr>"

definition demo_db :: db where
  "demo_db = empty_db\<lparr>request_attempts :=
     [blank_attempt\<lparr>ra_ID := ''ra_1'', ra_RequestID := ''r'', ra_AttemptID := ''att_1'', ra_Status := ''started''\<rparr>]\<rparr>"

lemma Forward_leaves_nothing_started_witness:
  "attempt_key (hd (request_attempts demo_db)) \<in>
     attempt_key ` {r \<in> set (request_attempts demo_db). ra_Status r = ''started''}"
proof (rule Forward_leaves_nothing_started)
  show "db_down demo_db = None" by (simp add: demo_db_def empty_db_def)
  show "db_down (snd (Inl ErrNoRows :: go_error + resolved_target, s)) = db_down s \<and>
      request_attempts (snd (Inl ErrNoRows :: go_error + resolved_target, s)) = request_attempts s" for s :: db
    by simp
  show "hd (request_attempts demo_db) \<in> set (request_attempts
      (snd (Forward id (Some (Recorder demo_rc)) (\<lambda>i a s. (Inl ErrNoRows, s)) (\<lambda>i c t r. Inl ErrAuth) (\<lambda>i. 0) 0
         ''m'' (NewChatRequest ''m'' [] :: unit chat_request) ''r2'' demo_db)))"
    by (simp add: Forward_def resolveCandidates_def GetRoutingPolicyByAlias_def with_db_def query_row_def
        defaultCandidates_def ListAccounts_def demo_db_def empty_db_def order_by_def)
  show "ra_Status (hd (request_attempts demo_db)) = ''started''" by (simp add: demo_db_def)
qed


end
