(* ===== verification/Json.thy ===== *)
theory Json
  imports Complex_Main GoLib
begin

text \<open>
  What the source uses of \<open>encoding/json\<close>: values, the text of a value (\<open>json.Marshal\<close>,
  with its HTML escaping), the parser (\<open>json.Unmarshal\<close> of a whole text) and the readers of
  the fields of an object. An object is the list of its members; as in Go the last member of
  a name wins and a missing member is the zero value. A number is an integer literal or a
  decimal literal (mantissa and power of ten); \<open>JFloat\<close> is a \<open>float64\<close> the program computed,
  whose text is the argument \<open>fmt\<close>. Texts are taken to be valid UTF-8.
\<close>

datatype json =
    JNull | JBool bool | JInt int | JDec int int | JFloat real | JStr string
  | JArr "json list" | JObj "(string \<times> json) list"

section \<open>Text of a value\<close>

definition hex_chars :: string where
  "hex_chars = ''0123456789abcdef''"

text \<open>The control characters without a short escape.\<close>

definition plain_controls :: "(char \<times> string) list" where
  "plain_controls =
    [(CHR 0x00, ''00''), (CHR 0x01, ''01''), (CHR 0x02, ''02''), (CHR 0x03, ''03''), (CHR 0x04, ''04''),
     (CHR 0x05, ''05''), (CHR 0x06, ''06''), (CHR 0x07, ''07''), (CHR 0x0B, ''0b''), (CHR 0x0E, ''0e''),
     (CHR 0x0F, ''0f''), (CHR 0x10, ''10''), (CHR 0x11, ''11''), (CHR 0x12, ''12''), (CHR 0x13, ''13''),
     (CHR 0x14, ''14''), (CHR 0x15, ''15''), (CHR 0x16, ''16''), (CHR 0x17, ''17''), (CHR 0x18, ''18''),
     (CHR 0x19, ''19''), (CHR 0x1A, ''1a''), (CHR 0x1B, ''1b''), (CHR 0x1C, ''1c''), (CHR 0x1D, ''1d''),
     (CHR 0x1E, ''1e''), (CHR 0x1F, ''1f''), (CHR ''<'', ''3c''), (CHR ''>'', ''3e''), (CHR ''&'', ''26'')]"

definition short_escapes :: "(char \<times> char) list" where
  "short_escapes = [(CHR 0x22, CHR 0x22), (CHR 0x5C, CHR 0x5C), (CHR 0x08, CHR ''b''), (CHR 0x0C, CHR ''f''),
     (CHR 0x0A, CHR ''n''), (CHR 0x0D, CHR ''r''), (CHR 0x09, CHR ''t'')]"

definition esc_char :: "char \<Rightarrow> string" where
  "esc_char c = (case map_of short_escapes c of
       Some e \<Rightarrow> [CHR 0x5C, e]
     | None \<Rightarrow> (case map_of plain_controls c of
         Some h \<Rightarrow> [CHR 0x5C, CHR ''u'', CHR ''0'', CHR ''0''] @ h
       | None \<Rightarrow> [c]))"

definition render_str :: "string \<Rightarrow> string" where
  "render_str s = CHR 0x22 # concat (map esc_char s) @ [CHR 0x22]"

fun render :: "(real \<Rightarrow> string) \<Rightarrow> json \<Rightarrow> string" where
  "render fmt JNull = ''null''"
| "render fmt (JBool b) = (if b then ''true'' else ''false'')"
| "render fmt (JInt i) = itoa i"
| "render fmt (JDec m e) = fmt (of_int m * 10 powr of_int e)"
| "render fmt (JFloat x) = fmt x"
| "render fmt (JStr s) = render_str s"
| "render fmt (JArr vs) = ''['' @ join_with '','' (map (render fmt) vs) @ '']''"
| "render fmt (JObj ms) =
     ''{'' @ join_with '','' (map (\<lambda>kv. render_str (fst kv) @ '':'' @ render fmt (snd kv)) ms) @ ''}''"

section \<open>Parser\<close>

fun skip_ws :: "string \<Rightarrow> string" where
  "skip_ws [] = []"
| "skip_ws (c # s) = (if c = CHR '' '' \<or> c = CHR 0x09 \<or> c = CHR 0x0A \<or> c = CHR 0x0D then skip_ws s else c # s)"

definition unescapes :: "(char \<times> char) list" where
  "unescapes = [(CHR 0x22, CHR 0x22), (CHR 0x5C, CHR 0x5C), (CHR ''/'', CHR ''/''), (CHR ''b'', CHR 0x08),
     (CHR ''f'', CHR 0x0C), (CHR ''n'', CHR 0x0A), (CHR ''r'', CHR 0x0D), (CHR ''t'', CHR 0x09)]"

definition control_chars :: string where
  "control_chars = [CHR 0x00, CHR 0x01, CHR 0x02, CHR 0x03, CHR 0x04, CHR 0x05, CHR 0x06, CHR 0x07,
     CHR 0x08, CHR 0x09, CHR 0x0A, CHR 0x0B, CHR 0x0C, CHR 0x0D, CHR 0x0E, CHR 0x0F, CHR 0x10, CHR 0x11,
     CHR 0x12, CHR 0x13, CHR 0x14, CHR 0x15, CHR 0x16, CHR 0x17, CHR 0x18, CHR 0x19, CHR 0x1A, CHR 0x1B,
     CHR 0x1C, CHR 0x1D, CHR 0x1E, CHR 0x1F]"

definition hex4 :: "char \<Rightarrow> char \<Rightarrow> char \<Rightarrow> char \<Rightarrow> int option" where
  "hex4 a b c d = (case (hex_digit a, hex_digit b, hex_digit c, hex_digit d) of
      (Some w, Some x, Some y, Some z) \<Rightarrow> Some (((w * 16 + x) * 16 + y) * 16 + z) | _ \<Rightarrow> None)"

definition byte :: "int \<Rightarrow> char" where
  "byte i = char_of (nat i)"

text \<open>The UTF-8 bytes of a code point.\<close>

definition utf8 :: "int \<Rightarrow> string" where
  "utf8 u = (if u < 128 then [byte u]
     else if u < 2048 then [byte (192 + u div 64), byte (128 + u mod 64)]
     else if u < 65536 then [byte (224 + u div 4096), byte (128 + u div 64 mod 64), byte (128 + u mod 64)]
     else [byte (240 + u div 262144), byte (128 + u div 4096 mod 64), byte (128 + u div 64 mod 64),
           byte (128 + u mod 64)])"

definition high_surrogate :: "int \<Rightarrow> bool" where
  "high_surrogate u \<longleftrightarrow> 55296 \<le> u \<and> u < 56320"

definition low_surrogate :: "int \<Rightarrow> bool" where
  "low_surrogate u \<longleftrightarrow> 56320 \<le> u \<and> u < 57344"

definition prepend :: "string \<Rightarrow> (string \<times> string) option \<Rightarrow> (string \<times> string) option" where
  "prepend xs r = map_option (\<lambda>(s, rest). (xs @ s, rest)) r"

text \<open>
  The rest of a string literal after its opening quote. An unpaired surrogate becomes the
  replacement character U+FFFD.
\<close>

fun parse_str :: "string \<Rightarrow> (string \<times> string) option" where
  "parse_str [] = None"
| "parse_str (c # s) =
    (if c = CHR 0x22 then Some ([], s)
     else if c = CHR 0x5C then
       (case s of
          [] \<Rightarrow> None
        | e # s1 \<Rightarrow>
            if e = CHR ''u'' then
              (case s1 of
                 h1 # h2 # h3 # h4 # s2 \<Rightarrow>
                   (case hex4 h1 h2 h3 h4 of
                      None \<Rightarrow> None
                    | Some u \<Rightarrow>
                        if high_surrogate u then
                          (case s2 of
                             q # w # g1 # g2 # g3 # g4 # s3 \<Rightarrow>
                               (case hex4 g1 g2 g3 g4 of
                                  Some v \<Rightarrow>
                                    if q = CHR 0x5C \<and> w = CHR ''u'' \<and> low_surrogate v
                                    then prepend (utf8 (65536 + (u - 55296) * 1024 + (v - 56320))) (parse_str s3)
                                    else prepend (utf8 65533) (parse_str (q # w # g1 # g2 # g3 # g4 # s3))
                                | None \<Rightarrow> prepend (utf8 65533) (parse_str (q # w # g1 # g2 # g3 # g4 # s3)))
                           | _ \<Rightarrow> prepend (utf8 65533) (parse_str s2))
                        else if low_surrogate u then prepend (utf8 65533) (parse_str s2)
                        else prepend (utf8 u) (parse_str s2))
               | _ \<Rightarrow> None)
            else (case map_of unescapes e of
                    None \<Rightarrow> None
                  | Some x \<Rightarrow> prepend [x] (parse_str s1)))
     else if c \<in> set control_chars then None
     else prepend [c] (parse_str s))"

text \<open>A number literal: sign, integer part without leading zeros, fraction, exponent.\<close>

definition span_digits :: "string \<Rightarrow> string \<times> string" where
  "span_digits s = (takeWhile is_digit s, dropWhile is_digit s)"

definition parse_exp :: "string \<Rightarrow> (int option \<times> string) option" where
  "parse_exp s =
    (if s = [] \<or> hd s \<notin> {CHR ''e'', CHR ''E''} then Some (None, s)
     else let s1 = tl s;
              neg = (s1 \<noteq> [] \<and> hd s1 = CHR ''-'');
              s2 = (if s1 \<noteq> [] \<and> hd s1 \<in> {CHR ''+'', CHR ''-''} then tl s1 else s1);
              (ds, rest) = span_digits s2
          in if ds = [] then None else Some (Some (if neg then - dec_val ds else dec_val ds), rest))"

definition parse_num :: "string \<Rightarrow> (json \<times> string) option" where
  "parse_num s =
    (let neg = (s \<noteq> [] \<and> hd s = CHR ''-'');
         s1 = (if neg then tl s else s);
         (ds, s2) = span_digits s1;
         sg = (if neg then -1 else 1)
     in if ds = [] \<or> (1 < length ds \<and> hd ds = CHR ''0'') then None
        else let (fs, s3) = (if s2 \<noteq> [] \<and> hd s2 = CHR ''.'' then span_digits (tl s2) else ([], s2))
             in if s2 \<noteq> [] \<and> hd s2 = CHR ''.'' \<and> fs = [] then None
                else (case parse_exp s3 of
                        None \<Rightarrow> None
                      | Some (ex, rest) \<Rightarrow>
                          if fs = [] \<and> ex = None then Some (JInt (sg * dec_val ds), rest)
                          else Some (JDec (sg * dec_val (ds @ fs))
                                 ((case ex of None \<Rightarrow> 0 | Some x \<Rightarrow> x) - int (length fs)), rest)))"

text \<open>The recursive descent; the fuel bounds the number of values and separators read.\<close>

fun parse_value :: "nat \<Rightarrow> string \<Rightarrow> (json \<times> string) option"
  and parse_elems :: "nat \<Rightarrow> string \<Rightarrow> (json list \<times> string) option"
  and parse_members :: "nat \<Rightarrow> string \<Rightarrow> ((string \<times> json) list \<times> string) option" where
  "parse_value 0 s = None"
| "parse_value (Suc n) s =
    (let t = skip_ws s in
     if t = [] then None
     else if hd t = CHR ''{'' then
       (let r = skip_ws (tl t) in
        if r \<noteq> [] \<and> hd r = CHR ''}'' then Some (JObj [], tl r)
        else map_option (\<lambda>(ms, rest). (JObj ms, rest)) (parse_members n r))
     else if hd t = CHR ''['' then
       (let r = skip_ws (tl t) in
        if r \<noteq> [] \<and> hd r = CHR '']'' then Some (JArr [], tl r)
        else map_option (\<lambda>(vs, rest). (JArr vs, rest)) (parse_elems n r))
     else if hd t = CHR 0x22 then map_option (\<lambda>(x, rest). (JStr x, rest)) (parse_str (tl t))
     else if has_prefix t ''null'' then Some (JNull, drop 4 t)
     else if has_prefix t ''true'' then Some (JBool True, drop 4 t)
     else if has_prefix t ''false'' then Some (JBool False, drop 5 t)
     else parse_num t)"
| "parse_elems 0 s = None"
| "parse_elems (Suc n) s =
    (case parse_value n s of
       None \<Rightarrow> None
     | Some (v, r) \<Rightarrow>
         let t = skip_ws r in
         if t \<noteq> [] \<and> hd t = CHR '','' then map_option (\<lambda>(vs, rest). (v # vs, rest)) (parse_elems n (tl t))
         else if t \<noteq> [] \<and> hd t = CHR '']'' then Some ([v], tl t)
         else None)"
| "parse_members 0 s = None"
| "parse_members (Suc n) s =
    (let t = skip_ws s in
     if t = [] \<or> hd t \<noteq> CHR 0x22 then None
     else (case parse_str (tl t) of
             None \<Rightarrow> None
           | Some (k, r) \<Rightarrow>
               let c = skip_ws r in
               if c = [] \<or> hd c \<noteq> CHR '':'' then None
               else (case parse_value n (tl c) of
                       None \<Rightarrow> None
                     | Some (v, r2) \<Rightarrow>
                         let u = skip_ws r2 in
                         if u \<noteq> [] \<and> hd u = CHR '','' then
                           map_option (\<lambda>(ms, rest). ((k, v) # ms, rest)) (parse_members n (tl u))
                         else if u \<noteq> [] \<and> hd u = CHR ''}'' then Some ([(k, v)], tl u)
                         else None)))"

text \<open>\<open>json.Unmarshal\<close> reads a whole text, a \<open>Decoder\<close> the first value of a stream.\<close>

definition json_decode :: "string \<Rightarrow> json option" where
  "json_decode s = map_option fst (parse_value (2 * length s + 2) s)"

definition json_parse :: "string \<Rightarrow> json option" where
  "json_parse s = (case parse_value (2 * length s + 2) s of
      None \<Rightarrow> None | Some (j, rest) \<Rightarrow> if skip_ws rest = [] then Some j else None)"

section \<open>Fields of an object\<close>

text \<open>
  Reading into a struct: \<open>null\<close> and a missing member leave the zero value; a value of another
  type is an error, which is \<open>None\<close> here.
\<close>

definition member :: "string \<Rightarrow> (string \<times> json) list \<Rightarrow> json" where
  "member k ms = (case find (\<lambda>kv. fst kv = k) (rev ms) of None \<Rightarrow> JNull | Some kv \<Rightarrow> snd kv)"

fun as_string :: "json \<Rightarrow> string option" where
  "as_string JNull = Some []"
| "as_string (JStr s) = Some s"
| "as_string _ = None"

fun as_int :: "json \<Rightarrow> int option" where
  "as_int JNull = Some 0"
| "as_int (JInt i) = (if - (2 ^ 63) \<le> i \<and> i < 2 ^ 63 then Some i else None)"
| "as_int _ = None"

fun as_bool :: "json \<Rightarrow> bool option" where
  "as_bool JNull = Some False"
| "as_bool (JBool b) = Some b"
| "as_bool _ = None"

fun all_some :: "'a option list \<Rightarrow> 'a list option" where
  "all_some [] = Some []"
| "all_some (None # xs) = None"
| "all_some (Some x # xs) = map_option ((#) x) (all_some xs)"

fun as_list :: "(json \<Rightarrow> 'a option) \<Rightarrow> json \<Rightarrow> 'a list option" where
  "as_list f JNull = Some []"
| "as_list f (JArr vs) = all_some (map f vs)"
| "as_list f _ = None"

fun as_object :: "json \<Rightarrow> (string \<times> json) list option" where
  "as_object JNull = Some []"
| "as_object (JObj ms) = Some ms"
| "as_object _ = None"

text \<open>A pointer field: \<open>nil\<close> for a missing member or \<open>null\<close>.\<close>

definition as_pointer :: "(json \<Rightarrow> 'a option) \<Rightarrow> json \<Rightarrow> 'a option option" where
  "as_pointer f j = (if j = JNull then Some None else map_option Some (f j))"

lemma json_examples:
  "json_parse ''[]'' = Some (JArr [])"
  "json_parse [CHR ''['', CHR 0x22, CHR ''a'', CHR 0x22, CHR '','', CHR 0x22, CHR 0x22, CHR '']''] =
     Some (JArr [JStr ''a'', JStr []])"
  "json_parse ''{}'' = Some (JObj [])" "json_parse ''[-12, 3.50, true]'' = Some (JArr [JInt (-12), JDec 350 (-2), JBool True])"
  "json_parse ''[01]'' = None" "json_parse ''[1] x'' = None" "json_decode ''[1] x'' = Some (JArr [JInt 1])"
  by code_simp+

section \<open>Reading back a rendered value\<close>

lemma prepend_simps [simp]: "prepend xs None = None" "prepend xs (Some (s, r)) = Some (xs @ s, r)"
  by (simp_all add: prepend_def)

lemma esc_char_table:
  "(\<exists>e. (c, e) \<in> set short_escapes \<and> esc_char c = [CHR 0x5C, e]) \<or>
   (\<exists>h. (c, h) \<in> set plain_controls \<and> esc_char c = [CHR 0x5C, CHR ''u'', CHR ''0'', CHR ''0''] @ h) \<or>
   (esc_char c = [c] \<and> c \<notin> fst ` set short_escapes \<and> c \<notin> fst ` set plain_controls)"
  by (auto simp: esc_char_def map_of_eq_None_iff split: option.splits dest: map_of_SomeD)

lemma control_covered: "set control_chars \<subseteq> fst ` set short_escapes \<union> fst ` set plain_controls"
  by (simp add: control_chars_def short_escapes_def plain_controls_def)

lemma parse_str_esc: "parse_str (esc_char c @ s) = prepend [c] (parse_str s)"
  using esc_char_table [of c]
proof (elim disjE exE conjE)
  fix e assume "(c, e) \<in> set short_escapes" "esc_char c = [CHR 0x5C, e]"
  then show ?thesis by (auto simp: short_escapes_def unescapes_def)
next
  fix h assume "(c, h) \<in> set plain_controls" "esc_char c = [CHR 0x5C, CHR ''u'', CHR ''0'', CHR ''0''] @ h"
  then show ?thesis
    by (auto simp: plain_controls_def hex4_def hex_digit_def high_surrogate_def low_surrogate_def utf8_def
        byte_def char_of_def bit_0)
next
  assume "esc_char c = [c]" "c \<notin> fst ` set short_escapes" "c \<notin> fst ` set plain_controls"
  moreover from this have "c \<notin> set control_chars" using control_covered by auto
  ultimately show ?thesis by (auto simp: short_escapes_def)
qed

lemma parse_render_str [simp]: "parse_str (concat (map esc_char s) @ CHR 0x22 # r) = Some (s, r)"
proof (induction s)
  case Nil
  then show ?case by simp
next
  case (Cons c s)
  then show ?case using parse_str_esc [of c "concat (map esc_char s) @ CHR 0x22 # r"] by simp
qed

subsection \<open>Numbers\<close>

lemma digit_nth: "d < 10 \<Longrightarrow> is_digit (''0123456789'' ! d) \<and> digit_val (''0123456789'' ! d) = int d"
  by (auto simp: less_Suc_eq numeral_eq_Suc is_digit_def digit_val_def digit_table_def)

lemma nat_digits_digits: "list_all is_digit (nat_digits n)"
proof (induction n rule: nat_digits.induct)
  case (1 n)
  then show ?case
    using digit_nth [of n] digit_nth [of "n mod 10"] by (simp add: nat_digits.simps [of n])
qed

lemma nat_digits_nonempty [simp]: "nat_digits n \<noteq> []"
  by (subst nat_digits.simps) simp

lemma dec_val_snoc: "dec_val (s @ [c]) = 10 * dec_val s + digit_val c"
  by (simp add: dec_val_def)

lemma dec_val_nat_digits: "dec_val (nat_digits n) = int n"
proof (induction n rule: nat_digits.induct)
  case (1 n)
  show ?case
  proof (cases "n < 10")
    case True
    then show ?thesis using digit_nth [of n] by (simp add: nat_digits.simps [of n] dec_val_def)
  next
    case False
    then have "dec_val (nat_digits n) = 10 * int (n div 10) + int (n mod 10)"
      using 1 digit_nth [of "n mod 10"] by (simp add: nat_digits.simps [of n] dec_val_snoc)
    also have "\<dots> = int n" by presburger
    finally show ?thesis .
  qed
qed

lemma nat_digits_no_lead: "hd (nat_digits n) = CHR ''0'' \<Longrightarrow> nat_digits n = ''0''"
proof (induction n rule: nat_digits.induct)
  case (1 n)
  show ?case
  proof (cases "n < 10")
    case True
    then have nd: "nat_digits n = [''0123456789'' ! n]" by (subst nat_digits.simps) simp
    with 1(2) have "digit_val (''0123456789'' ! n) = digit_val (CHR ''0'')" by simp
    with digit_nth [OF True] have "n = 0" by (simp add: digit_val_def digit_table_def)
    with nd show ?thesis by simp
  next
    case False
    then have "hd (nat_digits (n div 10)) = CHR ''0''" using 1(2) by (simp add: nat_digits.simps [of n])
    with 1 False have "nat_digits (n div 10) = ''0''" by simp
    then have "n div 10 = 0" using dec_val_nat_digits [of "n div 10"]
      by (simp add: dec_val_def digit_val_def digit_table_def)
    with False show ?thesis by simp
  qed
qed

text \<open>What may follow a value: not a character that continues a number.\<close>

definition ends_number :: "string \<Rightarrow> bool" where
  "ends_number r \<longleftrightarrow> r = [] \<or> (\<not> is_digit (hd r) \<and> hd r \<notin> {CHR ''.'', CHR ''e'', CHR ''E''})"

lemma span_nat_digits:
  assumes "ends_number r"
  shows "span_digits (nat_digits n @ r) = (nat_digits n, r)"
proof -
  have "takeWhile is_digit (nat_digits n @ r) = nat_digits n @ takeWhile is_digit r"
    "dropWhile is_digit (nat_digits n @ r) = dropWhile is_digit r"
    using nat_digits_digits [of n] by (simp_all add: list_all_iff takeWhile_append dropWhile_append)
  with assms show ?thesis by (cases r) (auto simp: span_digits_def ends_number_def)
qed

lemma nat_digits_hd: "is_digit (hd (nat_digits n @ r))"
  using nat_digits_digits [of n] nat_digits_nonempty [of n] by (cases "nat_digits n") auto

lemma parse_num_itoa:
  assumes "ends_number r"
  shows "parse_num (itoa i @ r) = Some (JInt i, r)"
proof -
  have m: "hd (nat_digits n @ r) \<noteq> CHR ''-''" for n
    using nat_digits_hd [of n r] by (auto simp: is_digit_def digit_table_def)
  have z: "\<not> (1 < length (nat_digits n) \<and> hd (nat_digits n) = CHR ''0'')" for n
    using nat_digits_no_lead [of n] by auto
  have e: "parse_exp r = Some (None, r)" "r \<noteq> [] \<Longrightarrow> hd r \<noteq> CHR ''.''"
    using assms by (auto simp: parse_exp_def ends_number_def)
  show ?thesis
    using m [of "nat i"] z [of "nat i"] z [of "nat (- i)"] e
    by (auto simp: itoa_def parse_num_def Let_def span_nat_digits [OF assms] dec_val_nat_digits)
qed

subsection \<open>Values\<close>

fun textual :: "json \<Rightarrow> bool" where
  "textual (JDec m e) = False"
| "textual (JFloat x) = False"
| "textual (JArr vs) = list_all textual vs"
| "textual (JObj ms) = list_all (\<lambda>kv. textual (snd kv)) ms"
| "textual _ = True"

fun fuel_of :: "json \<Rightarrow> nat" where
  "fuel_of (JArr vs) = Suc (sum_list (map (\<lambda>v. Suc (fuel_of v)) vs))"
| "fuel_of (JObj ms) = Suc (sum_list (map (\<lambda>kv. Suc (fuel_of (snd kv))) ms))"
| "fuel_of _ = 1"

definition starts_value :: "string \<Rightarrow> bool" where
  "starts_value s \<longleftrightarrow> s \<noteq> [] \<and> hd s \<notin> {CHR '' '', CHR 0x09, CHR 0x0A, CHR 0x0D, CHR '']'', CHR ''}''}"

lemma skip_ws_starts: "starts_value s \<Longrightarrow> skip_ws s = s"
  by (cases s) (auto simp: starts_value_def)

lemma itoa_starts: "starts_value (itoa i @ r) \<and> (is_digit (hd (itoa i @ r)) \<or> hd (itoa i @ r) = CHR ''-'')"
  using nat_digits_hd [of "nat i" r] by (auto simp: itoa_def starts_value_def is_digit_def digit_table_def)

lemma render_starts: "textual j \<Longrightarrow> starts_value (render fmt j @ r)"
  using itoa_starts by (cases j) (auto simp: starts_value_def render_str_def)

lemma skip_ws_sep [simp]:
  "skip_ws (CHR '','' # s) = CHR '','' # s" "skip_ws (CHR '']'' # s) = CHR '']'' # s"
  "skip_ws (CHR ''}'' # s) = CHR ''}'' # s" "skip_ws (CHR '':'' # s) = CHR '':'' # s"
  "skip_ws (CHR 0x22 # s) = CHR 0x22 # s"
  by simp_all

lemma ends_number_sep [simp]:
  "ends_number (CHR '','' # s)" "ends_number (CHR '']'' # s)" "ends_number (CHR ''}'' # s)" "ends_number []"
  by (simp_all add: ends_number_def is_digit_def digit_table_def)

lemma parse_render_elems:
  assumes "\<And>v n r. v \<in> set vs \<Longrightarrow> ends_number r \<Longrightarrow> fuel_of v \<le> n \<Longrightarrow>
      parse_value n (render fmt v @ r) = Some (v, r)"
    and "vs \<noteq> []" and "sum_list (map (\<lambda>v. Suc (fuel_of v)) vs) \<le> n"
  shows "parse_elems n (join_with '','' (map (render fmt) vs) @ CHR '']'' # r) = Some (vs, r)"
  using assms
proof (induction vs arbitrary: n)
  case Nil
  then show ?case by simp
next
  case (Cons v vs)
  then obtain k where k: "n = Suc k" "fuel_of v \<le> k" "sum_list (map (\<lambda>v. Suc (fuel_of v)) vs) \<le> k"
    by (cases n) auto
  show ?case
  proof (cases vs)
    case Nil
    then show ?thesis using Cons.prems(1) [of v "CHR '']'' # r" k] k by simp
  next
    case (Cons w ws)
    let ?rest = "join_with '','' (map (render fmt) vs) @ CHR '']'' # r"
    have "parse_elems k ?rest = Some (vs, r)"
      using Cons.IH Cons.prems(1) k(3) \<open>vs = w # ws\<close> by simp
    moreover have "parse_value k (render fmt v @ CHR '','' # ?rest) = Some (v, CHR '','' # ?rest)"
      using Cons.prems(1) [of v "CHR '','' # ?rest" k] k by simp
    ultimately show ?thesis using \<open>vs = w # ws\<close> k by simp
  qed
qed

lemma parse_render_members:
  assumes "\<And>kv n r. kv \<in> set ms \<Longrightarrow> ends_number r \<Longrightarrow> fuel_of (snd kv) \<le> n \<Longrightarrow>
      parse_value n (render fmt (snd kv) @ r) = Some (snd kv, r)"
    and "ms \<noteq> []" and "sum_list (map (\<lambda>kv. Suc (fuel_of (snd kv))) ms) \<le> n"
  shows "parse_members n (join_with '','' (map (\<lambda>kv. render_str (fst kv) @ '':'' @ render fmt (snd kv)) ms)
           @ CHR ''}'' # r) = Some (ms, r)"
  using assms
proof (induction ms arbitrary: n)
  case Nil
  then show ?case by simp
next
  case (Cons kv ms)
  then obtain k where k: "n = Suc k" "fuel_of (snd kv) \<le> k"
      "sum_list (map (\<lambda>kv. Suc (fuel_of (snd kv))) ms) \<le> k"
    by (cases n) auto
  obtain key v where kv: "kv = (key, v)" by fastforce
  show ?case
  proof (cases ms)
    case Nil
    have "parse_value k (render fmt v @ CHR ''}'' # r) = Some (v, CHR ''}'' # r)"
      using Cons.prems(1) [of kv "CHR ''}'' # r" k] k kv by simp
    then show ?thesis using Nil k kv by (simp add: render_str_def Let_def)
  next
    case (Cons w ws)
    let ?rest = "join_with '','' (map (\<lambda>kv. render_str (fst kv) @ '':'' @ render fmt (snd kv)) ms) @ CHR ''}'' # r"
    have "parse_members k ?rest = Some (ms, r)"
      using Cons.IH Cons.prems(1) k(3) \<open>ms = w # ws\<close> by simp
    moreover have "parse_value k (render fmt v @ CHR '','' # ?rest) = Some (v, CHR '','' # ?rest)"
      using Cons.prems(1) [of kv "CHR '','' # ?rest" k] k kv by simp
    ultimately show ?thesis using \<open>ms = w # ws\<close> k kv by (simp add: render_str_def Let_def)
  qed
qed

lemma parse_render:
  "textual j \<Longrightarrow> ends_number r \<Longrightarrow> fuel_of j \<le> n \<Longrightarrow> parse_value n (render fmt j @ r) = Some (j, r)"
proof (induction j arbitrary: n r)
  case (JInt i)
  then obtain k where n: "n = Suc k" by (cases n) auto
  obtain c t where ct: "itoa i @ r = c # t"
    using itoa_starts [of i r] by (cases "itoa i @ r") (auto simp: starts_value_def)
  have "is_digit c \<or> c = CHR ''-''" and ws: "skip_ws (c # t) = c # t"
    using itoa_starts [of i r] skip_ws_starts [of "itoa i @ r"] unfolding ct by auto
  then have "c \<notin> {CHR ''{'', CHR ''['', CHR 0x22, CHR ''n'', CHR ''t'', CHR ''f''}"
    by (auto simp: is_digit_def digit_table_def)
  then have "parse_value (Suc k) (c # t) = parse_num (c # t)"
    unfolding parse_value.simps ws Let_def by (simp add: has_prefix_def)
  with JInt parse_num_itoa [of r i] show ?case by (simp add: n ct)
next
  case (JStr s)
  then obtain k where n: "n = Suc k" by (cases n) auto
  then show ?case by (simp add: render_str_def Let_def)
next
  case (JArr vs)
  then obtain k where n: "n = Suc k" by (cases n) auto
  show ?case
  proof (cases "vs = []")
    case True
    then show ?thesis by (simp add: n Let_def)
  next
    case False
    then obtain v ws where vs: "vs = v # ws" by (cases vs) auto
    have "\<exists>q. join_with '','' (map (render fmt) vs) @ CHR '']'' # r = render fmt v @ q"
      unfolding vs by (cases ws) auto
    then have st: "starts_value (join_with '','' (map (render fmt) vs) @ CHR '']'' # r)"
      using render_starts JArr.prems(1) vs by auto
    have "parse_elems k (join_with '','' (map (render fmt) vs) @ CHR '']'' # r) = Some (vs, r)"
      using JArr False n by (intro parse_render_elems) (auto simp: list_all_iff)
    then show ?thesis
      using st by (auto simp: n Let_def skip_ws_starts starts_value_def)
  qed
next
  case (JObj ms)
  then obtain k where n: "n = Suc k" by (cases n) auto
  let ?body = "join_with '','' (map (\<lambda>kv. render_str (fst kv) @ '':'' @ render fmt (snd kv)) ms)"
  show ?case
  proof (cases "ms = []")
    case True
    then show ?thesis by (simp add: n Let_def)
  next
    case False
    then obtain kv ws where ms: "ms = kv # ws" by (cases ms) auto
    have "\<exists>q. ?body @ CHR ''}'' # r = CHR 0x22 # q"
      unfolding ms by (cases ws) (auto simp: render_str_def)
    then obtain q where q: "?body @ CHR ''}'' # r = CHR 0x22 # q" by blast
    have IH: "\<And>kv n r. kv \<in> set ms \<Longrightarrow> ends_number r \<Longrightarrow> fuel_of (snd kv) \<le> n \<Longrightarrow>
        parse_value n (render fmt (snd kv) @ r) = Some (snd kv, r)"
      using JObj.IH JObj.prems(1) by (fastforce simp: list_all_iff)
    have "parse_members k (?body @ CHR ''}'' # r) = Some (ms, r)"
      using IH False JObj.prems(3) n by (intro parse_render_members) auto
    with q show ?thesis by (simp add: n Let_def)
  qed
next
  case JNull
  then obtain k where "n = Suc k" by (cases n) auto
  then show ?case by (simp add: Let_def has_prefix_def)
next
  case (JBool b)
  then obtain k where "n = Suc k" by (cases n) auto
  then show ?case by (cases b) (simp_all add: Let_def has_prefix_def)
next
  case (JDec m e)
  then show ?case by simp
next
  case (JFloat x)
  then show ?case by simp
qed

lemma length_join: "length (join_with [c] ws) = sum_list (map length ws) + (length ws - 1)"
  by (induction "[c]" ws rule: join_with.induct) auto

lemma fuel_bound: "textual j \<Longrightarrow> fuel_of j \<le> 2 * length (render fmt j) + 1"
proof (induction j)
  case (JArr vs)
  have "sum_list (map (\<lambda>v. Suc (fuel_of v)) vs) \<le> sum_list (map (\<lambda>v. 2 * length (render fmt v) + 2) vs)"
    using JArr by (intro sum_list_mono) (fastforce simp: list_all_iff)
  also have "\<dots> = 2 * sum_list (map (length \<circ> render fmt) vs) + 2 * length vs"
    by (induction vs) auto
  finally show ?case by (cases vs) (auto simp: length_join)
next
  case (JObj ms)
  have "sum_list (map (\<lambda>kv. Suc (fuel_of (snd kv))) ms)
      \<le> sum_list (map (\<lambda>kv. 2 * length (render_str (fst kv) @ '':'' @ render fmt (snd kv)) + 2) ms)"
  proof (rule sum_list_mono)
    fix kv assume "kv \<in> set ms"
    with JObj have "fuel_of (snd kv) \<le> 2 * length (render fmt (snd kv)) + 1"
      by (cases kv) (fastforce simp: list_all_iff)
    then show "Suc (fuel_of (snd kv)) \<le> 2 * length (render_str (fst kv) @ '':'' @ render fmt (snd kv)) + 2" by simp
  qed
  also have "\<dots> = 2 * sum_list (map (length \<circ> (\<lambda>kv. render_str (fst kv) @ '':'' @ render fmt (snd kv))) ms) + 2 * length ms"
    by (induction ms) auto
  finally show ?case by (cases ms) (auto simp: length_join)
qed auto

lemma json_parse_render: "textual j \<Longrightarrow> json_parse (render fmt j) = Some j"
  using parse_render [of j "[]" "2 * length (render fmt j) + 2" fmt] fuel_bound [of j fmt]
  by (simp add: json_parse_def)

end
