(* ===== verification/Http.thy ===== *)
theory Http
  imports Json Errs
begin

text \<open>
  What the handlers see of \<open>net/http\<close> and \<open>net/url\<close>: a request, a response, header and cookie
  lookup, the host of an \<open>Origin\<close> or \<open>Referer\<close>, and the JSON bodies every handler writes
  (\<open>internal/httpserver/httpserver.go\<close>, \<open>writeJSON\<close> and \<open>writeError\<close>).
\<close>

record http_request =
  rq_Method :: string
  rq_Path :: string
  rq_Host :: string
  rq_RemoteAddr :: string
  rq_Headers :: "(string \<times> string) list"
  rq_Cookies :: "(string \<times> string) list"
  rq_Query :: "(string \<times> string) list"
  rq_Body :: string

datatype body = JsonBody json | TextBody string

record http_response =
  rs_Status :: int
  rs_Headers :: "(string \<times> string) list"
  rs_Body :: body

text \<open>\<open>Header.Get\<close>, \<open>Request.Cookie\<close> (\<open>None\<close>: no such cookie) and \<open>URL.Query().Get\<close>.\<close>

definition header_get :: "http_request \<Rightarrow> string \<Rightarrow> string" where
  "header_get r k = (case find (\<lambda>kv. equal_fold (fst kv) k) (rq_Headers r) of None \<Rightarrow> [] | Some kv \<Rightarrow> snd kv)"

definition cookie_get :: "http_request \<Rightarrow> string \<Rightarrow> string option" where
  "cookie_get r k = map_of (rq_Cookies r) k"

definition query_get :: "http_request \<Rightarrow> string \<Rightarrow> string" where
  "query_get r k = (case map_of (rq_Query r) k of None \<Rightarrow> [] | Some v \<Rightarrow> v)"

text \<open>
  \<open>url.Parse(s).Host\<close> for the references browsers send: an optional scheme, \<open>//\<close>, an
  authority whose user part is dropped, then a path, query or fragment. \<open>None\<close> stands for a
  parse error and for an empty host, which the callers treat alike. A host with a percent
  escape or a character that is not allowed is an error.
\<close>

definition letters :: string where
  "letters = ''abcdefghijklmnopqrstuvwxyzABCDEFGHIJKLMNOPQRSTUVWXYZ''"

definition host_chars :: string where
  "host_chars = letters @ ''0123456789'' @ ''-_.~!$&()*+,;=:[]<>'' @ [CHR 0x27, CHR 0x22]"

definition url_rest :: "string \<Rightarrow> string option" where
  "url_rest s =
    (if has_prefix s ''//'' then Some (drop 2 s)
     else case index_byte s (CHR '':'') of
       None \<Rightarrow> None
     | Some i \<Rightarrow>
         if 0 < i \<and> hd s \<in> set letters
           \<and> list_all (\<lambda>c. c \<in> set (letters @ ''0123456789+-.'')) (take i s)
           \<and> has_prefix (drop (Suc i) s) ''//'' then Some (drop (i + 3) s) else None)"

definition valid_port :: "string \<Rightarrow> bool" where
  "valid_port h \<longleftrightarrow> (let p = (case last_index_byte h (CHR '']'') of Some i \<Rightarrow> drop (Suc i) h
                        | None \<Rightarrow> (case index_byte h (CHR '':'') of None \<Rightarrow> [] | Some i \<Rightarrow> drop i h))
     in p = [] \<or> (hd p = CHR '':'' \<and> list_all is_digit (tl p)))"

definition url_host :: "string \<Rightarrow> string option" where
  "url_host s = (case url_rest s of
      None \<Rightarrow> None
    | Some rest \<Rightarrow>
        let auth = takeWhile (\<lambda>c. c \<notin> {CHR ''/'', CHR ''?'', CHR ''#''}) rest;
            h = (case last_index_byte auth (CHR ''@'') of None \<Rightarrow> auth | Some i \<Rightarrow> drop (Suc i) auth)
        in if h = [] \<or> \<not> list_all (\<lambda>c. c \<in> set host_chars) h \<or> \<not> valid_port h then None else Some h)"

lemma url_host_examples:
  "url_host ''http://localhost:18100/x?y'' = Some ''localhost:18100''"
  "url_host ''https://evil.example'' = Some ''evil.example''"
  "url_host ''null'' = None" "url_host ''http://u@h/'' = Some ''h''" "url_host ''/path'' = None"
  by code_simp+

definition writeJSON :: "int \<Rightarrow> json \<Rightarrow> http_response" where
  "writeJSON status v = \<lparr>rs_Status = status,
     rs_Headers = [(''Content-Type'', ''application/json'')], rs_Body = JsonBody v\<rparr>"

definition error_body :: "biz_error \<Rightarrow> json" where
  "error_body e = JObj [(''error'', JObj [(''code'', JStr (code_string (biz_code e))),
     (''message'', JStr (biz_msg e)), (''retryable'', JBool (biz_retryable e))])]"

definition writeError :: "biz_error \<Rightarrow> http_response" where
  "writeError e = writeJSON (HTTPStatus (biz_code e)) (error_body e)"

lemma writeJSON_simps [simp]:
  "rs_Status (writeJSON st v) = st" "rs_Body (writeJSON st v) = JsonBody v"
  by (simp_all add: writeJSON_def)

lemma writeError_simps [simp]:
  "rs_Status (writeError e) = HTTPStatus (biz_code e)" "rs_Body (writeError e) = JsonBody (error_body e)"
  by (simp_all add: writeError_def)

end
