(* ===== verification/Session.thy ===== *)
theory Session
  imports Http
begin

text \<open>
  The management plane's guard (\<open>internal/session/session.go\<close>): who may call, from which
  host, and for writes from which origin. A session token maps to its expiry; the clock is
  an instant in nanoseconds, read once per call.
\<close>

section \<open>Session store\<close>

definition CookieName :: string where
  "CookieName = ''midroute_session''"

definition defaultSessionTTL :: int where
  "defaultSessionTTL = hours 12"

record session_store =
  ss_ttl :: int
  ss_entries :: "string \<rightharpoonup> int"

definition newSessionStore :: "int \<Rightarrow> session_store" where
  "newSessionStore ttl = \<lparr>ss_ttl = ttl, ss_entries = Map.empty\<rparr>"

definition session_add :: "string \<Rightarrow> int \<Rightarrow> session_store \<Rightarrow> int \<times> session_store" where
  "session_add tok t s = (let expiry = t + ss_ttl s in (expiry, s\<lparr>ss_entries := (ss_entries s)(tok \<mapsto> expiry)\<rparr>))"

definition session_valid :: "string \<Rightarrow> int \<Rightarrow> session_store \<Rightarrow> bool \<times> session_store" where
  "session_valid tok t s = (case ss_entries s tok of
       None \<Rightarrow> (False, s)
     | Some expiry \<Rightarrow>
         if \<not> t < expiry then (False, s\<lparr>ss_entries := (ss_entries s)(tok := None)\<rparr>)
         else (True, s\<lparr>ss_entries := (ss_entries s)(tok \<mapsto> t + ss_ttl s)\<rparr>))"

definition session_remove :: "string \<Rightarrow> session_store \<Rightarrow> bool \<times> session_store" where
  "session_remove tok s = (ss_entries s tok \<noteq> None, s\<lparr>ss_entries := (ss_entries s)(tok := None)\<rparr>)"

section \<open>Guard\<close>

record guard =
  g_localOnly :: bool
  g_adminKey :: string
  g_sessions :: session_store

definition NewGuard :: "bool \<Rightarrow> string \<Rightarrow> guard" where
  "NewGuard lo key = \<lparr>g_localOnly = lo, g_adminKey = key, g_sessions = newSessionStore defaultSessionTTL\<rparr>"

definition IsLoopback :: "http_request \<Rightarrow> bool" where
  "IsLoopback r = (case split_host_port (rq_RemoteAddr r) of
       None \<Rightarrow> False
     | Some (host, port) \<Rightarrow> (case parse_ip host of None \<Rightarrow> False | Some ip \<Rightarrow> ip_is_loopback ip))"

definition hostIsLoopbackLiteral :: "string \<Rightarrow> bool" where
  "hostIsLoopbackLiteral hostPort0 =
    (let hostPort = trim_space hostPort0 in
     if hostPort = [] then False
     else let host0 = (case split_host_port hostPort of Some (h, p) \<Rightarrow> h | None \<Rightarrow> hostPort);
              host = to_lower (trim_of (\<lambda>c. c = CHR ''['' \<or> c = CHR '']'') host0)
          in if host = ''localhost'' then True
             else (case parse_ip host of None \<Rightarrow> False | Some ip \<Rightarrow> ip_is_loopback ip))"

definition isWriteMethod :: "string \<Rightarrow> bool" where
  "isWriteMethod m \<longleftrightarrow> m \<in> {''POST'', ''PUT'', ''PATCH'', ''DELETE''}"

definition checkSameOrigin :: "http_request \<Rightarrow> biz_error option" where
  "checkSameOrigin r =
    (let origin = header_get r ''Origin''; referer = header_get r ''Referer'' in
     if origin = [] \<and> referer = [] then None
     else (case url_host (if origin \<noteq> [] then origin else referer) of
             None \<Rightarrow> Some (errs_new CodeForbidden
                       (if origin \<noteq> [] then ''Origin header invalid'' else ''Referer header invalid''))
           | Some h \<Rightarrow>
               if to_lower h \<noteq> to_lower (trim_space (rq_Host r))
               then Some (errs_new CodeForbidden ''cross-site write rejected'') else None))"

definition extractBearer :: "string \<Rightarrow> string" where
  "extractBearer h = (if 7 < length h \<and> equal_fold (take 7 h) ''Bearer '' then drop 7 h else h)"

definition sessionToken :: "guard \<Rightarrow> int \<Rightarrow> http_request \<Rightarrow> string \<times> guard" where
  "sessionToken g t r = (case cookie_get r CookieName of
       None \<Rightarrow> ([], g)
     | Some c \<Rightarrow>
         if c = [] then ([], g)
         else let (ok, ss) = session_valid c t (g_sessions g)
              in (if ok then c else [], g\<lparr>g_sessions := ss\<rparr>))"

definition authenticate_request :: "guard \<Rightarrow> int \<Rightarrow> http_request \<Rightarrow> biz_error option \<times> guard" where
  "authenticate_request g t r =
    (let (tok, g') = sessionToken g t r in
     if tok \<noteq> [] then (None, g')
     else let key = extractBearer (header_get r ''Authorization'') in
       if g_adminKey g = [] then (Some (errs_new CodeForbidden ''no admin key configured''), g')
       else if key \<noteq> g_adminKey g then (Some (errs_new CodeUnauthorized ''authentication failed''), g')
       else (None, g'))"

definition Authorize :: "guard \<Rightarrow> int \<Rightarrow> http_request \<Rightarrow> biz_error option \<times> guard" where
  "Authorize g t r =
    (let freePath = (IsLoopback r \<and> g_localOnly g) in
     if freePath \<and> \<not> hostIsLoopbackLiteral (rq_Host r)
     then (Some (errs_new CodeForbidden ''Host not allowed (DNS rebinding)''), g)
     else let (err, g') = (if freePath then (None, g) else authenticate_request g t r) in
       case err of
         Some e \<Rightarrow> (Some e, g')
       | None \<Rightarrow> if isWriteMethod (rq_Method r) then (checkSameOrigin r, g') else (None, g'))"

definition LocalOnlyFree :: "guard \<Rightarrow> bool" where
  "LocalOnlyFree g = g_localOnly g"

text \<open>The random token of a new session; \<open>None\<close> when the random source fails.\<close>

definition IssueSession :: "string option \<Rightarrow> int \<Rightarrow> guard \<Rightarrow> (string \<times> int) option \<times> guard" where
  "IssueSession rnd t g = (case rnd of
       None \<Rightarrow> (None, g)
     | Some tok \<Rightarrow> let (expiry, ss) = session_add tok t (g_sessions g)
                    in (Some (tok, expiry), g\<lparr>g_sessions := ss\<rparr>))"

definition RevokeRequestSession :: "http_request \<Rightarrow> guard \<Rightarrow> bool \<times> guard" where
  "RevokeRequestSession r g = (case cookie_get r CookieName of
       None \<Rightarrow> (False, g)
     | Some c \<Rightarrow> if c = [] then (False, g)
                else let (existed, ss) = session_remove c (g_sessions g)
                     in (existed, g\<lparr>g_sessions := ss\<rparr>))"

section \<open>Sessions as an interface\<close>

text \<open>The answers of a token presented at successive instants.\<close>

fun uses :: "(string \<Rightarrow> int \<Rightarrow> 's \<Rightarrow> bool \<times> 's) \<Rightarrow> string \<Rightarrow> int list \<Rightarrow> 's \<Rightarrow> bool list \<times> 's" where
  "uses valid k [] s = ([], s)"
| "uses valid k (t # ts) s = (let (b, s1) = valid k t s; (bs, s2) = uses valid k ts s1 in (b # bs, s2))"

fun gaps_below :: "int \<Rightarrow> int \<Rightarrow> int list \<Rightarrow> bool" where
  "gaps_below d t0 [] = True"
| "gaps_below d t0 (t # ts) = (t < t0 + d \<and> gaps_below d t ts)"

text \<open>What the guard relies on: a session lives until its expiry, which each use renews.\<close>

locale sliding_sessions =
  fixes add :: "string \<Rightarrow> int \<Rightarrow> 's \<Rightarrow> 's" and valid :: "string \<Rightarrow> int \<Rightarrow> 's \<Rightarrow> bool \<times> 's"
    and remove :: "string \<Rightarrow> 's \<Rightarrow> 's" and expiry :: "'s \<Rightarrow> string \<rightharpoonup> int" and ttl :: "'s \<Rightarrow> int"
  assumes expiry_add: "expiry (add k t s) = (expiry s)(k \<mapsto> t + ttl s)"
    and expiry_remove: "expiry (remove k s) = (expiry s)(k := None)"
    and valid_iff: "fst (valid k t s) \<longleftrightarrow> (\<exists>e. expiry s k = Some e \<and> t < e)"
    and expiry_valid: "expiry (snd (valid k t s)) =
          (expiry s)(k := (if fst (valid k t s) then Some (t + ttl s) else None))"
    and ttl_frame: "ttl (add k t s) = ttl s" "ttl (remove k s) = ttl s" "ttl (snd (valid k t s)) = ttl s"
begin

lemma kept_alive:
  "expiry s k = Some (t0 + ttl s) \<Longrightarrow> gaps_below (ttl s) t0 ts \<Longrightarrow> list_all id (fst (uses valid k ts s))"
proof (induction ts arbitrary: t0 s)
  case Nil
  then show ?case by simp
next
  case (Cons t ts)
  obtain b s1 where v: "valid k t s = (b, s1)" by fastforce
  from Cons.prems valid_iff [of k t s] v have b by auto
  then have "expiry s1 k = Some (t + ttl s1)"
    using expiry_valid [of k t s] ttl_frame(3) [of k t s] v by simp
  with Cons.IH [of s1 t] Cons.prems(2) \<open>b\<close> ttl_frame(3) [of k t s] v show ?case
    by (auto split: prod.splits)
qed

lemma stays_dead: "expiry s k = None \<Longrightarrow> list_all Not (fst (uses valid k ts s))"
proof (induction ts arbitrary: s)
  case Nil
  then show ?case by simp
next
  case (Cons t ts)
  obtain b s1 where v: "valid k t s = (b, s1)" by fastforce
  with valid_iff [of k t s] Cons.prems have "\<not> b" by auto
  moreover from this have "expiry s1 k = None" using expiry_valid [of k t s] v by simp
  ultimately show ?case using Cons.IH [of s1] v by (auto split: prod.splits)
qed

lemma dies_when_idle:
  assumes "expiry s k = Some (t0 + ttl s)" and "t0 + ttl s \<le> t"
  shows "list_all Not (fst (uses valid k (t # ts) s))"
proof -
  obtain b s1 where v: "valid k t s = (b, s1)" by fastforce
  with valid_iff [of k t s] assms have "\<not> b" by auto
  moreover from this have "expiry s1 k = None" using expiry_valid [of k t s] v by simp
  ultimately show ?thesis using stays_dead [of s1 k ts] v by (auto split: prod.splits)
qed

end

interpretation sess: sliding_sessions "\<lambda>k t s. snd (session_add k t s)" session_valid
    "\<lambda>k s. snd (session_remove k s)" ss_entries ss_ttl
  by unfold_locales
    (auto simp: session_add_def session_valid_def session_remove_def Let_def split: option.splits)

section \<open>Properties\<close>



text \<open>A live session in the request's cookie.\<close>

definition live_session :: "guard \<Rightarrow> int \<Rightarrow> http_request \<Rightarrow> bool" where
  "live_session g t r = (case cookie_get r CookieName of
      None \<Rightarrow> False
    | Some c \<Rightarrow> c \<noteq> [] \<and> (case ss_entries (g_sessions g) c of None \<Rightarrow> False | Some e \<Rightarrow> t < e))"

lemma sessionToken_live: "fst (sessionToken g t r) \<noteq> [] \<longleftrightarrow> live_session g t r"
  by (auto simp: sessionToken_def live_session_def session_valid_def Let_def split: option.splits)

lemma authenticate_request_None:
  "fst (authenticate_request g t r) = None \<longleftrightarrow>
     live_session g t r \<or> (g_adminKey g \<noteq> [] \<and> extractBearer (header_get r ''Authorization'') = g_adminKey g)"
  using sessionToken_live [of g t r] by (auto simp: authenticate_request_def Let_def split: prod.splits)

lemma Authorize_None:
  "fst (Authorize g t r) = None \<longleftrightarrow>
     (if IsLoopback r \<and> g_localOnly g then hostIsLoopbackLiteral (rq_Host r)
      else fst (authenticate_request g t r) = None) \<and>
     (if isWriteMethod (rq_Method r) then checkSameOrigin r = None else True)"
  by (auto simp: Authorize_def Let_def split: prod.splits option.splits)

lemma checkSameOrigin_None:
  "checkSameOrigin r = None \<longleftrightarrow>
     (header_get r ''Origin'' = [] \<and> header_get r ''Referer'' = []) \<or>
     (\<exists>h. url_host (if header_get r ''Origin'' \<noteq> [] then header_get r ''Origin'' else header_get r ''Referer'') = Some h \<and>
          to_lower h = to_lower (trim_space (rq_Host r)))"
  by (auto simp: checkSameOrigin_def Let_def split: option.splits)

lemma Authorize_codes: "Authorize g t r = (Some e, g') \<Longrightarrow> biz_code e = CodeUnauthorized \<or> biz_code e = CodeForbidden"
  by (auto simp: Authorize_def authenticate_request_def checkSameOrigin_def Let_def
      split: prod.splits option.splits if_splits)

text \<open>
  C6: exactly which management requests pass. Without login only a loopback peer of a
  local-only server that names a loopback literal as its host (so no rebound DNS name);
  otherwise a live session cookie or the configured, non-empty admin key; and a write that
  carries an Origin (or else a Referer) only from the request's own host. A refusal is
  unauthorized or forbidden.
\<close>

theorem Authorize_iff:
  "(fst (Authorize g t r) = None \<longleftrightarrow>
     (if IsLoopback r \<and> g_localOnly g then hostIsLoopbackLiteral (rq_Host r)
      else live_session g t r \<or> (g_adminKey g \<noteq> [] \<and> extractBearer (header_get r ''Authorization'') = g_adminKey g)) \<and>
     (if isWriteMethod (rq_Method r) then
        (header_get r ''Origin'' = [] \<and> header_get r ''Referer'' = []) \<or>
        (\<exists>h. url_host (if header_get r ''Origin'' = [] then header_get r ''Referer'' else header_get r ''Origin'') = Some h \<and>
             to_lower h = to_lower (trim_space (rq_Host r)))
      else True)) \<and>
   (case fst (Authorize g t r) of None \<Rightarrow> True | Some e \<Rightarrow> biz_code e = CodeUnauthorized \<or> biz_code e = CodeForbidden)"
proof -
  have "biz_code e = CodeUnauthorized \<or> biz_code e = CodeForbidden" if "fst (Authorize g t r) = Some e" for e
    using Authorize_codes [of g t r e] that by (metis prod.collapse)
  then show ?thesis
    by (simp add: Authorize_None authenticate_request_None checkSameOrigin_None split: option.split)
qed

end
