(* ===== verification/Server.thy ===== *)
theory Server
  imports Session
begin

text \<open>
  The HTTP front (\<open>internal/httpserver/httpserver.go\<close>) and the configuration it is started
  from (\<open>internal/config/config.go\<close>). The routes other than the three it registers itself are
  an argument; they act on the guard, whose sessions they may change, and on a state \<open>'s\<close>.
\<close>

section \<open>Server\<close>

record db_store =
  ds_ready :: bool
  ds_version :: int

definition NewDBStore :: "int \<Rightarrow> db_store" where
  "NewDBStore v = \<lparr>ds_ready = True, ds_version = v\<rparr>"

definition healthz :: "db_store \<Rightarrow> http_response" where
  "healthz d = writeJSON 200 (JObj [(''ok'', JBool True), (''service'', JStr ''midroute''),
     (''schema_version'', JInt (ds_version d))])"

text \<open>\<open>up\<close> is the number of whole seconds since the start.\<close>

definition readyz :: "db_store \<Rightarrow> int \<Rightarrow> http_response" where
  "readyz d up =
    (if \<not> ds_ready d then writeJSON 503 (JObj [(''ok'', JBool False), (''reason'', JStr ''database not ready'')])
     else writeJSON 200 (JObj [(''ok'', JBool True), (''db_ready'', JBool True), (''uptime_seconds'', JInt up)]))"

definition session_cookie :: "string \<Rightarrow> string \<Rightarrow> string \<times> string" where
  "session_cookie v attrs = (''Set-Cookie'',
     CookieName @ ''='' @ v @ ''; Path=/'' @ attrs @ ''; HttpOnly; SameSite=Strict'')"

text \<open>
  \<open>fmt\<close> is \<open>Format(time.RFC3339)\<close> of an instant and \<open>fmt_cookie\<close> the date of a cookie;
  \<open>rnd\<close> is the token from the random source.
\<close>

definition handleSession ::
  "(int \<Rightarrow> string) \<Rightarrow> (int \<Rightarrow> string) \<Rightarrow> string option \<Rightarrow> int \<Rightarrow> http_request \<Rightarrow> guard \<Rightarrow> http_response \<times> guard" where
  "handleSession fmt fmt_cookie rnd t r g =
    (if rq_Method r = ''POST'' then
       (if LocalOnlyFree g then
          (writeJSON 400 (JObj [(''ok'', JBool False), (''reason'', JStr ''local mode needs no session'')]), g)
        else (case IssueSession rnd t g of
            (None, g') \<Rightarrow>
              (writeError (errs_wrap CodeInternal ''issuing the session failed'' (TextError ''rand'')), g')
          | (Some (tok, expiry), g') \<Rightarrow>
              (let resp = writeJSON 200 (JObj [(''ok'', JBool True), (''expires_at'', JStr (fmt expiry))])
               in (resp\<lparr>rs_Headers := session_cookie tok (''; Expires='' @ fmt_cookie expiry) # rs_Headers resp\<rparr>, g'))))
     else if rq_Method r = ''DELETE'' then
       (let (existed, g') = RevokeRequestSession r g;
            resp = writeJSON 200 (JObj [(''ok'', JBool True), (''revoked'', JBool existed)])
        in (resp\<lparr>rs_Headers := session_cookie [] ''; Max-Age=0'' # rs_Headers resp\<rparr>, g'))
     else (writeJSON 405 (JObj [(''ok'', JBool False), (''reason'', JStr ''method not supported'')]), g))"

type_synonym 's route = "http_request \<Rightarrow> guard \<times> 's \<Rightarrow> http_response \<times> (guard \<times> 's)"

text \<open>The mux of \<open>New\<close>: its three routes, and the mounted ones for every other path.\<close>

definition base_mux ::
  "db_store \<Rightarrow> int \<Rightarrow> (int \<Rightarrow> string) \<Rightarrow> (int \<Rightarrow> string) \<Rightarrow> string option \<Rightarrow> int \<Rightarrow> 's route \<Rightarrow> 's route" where
  "base_mux d up fmt fmt_cookie rnd t mounted r w =
    (if rq_Path r = ''/healthz'' then (healthz d, w)
     else if rq_Path r = ''/readyz'' then (readyz d up, w)
     else if rq_Path r = ''/api/v1/session'' then
       (let (resp, g') = handleSession fmt fmt_cookie rnd t r (fst w) in (resp, (g', snd w)))
     else mounted r w)"

definition Handler :: "'s route \<Rightarrow> int \<Rightarrow> 's route" where
  "Handler mux t r w =
    (if rq_Path r = ''/healthz'' \<or> rq_Path r = ''/readyz'' then mux r w
     else if has_prefix (rq_Path r) ''/v1/'' then mux r w
     else (case Authorize (fst w) t r of
             (Some e, g') \<Rightarrow> (writeError e, (g', snd w))
           | (None, g') \<Rightarrow> mux r (g', snd w)))"

text \<open>
  A request outside the two probes and the inference plane \<open>/v1/\<close> that comes from a
  peer that is not let in for free, without a live session and without the configured admin
  key, is answered 401 or 403, whatever the routes are, and changes nothing but the guard's
  sessions; so is a write from another origin, even with a session or on the free path.
\<close>

theorem Handler_refuses:
  assumes "rq_Path r \<noteq> ''/healthz''" and "rq_Path r \<noteq> ''/readyz''" and "\<not> has_prefix (rq_Path r) ''/v1/''"
    and "(\<not> (IsLoopback r \<and> g_localOnly g) \<and> \<not> live_session g t r \<and>
           (g_adminKey g = [] \<or> extractBearer (header_get r ''Authorization'') \<noteq> g_adminKey g))
       \<or> (IsLoopback r \<and> g_localOnly g \<and> \<not> hostIsLoopbackLiteral (rq_Host r))
       \<or> (isWriteMethod (rq_Method r) \<and> header_get r ''Origin'' \<noteq> [] \<and>
           map_option to_lower (url_host (header_get r ''Origin'')) \<noteq> Some (to_lower (trim_space (rq_Host r))))"
  shows "rs_Status (fst (Handler mux t r (g, s))) \<in> {401, 403} \<and> snd (snd (Handler mux t r (g, s))) = s"
proof -
  have "fst (Authorize g t r) \<noteq> None"
  proof
    assume "fst (Authorize g t r) = None"
    with assms(4) show False
      by (auto simp: Authorize_None authenticate_request_None checkSameOrigin_None split: if_splits)
  qed
  then obtain e g' where a: "Authorize g t r = (Some e, g')" by (cases "Authorize g t r") auto
  then have "biz_code e = CodeUnauthorized \<or> biz_code e = CodeForbidden" by (rule Authorize_codes)
  with assms(1-3) a show ?thesis by (auto simp: Handler_def)
qed

definition remote_write :: http_request where
  "remote_write = \<lparr>rq_Method = ''POST'', rq_Path = ''/api/v1/accounts'', rq_Host = ''gw:18100'',
     rq_RemoteAddr = ''10.0.0.9:4000'', rq_Headers = [(''Authorization'', ''Bearer wrong'')],
     rq_Cookies = [], rq_Query = [], rq_Body = []\<rparr>"

lemma Handler_refuses_witness:
  "rs_Status (fst (Handler (\<lambda>r w. (writeJSON 200 JNull, w)) 0 remote_write (NewGuard False ''secret'', ()))) \<in> {401, 403}"
proof -
  have h: "rq_Path remote_write = ''/api/v1/accounts''" "g_localOnly (NewGuard False ''secret'') = False"
      "g_adminKey (NewGuard False ''secret'') = ''secret''"
    by (simp_all add: remote_write_def NewGuard_def)
  have k: "\<not> live_session (NewGuard False ''secret'') 0 remote_write"
      "extractBearer (header_get remote_write ''Authorization'') \<noteq> ''secret''"
    by code_simp+
  show ?thesis
    by (rule Handler_refuses [THEN conjunct1]) (use h k in \<open>simp_all add: has_prefix_def\<close>)
qed

section \<open>Configuration\<close>

record config =
  HTTPAddr :: string
  DataDir :: string
  DBPath :: string
  AdminKey :: string
  LocalOnly :: bool
  StaticDir :: string
  LogLevel :: string

definition Default :: config where
  "Default = \<lparr>HTTPAddr = ''127.0.0.1:18100'', DataDir = ''data'', DBPath = [], AdminKey = [],
     LocalOnly = True, StaticDir = [], LogLevel = ''info''\<rparr>"

text \<open>\<open>strconv.ParseBool\<close>\<close>

definition parse_bool :: "string \<Rightarrow> bool option" where
  "parse_bool v =
    (if v \<in> {''1'', ''t'', ''T'', ''TRUE'', ''true'', ''True''} then Some True
     else if v \<in> {''0'', ''f'', ''F'', ''FALSE'', ''false'', ''False''} then Some False else None)"

text \<open>\<open>setStr\<close>: a member that is present and not empty replaces the default.\<close>

definition setStr :: "string option \<Rightarrow> string \<Rightarrow> string" where
  "setStr v dst = (case v of None \<Rightarrow> dst | Some x \<Rightarrow> if x \<noteq> [] then x else dst)"

definition config_string :: "string \<Rightarrow> (string \<times> json) list \<Rightarrow> string option option" where
  "config_string k ms = as_pointer as_string (member k ms)"

text \<open>The file; \<open>read\<close> gives its contents. \<open>None\<close> is an error, which leaves the defaults.\<close>

definition loadFile :: "(string \<Rightarrow> string option) \<Rightarrow> string \<Rightarrow> config \<Rightarrow> config option" where
  "loadFile read path cfg = (case read path of
      None \<Rightarrow> None
    | Some data \<Rightarrow> (case Option.bind (json_parse data) as_object of
        None \<Rightarrow> None
      | Some ms \<Rightarrow>
          (case (config_string ''httpAddr'' ms, config_string ''dataDir'' ms, config_string ''dbPath'' ms,
                 config_string ''adminKey'' ms, config_string ''staticDir'' ms, config_string ''logLevel'' ms,
                 as_pointer as_bool (member ''localOnly'' ms)) of
             (Some a, Some d, Some p, Some k, Some st, Some l, Some lo) \<Rightarrow>
               Some (cfg\<lparr>HTTPAddr := setStr a (HTTPAddr cfg), DataDir := setStr d (DataDir cfg),
                 DBPath := setStr p (DBPath cfg), AdminKey := setStr k (AdminKey cfg),
                 StaticDir := setStr st (StaticDir cfg), LogLevel := setStr l (LogLevel cfg),
                 LocalOnly := (case lo of None \<Rightarrow> LocalOnly cfg | Some b \<Rightarrow> b)\<rparr>)
           | _ \<Rightarrow> None)))"

text \<open>A set, non-empty environment variable replaces a field.\<close>

definition env_or :: "string \<Rightarrow> string \<Rightarrow> string" where
  "env_or v dst = (if v \<noteq> [] then v else dst)"

definition env_local :: "(string \<Rightarrow> string) \<Rightarrow> bool \<Rightarrow> bool option" where
  "env_local env dst =
     (if env ''MIDROUTE_LOCAL_ONLY'' \<noteq> [] then parse_bool (env ''MIDROUTE_LOCAL_ONLY'') else Some dst)"

definition apply_env :: "(string \<Rightarrow> string) \<Rightarrow> (string \<Rightarrow> string \<Rightarrow> string) \<Rightarrow> config \<Rightarrow> go_error + config" where
  "apply_env env join c0 =
    (let c1 = c0\<lparr>HTTPAddr := env_or (env ''MIDROUTE_HTTP_ADDR'') (HTTPAddr c0),
           DataDir := env_or (env ''MIDROUTE_DATA_DIR'') (DataDir c0),
           DBPath := env_or (env ''MIDROUTE_DB_PATH'') (DBPath c0),
           AdminKey := env_or (env ''MIDROUTE_ADMIN_KEY'') (AdminKey c0)\<rparr>
     in case env_local env (LocalOnly c1) of
          None \<Rightarrow> Inl (WrapError ''MIDROUTE_LOCAL_ONLY: '' (TextError ''invalid syntax'') [])
        | Some b \<Rightarrow>
            (let c2 = c1\<lparr>LocalOnly := b, StaticDir := env_or (env ''MIDROUTE_STATIC_DIR'') (StaticDir c1),
                   LogLevel := env_or (env ''MIDROUTE_LOG_LEVEL'') (LogLevel c1)\<rparr>;
                 c3 = (if DBPath c2 = [] then c2\<lparr>DBPath := join (DataDir c2) ''midroute.db''\<rparr> else c2)
             in if \<not> LocalOnly c3 \<and> AdminKey c3 = []
                then Inl (TextError ''remote listening needs MIDROUTE_ADMIN_KEY'')
                else Inr c3))"

text \<open>
  \<open>Load\<close>: the environment \<open>env\<close> maps every variable, the unset ones to the empty text;
  \<open>join\<close> is \<open>filepath.Join\<close>. The configuration an error leaves behind is not used.
\<close>

definition Load ::
  "(string \<Rightarrow> string) \<Rightarrow> (string \<Rightarrow> string option) \<Rightarrow> (string \<Rightarrow> string \<Rightarrow> string) \<Rightarrow> go_error + config" where
  "Load env read join =
    (let p = env ''MIDROUTE_CONFIG'' in
     case (if p \<noteq> [] then loadFile read p Default else Some Default) of
       None \<Rightarrow> Inl (TextError ''config file'')
     | Some c0 \<Rightarrow> apply_env env join c0)"

definition config_String :: "config \<Rightarrow> string" where
  "config_String c = ''http='' @ HTTPAddr c @ '' dataDir='' @ DataDir c @ '' localOnly='' @
     (if LocalOnly c then ''true'' else ''false'') @
     (if AdminKey c \<noteq> [] then '' adminKey=<set>'' else '' adminKey=<unset>'')"

lemma Load_Inr:
  assumes "Load env read join = Inr c"
  shows "\<exists>c0 :: config. AdminKey c = env_or (env ''MIDROUTE_ADMIN_KEY'') (AdminKey c0) \<and>
    HTTPAddr c = env_or (env ''MIDROUTE_HTTP_ADDR'') (HTTPAddr c0) \<and>
    (env_or (env ''MIDROUTE_DB_PATH'') (DBPath c0) \<noteq> [] \<longrightarrow> DBPath c = env_or (env ''MIDROUTE_DB_PATH'') (DBPath c0)) \<and>
    Some (LocalOnly c) = (if env ''MIDROUTE_LOCAL_ONLY'' \<noteq> [] then parse_bool (env ''MIDROUTE_LOCAL_ONLY'')
                          else Some (LocalOnly c0)) \<and>
    (LocalOnly c \<or> AdminKey c \<noteq> [])"
proof -
  from assms obtain c0 where "apply_env env join c0 = Inr c"
    by (auto simp: Load_def Let_def split: option.split_asm)
  then obtain b where b: "env_local env (LocalOnly c0) = Some b" and c: "apply_env env join c0 = Inr c"
    by (cases "env_local env (LocalOnly c0)") (simp_all add: apply_env_def Let_def)
  from c have "AdminKey c = env_or (env ''MIDROUTE_ADMIN_KEY'') (AdminKey c0) \<and>
    HTTPAddr c = env_or (env ''MIDROUTE_HTTP_ADDR'') (HTTPAddr c0) \<and>
    (env_or (env ''MIDROUTE_DB_PATH'') (DBPath c0) \<noteq> [] \<longrightarrow> DBPath c = env_or (env ''MIDROUTE_DB_PATH'') (DBPath c0)) \<and>
    LocalOnly c = b \<and> (LocalOnly c \<or> AdminKey c \<noteq> [])"
    by (auto simp: apply_env_def b Let_def split: if_split_asm)
  moreover from b have "Some b = (if env ''MIDROUTE_LOCAL_ONLY'' \<noteq> [] then parse_bool (env ''MIDROUTE_LOCAL_ONLY'')
      else Some (LocalOnly c0))" by (simp add: env_local_def)
  ultimately show ?thesis by blast
qed

text \<open>
  C13: a loaded configuration is local-only or has an admin key; a variable that is set wins
  over the file and the defaults, and the two switches come from it too. So the guard of a
  server that starts lets a peer that is not loopback, before any session was issued, pass
  only with that key, and one that names a host other than a loopback literal never without.
\<close>

theorem Load_secure:
  assumes "Load env read join = Inr c"
  shows "(LocalOnly c \<or> AdminKey c \<noteq> []) \<and>
    (env ''MIDROUTE_ADMIN_KEY'' \<noteq> [] \<longrightarrow> AdminKey c = env ''MIDROUTE_ADMIN_KEY'') \<and>
    (env ''MIDROUTE_HTTP_ADDR'' \<noteq> [] \<longrightarrow> HTTPAddr c = env ''MIDROUTE_HTTP_ADDR'') \<and>
    (env ''MIDROUTE_DB_PATH'' \<noteq> [] \<longrightarrow> DBPath c = env ''MIDROUTE_DB_PATH'') \<and>
    (env ''MIDROUTE_LOCAL_ONLY'' \<noteq> [] \<longrightarrow> parse_bool (env ''MIDROUTE_LOCAL_ONLY'') = Some (LocalOnly c)) \<and>
    (\<forall>t r. fst (Authorize (NewGuard (LocalOnly c) (AdminKey c)) t r) = None \<longrightarrow>
       (IsLoopback r \<and> LocalOnly c \<and> hostIsLoopbackLiteral (rq_Host r)) \<or>
       (AdminKey c \<noteq> [] \<and> extractBearer (header_get r ''Authorization'') = AdminKey c))"
proof -
  have "\<not> live_session (NewGuard lo k) t r" for lo k t r
    by (simp add: live_session_def NewGuard_def newSessionStore_def split: option.split)
  then have g: "(IsLoopback r \<and> LocalOnly c \<and> hostIsLoopbackLiteral (rq_Host r)) \<or>
       (AdminKey c \<noteq> [] \<and> extractBearer (header_get r ''Authorization'') = AdminKey c)"
    if "fst (Authorize (NewGuard (LocalOnly c) (AdminKey c)) t r) = None" for t r
    using that by (auto simp: Authorize_None authenticate_request_None NewGuard_def split: if_splits)
  obtain c0 :: config where "AdminKey c = env_or (env ''MIDROUTE_ADMIN_KEY'') (AdminKey c0)"
    "HTTPAddr c = env_or (env ''MIDROUTE_HTTP_ADDR'') (HTTPAddr c0)"
    "env_or (env ''MIDROUTE_DB_PATH'') (DBPath c0) \<noteq> [] \<longrightarrow> DBPath c = env_or (env ''MIDROUTE_DB_PATH'') (DBPath c0)"
    "Some (LocalOnly c) = (if env ''MIDROUTE_LOCAL_ONLY'' \<noteq> [] then parse_bool (env ''MIDROUTE_LOCAL_ONLY'')
                          else Some (LocalOnly c0))"
    "LocalOnly c \<or> AdminKey c \<noteq> []"
    using Load_Inr [OF assms] by blast
  with g show ?thesis by (simp add: env_or_def)
qed

definition demo_env :: "string \<Rightarrow> string" where
  "demo_env k = (if k = ''MIDROUTE_ADMIN_KEY'' then ''k'' else if k = ''MIDROUTE_LOCAL_ONLY'' then ''false'' else [])"

lemma Load_secure_witness:
  "\<exists>c. Load demo_env (\<lambda>p. None) (\<lambda>d f. d @ ''/'' @ f) = Inr c \<and> AdminKey c = ''k'' \<and> \<not> LocalOnly c"
proof -
  obtain c where c: "Load demo_env (\<lambda>p. None) (\<lambda>d f. d @ ''/'' @ f) = Inr c"
    by (simp add: Load_def apply_env_def env_local_def demo_env_def Default_def Let_def parse_bool_def env_or_def)
  with Load_secure [OF c] show ?thesis by (simp add: demo_env_def parse_bool_def)
qed

end
