(* ===== verification/Access.thy ===== *)
theory Access
  imports Http StoreInv
begin

text \<open>
  Access tokens of the inference plane (\<open>internal/access/access.go\<close>): authentication by the
  token's digest, the model whitelist, and the concurrency limit. SHA-256 in hexadecimal is
  the argument \<open>sha\<close>. A release function is the number of its lease: the calls of different
  goroutines interleave in any order, each atomic under the service's mutex.
\<close>

definition ErrUnauthorized :: go_error where
  "ErrUnauthorized = Sentinel ''access: token missing, unknown, disabled or expired''"
definition ErrModelForbidden :: go_error where
  "ErrModelForbidden = Sentinel ''access: model not allowed for token''"
definition ErrConcurrencyLimit :: go_error where
  "ErrConcurrencyLimit = Sentinel ''access: token concurrency limit reached''"

section \<open>Authentication\<close>

definition bearerToken :: "http_request \<Rightarrow> string" where
  "bearerToken r = (let h = header_get r ''Authorization'' in
     if 7 < length h \<and> equal_fold (take 7 h) ''Bearer '' then trim_space (drop 7 h) else [])"

definition Authenticate ::
  "(string \<Rightarrow> string) \<Rightarrow> int \<Rightarrow> string \<Rightarrow> http_request \<Rightarrow> db \<Rightarrow> (go_error + token) \<times> db" where
  "Authenticate sha t_now nw r s =
    (let raw = bearerToken r in
     if raw = [] then (Inl ErrUnauthorized, s)
     else (case FindTokenByKeyHash (sha raw) s of
        Inl e \<Rightarrow> (Inl ErrUnauthorized, s)
      | Inr t \<Rightarrow>
          if \<not> tk_Enabled t then (Inl ErrUnauthorized, s)
          else if tk_ExpiresAt t \<noteq> [] \<and>
              (case parse_rfc3339 (tk_ExpiresAt t) of None \<Rightarrow> True | Some x \<Rightarrow> x < t_now)
          then (Inl ErrUnauthorized, s)
          else (Inr t, (case TouchToken (tk_ID t) nw s of Inl e \<Rightarrow> s | Inr s' \<Rightarrow> s'))))"

definition ModelAllowed :: "token \<Rightarrow> string \<Rightarrow> bool" where
  "ModelAllowed t m =
    (if trim_space (tk_ModelWhitelist t) = [] \<or> tk_ModelWhitelist t = ''[]'' then True
     else (case Option.bind (json_parse (tk_ModelWhitelist t)) (as_list as_string) of
             None \<Rightarrow> False
           | Some ms \<Rightarrow> list_ex (\<lambda>x. x = m) ms))"

text \<open>
  C8: a token is accepted exactly when the request carries a non-empty bearer token whose
  digest is a row of the table that is enabled and, when it has an expiry, one that can be
  read and has not passed; what is returned is that row without its digest. The table changes
  in the last use of that token only, and not at all on a refusal.
\<close>

theorem Authenticate_iff:
  "(case Authenticate sha t_now nw r s of
     (Inr t, s') \<Rightarrow> bearerToken r \<noteq> [] \<and> db_down s = None \<and>
       (\<exists>row. find (\<lambda>x. tk_KeyHash x = sha (bearerToken r)) (access_tokens s) = Some row \<and>
          t = row\<lparr>tk_KeyHash := []\<rparr> \<and> tk_Enabled row \<and>
          (tk_ExpiresAt row = [] \<or> (\<exists>x. parse_rfc3339 (tk_ExpiresAt row) = Some x \<and> t_now \<le> x)) \<and>
          s' = s\<lparr>access_tokens := map (\<lambda>x. if tk_ID x = tk_ID row then x\<lparr>tk_LastUsedAt := nw\<rparr> else x) (access_tokens s)\<rparr>)
   | (Inl e, s') \<Rightarrow> e = ErrUnauthorized \<and> s' = s \<and>
       (bearerToken r = [] \<or> db_down s \<noteq> None \<or>
        (case find (\<lambda>x. tk_KeyHash x = sha (bearerToken r)) (access_tokens s) of
           None \<Rightarrow> True
         | Some row \<Rightarrow> (if tk_Enabled row then tk_ExpiresAt row \<noteq> [] \<and>
              (case parse_rfc3339 (tk_ExpiresAt row) of None \<Rightarrow> True | Some x \<Rightarrow> x < t_now) else True))))"
  by (auto simp: Authenticate_def Let_def FindTokenByKeyHash_def with_db_def query_row_def scanToken_def
      TouchToken_def upd_where_def split: option.splits sum.splits)

definition demo_token :: token where
  "demo_token = \<lparr>tk_ID = ''t1'', tk_Name = ''n'', tk_KeyHash = ''sk-1'', tk_KeyPrefix = ''sk'', tk_Enabled = True,
     tk_CreatedAt = ''c'', tk_LastUsedAt = [], tk_ProjectID = [], tk_ModelWhitelist = ''[]'',
     tk_ExpiresAt = ''2030-01-01T00:00:00Z'', tk_MaxConcurrency = 0\<rparr>"

definition demo_call :: http_request where
  "demo_call = \<lparr>rq_Method = ''POST'', rq_Path = ''/v1/chat/completions'', rq_Host = ''h'', rq_RemoteAddr = ''r'',
     rq_Headers = [(''authorization'', ''bearer  sk-1'')], rq_Cookies = [], rq_Query = [], rq_Body = []\<rparr>"

lemma Authenticate_iff_witness:
  "\<exists>s'. Authenticate id 0 ''now'' demo_call (empty_db\<lparr>access_tokens := [demo_token]\<rparr>) = (Inr (demo_token\<lparr>tk_KeyHash := []\<rparr>), s') \<and>
     tk_LastUsedAt (hd (access_tokens s')) = ''now''"
proof -
  have b: "bearerToken demo_call = ''sk-1''" and x: "parse_rfc3339 ''2030-01-01T00:00:00Z'' = Some 1893456000000000000"
    by code_simp+
  show ?thesis
    using Authenticate_iff [where sha = id and t_now = 0 and nw = "''now''" and r = demo_call and
        s = "empty_db\<lparr>access_tokens := [demo_token]\<rparr>"]
    by (simp add: b x demo_token_def empty_db_def split: prod.splits sum.splits)
qed

text \<open>
  The whitelist stored for a list of model names (its JSON text) admits exactly the names
  of the list, and every name when the list is empty; a stored text that is not a JSON list
  of strings admits none.
\<close>

theorem ModelAllowed_whitelist:
  "ModelAllowed (t\<lparr>tk_ModelWhitelist := render fmt (JArr (map JStr ms))\<rparr>) m \<longleftrightarrow> ms = [] \<or> m \<in> set ms"
proof (cases ms)
  case Nil
  then show ?thesis by (simp add: ModelAllowed_def)
next
  case (Cons x xs)
  let ?w = "render fmt (JArr (map JStr ms))"
  have "json_parse ?w = Some (JArr (map JStr ms))"
    by (intro json_parse_render) (simp add: list_all_iff)
  moreover have "all_some (map (as_string \<circ> JStr) ms) = Some ms" by (induction ms) auto
  moreover have "?w \<noteq> ''[]''" using Cons by (cases xs) (simp_all add: render_str_def)
  moreover have "trim_space ?w \<noteq> []"
  proof -
    have "?w = CHR ''['' # (join_with '','' (map (render fmt) (map JStr ms)) @ '']'')" by simp
    then show ?thesis
      by (simp only: trim_space_def trim_of_def trim_left_of_def trim_right_of_def is_space_def)
        (auto simp: is_space_def dropWhile_append dropWhile_eq_Nil_conv)
  qed
  ultimately show ?thesis
    by (auto simp: ModelAllowed_def list_ex_iff Cons)
qed

section \<open>Concurrency limit\<close>

record access_state =
  inUse :: "string \<Rightarrow> int"
  held :: "(nat \<times> string) list"
  next_lease :: nat

definition new_access :: access_state where
  "new_access = \<lparr>inUse = (\<lambda>t. 0), held = [], next_lease = 0\<rparr>"

definition Acquire :: "string \<Rightarrow> int \<Rightarrow> access_state \<Rightarrow> go_error + nat \<times> access_state" where
  "Acquire tok mx st =
    (if 0 < mx \<and> mx \<le> inUse st tok then Inl ErrConcurrencyLimit
     else Inr (next_lease st, st\<lparr>inUse := (inUse st)(tok := inUse st tok + 1),
                held := (next_lease st, tok) # held st, next_lease := Suc (next_lease st)\<rparr>))"

text \<open>The release function of a lease: \<open>once.Do\<close> makes every call but the first do nothing.\<close>

definition Release :: "nat \<Rightarrow> access_state \<Rightarrow> access_state" where
  "Release n st = (case map_of (held st) n of
      None \<Rightarrow> st
    | Some tok \<Rightarrow> st\<lparr>inUse := (if 0 < inUse st tok then (inUse st)(tok := inUse st tok - 1) else inUse st),
                    held := filter (\<lambda>l. fst l \<noteq> n) (held st)\<rparr>)"

definition InUse :: "string \<Rightarrow> access_state \<Rightarrow> int" where
  "InUse tok st = inUse st tok"

text \<open>Any interleaving of the calls, with the limit \<open>mx\<close> of each token.\<close>

inductive access_steps :: "(string \<Rightarrow> int) \<Rightarrow> access_state \<Rightarrow> bool" for mx where
  start: "access_steps mx new_access"
| acquire: "access_steps mx st \<Longrightarrow> Acquire tok (mx tok) st = Inr (n, st') \<Longrightarrow> access_steps mx st'"
| release: "access_steps mx st \<Longrightarrow> access_steps mx (Release n st)"

definition outstanding :: "string \<Rightarrow> access_state \<Rightarrow> nat" where
  "outstanding tok st = count_where (\<lambda>l. snd l = tok) (held st)"

lemma held_fresh: "access_steps mx st \<Longrightarrow> distinct (map fst (held st)) \<and> (\<forall>l \<in> set (held st). fst l < next_lease st)"
proof (induction rule: access_steps.induct)
  case start
  then show ?case by (simp add: new_access_def)
next
  case (acquire st tok n st')
  then show ?case by (fastforce simp: Acquire_def less_Suc_eq split: if_splits)
next
  case (release st n)
  then show ?case by (auto simp: Release_def distinct_map_filter split: option.splits)
qed

lemma count_release:
  assumes "distinct (map fst ls)" and "map_of ls n = Some tok"
  shows "count_where (\<lambda>l. snd l = t) ls =
     count_where (\<lambda>l. snd l = t) (filter (\<lambda>l. fst l \<noteq> n) ls) + (if t = tok then 1 else 0)"
  using assms
proof (induction ls)
  case Nil
  then show ?case by simp
next
  case (Cons l ls)
  obtain k u where l: "l = (k, u)" by fastforce
  show ?case
  proof (cases "k = n")
    case True
    with Cons.prems l have "filter (\<lambda>l. fst l \<noteq> n) ls = ls" by (force intro!: filter_True)
    with True Cons.prems l show ?thesis by simp
  next
    case False
    with Cons l show ?thesis by simp
  qed
qed

lemma inUse_outstanding: "access_steps mx st \<Longrightarrow> inUse st tok = int (outstanding tok st)"
proof (induction arbitrary: tok rule: access_steps.induct)
  case start
  then show ?case by (simp add: new_access_def outstanding_def)
next
  case (acquire st t n st')
  then show ?case by (auto simp: Acquire_def outstanding_def split: if_splits)
next
  case (release st n)
  show ?case
  proof (cases "map_of (held st) n")
    case None
    then show ?thesis using release by (simp add: Release_def)
  next
    case (Some t)
    with count_release [OF _ Some] held_fresh [OF release.hyps] release.IH [of t] release.IH [of tok]
    show ?thesis by (auto simp: Release_def outstanding_def)
  qed
qed

lemma limit_kept: "access_steps mx st \<Longrightarrow> 0 < mx tok \<Longrightarrow> inUse st tok \<le> mx tok"
proof (induction rule: access_steps.induct)
  case start
  then show ?case by (simp add: new_access_def)
next
  case (acquire st t n st')
  then show ?case by (auto simp: Acquire_def split: if_splits)
next
  case (release st n)
  then show ?case by (auto simp: Release_def split: option.splits)
qed

text \<open>
  C7: under every interleaving of acquisitions and releases, with release functions called
  any number of times, the counter of a token is the number of its leases that are not yet
  released; it never exceeds the token's limit, when that is positive; a further acquisition
  is refused exactly at the limit; and releasing a lease twice is releasing it once.
\<close>

theorem access_invariant:
  assumes "access_steps mx st"
  shows "inUse st tok = int (outstanding tok st) \<and> (if 0 < mx tok then inUse st tok \<le> mx tok else True) \<and>
    (Acquire tok (mx tok) st = Inl ErrConcurrencyLimit \<longleftrightarrow> 0 < mx tok \<and> int (outstanding tok st) = mx tok) \<and>
    Release n (Release n st) = Release n st"
proof -
  have "map_of (filter (\<lambda>l. fst l \<noteq> n) (held st)) n = None" by (auto simp: map_of_eq_None_iff)
  then have "Release n (Release n st) = Release n st"
    by (simp add: Release_def split: option.split)
  then show ?thesis
    using inUse_outstanding [OF assms, of tok] limit_kept [OF assms, of tok]
    by (auto simp: Acquire_def)
qed

lemma access_invariant_witness:
  "\<exists>st. access_steps (\<lambda>t. 1) st \<and> outstanding ''t'' st = 1 \<and> Acquire ''t'' 1 st = Inl ErrConcurrencyLimit"
proof -
  obtain n st where a: "Acquire ''t'' ((\<lambda>t. 1) ''t'') new_access = Inr (n, st)"
    by (simp add: Acquire_def new_access_def)
  then have r: "access_steps (\<lambda>t. 1) st" by (rule access_steps.acquire [OF access_steps.start])
  have "outstanding ''t'' st = 1" using a by (auto simp: Acquire_def new_access_def outstanding_def)
  with access_invariant [OF r, of "''t''"] r show ?thesis by auto
qed

end
