(* ===== verification/Sse.thy ===== *)
theory Sse
  imports Router Json
begin

text \<open>
  Server-sent events: the reader every connector uses (\<open>consumeSSE\<close>, \<open>extractData\<close> and the
  JSON and byte readers of \<open>internal/connectors/httpclient.go\<close>) and the pass-through reader of
  the Messages endpoint (\<open>consumeAnthropicSSE\<close> of \<open>internal/api/anthropic.go\<close>). The body of
  an upstream response is the bytes it delivers and how it ends: \<open>None\<close> for the end of file,
  otherwise the error of the last read.
\<close>

section \<open>Upstream responses\<close>

record upstream_response =
  us_Status :: int
  us_Headers :: "(string \<times> string) list"
  us_Data :: string
  us_End :: "go_error option"

definition status_ok :: "int \<Rightarrow> bool" where
  "status_ok st \<longleftrightarrow> \<not> (st < 200 \<or> 300 \<le> st)"

text \<open>\<open>readJSON\<close>: \<open>decode\<close> reads the struct out of the first JSON value of the body.\<close>

definition readJSON :: "(json \<Rightarrow> 'a option) \<Rightarrow> upstream_response \<Rightarrow> go_error + 'a" where
  "readJSON decode resp =
    (if \<not> status_ok (us_Status resp) then Inl (ClassifyWithBody (us_Status resp) (take 4096 (us_Data resp)))
     else (case Option.bind (json_decode (us_Data resp)) decode of
             None \<Rightarrow> Inl (WrapError ''decode upstream response: '' (TextError ''json'') [])
           | Some x \<Rightarrow> Inr x))"

definition readBytes :: "nat \<Rightarrow> upstream_response \<Rightarrow> go_error + string" where
  "readBytes n resp =
    (case (if length (us_Data resp) < n then us_End resp else None) of
       Some e \<Rightarrow> Inl e
     | None \<Rightarrow>
         if \<not> status_ok (us_Status resp) then Inl (ClassifyWithBody (us_Status resp) (take n (us_Data resp)))
         else Inr (take n (us_Data resp)))"

section \<open>Reading events line by line\<close>

text \<open>The lines \<open>ReadBytes\<close> returns, each with its newline, and the text after the last newline.\<close>

fun split_lines :: "string \<Rightarrow> string list \<times> string" where
  "split_lines [] = ([], [])"
| "split_lines (c # s) = (let (ls, tail) = split_lines s in
     if c = CHR 0x0A then ([c] # ls, tail)
     else (case ls of [] \<Rightarrow> ([], c # tail) | l # ls' \<Rightarrow> ((c # l) # ls', tail)))"

definition trim_eol :: "string \<Rightarrow> string" where
  "trim_eol s = trim_right_of (\<lambda>c. c = CHR 0x0D \<or> c = CHR 0x0A) s"

text \<open>The loop of \<open>consumeSSE\<close>; the last step handles the read that returned the error.\<close>

fun sse_loop :: "'w callback \<Rightarrow> go_error option \<Rightarrow> go_error option \<Rightarrow> string list \<Rightarrow> string \<Rightarrow> string \<Rightarrow> 'w
    \<Rightarrow> go_error option \<times> 'w" where
  "sse_loop cb ctx_err ending [] line buf w =
    (let buf1 = buf @ line;
         (err, buf2, w1) = (if trim_eol line = [] \<and> buf1 \<noteq> [] then
             (case cb buf1 w of (e, w') \<Rightarrow> (e, [], w')) else (None, buf1, w))
     in case err of
          Some e \<Rightarrow> (Some e, w1)
        | None \<Rightarrow> (case ending of
             None \<Rightarrow> if buf2 \<noteq> [] then cb buf2 w1 else (None, w1)
           | Some e \<Rightarrow> if ctx_err \<noteq> None then (ctx_err, w1) else (Some e, w1)))"
| "sse_loop cb ctx_err ending (line # ls) tail buf w =
    (let buf1 = buf @ line in
     if trim_eol line = [] \<and> buf1 \<noteq> [] then
       (case cb buf1 w of (Some e, w') \<Rightarrow> (Some e, w') | (None, w') \<Rightarrow> sse_loop cb ctx_err ending ls tail [] w')
     else sse_loop cb ctx_err ending ls tail buf1 w)"

definition consumeSSE :: "go_error option \<Rightarrow> upstream_response \<Rightarrow> 'w callback \<Rightarrow> 'w \<Rightarrow> go_error option \<times> 'w" where
  "consumeSSE ctx_err resp cb w =
    (if \<not> status_ok (us_Status resp)
     then (Some (ClassifyWithBody (us_Status resp) (take 4096 (us_Data resp))), w)
     else (let (ls, tail) = split_lines (us_Data resp) in sse_loop cb ctx_err (us_End resp) ls tail [] w))"

definition extractData :: "string \<Rightarrow> string option" where
  "extractData block =
     map_option (\<lambda>l. trim_space (trim_prefix l ''data: ''))
       (find (\<lambda>l. has_prefix l ''data: '')
          (map (trim_right_of (\<lambda>c. c = CHR 0x0D)) (split_on (CHR 0x0A) block)))"

section \<open>What it hands out\<close>

text \<open>The blocks handed to the callback, and the error after the last of them.\<close>

fun blocks :: "go_error option \<Rightarrow> string list \<Rightarrow> string \<Rightarrow> string \<Rightarrow> string list" where
  "blocks ending [] line buf =
     (if trim_eol line = [] \<and> buf @ line \<noteq> [] then [buf @ line]
      else if ending = None \<and> buf @ line \<noteq> [] then [buf @ line] else [])"
| "blocks ending (line # ls) tail buf =
     (if trim_eol line = [] \<and> buf @ line \<noteq> [] then (buf @ line) # blocks ending ls tail []
      else blocks ending ls tail (buf @ line))"

definition end_error :: "go_error option \<Rightarrow> go_error option \<Rightarrow> go_error option" where
  "end_error ctx_err ending = (if ending = None then None else if ctx_err \<noteq> None then ctx_err else ending)"

lemma sse_loop_feed:
  "sse_loop cb ctx_err ending ls tail buf w =
     (case feed cb (blocks ending ls tail buf) w of
        (Some e, w') \<Rightarrow> (Some e, w') | (None, w') \<Rightarrow> (end_error ctx_err ending, w'))"
proof (induction cb ctx_err ending ls tail buf w rule: sse_loop.induct)
  case (1 cb ctx_err ending line buf w)
  then show ?case
    by (cases "cb (buf @ line) w") (auto simp: Let_def end_error_def split: option.splits)
next
  case (2 cb ctx_err ending line ls tail buf w)
  then show ?case
    by (cases "cb (buf @ line) w") (auto simp: Let_def split: option.splits prod.splits)
qed

definition sse_blocks :: "upstream_response \<Rightarrow> string list" where
  "sse_blocks resp = (let (ls, tail) = split_lines (us_Data resp) in blocks (us_End resp) ls tail [])"

lemma consumeSSE_feed:
  "status_ok (us_Status resp) \<Longrightarrow> consumeSSE ctx_err resp cb w =
     (case feed cb (sse_blocks resp) w of
        (Some e, w') \<Rightarrow> (Some e, w') | (None, w') \<Rightarrow> (end_error ctx_err (us_End resp), w'))"
  by (simp add: consumeSSE_def sse_blocks_def sse_loop_feed split: prod.split)

lemma split_lines_concat: "split_lines s = (ls, tail) \<Longrightarrow> concat ls @ tail = s"
proof (induction s arbitrary: ls tail)
  case Nil
  then show ?case by simp
next
  case (Cons c s)
  then show ?case by (auto simp: Let_def split: prod.splits if_splits list.splits)
qed

lemma blocks_concat: "concat (blocks None ls tail buf) = buf @ concat ls @ tail"
  by (induction ls arbitrary: buf) auto

lemma blocks_prefix: "\<exists>rest. concat (blocks ending ls tail buf) @ rest = buf @ concat ls @ tail"
proof (induction ls arbitrary: buf)
  case Nil
  then show ?case by auto
next
  case (Cons l ls)
  show ?case using Cons [of "[]"] Cons [of "buf @ l"] by auto
qed

text \<open>
  C14: the event reader loses and invents nothing: the blocks handed to the client are, in
  order, a prefix of the upstream's bytes, and all of them when the stream ends properly; the
  reader stops at the client's first error, and otherwise reports the end of the stream (the
  cancellation, if the context was cancelled).
\<close>

theorem consumeSSE_lossless:
  assumes "status_ok (us_Status resp)"
  shows "consumeSSE ctx_err resp cb w =
     (case feed cb (sse_blocks resp) w of
        (Some e, w') \<Rightarrow> (Some e, w') | (None, w') \<Rightarrow> (end_error ctx_err (us_End resp), w')) \<and>
    (\<exists>rest. concat (sse_blocks resp) @ rest = us_Data resp \<and> (us_End resp = None \<longrightarrow> rest = [])) \<and>
    [] \<notin> set (sse_blocks resp)"
proof -
  obtain ls tail where sp: "split_lines (us_Data resp) = (ls, tail)" by fastforce
  have ne: "[] \<notin> set (blocks e ls tail b)" for e b
    by (induction ls arbitrary: b) auto
  have "\<exists>rest. concat (sse_blocks resp) @ rest = us_Data resp \<and> (us_End resp = None \<longrightarrow> rest = [])"
  proof (cases "us_End resp")
    case None
    then show ?thesis
      using blocks_concat [of ls tail "[]"] split_lines_concat [OF sp] by (simp add: sse_blocks_def sp)
  next
    case (Some e)
    then show ?thesis
      using blocks_prefix [of "us_End resp" ls tail "[]"] split_lines_concat [OF sp] by (simp add: sse_blocks_def sp)
  qed
  with consumeSSE_feed [OF assms] ne show ?thesis by (simp add: sse_blocks_def sp)
qed

definition demo_stream :: upstream_response where
  "demo_stream = \<lparr>us_Status = 200, us_Headers = [],
     us_Data = ''data: 1'' @ [CHR 0x0A, CHR 0x0A] @ ''data: 2'', us_End = None\<rparr>"

lemma consumeSSE_lossless_witness:
  "sse_blocks demo_stream = [''data: 1'' @ [CHR 0x0A, CHR 0x0A], ''data: 2''] \<and>
   concat (sse_blocks demo_stream) = us_Data demo_stream"
proof -
  have "status_ok (us_Status demo_stream)" "us_End demo_stream = None"
    by (simp_all add: demo_stream_def status_ok_def)
  then have "concat (sse_blocks demo_stream) = us_Data demo_stream"
    using consumeSSE_lossless [of demo_stream, THEN conjunct2, THEN conjunct1] by auto
  moreover have "sse_blocks demo_stream = [''data: 1'' @ [CHR 0x0A, CHR 0x0A], ''data: 2'']" by code_simp
  ultimately show ?thesis by simp
qed

section \<open>The pass-through reader\<close>

fun indexDoubleNewline :: "string \<Rightarrow> nat option" where
  "indexDoubleNewline (a # b # s) =
     (if a = CHR 0x0A \<and> b = CHR 0x0A then Some 0
      else if a = CHR 0x0A \<and> b = CHR 0x0D \<and> s \<noteq> [] \<and> hd s = CHR 0x0A then Some 0
      else map_option Suc (indexDoubleNewline (b # s)))"
| "indexDoubleNewline _ = None"

lemma indexDoubleNewline_less: "indexDoubleNewline s = Some i \<Longrightarrow> Suc i < length s"
  by (induction s arbitrary: i rule: indexDoubleNewline.induct) (auto split: if_splits)

text \<open>The inner loop: the events complete in \<open>pending\<close> (empty ones are skipped), and what remains.\<close>

function (sequential) cut_events :: "string \<Rightarrow> string list \<times> string" where
  "cut_events pending = (case indexDoubleNewline pending of
      None \<Rightarrow> ([], pending)
    | Some i \<Rightarrow> (let (evs, rest) = cut_events (drop (i + 2) pending)
                 in ((if i = 0 then evs else take i pending # evs), rest)))"
  by pat_completeness auto
termination
  by (relation "measure length") (auto dest: indexDoubleNewline_less)

declare cut_events.simps [simp del]

text \<open>The outer loop over the reads of the body.\<close>

fun anthropic_loop :: "'w callback \<Rightarrow> go_error option \<Rightarrow> go_error option \<Rightarrow> string list \<Rightarrow> string \<Rightarrow> 'w
    \<Rightarrow> go_error option \<times> 'w" where
  "anthropic_loop cb ctx_err ending [] pending w =
    (case ending of
       None \<Rightarrow> if pending \<noteq> [] then cb pending w else (None, w)
     | Some e \<Rightarrow> if ctx_err \<noteq> None then (ctx_err, w) else (Some e, w))"
| "anthropic_loop cb ctx_err ending (r # reads) pending w =
    (let (evs, rest) = cut_events (pending @ r) in
     case feed cb evs w of
       (Some e, w') \<Rightarrow> (Some e, w')
     | (None, w') \<Rightarrow> anthropic_loop cb ctx_err ending reads rest w')"

definition consumeAnthropicSSE ::
  "go_error option \<Rightarrow> string list \<Rightarrow> go_error option \<Rightarrow> 'w callback \<Rightarrow> 'w \<Rightarrow> go_error option \<times> 'w" where
  "consumeAnthropicSSE ctx_err reads ending cb w = anthropic_loop cb ctx_err ending reads [] w"

lemma indexDoubleNewline_append:
  "indexDoubleNewline s = Some i \<Longrightarrow> indexDoubleNewline (s @ t) = Some i"
proof (induction s arbitrary: i rule: indexDoubleNewline.induct)
  case (1 a b s)
  then show ?case by (cases s) (auto split: if_splits)
qed simp_all

lemma cut_events_append: "cut_events (s @ t) =
    (let (evs, rest) = cut_events s; (evs', rest') = cut_events (rest @ t) in (evs @ evs', rest'))"
proof (induction s rule: cut_events.induct)
  case (1 s)
  show ?case
  proof (cases "indexDoubleNewline s")
    case None
    then show ?thesis by (simp add: cut_events.simps [of s] split: prod.split)
  next
    case (Some i)
    have l: "Suc i < length s" by (rule indexDoubleNewline_less [OF Some])
    show ?thesis
      using "1.IH" [OF Some] indexDoubleNewline_append [OF Some, of t] Some l
      by (subst cut_events.simps, subst (2) cut_events.simps) (auto simp: Let_def split: prod.splits)
  qed
qed

lemma anthropic_loop_feed:
  "anthropic_loop cb ctx_err ending reads pending w =
    (let (evs, rest) = cut_events (pending @ concat reads);
         all = (if ending = None \<and> rest \<noteq> [] then evs @ [rest] else evs)
     in case feed cb all w of (Some e, w') \<Rightarrow> (Some e, w') | (None, w') \<Rightarrow> (end_error ctx_err ending, w'))"
  if "fst (cut_events pending) = []" "snd (cut_events pending) = pending"
  using that
proof (induction reads arbitrary: pending w)
  case Nil
  then show ?case
    by (cases "cut_events pending", cases "feed cb [pending] w")
      (auto simp: end_error_def split: option.splits prod.splits)
next
  case (Cons r reads)
  obtain evs rest where c: "cut_events (pending @ r) = (evs, rest)" by fastforce
  have "cut_events ((pending @ r) @ []) = (let (evs', rest') = cut_events (rest @ []) in (evs @ evs', rest'))"
    by (subst cut_events_append) (simp add: c Let_def split: prod.split)
  then have idem: "fst (cut_events rest) = []" "snd (cut_events rest) = rest"
    by (auto simp: c split: prod.splits)
  have "cut_events (pending @ concat (r # reads)) =
      (let (evs', rest') = cut_events (rest @ concat reads) in (evs @ evs', rest'))"
    using cut_events_append [of "pending @ r" "concat reads"] by (simp add: c Let_def)
  then show ?case
    using Cons.IH [OF idem]
    by (auto simp: c Let_def feed_append split: prod.splits option.splits)
qed

text \<open>The chunks the pass-through reader writes for a whole body.\<close>

definition anthropic_chunks :: "go_error option \<Rightarrow> string \<Rightarrow> string list" where
  "anthropic_chunks ending body = (let (evs, rest) = cut_events body
     in if ending = None \<and> rest \<noteq> [] then evs @ [rest] else evs)"

text \<open>
  What the pass-through reader writes depends on the bytes of the body and on how it
  ends, not on how the network splits them into reads.
\<close>

theorem consumeAnthropicSSE_chunking:
  "consumeAnthropicSSE ctx_err reads ending cb w =
     (case feed cb (anthropic_chunks ending (concat reads)) w of
        (Some e, w') \<Rightarrow> (Some e, w') | (None, w') \<Rightarrow> (end_error ctx_err ending, w'))"
  by (simp add: consumeAnthropicSSE_def anthropic_loop_feed cut_events.simps [of "[]"] anthropic_chunks_def
      Let_def split: prod.split)

text \<open>
  The events are not passed on as they came: two complete events, each of one line and
  ended by a blank line, reach the client glued together, without the blank line between
  them and after them.
\<close>

theorem consumeAnthropicSSE_drops_separators:
  assumes "CHR 0x0A \<notin> set e1" and "CHR 0x0A \<notin> set e2" and "e1 \<noteq> []" and "e2 \<noteq> []"
  shows "concat (anthropic_chunks None (e1 @ [CHR 0x0A, CHR 0x0A] @ e2 @ [CHR 0x0A, CHR 0x0A])) = e1 @ e2"
proof -
  have idx: "indexDoubleNewline (e @ CHR 0x0A # CHR 0x0A # r) = Some (length e)" if "CHR 0x0A \<notin> set e" for e r
    using that
  proof (induction e)
    case Nil
    then show ?case by simp
  next
    case (Cons a e)
    then show ?case by (cases e) auto
  qed
  have "cut_events [] = ([], [])" by (simp add: cut_events.simps [of "[]"])
  then have "cut_events (e2 @ [CHR 0x0A, CHR 0x0A]) = ([e2], [])"
    using assms idx [of e2 "[]"] by (subst cut_events.simps) simp
  then have "cut_events (e1 @ [CHR 0x0A, CHR 0x0A] @ e2 @ [CHR 0x0A, CHR 0x0A]) = ([e1, e2], [])"
    using assms idx [of e1 "e2 @ [CHR 0x0A, CHR 0x0A]"] by (subst cut_events.simps) simp
  then show ?thesis by (simp add: anthropic_chunks_def)
qed

lemma consumeAnthropicSSE_drops_separators_witness:
  "concat (anthropic_chunks None (''data: 1'' @ [CHR 0x0A, CHR 0x0A] @ ''data: 2'' @ [CHR 0x0A, CHR 0x0A])) = ''data: 1data: 2''"
  using consumeAnthropicSSE_drops_separators [of "''data: 1''" "''data: 2''"] by simp

end
