(* ===== verification/Convert.thy ===== *)
theory Convert
  imports Sse "HOL-Library.Monad_Syntax"
begin

text \<open>
  The protocol conversions of the connectors: the OpenAI-compatible request as JSON and the
  response read back (\<open>connector.go\<close>, \<open>openai.go\<close>), and the pure halves of
  \<open>internal/connectors/anthropic.go\<close> and \<open>gemini.go\<close>, request and response conversion and the
  per-event step of the stream translators. A Go \<open>map\<close> is marshalled with its keys sorted.
\<close>

section \<open>OpenAI-compatible JSON\<close>

text \<open>\<open>omitempty\<close>\<close>

definition omit :: "bool \<Rightarrow> string \<Rightarrow> json \<Rightarrow> (string \<times> json) list" where
  "omit absent k v = (if absent then [] else [(k, v)])"

definition omit_ptr :: "string \<Rightarrow> ('a \<Rightarrow> json) \<Rightarrow> 'a option \<Rightarrow> (string \<times> json) list" where
  "omit_ptr k f v = (case v of None \<Rightarrow> [] | Some x \<Rightarrow> [(k, f x)])"

fun decimal_json :: "decimal \<Rightarrow> json" where
  "decimal_json (Dec m e) = JDec m e"

definition tool_call_json :: "tool_call \<Rightarrow> json" where
  "tool_call_json c = JObj [(''id'', JStr (tc_ID c)), (''type'', JStr (tc_Type c)),
     (''function'', JObj [(''name'', JStr (tc_Name c)), (''arguments'', JStr (tc_Arguments c))])]"

definition chat_message_json :: "chat_message \<Rightarrow> json" where
  "chat_message_json m = JObj ([(''role'', JStr (Role m)), (''content'', JStr (Content m))]
     @ omit (cm_Name m = []) ''name'' (JStr (cm_Name m))
     @ omit (ToolCalls m = []) ''tool_calls'' (JArr (map tool_call_json (ToolCalls m)))
     @ omit (ToolCallID m = []) ''tool_call_id'' (JStr (ToolCallID m)))"

definition chat_request_json :: "json chat_request \<Rightarrow> json" where
  "chat_request_json r = JObj ([(''model'', JStr (cr_Model r)), (''messages'', JArr (map chat_message_json (Messages r)))]
     @ omit (\<not> Stream r) ''stream'' (JBool True)
     @ omit_ptr ''temperature'' decimal_json (Temperature r)
     @ omit_ptr ''max_tokens'' JInt (MaxTokens r)
     @ omit_ptr ''top_p'' decimal_json (TopP r)
     @ omit (Stop r = []) ''stop'' (JArr (map JStr (Stop r)))
     @ omit (Tools r = []) ''tools'' (JArr (Tools r))
     @ omit_ptr ''stream_options'' (\<lambda>b. JObj (omit (\<not> b) ''include_usage'' (JBool True))) (IncludeUsage r))"

definition str_field :: "string \<Rightarrow> (string \<times> json) list \<Rightarrow> string option" where
  "str_field k ms = as_string (member k ms)"

definition int_field :: "string \<Rightarrow> (string \<times> json) list \<Rightarrow> int option" where
  "int_field k ms = as_int (member k ms)"

definition decode_tool_call :: "json \<Rightarrow> tool_call option" where
  "decode_tool_call j = do {
     ms \<leftarrow> as_object j; i \<leftarrow> str_field ''id'' ms; ty \<leftarrow> str_field ''type'' ms;
     f \<leftarrow> as_object (member ''function'' ms); n \<leftarrow> str_field ''name'' f; a \<leftarrow> str_field ''arguments'' f;
     Some \<lparr>tc_ID = i, tc_Type = ty, tc_Name = n, tc_Arguments = a\<rparr> }"

definition decode_message :: "json \<Rightarrow> chat_message option" where
  "decode_message j = do {
     ms \<leftarrow> as_object j; r \<leftarrow> str_field ''role'' ms; c \<leftarrow> str_field ''content'' ms; n \<leftarrow> str_field ''name'' ms;
     tcs \<leftarrow> as_list decode_tool_call (member ''tool_calls'' ms); i \<leftarrow> str_field ''tool_call_id'' ms;
     Some \<lparr>Role = r, Content = c, cm_Name = n, ToolCalls = tcs, ToolCallID = i\<rparr> }"

definition decode_choice :: "json \<Rightarrow> chat_choice option" where
  "decode_choice j = do {
     ms \<leftarrow> as_object j; i \<leftarrow> int_field ''index'' ms; m \<leftarrow> decode_message (member ''message'' ms);
     f \<leftarrow> str_field ''finish_reason'' ms;
     Some \<lparr>ch_Index = i, ch_Message = m, FinishReason = f\<rparr> }"

definition decode_details :: "string \<Rightarrow> json \<Rightarrow> int option option" where
  "decode_details k = as_pointer (\<lambda>j. do { ms \<leftarrow> as_object j; int_field k ms })"

definition decode_usage :: "json \<Rightarrow> usage_dto option" where
  "decode_usage j = do {
     ms \<leftarrow> as_object j; p \<leftarrow> int_field ''prompt_tokens'' ms; c \<leftarrow> int_field ''completion_tokens'' ms;
     t \<leftarrow> int_field ''total_tokens'' ms;
     pd \<leftarrow> decode_details ''cached_tokens'' (member ''prompt_tokens_details'' ms);
     cd \<leftarrow> decode_details ''reasoning_tokens'' (member ''completion_tokens_details'' ms);
     Some \<lparr>PromptTokens = p, CompletionTokens = c, TotalTokens = t, CachedTokens = pd, CompletionReasoning = cd\<rparr> }"

definition decode_chat_response :: "json \<Rightarrow> chat_response option" where
  "decode_chat_response j = do {
     ms \<leftarrow> as_object j; i \<leftarrow> str_field ''id'' ms; ob \<leftarrow> str_field ''object'' ms; cr \<leftarrow> int_field ''created'' ms;
     m \<leftarrow> str_field ''model'' ms; cs \<leftarrow> as_list decode_choice (member ''choices'' ms);
     u \<leftarrow> as_pointer decode_usage (member ''usage'' ms);
     Some \<lparr>cp_ID = i, cp_Object = ob, cp_Created = cr, cp_Model = m, Choices = cs, cp_Usage = u\<rparr> }"

definition assistant_message :: "string \<Rightarrow> chat_message" where
  "assistant_message txt = \<lparr>Role = ''assistant'', Content = txt, cm_Name = [], ToolCalls = [], ToolCallID = []\<rparr>"

section \<open>Anthropic Messages\<close>

definition anthropicCatalog :: "string list" where
  "anthropicCatalog = [''claude-3-5-haiku-20241022'', ''claude-3-5-sonnet-20241022'', ''claude-3-5-sonnet-20240620'',
     ''claude-sonnet-4-20250514'', ''claude-opus-4-20250514'', ''claude-3-opus-20240229'', ''claude-3-haiku-20240307'']"

text \<open>The content of a message: a text, or the one-element list of a tool result.\<close>

datatype anthropic_content = PlainContent string | ToolResult string string

record anthropic_msg =
  an_Role :: string
  an_Content :: anthropic_content

record anthropic_request =
  an_Model :: string
  an_MaxTokens :: int
  an_System :: string
  an_Messages :: "anthropic_msg list"
  an_Temperature :: "decimal option"
  an_TopP :: "decimal option"
  an_StopSequences :: "string list"
  an_Stream :: bool
  an_Tools :: "json list"

record anthropic_response =
  ap_ID :: string
  ap_Type :: string
  ap_Model :: string
  ap_Content :: "(string \<times> string) list"
  ap_StopReason :: string
  ap_InputTokens :: int
  ap_OutputTokens :: int
  ap_CacheCreation :: int
  ap_CacheRead :: int

definition anthropic_message :: "chat_message \<Rightarrow> anthropic_msg list" where
  "anthropic_message m =
    (if Role m = ''system'' then []
     else if Role m = ''tool'' then [\<lparr>an_Role = ''user'', an_Content = ToolResult (ToolCallID m) (Content m)\<rparr>]
     else [\<lparr>an_Role = Role m, an_Content = PlainContent (Content m)\<rparr>])"

definition system_texts :: "chat_message list \<Rightarrow> string list" where
  "system_texts ms = map Content (filter (\<lambda>m. Role m = ''system'') ms)"

definition convertToAnthropic :: "json chat_request \<Rightarrow> anthropic_request" where
  "convertToAnthropic req =
    \<lparr>an_Model = cr_Model req,
     an_MaxTokens = (case MaxTokens req of None \<Rightarrow> 4096 | Some n \<Rightarrow> if 0 < n then n else 4096),
     an_System = join_with [CHR 0x0A] (system_texts (Messages req)),
     an_Messages = concat (map anthropic_message (Messages req)),
     an_Temperature = Temperature req, an_TopP = TopP req, an_StopSequences = Stop req,
     an_Stream = False, an_Tools = Tools req\<rparr>"

fun anthropic_content_json :: "anthropic_content \<Rightarrow> json" where
  "anthropic_content_json (PlainContent s) = JStr s"
| "anthropic_content_json (ToolResult i c) =
     JArr [JObj [(''content'', JStr c), (''tool_use_id'', JStr i), (''type'', JStr ''tool_result'')]]"

definition anthropic_request_json :: "anthropic_request \<Rightarrow> json" where
  "anthropic_request_json r = JObj ([(''model'', JStr (an_Model r)), (''max_tokens'', JInt (an_MaxTokens r))]
     @ omit (an_System r = []) ''system'' (JStr (an_System r))
     @ [(''messages'', JArr (map (\<lambda>m. JObj [(''role'', JStr (an_Role m)),
          (''content'', anthropic_content_json (an_Content m))]) (an_Messages r)))]
     @ omit_ptr ''temperature'' decimal_json (an_Temperature r)
     @ omit_ptr ''top_p'' decimal_json (an_TopP r)
     @ omit (an_StopSequences r = []) ''stop_sequences'' (JArr (map JStr (an_StopSequences r)))
     @ omit (\<not> an_Stream r) ''stream'' (JBool True)
     @ omit (an_Tools r = []) ''tools'' (JArr (an_Tools r)))"

definition decode_block :: "json \<Rightarrow> (string \<times> string) option" where
  "decode_block j = do { ms \<leftarrow> as_object j; ty \<leftarrow> str_field ''type'' ms; tx \<leftarrow> str_field ''text'' ms; Some (ty, tx) }"

definition decode_anthropic :: "json \<Rightarrow> anthropic_response option" where
  "decode_anthropic j = do {
     ms \<leftarrow> as_object j; i \<leftarrow> str_field ''id'' ms; ty \<leftarrow> str_field ''type'' ms; m \<leftarrow> str_field ''model'' ms;
     bs \<leftarrow> as_list decode_block (member ''content'' ms); st \<leftarrow> str_field ''stop_reason'' ms;
     u \<leftarrow> as_object (member ''usage'' ms); it \<leftarrow> int_field ''input_tokens'' u; ot \<leftarrow> int_field ''output_tokens'' u;
     cc \<leftarrow> int_field ''cache_creation_input_tokens'' u; cr \<leftarrow> int_field ''cache_read_input_tokens'' u;
     Some \<lparr>ap_ID = i, ap_Type = ty, ap_Model = m, ap_Content = bs, ap_StopReason = st, ap_InputTokens = it,
       ap_OutputTokens = ot, ap_CacheCreation = cc, ap_CacheRead = cr\<rparr> }"

definition mapAnthropicStopReason :: "string \<Rightarrow> string" where
  "mapAnthropicStopReason r =
    (if r = ''end_turn'' \<or> r = ''stop_sequence'' then ''stop''
     else if r = ''max_tokens'' then ''length''
     else if r = ''tool_use'' then ''tool_calls''
     else ''stop'')"

definition convertFromAnthropic :: "int \<Rightarrow> anthropic_response \<Rightarrow> string \<Rightarrow> chat_response" where
  "convertFromAnthropic t_unix resp model =
    \<lparr>cp_ID = ap_ID resp, cp_Object = ''chat.completion'', cp_Created = t_unix, cp_Model = model,
     Choices = [\<lparr>ch_Index = 0,
       ch_Message = assistant_message (concat (map snd (filter (\<lambda>b. fst b = ''text'') (ap_Content resp)))),
       FinishReason = mapAnthropicStopReason (ap_StopReason resp)\<rparr>],
     cp_Usage = (if 0 < ap_InputTokens resp \<or> 0 < ap_OutputTokens resp then
        Some \<lparr>PromptTokens = ap_InputTokens resp, CompletionTokens = ap_OutputTokens resp,
          TotalTokens = ap_InputTokens resp + ap_OutputTokens resp,
          CachedTokens = Some (ap_CacheRead resp + ap_CacheCreation resp), CompletionReasoning = None\<rparr>
      else None)\<rparr>"

subsection \<open>Stream events\<close>

record anthropic_event =
  ev_Type :: string
  ev_DeltaType :: string
  ev_Text :: string
  ev_StopReason :: string
  ev_Usage :: "(int \<times> int) option"
  ev_MessageID :: "string option"

definition decode_event :: "json \<Rightarrow> anthropic_event option" where
  "decode_event j = do {
     ms \<leftarrow> as_object j; ty \<leftarrow> str_field ''type'' ms; d \<leftarrow> as_object (member ''delta'' ms);
     dt \<leftarrow> str_field ''type'' d; tx \<leftarrow> str_field ''text'' d; sr \<leftarrow> str_field ''stop_reason'' d;
     u \<leftarrow> as_pointer (\<lambda>j. do { us \<leftarrow> as_object j; i \<leftarrow> int_field ''input_tokens'' us;
            ot \<leftarrow> int_field ''output_tokens'' us; Some (i, ot) }) (member ''usage'' ms);
     mi \<leftarrow> as_pointer (\<lambda>j. do { x \<leftarrow> as_object j; str_field ''id'' x }) (member ''message'' ms);
     Some \<lparr>ev_Type = ty, ev_DeltaType = dt, ev_Text = tx, ev_StopReason = sr, ev_Usage = u, ev_MessageID = mi\<rparr> }"

text \<open>One chunk of the translated stream.\<close>

definition chunk_text ::
  "(real \<Rightarrow> string) \<Rightarrow> string \<Rightarrow> int \<Rightarrow> string \<Rightarrow> string \<Rightarrow> string \<Rightarrow> string" where
  "chunk_text fmt i created model content finish =
     ''data: '' @ render fmt (JObj [(''choices'', JArr [JObj [(''delta'', JObj [(''content'', JStr content)]),
         (''finish_reason'', JStr finish), (''index'', JInt 0)]]),
       (''created'', JInt created), (''id'', JStr i), (''model'', JStr model),
       (''object'', JStr ''chat.completion.chunk'')]) @ [CHR 0x0A, CHR 0x0A]"

record anthropic_tr =
  at_id :: string
  at_usage :: "token_usage option"
  at_finished :: bool

definition new_anthropic_tr :: anthropic_tr where
  "new_anthropic_tr = \<lparr>at_id = [], at_usage = None, at_finished = False\<rparr>"

text \<open>What one event emits and the state after it, when the client takes what is emitted.\<close>

definition anthropic_step ::
  "(string \<Rightarrow> string \<Rightarrow> string \<Rightarrow> string) \<Rightarrow> string \<Rightarrow> anthropic_tr \<Rightarrow> string list \<times> anthropic_tr" where
  "anthropic_step chunk raw st = (case extractData raw of
      None \<Rightarrow> ([], st)
    | Some payload \<Rightarrow>
        if payload = ''[DONE]'' then ([], st)
        else (case Option.bind (json_parse payload) decode_event of
            None \<Rightarrow> ([], st)
          | Some ev \<Rightarrow>
              if ev_Type ev = ''message_start'' then
                ([], (case ev_MessageID ev of None \<Rightarrow> st | Some i \<Rightarrow> st\<lparr>at_id := i\<rparr>))
              else if ev_Type ev = ''content_block_delta'' then
                (if ev_DeltaType ev = ''text_delta'' \<and> ev_Text ev \<noteq> []
                 then [chunk (at_id st) (ev_Text ev) []] else [], st)
              else if ev_Type ev = ''message_delta'' then
                (let emits = (if ev_StopReason ev \<noteq> []
                       then [chunk (at_id st) [] (mapAnthropicStopReason (ev_StopReason ev))] else []);
                     st1 = (if ev_StopReason ev \<noteq> [] then st\<lparr>at_finished := True\<rparr> else st)
                 in (emits, (case (ev_Usage ev, at_usage st) of
                       (Some (i, ot), None) \<Rightarrow> st1\<lparr>at_usage := Some (zero_usage\<lparr>InputTokens := i, OutputTokens := ot\<rparr>)\<rparr>
                     | _ \<Rightarrow> st1)))
              else if ev_Type ev = ''message_stop'' then
                (if \<not> at_finished st then [chunk (at_id st) [] ''stop''] else [], st)
              else ([], st)))"

section \<open>Gemini\<close>

record gemini_content =
  gc_Role :: string
  gc_Parts :: "string list"

record gemini_request =
  gr_Contents :: "gemini_content list"
  gr_System :: "gemini_content option"
  gr_Temperature :: "decimal option"
  gr_TopP :: "decimal option"
  gr_MaxOutputTokens :: int
  gr_StopSequences :: "string list"

record gemini_response =
  gp_Candidates :: "(gemini_content \<times> string) list"
  gp_Prompt :: int
  gp_Completion :: int
  gp_Cached :: int

definition gemini_message :: "chat_message \<Rightarrow> gemini_content list" where
  "gemini_message m =
    (if Role m = ''system'' then []
     else if Role m = ''assistant'' then [\<lparr>gc_Role = ''model'', gc_Parts = [Content m]\<rparr>]
     else [\<lparr>gc_Role = ''user'', gc_Parts = [Content m]\<rparr>])"

text \<open>The system text: a newline goes before a text when something was written already.\<close>

fun system_builder :: "string \<Rightarrow> string list \<Rightarrow> string" where
  "system_builder acc [] = acc"
| "system_builder acc (c # cs) = system_builder ((if acc \<noteq> [] then acc @ [CHR 0x0A] else acc) @ c) cs"

definition convertToGemini :: "json chat_request \<Rightarrow> gemini_request" where
  "convertToGemini req =
    (let system = system_builder [] (system_texts (Messages req)) in
     \<lparr>gr_Contents = concat (map gemini_message (Messages req)),
      gr_System = (if system \<noteq> [] then Some \<lparr>gc_Role = [], gc_Parts = [system]\<rparr> else None),
      gr_Temperature = Temperature req, gr_TopP = TopP req,
      gr_MaxOutputTokens = (case MaxTokens req of None \<Rightarrow> 0 | Some n \<Rightarrow> n), gr_StopSequences = Stop req\<rparr>)"

definition gemini_content_json :: "gemini_content \<Rightarrow> json" where
  "gemini_content_json c = JObj (omit (gc_Role c = []) ''role'' (JStr (gc_Role c))
     @ [(''parts'', JArr (map (\<lambda>t. JObj [(''text'', JStr t)]) (gc_Parts c)))])"

definition gemini_request_json :: "gemini_request \<Rightarrow> json" where
  "gemini_request_json r = JObj ([(''contents'', JArr (map gemini_content_json (gr_Contents r)))]
     @ omit_ptr ''systemInstruction'' gemini_content_json (gr_System r)
     @ [(''generationConfig'', JObj (omit_ptr ''temperature'' decimal_json (gr_Temperature r)
          @ omit_ptr ''topP'' decimal_json (gr_TopP r)
          @ omit (gr_MaxOutputTokens r = 0) ''maxOutputTokens'' (JInt (gr_MaxOutputTokens r))
          @ omit (gr_StopSequences r = []) ''stopSequences'' (JArr (map JStr (gr_StopSequences r)))))])"

definition decode_part :: "json \<Rightarrow> string option" where
  "decode_part j = do { ms \<leftarrow> as_object j; str_field ''text'' ms }"

definition decode_candidate :: "json \<Rightarrow> (gemini_content \<times> string) option" where
  "decode_candidate j = do {
     ms \<leftarrow> as_object j; c \<leftarrow> as_object (member ''content'' ms); r \<leftarrow> str_field ''role'' c;
     ps \<leftarrow> as_list decode_part (member ''parts'' c); f \<leftarrow> str_field ''finishReason'' ms;
     Some (\<lparr>gc_Role = r, gc_Parts = ps\<rparr>, f) }"

definition decode_gemini :: "json \<Rightarrow> gemini_response option" where
  "decode_gemini j = do {
     ms \<leftarrow> as_object j; cs \<leftarrow> as_list decode_candidate (member ''candidates'' ms);
     u \<leftarrow> as_object (member ''usageMetadata'' ms); p \<leftarrow> int_field ''promptTokenCount'' u;
     c \<leftarrow> int_field ''candidatesTokenCount'' u; k \<leftarrow> int_field ''cachedContentTokenCount'' u;
     Some \<lparr>gp_Candidates = cs, gp_Prompt = p, gp_Completion = c, gp_Cached = k\<rparr> }"

definition mapGeminiFinish :: "(gemini_content \<times> string) list \<Rightarrow> string" where
  "mapGeminiFinish cands = (case cands of
      [] \<Rightarrow> ''stop''
    | (c, f) # _ \<Rightarrow>
        if f = ''STOP'' then ''stop''
        else if f = ''MAX_TOKENS'' then ''length''
        else if f \<in> {''SAFETY'', ''RECITATION'', ''OTHER''} then ''content_filter''
        else ''stop'')"

definition first_text :: "(gemini_content \<times> string) list \<Rightarrow> string" where
  "first_text cands = (case cands of [] \<Rightarrow> [] | (c, f) # _ \<Rightarrow> concat (gc_Parts c))"

definition convertFromGemini :: "int \<Rightarrow> gemini_response \<Rightarrow> string \<Rightarrow> chat_response" where
  "convertFromGemini t_unix resp model =
    \<lparr>cp_ID = ''chatcmpl-gemini'', cp_Object = ''chat.completion'', cp_Created = t_unix, cp_Model = model,
     Choices = [\<lparr>ch_Index = 0, ch_Message = assistant_message (first_text (gp_Candidates resp)),
       FinishReason = mapGeminiFinish (gp_Candidates resp)\<rparr>],
     cp_Usage = (if 0 < gp_Prompt resp \<or> 0 < gp_Completion resp then
        Some \<lparr>PromptTokens = gp_Prompt resp, CompletionTokens = gp_Completion resp,
          TotalTokens = gp_Prompt resp + gp_Completion resp, CachedTokens = None, CompletionReasoning = None\<rparr>
      else None)\<rparr>"

record gemini_tr =
  gt_usage :: "token_usage option"
  gt_done :: bool

definition new_gemini_tr :: gemini_tr where
  "new_gemini_tr = \<lparr>gt_usage = None, gt_done = False\<rparr>"

text \<open>
  One event: the finish mark is noted before anything is emitted, the usage after; the third
  component is the state when the client refuses the chunk.
\<close>

definition gemini_step ::
  "(string \<Rightarrow> string) \<Rightarrow> string \<Rightarrow> gemini_tr \<Rightarrow> string list \<times> gemini_tr \<times> gemini_tr" where
  "gemini_step chunk raw st = (case extractData raw of
      None \<Rightarrow> ([], st, st)
    | Some payload \<Rightarrow>
        if payload = ''[DONE]'' then ([], st, st)
        else (case Option.bind (json_parse payload) decode_gemini of
            None \<Rightarrow> ([], st, st)
          | Some ev \<Rightarrow>
              (let st1 = (if gp_Candidates ev \<noteq> [] \<and> snd (hd (gp_Candidates ev)) \<noteq> [] then st\<lparr>gt_done := True\<rparr> else st);
                   txt = first_text (gp_Candidates ev);
                   st2 = (if 0 < gp_Prompt ev \<or> 0 < gp_Completion ev then
                       st1\<lparr>gt_usage := Some (zero_usage\<lparr>InputTokens := gp_Prompt ev,
                         OutputTokens := gp_Completion ev, CacheTokens := gp_Cached ev\<rparr>)\<rparr> else st1)
               in (if txt \<noteq> [] then [chunk txt] else [], st2, st1))))"

end
