(* ===== verification/Connectors.thy ===== *)
theory Connectors
  imports Convert
begin

text \<open>
  The connectors (\<open>internal/connectors/openai.go\<close>, \<open>anthropic.go\<close>, \<open>gemini.go\<close> and
  \<open>httpDo\<close>): the requests they send, what they make of the answer, and the dispatch over
  the platform. The HTTP client is the argument \<open>net\<close>, from the request sent to the
  transport error or the response; \<open>fmt\<close> is the text of a \<open>float64\<close>, \<open>t_unix\<close> the clock in
  seconds, \<open>ctx_err\<close> the error of the request's context when it was cancelled.
\<close>

section \<open>Sending\<close>

record http_out =
  ho_Method :: string
  ho_URL :: string
  ho_Headers :: "(string \<times> string) list"
  ho_Body :: "string option"

type_synonym transport = "http_out \<Rightarrow> go_error + upstream_response"

definition httpDo ::
  "transport \<Rightarrow> string \<Rightarrow> string \<Rightarrow> (string \<times> string) list \<Rightarrow> string option \<Rightarrow> go_error + upstream_response" where
  "httpDo net meth url hdr body = net \<lparr>ho_Method = meth, ho_URL = url,
     ho_Headers = hdr @ (if body \<noteq> None then [(''content-type'', ''application/json'')] else []), ho_Body = body\<rparr>"

definition openai_authHeader :: "target \<Rightarrow> (string \<times> string) list" where
  "openai_authHeader t = [(''Authorization'', ''Bearer '' @ t_APIKey t)]"

definition anthropic_headers :: "target \<Rightarrow> (string \<times> string) list" where
  "anthropic_headers t = [(''x-api-key'', t_APIKey t), (''anthropic-version'', ''2023-06-01'')]"

definition gemini_headers :: "target \<Rightarrow> (string \<times> string) list" where
  "gemini_headers t = [(''x-goog-api-key'', t_APIKey t)]"

text \<open>\<open>url.PathEscape\<close>\<close>

definition upper_hex :: "nat \<Rightarrow> string" where
  "upper_hex n = [''0123456789ABCDEF'' ! (n div 16 mod 16), ''0123456789ABCDEF'' ! (n mod 16)]"

definition path_chars :: string where
  "path_chars = ''abcdefghijklmnopqrstuvwxyzABCDEFGHIJKLMNOPQRSTUVWXYZ0123456789-_.~$&+=:@''"

definition path_escape :: "string \<Rightarrow> string" where
  "path_escape s = concat (map (\<lambda>c. if c \<in> set path_chars then [c] else CHR ''%'' # upper_hex (of_char c)) s)"

definition gemini_modelsURL :: "target \<Rightarrow> string" where
  "gemini_modelsURL t = baseURL t @ ''/v1beta/models''"

definition gemini_generateURL :: "target \<Rightarrow> string \<Rightarrow> string" where
  "gemini_generateURL t m = baseURL t @ ''/v1beta/models/'' @ path_escape m @ '':generateContent''"

definition gemini_streamURL :: "target \<Rightarrow> string \<Rightarrow> string" where
  "gemini_streamURL t m = baseURL t @ ''/v1beta/models/'' @ path_escape m @ '':streamGenerateContent?alt=sse''"

section \<open>Credentials, models and probes\<close>

definition invalid_credential :: "int \<Rightarrow> go_error" where
  "invalid_credential st = TextError (''invalid credential (HTTP '' @ itoa st @ '')'')"

text \<open>OpenAI-compatible and Gemini platforms are asked for their model list.\<close>

definition status_verdict :: "int \<Rightarrow> go_error option" where
  "status_verdict st =
     (if st = 200 then None
      else if st = 401 \<or> st = 403 then Some (invalid_credential st)
      else Some (TextError (''validation failed (HTTP '' @ itoa st @ '')'')))"

definition openai_ValidateCredential :: "transport \<Rightarrow> target \<Rightarrow> go_error option" where
  "openai_ValidateCredential net t =
     (case httpDo net ''GET'' (baseURL t @ ''/v1/models'') (openai_authHeader t) None of
        Inl e \<Rightarrow> Some e | Inr resp \<Rightarrow> status_verdict (us_Status resp))"

definition gemini_ValidateCredential :: "transport \<Rightarrow> target \<Rightarrow> go_error option" where
  "gemini_ValidateCredential net t =
     (case httpDo net ''GET'' (gemini_modelsURL t) (gemini_headers t) None of
        Inl e \<Rightarrow> Some e | Inr resp \<Rightarrow> status_verdict (us_Status resp))"

definition anthropic_ping :: json where
  "anthropic_ping = JObj [(''max_tokens'', JInt 1),
     (''messages'', JArr [JObj [(''content'', JStr ''ping''), (''role'', JStr ''user'')]]),
     (''model'', JStr (hd anthropicCatalog))]"

definition anthropic_ValidateCredential :: "(real \<Rightarrow> string) \<Rightarrow> transport \<Rightarrow> target \<Rightarrow> go_error option" where
  "anthropic_ValidateCredential fmt net t =
     (case httpDo net ''POST'' (baseURL t @ ''/v1/messages'') (anthropic_headers t) (Some (render fmt anthropic_ping)) of
        Inl e \<Rightarrow> Some e
      | Inr resp \<Rightarrow>
          if us_Status resp = 200 then None
          else if us_Status resp = 401 \<or> us_Status resp = 403 then Some (invalid_credential (us_Status resp))
          else None)"

definition model_named :: "string \<Rightarrow> model_info" where
  "model_named i = \<lparr>mi_UpstreamID = i, mi_ContextLimit = 0\<rparr>"

definition decode_model_ids :: "json \<Rightarrow> string list option" where
  "decode_model_ids j = do {
     ms \<leftarrow> as_object j;
     as_list (\<lambda>x. do { m \<leftarrow> as_object x; str_field ''id'' m }) (member ''data'' ms) }"

definition openai_DiscoverModels :: "transport \<Rightarrow> target \<Rightarrow> go_error + model_info list" where
  "openai_DiscoverModels net t =
     (case httpDo net ''GET'' (baseURL t @ ''/v1/models'') (openai_authHeader t) None of
        Inl e \<Rightarrow> Inl e
      | Inr resp \<Rightarrow> map_sum id (map model_named) (readJSON decode_model_ids resp))"

definition anthropic_DiscoverModels :: "go_error + model_info list" where
  "anthropic_DiscoverModels = Inr (map model_named anthropicCatalog)"

definition decode_gemini_models :: "json \<Rightarrow> (string \<times> string list) list option" where
  "decode_gemini_models j = do {
     ms \<leftarrow> as_object j;
     as_list (\<lambda>x. do { m \<leftarrow> as_object x; n \<leftarrow> str_field ''name'' m;
         g \<leftarrow> as_list as_string (member ''supportedGenerationMethods'' m); Some (n, g) }) (member ''models'' ms) }"

definition gemini_DiscoverModels :: "transport \<Rightarrow> target \<Rightarrow> go_error + model_info list" where
  "gemini_DiscoverModels net t =
     (case httpDo net ''GET'' (gemini_modelsURL t) (gemini_headers t) None of
        Inl e \<Rightarrow> Inl e
      | Inr resp \<Rightarrow> map_sum id
          (\<lambda>ms. map (\<lambda>m. model_named (trim_prefix (fst m) ''models/'')) (filter (\<lambda>m. ''generateContent'' \<in> set (snd m)) ms))
          (readJSON decode_gemini_models resp))"

definition probe_of :: "int \<Rightarrow> go_error option \<Rightarrow> health_probe" where
  "probe_of lat err = (case err of
       Some e \<Rightarrow> \<lparr>hp_OK = False, hp_LatencyMS = lat, hp_Status = 0, hp_Error = error_text e\<rparr>
     | None \<Rightarrow> \<lparr>hp_OK = True, hp_LatencyMS = lat, hp_Status = 0, hp_Error = []\<rparr>)"

section \<open>Plain requests\<close>

text \<open>An answer outside 2xx is classified by its status alone; otherwise its body is decoded.\<close>

definition read_reply :: "(json \<Rightarrow> 'a option) \<Rightarrow> go_error + upstream_response \<Rightarrow> go_error + 'a" where
  "read_reply decode r = (case r of
       Inl e \<Rightarrow> Inl e
     | Inr resp \<Rightarrow> if \<not> status_ok (us_Status resp) then Inl (Classify (us_Status resp) None)
                   else readJSON decode resp)"

definition openai_Forward ::
  "(real \<Rightarrow> string) \<Rightarrow> transport \<Rightarrow> target \<Rightarrow> json chat_request \<Rightarrow> go_error + chat_response" where
  "openai_Forward fmt net t req =
     map_sum id (\<lambda>out. if cp_Model out = [] then out\<lparr>cp_Model := cr_Model req\<rparr> else out)
       (read_reply decode_chat_response
         (httpDo net ''POST'' (baseURL t @ ''/v1/chat/completions'') (openai_authHeader t)
           (Some (render fmt (chat_request_json (req\<lparr>Stream := False\<rparr>))))))"

definition forwardAnthropicConn ::
  "(real \<Rightarrow> string) \<Rightarrow> transport \<Rightarrow> target \<Rightarrow> anthropic_request \<Rightarrow> go_error + anthropic_response" where
  "forwardAnthropicConn fmt net t body =
     read_reply decode_anthropic
       (httpDo net ''POST'' (baseURL t @ ''/v1/messages'') (anthropic_headers t)
         (Some (render fmt (anthropic_request_json (body\<lparr>an_Stream := False\<rparr>)))))"

definition anthropic_Forward ::
  "(real \<Rightarrow> string) \<Rightarrow> int \<Rightarrow> transport \<Rightarrow> target \<Rightarrow> json chat_request \<Rightarrow> go_error + chat_response" where
  "anthropic_Forward fmt t_unix net t req =
     map_sum id (\<lambda>a. convertFromAnthropic t_unix a (cr_Model req))
       (forwardAnthropicConn fmt net t (convertToAnthropic req))"

definition forwardGemini ::
  "(real \<Rightarrow> string) \<Rightarrow> transport \<Rightarrow> target \<Rightarrow> string \<Rightarrow> gemini_request \<Rightarrow> bool \<Rightarrow> go_error + gemini_response" where
  "forwardGemini fmt net t m body stream =
     read_reply decode_gemini
       (httpDo net ''POST'' (if stream then gemini_streamURL t m else gemini_generateURL t m) (gemini_headers t)
         (Some (render fmt (gemini_request_json body))))"

definition gemini_Forward ::
  "(real \<Rightarrow> string) \<Rightarrow> int \<Rightarrow> transport \<Rightarrow> target \<Rightarrow> json chat_request \<Rightarrow> go_error + chat_response" where
  "gemini_Forward fmt t_unix net t req =
     map_sum id (\<lambda>g. convertFromGemini t_unix g (cr_Model req))
       (forwardGemini fmt net t (cr_Model req) (convertToGemini req) False)"

section \<open>Streamed requests\<close>

fun bytesIndex :: "string \<Rightarrow> string \<Rightarrow> nat option" where
  "bytesIndex [] sub = (if sub = [] then Some 0 else None)"
| "bytesIndex (c # b) sub =
     (if take (length sub) (c # b) = sub then Some 0 else map_option Suc (bytesIndex b sub))"

definition has_done :: "string \<Rightarrow> bool" where
  "has_done b \<longleftrightarrow> bytesIndex b ''[DONE]'' \<noteq> None"

text \<open>The callbacks the connectors hand to the event reader, around the client's \<open>cb\<close>.\<close>

definition openai_cb :: "'w callback \<Rightarrow> (bool \<times> 'w) callback" where
  "openai_cb cb b dw = (let (e, w') = cb b (snd dw) in (e, (fst dw \<or> has_done b, w')))"

definition translator :: "(string \<Rightarrow> 't \<Rightarrow> string list \<times> 't \<times> 't) \<Rightarrow> 'w callback \<Rightarrow> ('t \<times> 'w) callback" where
  "translator step cb raw tw =
     (let (ems, st1, st2) = step raw (fst tw) in
      case feed cb ems (snd tw) of
        (Some e, w') \<Rightarrow> (Some e, (st2, w')) | (None, w') \<Rightarrow> (None, (st1, w')))"

definition openai_ForwardStream ::
  "(real \<Rightarrow> string) \<Rightarrow> go_error option \<Rightarrow> transport \<Rightarrow> target \<Rightarrow> json chat_request \<Rightarrow> 'w callback \<Rightarrow> 'w
     \<Rightarrow> (token_usage option \<times> go_error option) \<times> 'w" where
  "openai_ForwardStream fmt ctx_err net t req cb w =
     (case httpDo net ''POST'' (baseURL t @ ''/v1/chat/completions'') (openai_authHeader t)
             (Some (render fmt (chat_request_json (req\<lparr>Stream := True\<rparr>)))) of
        Inl e \<Rightarrow> ((None, Some e), w)
      | Inr resp \<Rightarrow>
          (case consumeSSE ctx_err resp (openai_cb cb) (False, w) of
             (Some e, (fin, w')) \<Rightarrow> ((Some zero_usage, Some (Classify 0 (Some e))), w')
           | (None, (fin, w')) \<Rightarrow> ((Some zero_usage, if \<not> fin then Some ErrTruncated else None), w')))"

definition anthropic_chunk :: "(real \<Rightarrow> string) \<Rightarrow> int \<Rightarrow> string \<Rightarrow> string \<Rightarrow> string \<Rightarrow> string \<Rightarrow> string" where
  "anthropic_chunk fmt t_unix m i content finish = chunk_text fmt i t_unix m content finish"

text \<open>A refused chunk leaves the translator's state as it was before the event.\<close>

definition anthropic_tr_step ::
  "(string \<Rightarrow> string \<Rightarrow> string \<Rightarrow> string) \<Rightarrow> string \<Rightarrow> anthropic_tr \<Rightarrow> string list \<times> anthropic_tr \<times> anthropic_tr" where
  "anthropic_tr_step chunk raw st = (let (ems, st1) = anthropic_step chunk raw st in (ems, st1, st))"

definition anthropic_translate ::
  "(real \<Rightarrow> string) \<Rightarrow> int \<Rightarrow> go_error option \<Rightarrow> string \<Rightarrow> upstream_response \<Rightarrow> 'w callback \<Rightarrow> 'w
     \<Rightarrow> (token_usage option \<times> go_error option) \<times> 'w" where
  "anthropic_translate fmt t_unix ctx_err m resp cb w =
     (let (err, (st, w')) = consumeSSE ctx_err resp
            (translator (anthropic_tr_step (anthropic_chunk fmt t_unix m)) cb)
            (new_anthropic_tr, w);
          usage = (case at_usage st of None \<Rightarrow> zero_usage | Some u \<Rightarrow> u)
      in ((Some usage, if \<not> at_finished st then Some ErrTruncated else err), w'))"

definition anthropic_ForwardStream ::
  "(real \<Rightarrow> string) \<Rightarrow> int \<Rightarrow> go_error option \<Rightarrow> transport \<Rightarrow> target \<Rightarrow> json chat_request \<Rightarrow> 'w callback \<Rightarrow> 'w
     \<Rightarrow> (token_usage option \<times> go_error option) \<times> 'w" where
  "anthropic_ForwardStream fmt t_unix ctx_err net t req cb w =
     (case httpDo net ''POST'' (baseURL t @ ''/v1/messages'') (anthropic_headers t)
             (Some (render fmt (anthropic_request_json ((convertToAnthropic req)\<lparr>an_Stream := True\<rparr>)))) of
        Inl e \<Rightarrow> ((None, Some e), w)
      | Inr resp \<Rightarrow> anthropic_translate fmt t_unix ctx_err (cr_Model req) resp cb w)"

definition gemini_chunk :: "(real \<Rightarrow> string) \<Rightarrow> int \<Rightarrow> string \<Rightarrow> string \<Rightarrow> string" where
  "gemini_chunk fmt t_unix m content = chunk_text fmt ''chatcmpl-gemini'' t_unix m content []"

definition gemini_translate ::
  "(real \<Rightarrow> string) \<Rightarrow> int \<Rightarrow> go_error option \<Rightarrow> string \<Rightarrow> upstream_response \<Rightarrow> 'w callback \<Rightarrow> 'w
     \<Rightarrow> (token_usage option \<times> go_error option) \<times> 'w" where
  "gemini_translate fmt t_unix ctx_err m resp cb w =
     (let (err, (st, w')) = consumeSSE ctx_err resp
            (translator (gemini_step (gemini_chunk fmt t_unix m)) cb) (new_gemini_tr, w);
          usage = (case gt_usage st of None \<Rightarrow> zero_usage | Some u \<Rightarrow> u)
      in ((Some usage, if \<not> gt_done st then Some ErrTruncated else err), w'))"

definition gemini_ForwardStream ::
  "(real \<Rightarrow> string) \<Rightarrow> int \<Rightarrow> go_error option \<Rightarrow> transport \<Rightarrow> target \<Rightarrow> json chat_request \<Rightarrow> 'w callback \<Rightarrow> 'w
     \<Rightarrow> (token_usage option \<times> go_error option) \<times> 'w" where
  "gemini_ForwardStream fmt t_unix ctx_err net t req cb w =
     (case httpDo net ''POST'' (gemini_streamURL t (cr_Model req)) (gemini_headers t)
             (Some (render fmt (gemini_request_json (convertToGemini req)))) of
        Inl e \<Rightarrow> ((None, Some e), w)
      | Inr resp \<Rightarrow> gemini_translate fmt t_unix ctx_err (cr_Model req) resp cb w)"

section \<open>Dispatch\<close>

text \<open>The environment of a call: transport, clock and context, which each attempt sees anew.\<close>

record call_env =
  ce_Fmt :: "real \<Rightarrow> string"
  ce_Net :: transport
  ce_Unix :: int
  ce_Lat :: int
  ce_Ctx :: "go_error option"

fun ValidateCredential :: "call_env \<Rightarrow> connector_impl \<Rightarrow> target \<Rightarrow> go_error option" where
  "ValidateCredential ce AnthropicImpl t = anthropic_ValidateCredential (ce_Fmt ce) (ce_Net ce) t"
| "ValidateCredential ce GeminiImpl t = gemini_ValidateCredential (ce_Net ce) t"
| "ValidateCredential ce (OpenAICompatibleImpl k) t = openai_ValidateCredential (ce_Net ce) t"

fun DiscoverModels :: "call_env \<Rightarrow> connector_impl \<Rightarrow> target \<Rightarrow> go_error + model_info list" where
  "DiscoverModels ce AnthropicImpl t = anthropic_DiscoverModels"
| "DiscoverModels ce GeminiImpl t = gemini_DiscoverModels (ce_Net ce) t"
| "DiscoverModels ce (OpenAICompatibleImpl k) t = openai_DiscoverModels (ce_Net ce) t"

definition ProbeHealth :: "call_env \<Rightarrow> connector_impl \<Rightarrow> target \<Rightarrow> health_probe" where
  "ProbeHealth ce c t = probe_of (ce_Lat ce) (ValidateCredential ce c t)"

fun connector_Forward ::
  "call_env \<Rightarrow> connector_impl \<Rightarrow> target \<Rightarrow> json chat_request \<Rightarrow> go_error + chat_response" where
  "connector_Forward ce AnthropicImpl t req = anthropic_Forward (ce_Fmt ce) (ce_Unix ce) (ce_Net ce) t req"
| "connector_Forward ce GeminiImpl t req = gemini_Forward (ce_Fmt ce) (ce_Unix ce) (ce_Net ce) t req"
| "connector_Forward ce (OpenAICompatibleImpl k) t req = openai_Forward (ce_Fmt ce) (ce_Net ce) t req"

fun connector_ForwardStream ::
  "call_env \<Rightarrow> connector_impl \<Rightarrow> target \<Rightarrow> json chat_request \<Rightarrow> 'w callback \<Rightarrow> 'w
     \<Rightarrow> (token_usage option \<times> go_error option) \<times> 'w" where
  "connector_ForwardStream ce AnthropicImpl t req cb w =
     anthropic_ForwardStream (ce_Fmt ce) (ce_Unix ce) (ce_Ctx ce) (ce_Net ce) t req cb w"
| "connector_ForwardStream ce GeminiImpl t req cb w =
     gemini_ForwardStream (ce_Fmt ce) (ce_Unix ce) (ce_Ctx ce) (ce_Net ce) t req cb w"
| "connector_ForwardStream ce (OpenAICompatibleImpl k) t req cb w =
     openai_ForwardStream (ce_Fmt ce) (ce_Ctx ce) (ce_Net ce) t req cb w"

section \<open>What the client sees of a stream\<close>

text \<open>\<open>w'\<close> is where the client gets by being handed some chunks.\<close>

definition reaches :: "'w callback \<Rightarrow> 'w \<Rightarrow> 'w \<Rightarrow> bool" where
  "reaches cb w w' \<longleftrightarrow> (\<exists>bs. w' = snd (feed cb bs w))"

lemma reaches_refl [simp]: "reaches cb w w"
  unfolding reaches_def by (rule exI [of _ "[]"]) simp

text \<open>A callback that acts on the client only by handing it some chunks.\<close>

locale emitter =
  fixes g :: "('t \<times> 'w) callback" and cb :: "'w callback"
  assumes emits_some: "\<exists>bs. feed cb bs w = (fst (g b (t, w)), snd (snd (g b (t, w))))"
begin

lemma feed_emits: "\<exists>bs. feed cb bs w = (fst (feed g blks (t, w)), snd (snd (feed g blks (t, w))))"
proof (induction blks arbitrary: t w)
  case Nil
  show ?case by (rule exI [of _ "[]"]) simp
next
  case (Cons b blks)
  obtain e t1 w1 where g: "g b (t, w) = (e, (t1, w1))" by (metis prod.exhaust)
  obtain bs where bs: "feed cb bs w = (e, w1)" using emits_some [of w b t] g by auto
  show ?case
  proof (cases e)
    case (Some x)
    with g bs show ?thesis by (intro exI [of _ bs]) simp
  next
    case None
    obtain bs' where "feed cb bs' w1 = (fst (feed g blks (t1, w1)), snd (snd (feed g blks (t1, w1))))"
      using Cons by blast
    with None g bs show ?thesis by (intro exI [of _ "bs @ bs'"]) (simp add: feed_append)
  qed
qed

lemma consumeSSE_emits: "\<exists>bs. snd (feed cb bs w) = snd (snd (consumeSSE ctx_err resp g (t, w)))"
proof (cases "status_ok (us_Status resp)")
  case True
  obtain bs where "feed cb bs w = (fst (feed g (sse_blocks resp) (t, w)), snd (snd (feed g (sse_blocks resp) (t, w))))"
    using feed_emits by blast
  then show ?thesis
    by (intro exI [of _ bs]) (auto simp: consumeSSE_feed [OF True] split: prod.splits option.splits)
next
  case False
  then show ?thesis by (intro exI [of _ "[]"]) (simp add: consumeSSE_def)
qed

lemma consumeSSE_reaches:
  "consumeSSE ctx_err resp g (t, w) = (e, (t', w')) \<Longrightarrow> reaches cb w w'"
  using consumeSSE_emits [of w ctx_err resp t] by (auto simp: reaches_def)

end

interpretation oai: emitter "openai_cb cb" cb for cb
proof
  fix w b t
  show "\<exists>bs. feed cb bs w = (fst (openai_cb cb b (t, w)), snd (snd (openai_cb cb b (t, w))))"
    by (rule exI [of _ "[b]"]) (auto simp: openai_cb_def split: prod.splits option.splits)
qed

interpretation trl: emitter "translator step cb" cb for step cb
proof
  fix w b t
  show "\<exists>bs. feed cb bs w = (fst (translator step cb b (t, w)), snd (snd (translator step cb b (t, w))))"
    by (rule exI [of _ "fst (step b t)"]) (auto simp: translator_def Let_def split: prod.splits option.splits)
qed

lemma ForwardStream_reaches: "reaches cb w (snd (connector_ForwardStream ce impl t req cb w))"
proof -
  have anth: "reaches cb w (snd (anthropic_translate fmt tu ctx m resp cb w))" for fmt tu ctx m resp
    unfolding anthropic_translate_def by (auto simp: Let_def split: prod.split dest: trl.consumeSSE_reaches)
  have gem: "reaches cb w (snd (gemini_translate fmt tu ctx m resp cb w))" for fmt tu ctx m resp
    unfolding gemini_translate_def by (auto simp: Let_def split: prod.split dest: trl.consumeSSE_reaches)
  show ?thesis
    by (cases impl) (auto simp: anth gem anthropic_ForwardStream_def gemini_ForwardStream_def
        openai_ForwardStream_def split: sum.split prod.split option.split dest: oai.consumeSSE_reaches)
qed

text \<open>The connectors as the streams the router drives; \<open>ce i\<close> is the environment of attempt \<open>i\<close>.\<close>

definition real_streamer :: "(nat \<Rightarrow> call_env) \<Rightarrow> (json, 's) streamer" where
  "real_streamer ce i = connector_ForwardStream (ce i)"

definition real_forwarder :: "(nat \<Rightarrow> call_env) \<Rightarrow> json forwarder" where
  "real_forwarder ce i = connector_Forward (ce i)"

interpretation conn: streaming_connector "real_streamer ce" for ce
  using ForwardStream_reaches by unfold_locales (auto simp: real_streamer_def reaches_def)

section \<open>A client that takes everything\<close>

definition accepts :: "'w callback \<Rightarrow> bool" where
  "accepts cb \<longleftrightarrow> (\<forall>b w. fst (cb b w) = None)"

lemma feed_accepts: "accepts cb \<Longrightarrow> fst (feed cb bs w) = None"
proof (induction bs arbitrary: w)
  case (Cons b bs)
  then show ?case by (cases "cb b w") (auto simp: accepts_def dest: spec [of _ b] split: option.split, metis fst_conv option.distinct(1))
qed simp

text \<open>What a translator emits over a list of events, and the state it ends in.\<close>

fun run_events :: "(string \<Rightarrow> 't \<Rightarrow> string list \<times> 't \<times> 't) \<Rightarrow> string list \<Rightarrow> 't \<Rightarrow> string list \<times> 't" where
  "run_events step [] st = ([], st)"
| "run_events step (b # bs) st =
     (let (ems, st1, st2) = step b st; (ems', st') = run_events step bs st1 in (ems @ ems', st'))"

lemma feed_translator:
  "accepts cb \<Longrightarrow> feed (translator step cb) bs (st, w) =
     (None, (snd (run_events step bs st), snd (feed cb (fst (run_events step bs st)) w)))"
proof (induction bs arbitrary: st w)
  case Nil
  then show ?case by simp
next
  case (Cons b bs)
  obtain ems st1 st2 where s: "step b st = (ems, st1, st2)" by (metis prod.exhaust)
  obtain w' where f: "feed cb ems w = (None, w')"
    using feed_accepts [OF Cons.prems, of ems w] by (metis prod.collapse)
  show ?case
    using Cons by (simp add: translator_def s f feed_append split: prod.split)
qed

lemma run_events_append:
  "run_events step (as @ bs) st =
     (let (e1, s1) = run_events step as st; (e2, s2) = run_events step bs s1 in (e1 @ e2, s2))"
  by (induction as arbitrary: st) (auto simp: Let_def split: prod.splits)

subsection \<open>Events as the platforms write them\<close>

definition event_text :: "string \<Rightarrow> string" where
  "event_text payload = ''data: '' @ payload @ [CHR 0x0A, CHR 0x0A]"

text \<open>A payload as \<open>extractData\<close> gives it back: one line without white space at its ends.\<close>

definition one_line :: "string \<Rightarrow> bool" where
  "one_line p \<longleftrightarrow> p \<noteq> [] \<and> CHR 0x0A \<notin> set p \<and> \<not> is_space (hd p) \<and> \<not> is_space (last p)"

lemma trim_right_of_last: "s \<noteq> [] \<Longrightarrow> \<not> P (last s) \<Longrightarrow> trim_right_of P s = s"
  by (cases s rule: rev_cases) (auto simp: trim_right_of_def)

lemma split_on_no_sep: "sep \<notin> set a \<Longrightarrow> split_on sep (a @ sep # b) = a # split_on sep b"
  by (induction a) auto

lemma extractData_event:
  assumes "one_line p"
  shows "extractData (event_text p) = Some p"
proof -
  have "CHR 0x0A \<notin> set (''data: '' @ p)" using assms by (simp add: one_line_def)
  from split_on_no_sep [OF this, of "[CHR 0x0A]"]
  have sp: "split_on (CHR 0x0A) (event_text p) = [''data: '' @ p, [], []]"
    by (simp add: event_text_def)
  have "last p \<noteq> CHR 0x0D" "p \<noteq> []" using assms by (auto simp: one_line_def is_space_def)
  then have cr: "trim_right_of (\<lambda>c. c = CHR 0x0D) (''data: '' @ p) = ''data: '' @ p"
    by (intro trim_right_of_last) auto
  have pre: "has_prefix (''data: '' @ p) ''data: ''" "trim_prefix (''data: '' @ p) ''data: '' = p"
    by (simp_all add: trim_prefix_def has_prefix_def)
  have "trim_left_of is_space p = p" using assms by (cases p) (auto simp: trim_left_of_def one_line_def)
  then have "trim_space p = p"
    using assms by (simp add: trim_space_def trim_of_def one_line_def trim_right_of_last)
  then show ?thesis using cr pre by (simp add: extractData_def sp)
qed

lemma split_lines_line:
  "CHR 0x0A \<notin> set a \<Longrightarrow> split_lines (a @ CHR 0x0A # s) =
     (let (ls, tail) = split_lines s in ((a @ [CHR 0x0A]) # ls, tail))"
  by (induction a) (auto simp: Let_def split: prod.split)

lemma split_lines_events:
  "(\<forall>p \<in> set ps. one_line p) \<Longrightarrow> split_lines (concat (map event_text ps)) =
     (concat (map (\<lambda>p. [''data: '' @ p @ [CHR 0x0A], [CHR 0x0A]]) ps), [])"
proof (induction ps)
  case Nil
  then show ?case by simp
next
  case (Cons p ps)
  have "CHR 0x0A \<notin> set (''data: '' @ p)" using Cons.prems by (simp add: one_line_def)
  moreover have "concat (map event_text (p # ps)) =
      (''data: '' @ p) @ CHR 0x0A # [] @ CHR 0x0A # concat (map event_text ps)"
    by (simp add: event_text_def)
  ultimately show ?case
    using Cons split_lines_line [of "''data: '' @ p"] split_lines_line [of "[]" "concat (map event_text ps)"]
    by simp
qed

lemma sse_blocks_events:
  assumes "\<forall>p \<in> set ps. one_line p"
  shows "sse_blocks \<lparr>us_Status = st, us_Headers = h, us_Data = concat (map event_text ps), us_End = None\<rparr>
    = map event_text ps"
proof -
  have eol: "trim_eol [CHR 0x0A] = []" "trim_eol (''data: '' @ p @ [CHR 0x0A]) \<noteq> []" for p
    by (auto simp: trim_eol_def trim_right_of_def dropWhile_eq_Nil_conv)
  have "blocks None (concat (map (\<lambda>p. [''data: '' @ p @ [CHR 0x0A], [CHR 0x0A]]) ps)) [] [] = map event_text ps"
    using eol by (induction ps) (auto simp: event_text_def)
  then show ?thesis by (simp add: sse_blocks_def split_lines_events [OF assms])
qed

lemma esc_char_no_newline: "CHR 0x0A \<notin> set (esc_char c)"
  using esc_char_table [of c]
proof (elim disjE exE conjE)
  assume "esc_char c = [c]" "c \<notin> fst ` set short_escapes"
  moreover have "CHR 0x0A \<in> fst ` set short_escapes" by (simp add: short_escapes_def)
  ultimately show ?thesis by auto
qed (auto simp: short_escapes_def plain_controls_def)

lemma render_str_no_newline [simp]: "CHR 0x0A \<notin> set (render_str s)"
  using esc_char_no_newline by (auto simp: render_str_def)

lemma nat_digits_no_newline: "CHR 0x0A \<notin> set (nat_digits n)"
  using nat_digits_digits [of n] by (auto simp: list_all_iff is_digit_def digit_table_def)

lemma join_no_newline: "CHR 0x0A \<notin> set sep \<Longrightarrow> \<forall>w \<in> set ws. CHR 0x0A \<notin> set w \<Longrightarrow> CHR 0x0A \<notin> set (join_with sep ws)"
  by (induction sep ws rule: join_with.induct) auto

lemma render_no_newline: "textual j \<Longrightarrow> CHR 0x0A \<notin> set (render fmt j)"
proof (induction j)
  case (JArr vs)
  then have "CHR 0x0A \<notin> set (join_with '','' (map (render fmt) vs))"
    by (intro join_no_newline) (auto simp: list_all_iff)
  then show ?case by simp
next
  case (JObj ms)
  then have "CHR 0x0A \<notin> set (join_with '','' (map (\<lambda>kv. render_str (fst kv) @ '':'' @ render fmt (snd kv)) ms))"
    by (intro join_no_newline) (fastforce simp: list_all_iff)+
  then show ?case by simp
qed (auto simp: itoa_def nat_digits_no_newline)

lemma one_line_object: "textual (JObj ms) \<Longrightarrow> one_line (render fmt (JObj ms))"
  using render_no_newline [of "JObj ms" fmt] by (auto simp: one_line_def is_space_def)

subsection \<open>Translating a Messages stream\<close>

text \<open>The events of a message, in the platform's documented form.\<close>

definition start_event :: "string \<Rightarrow> json" where
  "start_event i = JObj [(''type'', JStr ''message_start''), (''message'', JObj [(''id'', JStr i)])]"

definition text_event :: "string \<Rightarrow> json" where
  "text_event x = JObj [(''type'', JStr ''content_block_delta''), (''index'', JInt 0),
     (''delta'', JObj [(''type'', JStr ''text_delta''), (''text'', JStr x)])]"

definition end_event :: "string \<Rightarrow> int \<Rightarrow> int \<Rightarrow> json" where
  "end_event stop inp outp = JObj [(''type'', JStr ''message_delta''), (''delta'', JObj [(''stop_reason'', JStr stop)]),
     (''usage'', JObj [(''input_tokens'', JInt inp), (''output_tokens'', JInt outp)])]"

definition stop_event :: json where
  "stop_event = JObj [(''type'', JStr ''message_stop'')]"

definition message_events :: "string \<Rightarrow> string list \<Rightarrow> string \<Rightarrow> int \<Rightarrow> int \<Rightarrow> json list" where
  "message_events i texts stop inp outp =
     start_event i # map text_event texts @ [end_event stop inp outp, stop_event]"

definition json_event :: "(real \<Rightarrow> string) \<Rightarrow> json \<Rightarrow> string" where
  "json_event fmt j = event_text (render fmt j)"

definition int64 :: "int \<Rightarrow> bool" where
  "int64 i \<longleftrightarrow> - (2 ^ 63) \<le> i \<and> i < 2 ^ 63"

lemma payload_of_object:
  "textual (JObj ms) \<Longrightarrow> extractData (json_event fmt (JObj ms)) = Some (render fmt (JObj ms)) \<and>
     render fmt (JObj ms) \<noteq> ''[DONE]'' \<and> json_parse (render fmt (JObj ms)) = Some (JObj ms)"
  using extractData_event [OF one_line_object [of ms fmt]] json_parse_render [of "JObj ms" fmt]
  by (simp add: json_event_def)

lemmas event_decoding = decode_event_def str_field_def int_field_def member_def as_pointer_def

lemma step_start: "anthropic_step chunk (json_event fmt (start_event i)) st = ([], st\<lparr>at_id := i\<rparr>)"
  unfolding start_event_def anthropic_step_def
  by (subst payload_of_object [THEN conjunct1], simp)
     (simp add: payload_of_object [THEN conjunct2, THEN conjunct2] event_decoding del: render.simps,
      simp)

lemma step_text: "anthropic_step chunk (json_event fmt (text_event x)) st
     = (if x \<noteq> [] then [chunk (at_id st) x []] else [], st)"
  unfolding text_event_def anthropic_step_def
  by (subst payload_of_object [THEN conjunct1], simp)
     (simp add: payload_of_object [THEN conjunct2, THEN conjunct2] event_decoding del: render.simps,
      simp)

lemma step_end:
  assumes "int64 inp" and "int64 outp" and "stop \<noteq> []"
  shows "anthropic_step chunk (json_event fmt (end_event stop inp outp)) st
     = ([chunk (at_id st) [] (mapAnthropicStopReason stop)],
        (if at_usage st = None
         then st\<lparr>at_finished := True, at_usage := Some (zero_usage\<lparr>InputTokens := inp, OutputTokens := outp\<rparr>)\<rparr>
         else st\<lparr>at_finished := True\<rparr>))"
  using assms unfolding end_event_def anthropic_step_def
  by (subst payload_of_object [THEN conjunct1], simp)
     (simp add: payload_of_object [THEN conjunct2, THEN conjunct2] event_decoding int64_def Let_def
        del: render.simps split: option.split, simp)

lemma step_stop: "anthropic_step chunk (json_event fmt stop_event) st
     = (if \<not> at_finished st then [chunk (at_id st) [] ''stop''] else [], st)"
  unfolding stop_event_def anthropic_step_def
  by (subst payload_of_object [THEN conjunct1], simp)
     (simp add: payload_of_object [THEN conjunct2, THEN conjunct2] event_decoding del: render.simps,
      simp)

lemma run_texts:
  "run_events (anthropic_tr_step chunk) (map (\<lambda>x. json_event fmt (text_event x)) texts) st =
     (map (\<lambda>x. chunk (at_id st) x []) (filter (\<lambda>x. x \<noteq> []) texts), st)"
  by (induction texts) (simp_all add: step_text anthropic_tr_step_def)


definition log_cb :: "string list callback" where
  "log_cb b w = (None, w @ [b])"

lemma accepts_log [simp]: "accepts log_cb"
  by (simp add: accepts_def log_cb_def)


subsection \<open>Passing a stream through\<close>

lemma feed_openai:
  "accepts cb \<Longrightarrow> feed (openai_cb cb) bs (d, w) = (None, (d \<or> list_ex has_done bs, snd (feed cb bs w)))"
proof (induction bs arbitrary: d w)
  case Nil
  then show ?case by simp
next
  case (Cons b bs)
  then have "fst (cb b w) = None" by (simp add: accepts_def)
  then obtain w' where "cb b w = (None, w')" by (cases "cb b w") auto
  with Cons show ?case by (simp add: openai_cb_def disj_assoc)
qed

text \<open>
  A stream of an OpenAI-compatible platform reaches the client byte for byte: what is
  handed out is the upstream's event blocks in order, and the call succeeds exactly when the
  stream ended properly and some block had the end mark; without the mark it is truncated,
  and the error that broke the stream is classified. The token counts reported are always 0.
\<close>

theorem openai_stream_passed_through:
  assumes "accepts cb" and "\<And>out. net out = Inr resp" and "status_ok (us_Status resp)"
  shows "openai_ForwardStream fmt ctx_err net t req cb w =
    ((Some zero_usage,
      (case end_error ctx_err (us_End resp) of
         Some e \<Rightarrow> Some (Classify 0 (Some e))
       | None \<Rightarrow> if list_ex has_done (sse_blocks resp) then None else Some ErrTruncated)),
     snd (feed cb (sse_blocks resp) w))"
  by (simp add: openai_ForwardStream_def httpDo_def assms(2) consumeSSE_feed [OF assms(3)] feed_openai [OF assms(1)]
      split: option.split)

lemma openai_stream_passed_through_witness:
  "snd (openai_ForwardStream (\<lambda>x. []) None (\<lambda>out. Inr demo_stream) (rt_Target (demo_target ''a''))
      (NewChatRequest ''m'' []) log_cb []) = [''data: 1'' @ [CHR 0x0A, CHR 0x0A], ''data: 2'']"
proof -
  have "status_ok (us_Status demo_stream)" by (simp add: demo_stream_def status_ok_def)
  moreover have "sse_blocks demo_stream = [''data: 1'' @ [CHR 0x0A, CHR 0x0A], ''data: 2'']" by code_simp
  ultimately show ?thesis
    using openai_stream_passed_through [of log_cb "\<lambda>out. Inr demo_stream" demo_stream] by (simp add: log_cb_def)
qed

section \<open>Refusals and transport errors\<close>

lemma Classify_0_body: "Classify 0 (Some (ClassifyWithBody st body)) = ClassifyWithBody st body"
proof -
  obtain k where k: "ClassifyWithBody st body = UpstreamError (Sentinel k) st (redactInline body) None"
      "Classify st None = UpstreamError (Sentinel k) st [] None"
    using ClassifyWithBody_shape by blast
  from k(2) have "Sentinel k \<noteq> io_EOF"
    by (auto simp: Classify_def connector_sentinels io_EOF_def split: if_splits)
  with k(1) show ?thesis
    by (simp add: Classify_def isNetErr_def errors_is_def context_DeadlineExceeded_def ECONNRESET_def io_EOF_def)
qed

text \<open>
  C16: an upstream that answers outside 2xx: a plain request fails with the error of the
  status, retryable unless it is 401, 403 or 404. A streamed request outputs nothing; an
  OpenAI-compatible platform reports the same kind of error, with the body, but Anthropic and
  Gemini report a truncated stream whatever the status, which is retryable even for a
  rejected key.
\<close>

theorem refused_upstream:
  assumes "\<And>out. ce_Net ce out = Inr resp" and "\<not> status_ok (us_Status resp)"
  shows "connector_Forward ce impl t req = Inl (Classify (us_Status resp) None) \<and>
    (Retryable (Some (Classify (us_Status resp) None)) \<longleftrightarrow> us_Status resp \<notin> {401, 403, 404}) \<and>
    connector_ForwardStream ce impl t req cb w =
      ((Some zero_usage, Some (case impl of
          OpenAICompatibleImpl k \<Rightarrow> ClassifyWithBody (us_Status resp) (take 4096 (us_Data resp))
        | _ \<Rightarrow> ErrTruncated)), w)"
proof (intro conjI)
  show "connector_Forward ce impl t req = Inl (Classify (us_Status resp) None)"
    using assms(2) by (cases impl) (simp_all add: openai_Forward_def anthropic_Forward_def forwardAnthropicConn_def
        gemini_Forward_def forwardGemini_def httpDo_def assms(1) read_reply_def)
  show "Retryable (Some (Classify (us_Status resp) None)) \<longleftrightarrow> us_Status resp \<notin> {401, 403, 404}"
    by (auto simp: Classify_def)
  show "connector_ForwardStream ce impl t req cb w =
      ((Some zero_usage, Some (case impl of
          OpenAICompatibleImpl k \<Rightarrow> ClassifyWithBody (us_Status resp) (take 4096 (us_Data resp))
        | _ \<Rightarrow> ErrTruncated)), w)"
    using assms(2) by (cases impl) (simp_all add: openai_ForwardStream_def anthropic_ForwardStream_def
        anthropic_translate_def gemini_ForwardStream_def gemini_translate_def httpDo_def assms(1) consumeSSE_def
        Classify_0_body new_anthropic_tr_def new_gemini_tr_def)
qed

definition demo_env :: "(http_out \<Rightarrow> go_error + upstream_response) \<Rightarrow> call_env" where
  "demo_env net = \<lparr>ce_Fmt = (\<lambda>x. []), ce_Net = net, ce_Unix = 0, ce_Lat = 0, ce_Ctx = None\<rparr>"

lemma refused_upstream_witness:
  "\<not> Retryable (Some (Classify 401 None)) \<and>
   connector_ForwardStream (demo_env (\<lambda>out. Inr \<lparr>us_Status = 401, us_Headers = [], us_Data = [], us_End = None\<rparr>))
     AnthropicImpl (rt_Target (demo_target ''a'')) (NewChatRequest ''m'' []) log_cb [] =
     ((Some zero_usage, Some ErrTruncated), [])"
  using refused_upstream [of "demo_env (\<lambda>out. Inr \<lparr>us_Status = 401, us_Headers = [], us_Data = [], us_End = None\<rparr>)"
      "\<lparr>us_Status = 401, us_Headers = [], us_Data = [], us_End = None\<rparr>" AnthropicImpl
      "rt_Target (demo_target ''a'')" "NewChatRequest ''m'' []" log_cb "[]"]
  by (simp add: demo_env_def status_ok_def)

text \<open>
  A transport failure is not failed over. When the first candidate's upstream cannot be
  reached (connection reset, timeout, end of file before an answer), the plain request fails
  with the raw transport error and no other candidate is tried, although the same error,
  once classified, is retryable.
\<close>

theorem transport_error_not_failed_over:
  assumes "resolveCandidates al (store s) = Inr (c # cands, pid)"
    and "resolve 0 (cd_AccountID c) s = (Inr tgt, s0)"
    and "\<And>out. ce_Net (ce 0) out = Inl (NetError msg (Some cause))"
    and "cause \<in> {ECONNRESET, context_DeadlineExceeded, io_EOF}"
  shows "fst (fst (Forward store hook resolve (real_forwarder ce) lat t_unix al req rid s))
      = Inl (NetError msg (Some cause)) \<and>
    Retryable (Some (Classify 0 (Some (NetError msg (Some cause)))))"
proof -
  have nr: "\<not> Retryable (Some (NetError msg (Some cause)))"
    using assms(4) by (auto simp: Retryable_def connector_sentinels ECONNRESET_def context_DeadlineExceeded_def io_EOF_def)
  have "real_forwarder ce 0 impl t rq = Inl (NetError msg (Some cause))" for impl t rq
    by (cases impl) (simp_all add: real_forwarder_def openai_Forward_def anthropic_Forward_def
        forwardAnthropicConn_def gemini_Forward_def forwardGemini_def httpDo_def assms(3) read_reply_def)
  then have "fst (fst (Forward store hook resolve (real_forwarder ce) lat t_unix al req rid s)) = Inl (NetError msg (Some cause))"
    by (simp add: Forward_def assms(1,2) nr Let_def split: prod.splits)
  moreover have "Retryable (Some (Classify 0 (Some (NetError msg (Some cause)))))"
    by (simp add: Classify_def isNetErr_def)
  ultimately show ?thesis ..
qed

lemma transport_error_not_failed_over_witness:
  "fst (fst (Forward id (None :: db attempt_hook option) (\<lambda>i a s. (Inr (demo_target a), s))
      (real_forwarder (\<lambda>i. demo_env (\<lambda>out. Inl (NetError ''refused'' (Some ECONNRESET))))) (\<lambda>i. 0) 0
      ''fast'' (NewChatRequest ''fast'' []) ''rid'' demo_routes)) = Inl (NetError ''refused'' (Some ECONNRESET))"
proof -
  have "resolveCandidates ''fast'' (id demo_routes) =
     Inr (\<lparr>cd_AccountID = ''a2'', cd_ModelID = ''m2'', cd_Priority = 1, cd_Weight = 1\<rparr> #
          [\<lparr>cd_AccountID = ''a1'', cd_ModelID = ''m1'', cd_Priority = 2, cd_Weight = 1\<rparr>], ''pol'')"
    by (simp add: demo_resolves)
  from transport_error_not_failed_over [where store = id and hook = None and resolve = "\<lambda>i a s. (Inr (demo_target a), s)"
      and ce = "\<lambda>i. demo_env (\<lambda>out. Inl (NetError ''refused'' (Some ECONNRESET)))", OF this]
  show ?thesis by (simp add: demo_env_def)
qed

section \<open>Model names in paths\<close>

definition escape_char :: "char \<Rightarrow> string" where
  "escape_char c = (if c \<in> set path_chars then [c] else CHR ''%'' # upper_hex (of_char c))"

lemma upper_hex_inj:
  assumes "upper_hex m = upper_hex n" and "m < 256" and "n < 256"
  shows "m = n"
proof -
  have d: "distinct ''0123456789ABCDEF''" "length ''0123456789ABCDEF'' = 16" by simp_all
  from assms(1) have "''0123456789ABCDEF'' ! (m div 16 mod 16) = ''0123456789ABCDEF'' ! (n div 16 mod 16)"
    "''0123456789ABCDEF'' ! (m mod 16) = ''0123456789ABCDEF'' ! (n mod 16)"
    by (simp_all only: upper_hex_def list.inject)
  then have "m div 16 mod 16 = n div 16 mod 16" "m mod 16 = n mod 16"
    using d by (metis nth_eq_iff_index_eq mod_less_divisor zero_less_numeral)+
  with assms(2,3) show ?thesis by (metis div_mod_decomp less_mult_imp_div_less mod_less numeral_times_numeral
      semiring_norm(12) semiring_norm(14) semiring_norm(13))
qed

lemma escape_char_cancel: "escape_char c @ x = escape_char d @ y \<Longrightarrow> c = d \<and> x = y"
proof -
  assume eq: "escape_char c @ x = escape_char d @ y"
  have pc: "CHR ''%'' \<notin> set path_chars" by (simp add: path_chars_def)
  have b: "of_char z < (256 :: nat)" for z
    by (metis of_char_mod_256 mod_less_divisor zero_less_numeral)
  show ?thesis
    using eq pc upper_hex_inj [OF _ b b, of c d]
    by (auto simp: escape_char_def upper_hex_def split: if_splits)
qed

lemma path_escape_inj: "path_escape s = path_escape s' \<longleftrightarrow> s = s'"
proof (induction s arbitrary: s')
  have ne: "escape_char c \<noteq> []" for c by (simp add: escape_char_def)
  have pe: "path_escape [] = []" "path_escape (c # s) = escape_char c @ path_escape s" for c s
    by (simp_all add: path_escape_def escape_char_def)
  case Nil
  show ?case using ne by (cases s') (simp_all add: pe)
  case (Cons c s)
  show ?case
    using ne Cons escape_char_cancel [of c "path_escape s"] by (cases s') (auto simp: pe)
qed

lemma path_escape_chars: "set (path_escape s) \<subseteq> set (CHR ''%'' # ''0123456789ABCDEF'' @ path_chars)"
proof -
  have "''0123456789ABCDEF'' ! (n mod 16) \<in> set ''0123456789ABCDEF''" for n
    by (rule nth_mem) simp
  then show ?thesis by (fastforce simp: path_escape_def upper_hex_def split: if_splits)
qed

text \<open>
  A model name cannot change which Gemini endpoint is called: in the path it is one
  segment without separator, query or fragment, and different models have different URLs.
\<close>

theorem gemini_url_confined:
  "set (path_escape m) \<inter> set ''/?#'' = {} \<and>
   (gemini_generateURL t m = gemini_generateURL t m' \<longleftrightarrow> m = m') \<and>
   (gemini_streamURL t m = gemini_streamURL t m' \<longleftrightarrow> m = m')"
proof -
  have "set ''/?#'' \<inter> set (CHR ''%'' # ''0123456789ABCDEF'' @ path_chars) = {}"
    by (simp add: path_chars_def)
  then have "set (path_escape m) \<inter> set ''/?#'' = {}" using path_escape_chars [of m] by blast
  then show ?thesis by (simp add: gemini_generateURL_def gemini_streamURL_def path_escape_inj)
qed

end
