(* ===== verification/Vault.thy ===== *)
theory Vault
  imports GoLib Errs
begin

text \<open>
  The credential store (\<open>internal/credentials\<close>): references and secrets, the in-memory store,
  the Keychain store over the \<open>security\<close> command, and the redaction of texts that may hold a
  credential. SHA-256 in hexadecimal is the argument \<open>sha\<close>, the clock the argument \<open>nw\<close>; the
  \<open>security\<close> command is the argument \<open>sec\<close>, from the arguments and the state of the keychain
  to the standard error and exit error, or the standard output.
\<close>

section \<open>References\<close>

definition ErrNotFound :: go_error where
  "ErrNotFound = Sentinel ''vault: entry not found''"

record secret_ref =
  sr_VaultProvider :: string
  sr_Service :: string
  sr_Account :: string
  sr_Fingerprint :: string
  sr_CreatedAt :: string

definition zero_ref :: secret_ref where
  "zero_ref = \<lparr>sr_VaultProvider = [], sr_Service = [], sr_Account = [], sr_Fingerprint = [], sr_CreatedAt = []\<rparr>"

definition ShortFingerprint :: "(string \<Rightarrow> string) \<Rightarrow> string \<Rightarrow> string" where
  "ShortFingerprint sha v = (let fp = sha v in if 12 < length fp then take 12 fp else fp)"

text \<open>The interface \<open>Vault\<close>, over the state \<open>'v\<close> of the store.\<close>

record 'v vault_ops =
  v_Store :: "string \<Rightarrow> string \<Rightarrow> string \<Rightarrow> 'v \<Rightarrow> (go_error + secret_ref) \<times> 'v"
  v_Get :: "secret_ref \<Rightarrow> 'v \<Rightarrow> go_error + string"
  v_Delete :: "secret_ref \<Rightarrow> 'v \<Rightarrow> go_error option \<times> 'v"
  v_Persistent :: bool

section \<open>In memory\<close>

record mem_vault =
  mv_db :: "string \<Rightarrow> string option"
  mv_ref :: "string \<Rightarrow> secret_ref option"

definition NewInMemoryVault :: mem_vault where
  "NewInMemoryVault = \<lparr>mv_db = Map.empty, mv_ref = Map.empty\<rparr>"

definition mem_key :: "string \<Rightarrow> string \<Rightarrow> string" where
  "mem_key service account = service @ ''|'' @ account"

definition mem_Store ::
  "(string \<Rightarrow> string) \<Rightarrow> string \<Rightarrow> string \<Rightarrow> string \<Rightarrow> string \<Rightarrow> mem_vault \<Rightarrow> (go_error + secret_ref) \<times> mem_vault" where
  "mem_Store sha nw service account secret v =
    (let ref = \<lparr>sr_VaultProvider = ''memory'', sr_Service = service, sr_Account = account,
                sr_Fingerprint = ShortFingerprint sha secret, sr_CreatedAt = nw\<rparr>;
         key = mem_key service account
     in (Inr ref, \<lparr>mv_db = (mv_db v)(key \<mapsto> secret), mv_ref = (mv_ref v)(key \<mapsto> ref)\<rparr>))"

definition mem_Get :: "secret_ref \<Rightarrow> mem_vault \<Rightarrow> go_error + string" where
  "mem_Get ref v = (case mv_db v (mem_key (sr_Service ref) (sr_Account ref)) of
     None \<Rightarrow> Inl ErrNotFound | Some s \<Rightarrow> Inr s)"

definition mem_Delete :: "secret_ref \<Rightarrow> mem_vault \<Rightarrow> go_error option \<times> mem_vault" where
  "mem_Delete ref v = (let key = mem_key (sr_Service ref) (sr_Account ref) in
     if mv_db v key = None then (Some ErrNotFound, v)
     else (None, \<lparr>mv_db = (mv_db v)(key := None), mv_ref = (mv_ref v)(key := None)\<rparr>))"

definition memory_vault :: "(string \<Rightarrow> string) \<Rightarrow> string \<Rightarrow> mem_vault vault_ops" where
  "memory_vault sha nw =
    \<lparr>v_Store = mem_Store sha nw, v_Get = mem_Get, v_Delete = mem_Delete, v_Persistent = False\<rparr>"

section \<open>Keychain\<close>

type_synonym 'k security = "string list \<Rightarrow> 'k \<Rightarrow> ((string \<times> string) + string) \<times> 'k"

definition NewKeychainVault :: "string \<Rightarrow> bool \<Rightarrow> go_error option" where
  "NewKeychainVault goos security_found =
    (if goos \<noteq> ''darwin'' then Some (TextError (''system keychain unsupported on '' @ goos))
     else if \<not> security_found then Some (TextError ''exec: security not found'') else None)"

definition KeychainError :: "string \<Rightarrow> string \<Rightarrow> go_error" where
  "KeychainError oper msg = TextError (''keychain '' @ oper @ '': '' @ msg)"

definition keychain_run :: "'k security \<Rightarrow> string list \<Rightarrow> 'k \<Rightarrow> (go_error + string) \<times> 'k" where
  "keychain_run sec args k = (case sec args k of
      (Inl (errb, ex), k') \<Rightarrow>
        (let msg = trim_space errb in (Inl (KeychainError (hd args) (if msg = [] then ex else msg)), k'))
    | (Inr out, k') \<Rightarrow> (Inr (trim_space out), k'))"

definition keychain_Store ::
  "'k security \<Rightarrow> string \<Rightarrow> (string \<Rightarrow> string) \<Rightarrow> string \<Rightarrow> string \<Rightarrow> string \<Rightarrow> string \<Rightarrow> 'k \<Rightarrow> (go_error + secret_ref) \<times> 'k" where
  "keychain_Store sec kservice sha nw service account secret k =
    (let ref = \<lparr>sr_VaultProvider = ''macos-keychain'', sr_Service = kservice @ ''-'' @ service, sr_Account = account,
                sr_Fingerprint = ShortFingerprint sha secret, sr_CreatedAt = nw\<rparr>
     in (case keychain_run sec [''add-generic-password'', ''-s'', sr_Service ref, ''-a'', account, ''-w'', secret, ''-U''] k of
           (Inl e, k') \<Rightarrow> (Inl e, k') | (Inr out, k') \<Rightarrow> (Inr ref, k')))"

definition missing_error :: "go_error \<Rightarrow> go_error" where
  "missing_error e = (if str_contains (error_text e) ''could not be found'' then ErrNotFound else e)"

definition keychain_Get :: "'k security \<Rightarrow> secret_ref \<Rightarrow> 'k \<Rightarrow> go_error + string" where
  "keychain_Get sec ref k =
    (case fst (keychain_run sec [''find-generic-password'', ''-s'', sr_Service ref, ''-a'', sr_Account ref, ''-w''] k) of
       Inl e \<Rightarrow> Inl (missing_error e) | Inr out \<Rightarrow> Inr out)"

definition keychain_Delete :: "'k security \<Rightarrow> secret_ref \<Rightarrow> 'k \<Rightarrow> go_error option \<times> 'k" where
  "keychain_Delete sec ref k =
    (case keychain_run sec [''delete-generic-password'', ''-s'', sr_Service ref, ''-a'', sr_Account ref] k of
       (Inl e, k') \<Rightarrow> (Some (missing_error e), k') | (Inr out, k') \<Rightarrow> (None, k'))"

definition keychain_vault :: "'k security \<Rightarrow> string \<Rightarrow> (string \<Rightarrow> string) \<Rightarrow> string \<Rightarrow> 'k vault_ops" where
  "keychain_vault sec kservice sha nw =
    \<lparr>v_Store = keychain_Store sec kservice sha nw, v_Get = keychain_Get sec, v_Delete = keychain_Delete sec,
     v_Persistent = True\<rparr>"

section \<open>What clients rely on\<close>

text \<open>
  The contract of a credential store: a slot (service and account) holds the last secret
  stored in it until it is deleted, and operations on one slot leave the others alone.
\<close>

locale secret_vault =
  fixes ops :: "'v vault_ops" and slot :: "secret_ref \<Rightarrow> 'k"
  assumes store_get: "v_Store ops svc acct sec v = (Inr ref, v') \<Longrightarrow> v_Get ops ref v' = Inr sec"
    and store_frame: "v_Store ops svc acct sec v = (Inr ref, v') \<Longrightarrow> slot ref' \<noteq> slot ref \<Longrightarrow>
          v_Get ops ref' v' = v_Get ops ref' v"
    and delete_gone: "v_Delete ops ref v = (None, v') \<Longrightarrow> v_Get ops ref v' = Inl ErrNotFound"
    and delete_frame: "slot ref' \<noteq> slot ref \<Longrightarrow> v_Get ops ref' (snd (v_Delete ops ref v)) = v_Get ops ref' v"
    and get_slot: "slot ref = slot ref' \<Longrightarrow> v_Get ops ref v = v_Get ops ref' v"
begin

text \<open>A new secret in its own slot leaves the old one readable, also once it is taken back.\<close>

lemma rollback_safe:
  assumes "v_Store ops svc acct sec v = (Inr new, v1)" and "slot new \<noteq> slot old"
  shows "v_Get ops old v1 = v_Get ops old v" and "v_Get ops old (snd (v_Delete ops new v1)) = v_Get ops old v"
  using store_frame [OF assms(1), of old] delete_frame [of old new v1] assms(2) by auto

text \<open>Replacing a secret, the old reference deleted last, keeps the new one when the slots differ.\<close>

lemma replace_reads_new:
  assumes "v_Store ops svc acct sec v = (Inr new, v1)" and "slot new \<noteq> slot old"
  shows "v_Get ops new (snd (v_Delete ops old v1)) = Inr sec"
  using store_get [OF assms(1)] delete_frame [of new old v1] assms(2) by simp

text \<open>In one slot it deletes what it has just stored.\<close>

lemma replace_same_slot:
  assumes "v_Store ops svc acct sec v = (Inr new, v1)" and "slot new = slot old"
    and "v_Delete ops old v1 = (None, v2)"
  shows "v_Get ops new v2 = Inl ErrNotFound"
  using delete_gone [OF assms(3)] get_slot [OF assms(2)] by simp

end

definition mem_slot :: "secret_ref \<Rightarrow> string" where
  "mem_slot ref = mem_key (sr_Service ref) (sr_Account ref)"

interpretation mv: secret_vault "memory_vault sha nw" mem_slot for sha nw
  by unfold_locales (auto simp: memory_vault_def mem_Store_def mem_Get_def mem_Delete_def mem_slot_def Let_def
      split: if_splits)

lemma mem_Delete_present:
  "mv_db v (mem_slot ref) \<noteq> None \<Longrightarrow> \<exists>v'. v_Delete (memory_vault sha nw) ref v = (None, v')"
  by (auto simp: memory_vault_def mem_Delete_def mem_slot_def Let_def)

section \<open>Redaction\<close>

text \<open>
  A pattern is a choice of literal prefixes followed by at least \<open>pt_Min\<close> characters of a
  class, taken greedily; \<open>pt_Boundary\<close> asks for a word boundary before it. Texts are ASCII.
\<close>

record pattern =
  pt_Prefixes :: "string list"
  pt_Class :: "char \<Rightarrow> bool"
  pt_Min :: nat
  pt_Boundary :: bool

definition alnum :: string where
  "alnum = ''abcdefghijklmnopqrstuvwxyzABCDEFGHIJKLMNOPQRSTUVWXYZ0123456789''"

definition secretPatterns :: "pattern list" where
  "secretPatterns =
    [\<lparr>pt_Prefixes = [''sk-''], pt_Class = (\<lambda>c. c \<in> set (alnum @ ''-'')), pt_Min = 16, pt_Boundary = False\<rparr>,
     \<lparr>pt_Prefixes = [''sk-ant-''], pt_Class = (\<lambda>c. c \<in> set (alnum @ ''-'')), pt_Min = 16, pt_Boundary = False\<rparr>,
     \<lparr>pt_Prefixes = [''AIza''], pt_Class = (\<lambda>c. c \<in> set (alnum @ ''_-'')), pt_Min = 16, pt_Boundary = False\<rparr>,
     \<lparr>pt_Prefixes = [''Bearer ''], pt_Class = (\<lambda>c. c \<in> set (alnum @ ''._-'')), pt_Min = 20, pt_Boundary = False\<rparr>,
     \<lparr>pt_Prefixes = [''key='', ''key:''],
      pt_Class = (\<lambda>c. c \<notin> {CHR ''&'', CHR '' '', CHR 0x09, CHR 0x0A, CHR 0x0C, CHR 0x0D, CHR 0x22, CHR 0x27}),
      pt_Min = 16, pt_Boundary = True\<rparr>,
     \<lparr>pt_Prefixes = [''cmp_admin_''], pt_Class = (\<lambda>c. c \<in> set alnum), pt_Min = 8, pt_Boundary = False\<rparr>]"

text \<open>The length of the match at the start of \<open>s\<close>, the character before it being \<open>prev\<close>.\<close>

definition match_at :: "pattern \<Rightarrow> char option \<Rightarrow> string \<Rightarrow> nat option" where
  "match_at p prev s =
    (if pt_Boundary p \<and> (case prev of None \<Rightarrow> False | Some c \<Rightarrow> c \<in> set (alnum @ ''_'')) then None
     else (case find (has_prefix s) (pt_Prefixes p) of
             None \<Rightarrow> None
           | Some pre \<Rightarrow>
               let run = takeWhile (pt_Class p) (drop (length pre) s)
               in if pt_Min p \<le> length run then Some (length pre + length run) else None))"

definition redactMatch :: "string \<Rightarrow> string" where
  "redactMatch s = (if length s \<le> 4 then replicate (length s) (CHR ''*'')
     else take 4 s @ replicate (length s - 4) (CHR ''*''))"

function (sequential) replace_all :: "pattern \<Rightarrow> char option \<Rightarrow> string \<Rightarrow> string" where
  "replace_all p prev [] = []"
| "replace_all p prev (c # s) =
    (case match_at p prev (c # s) of
       None \<Rightarrow> c # replace_all p (Some c) s
     | Some n \<Rightarrow> redactMatch (take n (c # s)) @ replace_all p (Some (last (take n (c # s)))) (drop (n - 1) s))"
  by pat_completeness auto
termination
  by (relation "measure (\<lambda>(p, prev, s). length s)") auto

definition Redact :: "string \<Rightarrow> string" where
  "Redact s = foldl (\<lambda>out p. replace_all p None out) s secretPatterns"

definition sensitive_key :: "string \<Rightarrow> bool" where
  "sensitive_key k \<longleftrightarrow> str_contains k ''token'' \<or> str_contains k ''key'' \<or> str_contains k ''auth'' \<or> str_contains k ''secret''"

definition redact_param :: "string \<Rightarrow> string" where
  "redact_param p = (case index_byte p (CHR ''='') of
      None \<Rightarrow> p
    | Some i \<Rightarrow> if sensitive_key (to_lower (take i p))
                then take i p @ ''='' @ replicate (length p - Suc i) (CHR ''*'') else p)"

definition RedactQuery :: "string \<Rightarrow> string" where
  "RedactQuery q = join_with ''&'' (map redact_param (split_on (CHR ''&'') q))"

text \<open>\<open>masks t s\<close>: \<open>t\<close> is \<open>s\<close> with some characters replaced by a star.\<close>

definition masks :: "string \<Rightarrow> string \<Rightarrow> bool" where
  "masks t s \<longleftrightarrow> list_all2 (\<lambda>a b. a = b \<or> a = CHR ''*'') t s"

lemma masks_refl [simp]: "masks s s"
  by (simp add: masks_def list_all2_refl)

lemma masks_append: "masks a b \<Longrightarrow> masks c d \<Longrightarrow> masks (a @ c) (b @ d)"
  by (simp add: masks_def list_all2_appendI)

lemma masks_Cons [simp]: "masks (a # t) (b # s) \<longleftrightarrow> (a = b \<or> a = CHR ''*'') \<and> masks t s"
  by (simp add: masks_def)

lemma masks_length: "masks t s \<Longrightarrow> length t = length s"
  by (simp add: masks_def list_all2_lengthD)

lemma masks_trans: "masks u t \<Longrightarrow> masks t s \<Longrightarrow> masks u s"
  unfolding masks_def by (rule list_all2_trans [where ?P1.0 = "\<lambda>a b. a = b \<or> a = CHR ''*''" and
      ?P2.0 = "\<lambda>a b. a = b \<or> a = CHR ''*''"]) auto

lemma masks_stars: "masks (replicate (length s) (CHR ''*'')) s"
  by (simp add: masks_def list_all2_conv_all_nth)

lemma redactMatch_masks: "masks (redactMatch s) s"
proof (cases "length s \<le> 4")
  case True
  then show ?thesis by (simp add: redactMatch_def masks_stars)
next
  case False
  then have "masks (take 4 s @ replicate (length s - 4) (CHR ''*'')) (take 4 s @ drop 4 s)"
    using masks_stars [of "drop 4 s"] by (intro masks_append) simp_all
  with False show ?thesis by (simp add: redactMatch_def)
qed

lemma match_at_bounds: "match_at p prev s = Some n \<Longrightarrow> pt_Min p \<le> n \<and> n \<le> length s"
proof -
  assume m: "match_at p prev s = Some n"
  then obtain pre where pre: "find (has_prefix s) (pt_Prefixes p) = Some pre"
    and n: "n = length pre + length (takeWhile (pt_Class p) (drop (length pre) s))"
      "pt_Min p \<le> length (takeWhile (pt_Class p) (drop (length pre) s))"
    by (auto simp: match_at_def Let_def split: if_splits option.splits)
  from pre have "length pre \<le> length s" by (auto dest!: find_SomeD simp: has_prefix_iff)
  moreover have "length (takeWhile (pt_Class p) (drop (length pre) s)) \<le> length s - length pre"
    using length_takeWhile_le [of "pt_Class p" "drop (length pre) s"] by simp
  ultimately show ?thesis using n by linarith
qed

lemma replace_all_masks: "0 < pt_Min p \<Longrightarrow> masks (replace_all p prev s) s"
proof (induction p prev s rule: replace_all.induct)
  case (1 p prev)
  then show ?case by simp
next
  case (2 p prev c s)
  show ?case
  proof (cases "match_at p prev (c # s)")
    case None
    then show ?thesis using 2 by simp
  next
    case (Some n)
    with match_at_bounds [OF Some] 2(3) have "0 < n" by simp
    then have "c # s = take n (c # s) @ drop (n - 1) s" by (cases n) simp_all
    moreover have "masks (redactMatch (take n (c # s)) @ replace_all p (Some (last (take n (c # s)))) (drop (n - 1) s))
        (take n (c # s) @ drop (n - 1) s)"
      using 2(2) [OF Some 2(3)] by (intro masks_append redactMatch_masks)
    ultimately show ?thesis using Some by simp
  qed
qed

text \<open>Patterns a star cannot take part in; no match of such a pattern survives its replacement.\<close>

definition star_free :: "pattern \<Rightarrow> bool" where
  "star_free p \<longleftrightarrow> \<not> pt_Boundary p \<and> 4 \<le> pt_Min p \<and> \<not> pt_Class p (CHR ''*'') \<and>
     list_all (\<lambda>q. q \<noteq> [] \<and> CHR ''*'' \<notin> set q) (pt_Prefixes p)"

definition shows_key :: "pattern \<Rightarrow> string \<Rightarrow> bool" where
  "shows_key p t \<longleftrightarrow> (\<exists>u q k v. t = u @ (q @ k) @ v \<and> q \<in> set (pt_Prefixes p) \<and> length k = pt_Min p \<and>
     (\<forall>c \<in> set k. pt_Class p c))"

lemma masks_keeps: "masks (u @ w @ v) s \<Longrightarrow> CHR ''*'' \<notin> set w \<Longrightarrow> \<exists>u' v'. s = u' @ w @ v' \<and> length u' = length u"
proof -
  assume m: "masks (u @ w @ v) s" and w: "CHR ''*'' \<notin> set w"
  then obtain u' w' v' where s: "s = u' @ w' @ v'" "list_all2 (\<lambda>a b. a = b \<or> a = CHR ''*'') w w'" "length u' = length u"
    unfolding masks_def by (auto simp: list_all2_append1 dest: list_all2_lengthD)
  from s(2) w have "w = w'" by (induction rule: list_all2_induct) auto
  with s show ?thesis by auto
qed

lemma shows_key_masks: "star_free p \<Longrightarrow> masks t s \<Longrightarrow> shows_key p t \<Longrightarrow> shows_key p s"
proof -
  assume sf: "star_free p" and m: "masks t s" and k: "shows_key p t"
  then obtain u q k v where t: "t = u @ (q @ k) @ v" "q \<in> set (pt_Prefixes p)" "length k = pt_Min p" "\<forall>c \<in> set k. pt_Class p c"
    unfolding shows_key_def by blast
  with sf have "CHR ''*'' \<notin> set (q @ k)" by (auto simp: star_free_def list_all_iff)
  with masks_keeps [of u "q @ k" v s] m t show ?thesis unfolding shows_key_def by blast
qed

lemma match_at_here:
  assumes "star_free p" and "pt_Prefixes p = [q]" and "s = (q @ k) @ v" and "length k = pt_Min p"
    and "\<forall>c \<in> set k. pt_Class p c"
  shows "match_at p prev s \<noteq> None"
proof -
  have "takeWhile (pt_Class p) (k @ v) = k @ takeWhile (pt_Class p) v" using assms(5) by (simp add: takeWhile_append2)
  with assms show ?thesis by (simp add: match_at_def star_free_def has_prefix_iff)
qed

lemma redacted_no_key:
  assumes sf: "star_free p" and one: "pt_Prefixes p = [q]" and m: "match_at p prev s = Some n"
    and out: "\<not> shows_key p out"
  shows "\<not> shows_key p (redactMatch (take n s) @ out)"
proof
  let ?r = "redactMatch (take n s)"
  assume "shows_key p (?r @ out)"
  then obtain u k v where e: "?r @ out = u @ (q @ k) @ v" "length k = pt_Min p" "\<forall>c \<in> set k. pt_Class p c"
    unfolding shows_key_def one by auto
  let ?w = "q @ k"
  from sf one have q: "q \<noteq> []" "4 \<le> pt_Min p" and ns: "CHR ''*'' \<notin> set ?w"
    using e(3) by (auto simp: star_free_def)
  then have w5: "5 \<le> length ?w" using e(2) by (cases q) simp_all
  from m one have "length q + pt_Min p \<le> n" by (auto simp: match_at_def Let_def split: if_splits)
  with w5 e(2) match_at_bounds [OF m] have n: "5 \<le> n" "n \<le> length s" by auto
  then have r: "?r = take 4 s @ replicate (n - 4) (CHR ''*'')" "length ?r = n"
    by (simp_all add: redactMatch_def min_def)
  have star: "(?r @ out) ! j = CHR ''*''" if "4 \<le> j" "j < n" for j
    using that n diff_less_mono [OF that(2,1)] by (simp add: r(1) nth_append)
  have inw: "(?r @ out) ! j \<noteq> CHR ''*''" if "length u \<le> j" "j < length u + length ?w" for j
  proof -
    have "(u @ ?w @ v) ! j = ?w ! (j - length u)" using that by (simp add: nth_append less_diff_conv2 flip: append_assoc)
    moreover have "?w ! (j - length u) \<in> set ?w" using that by (intro nth_mem) linarith
    ultimately show ?thesis using ns e(1) by metis
  qed
  have "n \<le> length u"
  proof (rule ccontr)
    assume "\<not> n \<le> length u"
    then have u: "length u < n" by simp
    show False
    proof (cases "4 \<le> length u")
      case True
      then show False using star [OF True u] inw [of "length u"] q(1) by auto
    next
      case False
      then show False using star [of 4] inw [of 4] w5 n by auto
    qed
  qed
  then obtain u' where "u = ?r @ u'" "out = u' @ ?w @ v"
    using e(1) r(2) by (auto simp: append_eq_append_conv2)
  with e one out show False unfolding shows_key_def by auto
qed

lemma replace_all_no_key:
  "star_free p \<Longrightarrow> pt_Prefixes p = [q] \<Longrightarrow> \<not> shows_key p (replace_all p prev s)"
proof (induction p prev s rule: replace_all.induct)
  case (1 p prev)
  then show ?case by (auto simp: shows_key_def star_free_def)
next
  case (2 p prev c s)
  have min: "0 < pt_Min p" using 2(3) by (auto simp: star_free_def)
  show ?case
  proof (cases "match_at p prev (c # s)")
    case None
    have "\<not> shows_key p (c # replace_all p (Some c) s)"
    proof
      assume "shows_key p (c # replace_all p (Some c) s)"
      then obtain u k v where e: "c # replace_all p (Some c) s = u @ (q @ k) @ v" "length k = pt_Min p" "\<forall>d \<in> set k. pt_Class p d"
        unfolding shows_key_def 2(4) by auto
      show False
      proof (cases u)
        case Nil
        have "masks (c # replace_all p (Some c) s) (c # s)" using replace_all_masks [OF min] by simp
        moreover have "CHR ''*'' \<notin> set (q @ k)" using 2(3,4) e(3) by (auto simp: star_free_def)
        ultimately obtain v' where "c # s = (q @ k) @ v'"
          using masks_keeps [of "[]" "q @ k" v "c # s"] e(1) Nil by auto
        with match_at_here [OF 2(3,4) _ e(2,3), of "c # s" v' prev] None show False by simp
      next
        case (Cons d u')
        with e 2(4) have "shows_key p (replace_all p (Some c) s)" unfolding shows_key_def by auto
        with 2(1) [OF None 2(3,4)] show False ..
      qed
    qed
    with None show ?thesis by simp
  next
    case (Some n)
    from redacted_no_key [OF 2(3,4) Some 2(2) [OF Some 2(3,4)]] Some show ?thesis by simp
  qed
qed


lemma trim_space_newline: "trim_space (secret @ [CHR 0x0A]) = trim_space secret"
proof -
  have sp: "is_space (CHR 0x0A)" by (simp add: is_space_def)
  have "trim_left_of is_space (secret @ [CHR 0x0A]) = (if list_all is_space secret then [] else trim_left_of is_space secret @ [CHR 0x0A])"
    by (induction secret) (auto simp: trim_left_of_def sp)
  then show ?thesis
    using sp by (auto simp: trim_space_def trim_of_def trim_right_of_def trim_left_of_def list_all_iff
        dropWhile_eq_Nil_conv [THEN iffD2])
qed

text \<open>
  A secret stored in the Keychain is read back without the white space around it, when
  the \<open>security\<close> command keeps what it is given and prints it with a newline; the in-memory
  store gives it back as it was.
\<close>

theorem stored_secret_read_back:
  assumes "\<And>svc acct w k. \<exists>out k'. sec [''add-generic-password'', ''-s'', svc, ''-a'', acct, ''-w'', w, ''-U''] k = (Inr out, k') \<and>
      fst (sec [''find-generic-password'', ''-s'', svc, ''-a'', acct, ''-w''] k') = Inr (w @ [CHR 0x0A])"
  shows "(\<exists>ref k'. v_Store (keychain_vault sec ks sha nw) service account secret k = (Inr ref, k') \<and>
        v_Get (keychain_vault sec ks sha nw) ref k' = Inr (trim_space secret)) \<and>
    (\<exists>ref v'. v_Store (memory_vault sha nw) service account secret v = (Inr ref, v') \<and>
        v_Get (memory_vault sha nw) ref v' = Inr secret)"
proof
  obtain out k' where k: "sec [''add-generic-password'', ''-s'', ks @ ''-'' @ service, ''-a'', account, ''-w'', secret, ''-U''] k = (Inr out, k')"
    "fst (sec [''find-generic-password'', ''-s'', ks @ ''-'' @ service, ''-a'', account, ''-w''] k') = Inr (secret @ [CHR 0x0A])"
    using assms by blast
  note trim_space_newline [of secret]
  with k show "\<exists>ref k'. v_Store (keychain_vault sec ks sha nw) service account secret k = (Inr ref, k') \<and>
        v_Get (keychain_vault sec ks sha nw) ref k' = Inr (trim_space secret)"
    by (auto simp: keychain_vault_def keychain_Store_def keychain_Get_def keychain_run_def Let_def split: prod.splits sum.splits)
  obtain ref v' where s: "v_Store (memory_vault sha nw) service account secret v = (Inr ref, v')"
    by (auto simp: memory_vault_def mem_Store_def Let_def)
  with mv.store_get [OF s] show "\<exists>ref v'. v_Store (memory_vault sha nw) service account secret v = (Inr ref, v') \<and>
        v_Get (memory_vault sha nw) ref v' = Inr secret" by blast
qed

text \<open>A keychain with one entry per service and account.\<close>

definition demo_security :: "(string \<times> string \<Rightarrow> string) security" where
  "demo_security args k =
    (if length args = 8 then (Inr [], k((args ! 2, args ! 4) := args ! 6))
     else (Inr (k (args ! 2, args ! 4) @ [CHR 0x0A]), k))"

lemma stored_secret_read_back_witness:
  "\<exists>ref k'. v_Store (keychain_vault demo_security ''midroute'' id ''0'') ''s'' ''a'' '' sk-1 '' (\<lambda>x. []) = (Inr ref, k') \<and>
     v_Get (keychain_vault demo_security ''midroute'' id ''0'') ref k' = Inr ''sk-1''"
proof -
  have "trim_space '' sk-1 '' = ''sk-1''" by code_simp
  then show ?thesis
    using stored_secret_read_back [of demo_security "''midroute''" id "''0''" "''s''" "''a''" "'' sk-1 ''"
        "\<lambda>x. []" NewInMemoryVault]
    by (simp add: demo_security_def numeral_eq_Suc)
qed

end
