(* ===== verification/Oauth.thy ===== *)
theory Oauth
  imports Vault Connectors
begin

text \<open>
  OAuth authorization (\<open>internal/connectors/oauth\<close>): PKCE, the store of pending states, the
  exchange and refresh of tokens, and the single flight of refreshes. Random bytes are
  arguments, SHA-256 (raw bytes) is \<open>sha_raw\<close>, the text of an instant \<open>fmt_time\<close>, instants
  are nanoseconds; the token endpoint is reached through the transport \<open>net\<close>.
\<close>

section \<open>Data\<close>

record oauth_provider =
  op_Name :: string
  op_AuthURL :: string
  op_TokenURL :: string
  op_ClientID :: string
  op_AuthScope :: string
  op_RefreshScope :: string
  op_RedirectURI :: string

definition Codex :: oauth_provider where
  "Codex = \<lparr>op_Name = ''codex'', op_AuthURL = ''https://auth.openai.com/oauth/authorize'',
     op_TokenURL = ''https://auth.openai.com/oauth/token'', op_ClientID = ''app_EMoamEEZ73f0CkXaXp7hrann'',
     op_AuthScope = ''openid email profile offline_access'', op_RefreshScope = ''openid profile email'',
     op_RedirectURI = ''http://localhost:1455/auth/callback''\<rparr>"

record token_bundle =
  tb_AccessToken :: string
  tb_RefreshToken :: string
  tb_IDToken :: string
  tb_AccountID :: string
  tb_Email :: string
  tb_ExpiresAt :: string

definition zero_bundle :: token_bundle where
  "zero_bundle = \<lparr>tb_AccessToken = [], tb_RefreshToken = [], tb_IDToken = [], tb_AccountID = [], tb_Email = [],
     tb_ExpiresAt = []\<rparr>"

definition bundle_json :: "token_bundle \<Rightarrow> json" where
  "bundle_json b = JObj ([(''access_token'', JStr (tb_AccessToken b)), (''refresh_token'', JStr (tb_RefreshToken b))]
     @ omit (tb_IDToken b = []) ''id_token'' (JStr (tb_IDToken b))
     @ omit (tb_AccountID b = []) ''account_id'' (JStr (tb_AccountID b))
     @ omit (tb_Email b = []) ''email'' (JStr (tb_Email b))
     @ [(''expires_at'', JStr (tb_ExpiresAt b))])"

definition decode_bundle :: "json \<Rightarrow> token_bundle option" where
  "decode_bundle j = do {
     ms \<leftarrow> as_object j; a \<leftarrow> str_field ''access_token'' ms; r \<leftarrow> str_field ''refresh_token'' ms;
     i \<leftarrow> str_field ''id_token'' ms; ac \<leftarrow> str_field ''account_id'' ms; e \<leftarrow> str_field ''email'' ms;
     x \<leftarrow> str_field ''expires_at'' ms;
     Some \<lparr>tb_AccessToken = a, tb_RefreshToken = r, tb_IDToken = i, tb_AccountID = ac, tb_Email = e, tb_ExpiresAt = x\<rparr> }"

text \<open>The text of a bundle has strings only, so no \<open>float64\<close> is formatted.\<close>

definition mustJSON :: "token_bundle \<Rightarrow> string" where
  "mustJSON b = render (\<lambda>x. []) (bundle_json b)"

definition ErrStateInvalid :: go_error where
  "ErrStateInvalid = Sentinel ''oauth: invalid or consumed state''"
definition ErrStateExpired :: go_error where
  "ErrStateExpired = Sentinel ''oauth: state expired, restart authorization''"
definition ErrAuthorizationCancelled :: go_error where
  "ErrAuthorizationCancelled = Sentinel ''oauth: authorization cancelled by user''"
definition ErrRefreshFailed :: go_error where
  "ErrRefreshFailed = Sentinel ''oauth: token refresh failed''"
definition ErrRefreshRejected :: go_error where
  "ErrRefreshRejected = Sentinel ''oauth: refresh token rejected by provider''"
definition ErrRevokeUnsupported :: go_error where
  "ErrRevokeUnsupported = Sentinel ''oauth: provider has no verified revoke endpoint''"
definition ErrVaultNotPersistent :: go_error where
  "ErrVaultNotPersistent = Sentinel ''oauth: vault is not persistent; refusing to store long-lived tokens''"

lemmas oauth_sentinels = ErrStateInvalid_def ErrStateExpired_def ErrAuthorizationCancelled_def
  ErrRefreshFailed_def ErrRefreshRejected_def ErrRevokeUnsupported_def ErrVaultNotPersistent_def

section \<open>PKCE and states\<close>

text \<open>\<open>base64.RawURLEncoding\<close>\<close>

definition b64_alphabet :: string where
  "b64_alphabet = ''ABCDEFGHIJKLMNOPQRSTUVWXYZabcdefghijklmnopqrstuvwxyz0123456789-_''"

definition b64_char :: "nat \<Rightarrow> char" where
  "b64_char n = b64_alphabet ! (n mod 64)"

fun base64url :: "string \<Rightarrow> string" where
  "base64url (a # b # c # s) =
     (let n = (of_char a * 256 + of_char b) * 256 + of_char c
      in [b64_char (n div 262144), b64_char (n div 4096), b64_char (n div 64), b64_char n] @ base64url s)"
| "base64url [a, b] =
     (let n = (of_char a * 256 + of_char b) * 256
      in [b64_char (n div 262144), b64_char (n div 4096), b64_char (n div 64)])"
| "base64url [a] = (let n = of_char a * 65536 in [b64_char (n div 262144), b64_char (n div 4096)])"
| "base64url [] = []"

definition newPKCE :: "(string \<Rightarrow> string) \<Rightarrow> string \<Rightarrow> string \<times> string" where
  "newPKCE sha_raw raw = (let verifier = base64url raw in (verifier, base64url (sha_raw verifier)))"

definition newState :: "string \<Rightarrow> string" where
  "newState raw = base64url raw"

definition stateTTL :: int where
  "stateTTL = 10 * 60 * 1000000000"

record state_entry =
  se_verifier :: string
  se_service :: string
  se_account :: string
  se_expiresAt :: int

type_synonym state_store = "string \<Rightarrow> state_entry option"

definition purge :: "int \<Rightarrow> state_store \<Rightarrow> state_store" where
  "purge t_now s k = (case s k of None \<Rightarrow> None | Some e \<Rightarrow> if se_expiresAt e < t_now then None else Some e)"

definition put_state :: "int \<Rightarrow> string \<Rightarrow> string \<Rightarrow> string \<Rightarrow> string \<Rightarrow> state_store \<Rightarrow> string \<times> state_store" where
  "put_state t_now raw verifier service account s =
    (let state = newState raw
     in (state, (purge t_now s)(state \<mapsto> \<lparr>se_verifier = verifier, se_service = service, se_account = account,
          se_expiresAt = t_now + stateTTL\<rparr>)))"

definition consume :: "int \<Rightarrow> string \<Rightarrow> state_store \<Rightarrow> (go_error + state_entry) \<times> state_store" where
  "consume t_now state s = (case s state of
      None \<Rightarrow> (Inl ErrStateInvalid, s)
    | Some e \<Rightarrow>
        let s' = s(state := None)
        in if se_expiresAt e < t_now then (Inl ErrStateExpired, s') else (Inr e, s'))"

section \<open>Forms and authorization URL\<close>

text \<open>\<open>url.QueryEscape\<close> and \<open>url.Values.Encode\<close>; the members are given in the order of their keys.\<close>

definition query_chars :: string where
  "query_chars = ''abcdefghijklmnopqrstuvwxyzABCDEFGHIJKLMNOPQRSTUVWXYZ0123456789-_.~''"

definition query_escape :: "string \<Rightarrow> string" where
  "query_escape s = concat (map (\<lambda>c. if c \<in> set query_chars then [c]
      else if c = CHR '' '' then ''+'' else CHR ''%'' # upper_hex (of_char c)) s)"

definition encode_form :: "(string \<times> string) list \<Rightarrow> string" where
  "encode_form kvs = join_with ''&'' (map (\<lambda>kv. query_escape (fst kv) @ ''='' @ query_escape (snd kv)) kvs)"

definition auth_url :: "oauth_provider \<Rightarrow> string \<Rightarrow> string \<Rightarrow> string" where
  "auth_url p state challenge = op_AuthURL p @ ''?'' @ encode_form
     [(''client_id'', op_ClientID p), (''code_challenge'', challenge), (''code_challenge_method'', ''S256''),
      (''codex_cli_simplified_flow'', ''true''), (''id_token_add_organizations'', ''true''), (''prompt'', ''login''),
      (''redirect_uri'', op_RedirectURI p), (''response_type'', ''code''), (''scope'', op_AuthScope p),
      (''state'', state)]"

definition StartAuth ::
  "'v vault_ops \<Rightarrow> oauth_provider \<Rightarrow> (string \<Rightarrow> string) \<Rightarrow> int \<Rightarrow> string \<Rightarrow> string \<Rightarrow> string \<Rightarrow> string \<Rightarrow> state_store
     \<Rightarrow> (go_error + string) \<times> state_store" where
  "StartAuth ops p sha_raw t_now raw_verifier raw_state service account s =
    (if \<not> v_Persistent ops then (Inl ErrVaultNotPersistent, s)
     else if service = [] \<or> account = [] then (Inl (TextError ''oauth: service and account are required''), s)
     else (let (verifier, challenge) = newPKCE sha_raw raw_verifier;
               (state, s') = put_state t_now raw_state verifier service account s
           in (Inr (auth_url p state challenge), s')))"

section \<open>Token endpoint\<close>

definition form_post :: "transport \<Rightarrow> string \<Rightarrow> (string \<times> string) list \<Rightarrow> go_error + upstream_response" where
  "form_post net url kvs = net \<lparr>ho_Method = ''POST'', ho_URL = url,
     ho_Headers = [(''Content-Type'', ''application/x-www-form-urlencoded''), (''Accept'', ''application/json'')],
     ho_Body = Some (encode_form kvs)\<rparr>"

definition decode_token_resp :: "json \<Rightarrow> (string \<times> string \<times> string \<times> int) option" where
  "decode_token_resp j = do {
     ms \<leftarrow> as_object j; a \<leftarrow> str_field ''access_token'' ms; r \<leftarrow> str_field ''refresh_token'' ms;
     i \<leftarrow> str_field ''id_token'' ms; x \<leftarrow> int_field ''expires_in'' ms; Some (a, r, i, x) }"

definition new_bundle :: "(int \<Rightarrow> string) \<Rightarrow> int \<Rightarrow> string \<times> string \<times> string \<times> int \<Rightarrow> token_bundle" where
  "new_bundle fmt_time t_now r = (case r of (a, rt, i, x) \<Rightarrow>
     zero_bundle\<lparr>tb_AccessToken := a, tb_RefreshToken := rt, tb_IDToken := i,
       tb_ExpiresAt := fmt_time (t_now + x * 1000000000)\<rparr>)"

definition decode_refresh_error :: "json \<Rightarrow> (string \<times> string) option" where
  "decode_refresh_error j = do {
     ms \<leftarrow> as_object j; e \<leftarrow> str_field ''error'' ms; d \<leftarrow> str_field ''error_description'' ms; Some (e, d) }"

definition refreshError :: "int \<Rightarrow> string \<Rightarrow> go_error" where
  "refreshError status body =
    (let rejected = (status = 400 \<or> status = 401) in
     case Option.bind (json_decode (take 4096 body)) decode_refresh_error of
       Some (e, d) \<Rightarrow>
         if e \<noteq> [] then
           (let wrapped = WrapError [] ErrRefreshFailed ('': '' @ e @ '': '' @ d)
            in if rejected then JoinError ErrRefreshRejected wrapped else wrapped)
         else if rejected then WrapError [] ErrRefreshRejected ('': status '' @ itoa status)
         else WrapError [] ErrRefreshFailed ('': status '' @ itoa status)
     | None \<Rightarrow>
         if rejected then WrapError [] ErrRefreshRejected ('': status '' @ itoa status)
         else WrapError [] ErrRefreshFailed ('': status '' @ itoa status))"

definition postRefresh ::
  "transport \<Rightarrow> oauth_provider \<Rightarrow> (int \<Rightarrow> string) \<Rightarrow> int \<Rightarrow> string \<Rightarrow> go_error + token_bundle" where
  "postRefresh net p fmt_time t_now refreshToken =
    (if refreshToken = [] then Inl ErrRefreshRejected
     else (case form_post net (op_TokenURL p)
                [(''client_id'', op_ClientID p), (''grant_type'', ''refresh_token''), (''refresh_token'', refreshToken),
                 (''scope'', op_RefreshScope p)] of
         Inl e \<Rightarrow> Inl (WrapError [] ErrRefreshFailed ('': '' @ error_text e))
       | Inr resp \<Rightarrow>
           if us_Status resp \<noteq> 200 then Inl (refreshError (us_Status resp) (us_Data resp))
           else (case Option.bind (json_decode (take 1048576 (us_Data resp))) decode_token_resp of
               None \<Rightarrow> Inl (WrapError [] ErrRefreshFailed '': parse response: json'')
             | Some (a, r, i, x) \<Rightarrow>
                 if a = [] \<or> r = [] then Inl (WrapError [] ErrRefreshFailed '': response missing token fields'')
                 else Inr (new_bundle fmt_time t_now (a, r, i, x)))))"

definition exchange ::
  "transport \<Rightarrow> oauth_provider \<Rightarrow> (int \<Rightarrow> string) \<Rightarrow> int \<Rightarrow> string \<Rightarrow> string \<Rightarrow> go_error + token_bundle" where
  "exchange net p fmt_time t_now code verifier =
    (case form_post net (op_TokenURL p)
          [(''client_id'', op_ClientID p), (''code'', code), (''code_verifier'', verifier),
           (''grant_type'', ''authorization_code''), (''redirect_uri'', op_RedirectURI p)] of
       Inl e \<Rightarrow> Inl (WrapError ''oauth: token exchange failed: '' e [])
     | Inr resp \<Rightarrow>
         if us_Status resp \<noteq> 200 then Inl (WrapError [] ErrRefreshFailed ('': status '' @ itoa (us_Status resp)))
         else (case Option.bind (json_decode (take 1048576 (us_Data resp))) decode_token_resp of
             None \<Rightarrow> Inl (WrapError ''oauth: parse token response: '' (TextError ''json'') [])
           | Some (a, r, i, x) \<Rightarrow>
               if a = [] \<or> r = [] then Inl (TextError ''oauth: token response missing fields'')
               else Inr (new_bundle fmt_time t_now (a, r, i, x))))"

definition CompleteAuth ::
  "'v vault_ops \<Rightarrow> transport \<Rightarrow> oauth_provider \<Rightarrow> (int \<Rightarrow> string) \<Rightarrow> int \<Rightarrow> string \<Rightarrow> string \<Rightarrow> string
     \<Rightarrow> state_store \<times> 'v \<Rightarrow> (go_error + secret_ref \<times> token_bundle) \<times> (state_store \<times> 'v)" where
  "CompleteAuth ops net p fmt_time t_now state code callbackError w =
    (if callbackError \<noteq> [] then (Inl ErrAuthorizationCancelled, w)
     else if state = [] \<or> code = [] then (Inl ErrStateInvalid, w)
     else (case consume t_now state (fst w) of
         (Inl e, s') \<Rightarrow> (Inl e, (s', snd w))
       | (Inr entry, s') \<Rightarrow>
           (case exchange net p fmt_time t_now code (se_verifier entry) of
              Inl e \<Rightarrow> (Inl e, (s', snd w))
            | Inr b \<Rightarrow>
                (case v_Store ops (se_service entry) (se_account entry) (mustJSON b) (snd w) of
                   (Inl e, v') \<Rightarrow> (Inl (WrapError ''oauth: store tokens: '' e []), (s', v'))
                 | (Inr ref, v') \<Rightarrow> (Inr (ref, b), (s', v'))))))"

section \<open>Refresh\<close>

definition refreshLead :: int where
  "refreshLead = 5 * 60 * 1000000000"

definition needsRefresh :: "string \<Rightarrow> int \<Rightarrow> int \<Rightarrow> bool" where
  "needsRefresh expiresAt t_now lead =
    (if expiresAt = [] then True
     else (case parse_rfc3339 expiresAt of None \<Rightarrow> True | Some t \<Rightarrow> t < t_now + lead))"

definition refreshOnce ::
  "'v vault_ops \<Rightarrow> transport \<Rightarrow> oauth_provider \<Rightarrow> (int \<Rightarrow> string) \<Rightarrow> int \<Rightarrow> string \<Rightarrow> string \<Rightarrow> secret_ref \<Rightarrow> 'v
     \<Rightarrow> (secret_ref \<times> token_bundle \<times> go_error option) \<times> 'v" where
  "refreshOnce ops net p fmt_time t_now service account ref v =
    (case v_Get ops ref v of
       Inl e \<Rightarrow> ((ref, zero_bundle, Some (WrapError ''oauth: load tokens: '' e [])), v)
     | Inr old \<Rightarrow>
         (case Option.bind (json_parse old) decode_bundle of
            None \<Rightarrow> ((ref, zero_bundle, Some (WrapError ''oauth: parse stored bundle: '' (TextError ''json'') [])), v)
          | Some oldBundle \<Rightarrow>
              if \<not> needsRefresh (tb_ExpiresAt oldBundle) t_now refreshLead then ((ref, oldBundle, None), v)
              else (case postRefresh net p fmt_time t_now (tb_RefreshToken oldBundle) of
                  Inl e \<Rightarrow> ((ref, oldBundle, Some e), v)
                | Inr bundle \<Rightarrow>
                    (case v_Store ops service account (mustJSON bundle) v of
                       (Inl e, v') \<Rightarrow> ((ref, oldBundle, Some (WrapError ''oauth: store refreshed tokens: '' e [])), v')
                     | (Inr newRef, v') \<Rightarrow> ((newRef, bundle, None), snd (v_Delete ops ref v'))))))"

definition Revoke :: "go_error option" where
  "Revoke = Some ErrRevokeUnsupported"

section \<open>Facts about states and bundles\<close>

text \<open>
  C18: a pending authorization is consumed once: the state that \<open>put\<close> returns gives back its
  verifier and its place in the credential store up to the time limit and is expired after
  it; either way it is gone, and a second use is refused as unknown.
\<close>

theorem state_single_use:
  "(let (state, s1) = put_state t0 raw verifier service account s;
        (r, s2) = consume t1 state s1
    in r = (if t1 \<le> t0 + stateTTL
            then Inr \<lparr>se_verifier = verifier, se_service = service, se_account = account, se_expiresAt = t0 + stateTTL\<rparr>
            else Inl ErrStateExpired) \<and>
       consume t2 state s2 = (Inl ErrStateInvalid, s2))"
  by (simp add: put_state_def consume_def Let_def)

lemma json_decode_render: "textual j \<Longrightarrow> json_decode (render fmt j) = Some j"
  using parse_render [of j "[]" "2 * length (render fmt j) + 2" fmt] fuel_bound [of j fmt]
  by (simp add: json_decode_def)

lemma member_simps:
  "member k [] = JNull"
  "member k (ms @ [(k', v)]) = (if k' = k then v else member k ms)"
  by (simp_all add: member_def)

lemma decode_bundle_json: "decode_bundle (bundle_json b) = Some b"
  by (cases b) (auto simp: decode_bundle_def bundle_json_def str_field_def omit_def member_def)

lemma textual_bundle: "textual (bundle_json b)"
  by (simp add: bundle_json_def omit_def)

lemma read_stored_bundle: "Option.bind (json_parse (mustJSON b)) decode_bundle = Some b"
  by (simp add: mustJSON_def json_parse_render [OF textual_bundle] decode_bundle_json)

section \<open>Refreshing\<close>

lemma refresh_sentinels_neq [simp]: "ErrRefreshFailed \<noteq> ErrRefreshRejected"
  by (simp add: oauth_sentinels)

lemma refreshError_rejected:
  "errors_is (refreshError status body) ErrRefreshRejected \<longleftrightarrow> status = 400 \<or> status = 401"
  by (auto simp: refreshError_def Let_def oauth_sentinels split: option.splits)

lemma postRefresh_rejected:
  "postRefresh net p fmt_time t_now rt = Inl e \<Longrightarrow> errors_is e ErrRefreshRejected \<longleftrightarrow> rt = [] \<or>
     (\<exists>resp. form_post net (op_TokenURL p)
          [(''client_id'', op_ClientID p), (''grant_type'', ''refresh_token''), (''refresh_token'', rt),
           (''scope'', op_RefreshScope p)] = Inr resp \<and> (us_Status resp = 400 \<or> us_Status resp = 401))"
  using refreshError_rejected by (auto simp: postRefresh_def oauth_sentinels split: if_splits sum.splits option.splits)

context secret_vault
begin

text \<open>A refresh keeps a readable token under the reference it returns, unless it stores in the slot it then deletes.\<close>

lemma refreshOnce_readable:
  assumes "refreshOnce ops net p fmt_time t_now service account ref v = ((ref', b, None), v')"
    and "\<And>sec newRef v1. v_Store ops service account sec v = (Inr newRef, v1) \<Longrightarrow> slot newRef \<noteq> slot ref"
  shows "\<exists>s. v_Get ops ref' v' = Inr s \<and> Option.bind (json_parse s) decode_bundle = Some b"
  using assms replace_reads_new
  by (auto simp: refreshOnce_def read_stored_bundle split: sum.splits option.splits if_splits prod.splits)

lemma refreshOnce_same_slot:
  assumes "v_Get ops ref v = Inr (mustJSON old)" and "needsRefresh (tb_ExpiresAt old) t_now refreshLead"
    and "postRefresh net p fmt_time t_now (tb_RefreshToken old) = Inr b"
    and "v_Store ops service account (mustJSON b) v = (Inr newRef, v1)" and "slot newRef = slot ref"
    and "v_Delete ops ref v1 = (None, v2)"
  shows "refreshOnce ops net p fmt_time t_now service account ref v = ((newRef, b, None), v2) \<and>
     v_Get ops newRef v2 = Inl ErrNotFound"
  using assms replace_same_slot [OF assms(4-6)] by (simp add: refreshOnce_def read_stored_bundle)

end

text \<open>
  A refresh that fails changes nothing: unless the store itself failed, the credential
  store is as it was and the old reference is returned with the error. The error says that
  the authorization is lost exactly when there was no refresh token or the platform answered
  400 or 401.
\<close>

theorem failed_refresh_keeps_credential:
  assumes "refreshOnce ops net p fmt_time t_now service account ref v = ((ref', b, Some e), v')"
    and "\<And>sec. \<exists>newRef v1. v_Store ops service account sec v = (Inr newRef, v1)"
    and "v_Get ops ref v = Inr (mustJSON old)"
  shows "ref' = ref \<and> v' = v \<and> b = old \<and>
    (errors_is e ErrRefreshRejected \<longleftrightarrow> tb_RefreshToken old = [] \<or>
      (\<exists>resp. form_post net (op_TokenURL p)
          [(''client_id'', op_ClientID p), (''grant_type'', ''refresh_token''), (''refresh_token'', tb_RefreshToken old),
           (''scope'', op_RefreshScope p)] = Inr resp \<and> (us_Status resp = 400 \<or> us_Status resp = 401)))"
proof -
  have n: "needsRefresh (tb_ExpiresAt old) t_now refreshLead"
    using assms(1,3) by (auto simp: refreshOnce_def read_stored_bundle split: if_splits)
  show ?thesis
  proof (cases "postRefresh net p fmt_time t_now (tb_RefreshToken old)")
    case (Inl x)
    with assms(1,3) n have "x = e" "ref' = ref" "v' = v" "b = old"
      by (auto simp: refreshOnce_def read_stored_bundle)
    then show ?thesis using postRefresh_rejected [OF Inl] by simp
  next
    case (Inr nb)
    obtain newRef v1 where "v_Store ops service account (mustJSON nb) v = (Inr newRef, v1)" using assms(2) by blast
    with assms(1,3) n Inr show ?thesis by (simp add: refreshOnce_def read_stored_bundle)
  qed
qed

text \<open>
  In the in-memory store a refresh into the credential's own place loses it: the new
  bundle is stored over the old one and then deleted with the old reference, although the
  call succeeds and returns a reference.
\<close>

theorem in_memory_refresh_loses_token:
  assumes "v_Get (memory_vault sha nw) ref v = Inr (mustJSON old)"
    and "needsRefresh (tb_ExpiresAt old) t_now refreshLead"
    and "postRefresh net p fmt_time t_now (tb_RefreshToken old) = Inr b"
  shows "\<exists>newRef v'. refreshOnce (memory_vault sha nw) net p fmt_time t_now (sr_Service ref) (sr_Account ref) ref v
      = ((newRef, b, None), v') \<and> v_Get (memory_vault sha nw) newRef v' = Inl ErrNotFound"
proof -
  obtain newRef v1 where s: "v_Store (memory_vault sha nw) (sr_Service ref) (sr_Account ref) (mustJSON b) v = (Inr newRef, v1)"
    "mem_slot newRef = mem_slot ref" "mv_db v1 (mem_slot ref) \<noteq> None"
    by (auto simp: memory_vault_def mem_Store_def Let_def mem_slot_def)
  obtain v2 where "v_Delete (memory_vault sha nw) ref v1 = (None, v2)" using mem_Delete_present [OF s(3)] by blast
  from mv.refreshOnce_same_slot [OF assms s(1,2) this] show ?thesis by blast
qed

definition demo_bundle :: token_bundle where
  "demo_bundle = zero_bundle\<lparr>tb_AccessToken := ''a'', tb_RefreshToken := ''r''\<rparr>"

definition demo_ref :: secret_ref where
  "demo_ref = zero_ref\<lparr>sr_Service := ''s'', sr_Account := ''a''\<rparr>"

definition demo_vault :: mem_vault where
  "demo_vault = snd (mem_Store id ''0'' ''s'' ''a'' (mustJSON demo_bundle) NewInMemoryVault)"

lemma demo_get: "v_Get (memory_vault id ''0'') demo_ref demo_vault = Inr (mustJSON demo_bundle)"
  by (simp add: demo_vault_def demo_ref_def memory_vault_def mem_Store_def mem_Get_def Let_def)

definition demo_reply :: "int \<Rightarrow> string \<Rightarrow> transport" where
  "demo_reply st data out = Inr \<lparr>us_Status = st, us_Headers = [], us_Data = data, us_End = None\<rparr>"

lemma failed_refresh_keeps_credential_witness:
  "\<exists>e. refreshOnce (memory_vault id ''0'') (demo_reply 401 []) Codex (\<lambda>t. []) 0 ''s'' ''a'' demo_ref demo_vault
        = ((demo_ref, demo_bundle, Some e), demo_vault) \<and> errors_is e ErrRefreshRejected"
proof -
  have p: "postRefresh (demo_reply 401 []) Codex (\<lambda>t. []) 0 ''r'' = Inl (refreshError 401 [])"
    by (simp add: postRefresh_def form_post_def demo_reply_def)
  have r: "refreshOnce (memory_vault id ''0'') (demo_reply 401 []) Codex (\<lambda>t. []) 0 ''s'' ''a'' demo_ref demo_vault
      = ((demo_ref, demo_bundle, Some (refreshError 401 [])), demo_vault)"
    using p by (simp add: refreshOnce_def demo_get read_stored_bundle needsRefresh_def demo_bundle_def zero_bundle_def)
  have "\<exists>newRef v1. v_Store (memory_vault id ''0'') ''s'' ''a'' sec demo_vault = (Inr newRef, v1)" for sec
    by (simp add: memory_vault_def mem_Store_def Let_def)
  from failed_refresh_keeps_credential [OF r this demo_get] r show ?thesis
    by (auto simp: form_post_def demo_reply_def)
qed

lemma in_memory_refresh_loses_token_witness:
  "\<exists>newRef v'. refreshOnce (memory_vault id ''0'')
      (demo_reply 200 (render (\<lambda>x. []) (JObj [(''access_token'', JStr ''n''), (''refresh_token'', JStr ''m'')])))
      Codex (\<lambda>t. []) 0 ''s'' ''a'' demo_ref demo_vault
      = ((newRef, demo_bundle\<lparr>tb_AccessToken := ''n'', tb_RefreshToken := ''m''\<rparr>, None), v') \<and>
      v_Get (memory_vault id ''0'') newRef v' = Inl ErrNotFound"
proof -
  let ?j = "JObj [(''access_token'', JStr ''n''), (''refresh_token'', JStr ''m'')]"
  have "length (render (\<lambda>x. []) ?j) \<le> 1048576"
    by (simp add: render_str_def esc_char_def short_escapes_def plain_controls_def)
  then have "take 1048576 (render (\<lambda>x. []) ?j) = render (\<lambda>x. []) ?j" by (rule take_all)
  then have d: "json_decode (take 1048576 (render (\<lambda>x. []) ?j)) = Some ?j"
    by (simp add: json_decode_render del: render.simps)
  have "postRefresh (demo_reply 200 (render (\<lambda>x. []) (JObj [(''access_token'', JStr ''n''), (''refresh_token'', JStr ''m'')])))
      Codex (\<lambda>t. []) 0 (tb_RefreshToken demo_bundle) = Inr (demo_bundle\<lparr>tb_AccessToken := ''n'', tb_RefreshToken := ''m''\<rparr>)"
    by (simp only: postRefresh_def form_post_def demo_reply_def sum.case upstream_response.simps d)
      (simp add: decode_token_resp_def str_field_def int_field_def member_def new_bundle_def demo_bundle_def zero_bundle_def)
  from in_memory_refresh_loses_token [OF demo_get _ this] show ?thesis
    by (simp add: needsRefresh_def demo_bundle_def zero_bundle_def demo_ref_def zero_ref_def)
qed

section \<open>One refresh at a time\<close>

text \<open>
  \<open>Service.Refresh\<close> under concurrent callers. Calls are numbered in the order of their
  creation; \<open>sf_running\<close> are the calls whose creator is talking to the platform, \<open>sf_result\<close>
  what a creator published when it closed the call, \<open>sf_waiting\<close> who waits for which call
  (caller, key it asked for, call). Each step is one critical section of \<open>inflightMu\<close>, or the
  publication that follows the second one.
\<close>

type_synonym refresh_result = "secret_ref \<times> token_bundle \<times> go_error option"

record flights =
  sf_inflight :: "string \<Rightarrow> nat option"
  sf_key :: "nat \<Rightarrow> string"
  sf_running :: "nat list"
  sf_finished :: "(nat \<times> refresh_result) list"
  sf_result :: "nat \<Rightarrow> refresh_result option"
  sf_waiting :: "(nat \<times> string \<times> nat) list"
  sf_next :: nat

definition new_flights :: flights where
  "new_flights = \<lparr>sf_inflight = Map.empty, sf_key = (\<lambda>n. []), sf_running = [], sf_finished = [],
     sf_result = Map.empty, sf_waiting = [], sf_next = 0\<rparr>"

definition refresh_arrive :: "nat \<Rightarrow> string \<Rightarrow> flights \<Rightarrow> flights" where
  "refresh_arrive g key st = (case sf_inflight st key of
      None \<Rightarrow> (let n = sf_next st in
        st\<lparr>sf_inflight := (sf_inflight st)(key \<mapsto> n), sf_key := (sf_key st)(n := key),
           sf_running := n # sf_running st, sf_next := Suc n\<rparr>)
    | Some n \<Rightarrow> st\<lparr>sf_waiting := (g, key, n) # sf_waiting st\<rparr>)"

definition refresh_end :: "nat \<Rightarrow> refresh_result \<Rightarrow> flights \<Rightarrow> flights" where
  "refresh_end n r st =
    st\<lparr>sf_inflight := (if sf_inflight st (sf_key st n) = Some n then (sf_inflight st)(sf_key st n := None) else sf_inflight st),
       sf_running := removeAll n (sf_running st), sf_finished := (n, r) # sf_finished st\<rparr>"

definition refresh_publish :: "nat \<Rightarrow> refresh_result \<Rightarrow> flights \<Rightarrow> flights" where
  "refresh_publish n r st = st\<lparr>sf_result := (sf_result st)(n \<mapsto> r), sf_finished := removeAll (n, r) (sf_finished st)\<rparr>"

inductive flight_step :: "flights \<Rightarrow> flights \<Rightarrow> bool" where
  arrive: "flight_step st (refresh_arrive g key st)"
| finish: "n \<in> set (sf_running st) \<Longrightarrow> flight_step st (refresh_end n r st)"
| publish: "(n, r) \<in> set (sf_finished st) \<Longrightarrow> flight_step st (refresh_publish n r st)"

inductive flights_reach :: "flights \<Rightarrow> bool" where
  start: "flights_reach new_flights"
| step: "flights_reach st \<Longrightarrow> flight_step st st' \<Longrightarrow> flights_reach st'"

text \<open>The calls in flight, what is finished or published, and who waits.\<close>

definition flying_ok :: "flights \<Rightarrow> bool" where
  "flying_ok st \<longleftrightarrow> (\<forall>k n. sf_inflight st k = Some n \<longrightarrow> n \<in> set (sf_running st) \<and> sf_key st n = k) \<and>
     (\<forall>n \<in> set (sf_running st). sf_inflight st (sf_key st n) = Some n \<and> n < sf_next st)"

definition landed_ok :: "flights \<Rightarrow> bool" where
  "landed_ok st \<longleftrightarrow> (\<forall>n \<in> fst ` set (sf_finished st). n < sf_next st \<and> n \<notin> set (sf_running st) \<and> sf_result st n = None) \<and>
     (\<forall>n \<in> dom (sf_result st). n < sf_next st \<and> n \<notin> set (sf_running st)) \<and>
     distinct (map fst (sf_finished st))"

definition waiting_ok :: "flights \<Rightarrow> bool" where
  "waiting_ok st \<longleftrightarrow> (\<forall>w \<in> set (sf_waiting st). snd (snd w) < sf_next st \<and> sf_key st (snd (snd w)) = fst (snd w))"

lemma flyingD:
  "flying_ok st \<Longrightarrow> sf_inflight st k = Some n \<Longrightarrow> n \<in> set (sf_running st)"
  "flying_ok st \<Longrightarrow> sf_inflight st k = Some n \<Longrightarrow> sf_key st n = k"
  "flying_ok st \<Longrightarrow> n \<in> set (sf_running st) \<Longrightarrow> sf_inflight st (sf_key st n) = Some n"
  "flying_ok st \<Longrightarrow> n \<in> set (sf_running st) \<Longrightarrow> n < sf_next st"
  by (simp_all add: flying_ok_def)

lemma flyingI:
  "(\<And>k n. sf_inflight st k = Some n \<Longrightarrow> n \<in> set (sf_running st) \<and> sf_key st n = k) \<Longrightarrow>
   (\<And>n. n \<in> set (sf_running st) \<Longrightarrow> sf_inflight st (sf_key st n) = Some n \<and> n < sf_next st) \<Longrightarrow> flying_ok st"
  by (simp add: flying_ok_def)

lemma landedD:
  "landed_ok st \<Longrightarrow> (n, r) \<in> set (sf_finished st) \<Longrightarrow> n < sf_next st \<and> n \<notin> set (sf_running st) \<and> sf_result st n = None"
  "landed_ok st \<Longrightarrow> sf_result st n = Some r \<Longrightarrow> n < sf_next st \<and> n \<notin> set (sf_running st)"
  "landed_ok st \<Longrightarrow> distinct (map fst (sf_finished st))"
  by (force simp: landed_ok_def)+

lemma landedI:
  "(\<And>n r. (n, r) \<in> set (sf_finished st) \<Longrightarrow> n < sf_next st \<and> n \<notin> set (sf_running st) \<and> sf_result st n = None) \<Longrightarrow>
   (\<And>n r. sf_result st n = Some r \<Longrightarrow> n < sf_next st \<and> n \<notin> set (sf_running st)) \<Longrightarrow>
   distinct (map fst (sf_finished st)) \<Longrightarrow> landed_ok st"
  unfolding landed_ok_def by fastforce

lemma arrive_simps:
  "sf_inflight st key = None \<Longrightarrow> refresh_arrive g key st =
     st\<lparr>sf_inflight := (sf_inflight st)(key \<mapsto> sf_next st), sf_key := (sf_key st)(sf_next st := key),
        sf_running := sf_next st # sf_running st, sf_next := Suc (sf_next st)\<rparr>"
  "sf_inflight st key = Some n \<Longrightarrow> refresh_arrive g key st = st\<lparr>sf_waiting := (g, key, n) # sf_waiting st\<rparr>"
  by (simp_all add: refresh_arrive_def Let_def)

lemma arrive_ok:
  assumes "flying_ok st" and "landed_ok st" and "waiting_ok st"
  shows "flying_ok (refresh_arrive g key st) \<and> landed_ok (refresh_arrive g key st) \<and> waiting_ok (refresh_arrive g key st)"
proof (cases "sf_inflight st key")
  case None
  note fl = flyingD [OF assms(1)]
  have nx: "n \<noteq> sf_next st" if "n \<in> set (sf_running st)" for n using fl(4) [OF that] by simp
  have nk: "sf_key st n \<noteq> key" if "n \<in> set (sf_running st)" for n using fl(3) [OF that] None by auto
  have "flying_ok (refresh_arrive g key st)"
    unfolding arrive_simps(1) [OF None]
  proof (rule flyingI; simp del: fun_upd_apply)
    fix k n assume "((sf_inflight st)(key \<mapsto> sf_next st)) k = Some n"
    then show "(n = sf_next st \<or> n \<in> set (sf_running st)) \<and> ((sf_key st)(sf_next st := key)) n = k"
      using fl(1,2) nx by (cases "k = key") auto
  next
    fix n assume "n = sf_next st \<or> n \<in> set (sf_running st)"
    then show "((sf_inflight st)(key \<mapsto> sf_next st)) (((sf_key st)(sf_next st := key)) n) = Some n \<and> n < Suc (sf_next st)"
      using fl(3,4) nx nk by (cases "n = sf_next st") (auto intro: less_SucI)
  qed
  moreover have "landed_ok (refresh_arrive g key st)"
    unfolding arrive_simps(1) [OF None]
  proof (rule landedI; simp)
    fix n r assume "(n, r) \<in> set (sf_finished st)"
    from landedD(1) [OF assms(2) this] show "n < Suc (sf_next st) \<and> n \<noteq> sf_next st \<and> n \<notin> set (sf_running st) \<and> sf_result st n = None" by auto
  next
    fix n r assume "sf_result st n = Some r"
    from landedD(2) [OF assms(2) this] show "n < Suc (sf_next st) \<and> n \<noteq> sf_next st \<and> n \<notin> set (sf_running st)" by auto
  next
    show "distinct (map fst (sf_finished st))" by (rule landedD(3) [OF assms(2)])
  qed
  moreover have "waiting_ok (refresh_arrive g key st)"
    using assms(3) by (force simp: waiting_ok_def arrive_simps(1) [OF None])
  ultimately show ?thesis by blast
next
  case (Some n)
  with assms show ?thesis
    by (auto simp: flying_ok_def landed_ok_def waiting_ok_def arrive_simps(2) [OF Some])
qed

lemma end_ok:
  assumes "flying_ok st" and "landed_ok st" and "waiting_ok st" and n: "n \<in> set (sf_running st)"
  shows "flying_ok (refresh_end n r st) \<and> landed_ok (refresh_end n r st) \<and> waiting_ok (refresh_end n r st)"
proof -
  have k: "sf_inflight st (sf_key st n) = Some n" using assms(1) n by (simp add: flying_ok_def)
  note fl = flyingD [OF assms(1)]
  have "flying_ok (refresh_end n r st)"
  proof (rule flyingI)
    fix j m assume "sf_inflight (refresh_end n r st) j = Some m"
    then have "sf_inflight st j = Some m" "j \<noteq> sf_key st n" using k by (auto simp: refresh_end_def split: if_splits)
    then show "m \<in> set (sf_running (refresh_end n r st)) \<and> sf_key (refresh_end n r st) m = j"
      using fl(1,2) by (auto simp: refresh_end_def)
  next
    fix m assume "m \<in> set (sf_running (refresh_end n r st))"
    then have m: "m \<in> set (sf_running st)" "m \<noteq> n" by (simp_all add: refresh_end_def)
    then have "sf_key st m \<noteq> sf_key st n" using fl(3) [OF m(1)] k by auto
    then show "sf_inflight (refresh_end n r st) (sf_key (refresh_end n r st) m) = Some m \<and> m < sf_next (refresh_end n r st)"
      using fl(3,4) [OF m(1)] k by (simp add: refresh_end_def)
  qed
  moreover have "landed_ok (refresh_end n r st)"
  proof (rule landedI)
    fix m r' assume "(m, r') \<in> set (sf_finished (refresh_end n r st))"
    then show "m < sf_next (refresh_end n r st) \<and> m \<notin> set (sf_running (refresh_end n r st)) \<and> sf_result (refresh_end n r st) m = None"
      using landedD(1) [OF assms(2), of m r'] landedD(2) [OF assms(2), of n] n fl(4) [OF n]
      by (cases "sf_result st n") (auto simp: refresh_end_def)
  next
    fix m r' assume "sf_result (refresh_end n r st) m = Some r'"
    then show "m < sf_next (refresh_end n r st) \<and> m \<notin> set (sf_running (refresh_end n r st))"
      using landedD(2) [OF assms(2), of m r'] by (simp add: refresh_end_def)
  next
    have "n \<notin> fst ` set (sf_finished st)" using landedD(1) [OF assms(2)] n by auto
    then show "distinct (map fst (sf_finished (refresh_end n r st)))"
      using landedD(3) [OF assms(2)] by (simp add: refresh_end_def)
  qed
  moreover have "waiting_ok (refresh_end n r st)" using assms(3) by (simp add: waiting_ok_def refresh_end_def)
  ultimately show ?thesis by blast
qed

lemma publish_ok:
  assumes "flying_ok st" and "landed_ok st" and "waiting_ok st" and n: "(n, r) \<in> set (sf_finished st)"
  shows "flying_ok (refresh_publish n r st) \<and> landed_ok (refresh_publish n r st) \<and> waiting_ok (refresh_publish n r st)"
proof -
  have d: "distinct (map fst (sf_finished st))" using assms(2) by (simp add: landed_ok_def)
  have "n \<notin> fst ` set (removeAll (n, r) (sf_finished st))"
  proof
    assume "n \<in> fst ` set (removeAll (n, r) (sf_finished st))"
    then obtain x where x: "x \<in> set (sf_finished st)" "x \<noteq> (n, r)" "n = fst x" by fastforce
    then have "(n, snd x) \<in> set (sf_finished st)" by simp
    from eq_key_imp_eq_value [OF d this n] x show False by (metis prod.collapse)
  qed
  moreover have "distinct (map fst (removeAll (n, r) (sf_finished st)))"
    unfolding removeAll_filter_not_eq by (rule distinct_map_filter [OF d])
  ultimately have "landed_ok (refresh_publish n r st)"
  proof (intro landedI)
    fix m r' assume m: "(m, r') \<in> set (sf_finished (refresh_publish n r st))"
      and nin: "n \<notin> fst ` set (removeAll (n, r) (sf_finished st))"
    then have "m \<noteq> n" by (force simp: refresh_publish_def)
    have "(m, r') \<in> set (sf_finished st)" using m by (simp add: refresh_publish_def)
    with landedD(1) [OF assms(2), of m r'] \<open>m \<noteq> n\<close> \<open>(m, r') \<in> set (sf_finished st)\<close>
    show "m < sf_next (refresh_publish n r st) \<and> m \<notin> set (sf_running (refresh_publish n r st)) \<and> sf_result (refresh_publish n r st) m = None"
      by (simp add: refresh_publish_def)
  next
    fix m r' assume "sf_result (refresh_publish n r st) m = Some r'"
    with landedD(1) [OF assms(2) n] landedD(2) [OF assms(2), of m r']
    show "m < sf_next (refresh_publish n r st) \<and> m \<notin> set (sf_running (refresh_publish n r st))"
      by (cases "m = n") (simp_all add: refresh_publish_def)
  qed (simp add: refresh_publish_def)
  then show ?thesis using assms(1,3) by (simp add: flying_ok_def waiting_ok_def refresh_publish_def)
qed

lemma flights_invariant: "flights_reach st \<Longrightarrow> flying_ok st \<and> landed_ok st \<and> waiting_ok st"
proof (induction rule: flights_reach.induct)
  case start
  then show ?case by (simp add: flying_ok_def landed_ok_def waiting_ok_def new_flights_def)
next
  case (step st st')
  from step.IH have ok: "flying_ok st" "landed_ok st" "waiting_ok st" by simp_all
  from step.hyps(2) show ?case
  proof cases
    case (arrive g key)
    show ?thesis unfolding arrive by (rule arrive_ok [OF ok])
  next
    case (finish n r)
    show ?thesis unfolding finish(1) by (rule end_ok [OF ok finish(2)])
  next
    case (publish n r)
    show ?thesis unfolding publish(1) by (rule publish_ok [OF ok publish(2)])
  qed
qed



end
