(* ===== verification/ApiJson.thy ===== *)
theory ApiJson
  imports Convert Attempts Http
begin

text \<open>
  What the handlers of \<open>internal/api\<close> share: the JSON of the records they return and read
  (the \<open>json\<close> tags of \<open>internal/domain\<close> and \<open>internal/repository\<close>), the error answers, the
  parts of a path, and the audit event every change ends with. Messages are English glosses
  of the source's texts. The keys of a \<open>map[string]any\<close> are listed in sorted order, as Go
  writes them.
\<close>

section \<open>Encoders\<close>

definition omit_str :: "string \<Rightarrow> string \<Rightarrow> (string \<times> json) list" where
  "omit_str k v = omit (v = []) k (JStr v)"

definition json_nullable :: "('a \<Rightarrow> json) \<Rightarrow> 'a option \<Rightarrow> json" where
  "json_nullable f v = (case v of None \<Rightarrow> JNull | Some x \<Rightarrow> f x)"

definition provider_json :: "provider \<Rightarrow> json" where
  "provider_json p = JObj ([(''id'', JStr (pv_ID p)), (''kind'', JStr (pv_Kind p)), (''name'', JStr (pv_Name p)),
     (''base_url'', JStr (pv_BaseURL p))] @ omit_str ''capabilities'' (pv_Capabilities p))"

definition account_json :: "account \<Rightarrow> json" where
  "account_json a = JObj [(''id'', JStr (ac_ID a)), (''provider_id'', JStr (ac_ProviderID a)),
     (''name'', JStr (ac_Name a)), (''status'', JStr (ac_Status a)), (''mode'', JStr (ac_Mode a)),
     (''auth_type'', JStr (ac_AuthType a)), (''billing_mode'', JStr (ac_BillingMode a)),
     (''auth_state'', JStr (ac_AuthState a)), (''vault_provider'', JStr (ac_VaultProvider a)),
     (''secret_service'', JStr (ac_SecretService a)), (''secret_account'', JStr (ac_SecretAccount a)),
     (''secret_fingerprint'', JStr (ac_SecretFingerprint a)), (''last_verified_at'', JStr (ac_LastVerifiedAt a))]"

definition capability_json :: "account_capability \<Rightarrow> json" where
  "capability_json c = JObj ([(''account_id'', JStr (cap_AccountID c)), (''capability'', JStr (cap_Capability c)),
     (''status'', JStr (cap_Status c))] @ omit_str ''reason'' (cap_Reason c) @
     [(''connector_version'', JStr (cap_ConnectorVersion c)), (''checked_at'', JStr (cap_CheckedAt c))])"

definition snapshot_json :: "quota_snapshot \<Rightarrow> json" where
  "snapshot_json q = JObj ([(''id'', JStr (qs_ID q)), (''account_id'', JStr (qs_AccountID q))]
     @ omit_str ''pool_id'' (qs_PoolID q)
     @ [(''window_type'', JStr (qs_WindowType q)), (''limit'', json_nullable JFloat (qs_Limit q)),
        (''used'', json_nullable JFloat (qs_Used q)), (''remaining'', json_nullable JFloat (qs_Remaining q))]
     @ omit_ptr ''reset_at'' JStr (qs_ResetAt q) @ [(''source'', JStr (qs_Source q))]
     @ omit_str ''source_ref'' (qs_SourceRef q)
     @ [(''confidence'', JStr (qs_Confidence q)), (''freshness'', JStr (qs_Freshness q)),
        (''unit'', JStr (qs_Unit q)), (''connector_version'', JStr (qs_ConnectorVersion q))]
     @ omit_str ''operator'' (qs_Operator q) @ omit_ptr ''manual_expires_at'' JStr (qs_ManualExpiresAt q)
     @ [(''taken_at'', JStr (qs_TakenAt q))] @ omit_str ''last_success_at'' (qs_LastSuccessAt q))"

definition pool_json :: "quota_pool \<Rightarrow> json" where
  "pool_json p = JObj ([(''id'', JStr (qp_ID p)), (''provider_id'', JStr (qp_ProviderID p))]
     @ omit_str ''external_org'' (qp_ExternalOrg p)
     @ [(''scope'', JStr (qp_Scope p)), (''member_ids'', JArr (map JStr (qp_MemberIDs p)))])"

definition price_json :: "price_version \<Rightarrow> json" where
  "price_json p = JObj [(''id'', JStr (pr_ID p)), (''provider_id'', JStr (pr_ProviderID p)),
     (''model_id'', JStr (pr_ModelID p)), (''input_price_nano'', JInt (pr_InputPriceNano p)),
     (''output_price_nano'', JInt (pr_OutputPriceNano p)), (''cache_read_price_nano'', JInt (pr_CacheReadPriceNano p)),
     (''cache_write_price_nano'', JInt (pr_CacheWritePriceNano p)), (''currency'', JStr (pr_Currency p)),
     (''effective_at'', JStr (pr_EffectiveAt p)), (''source'', JStr (pr_Source p))]"

definition usage_row_json :: "usage_row \<Rightarrow> json" where
  "usage_row_json u = JObj (omit_str ''provider_id'' (ur_ProviderID u) @ omit_str ''account_id'' (ur_AccountID u)
     @ omit_str ''model_id'' (ur_ModelID u) @ omit_str ''project_id'' (ur_ProjectID u)
     @ [(''requests'', JInt (ur_Requests u)), (''input_tokens'', JInt (ur_InputTokens u)),
        (''output_tokens'', JInt (ur_OutputTokens u)), (''cache_read_tokens'', JInt (ur_CacheReadTokens u)),
        (''cache_write_tokens'', JInt (ur_CacheWriteTokens u)), (''reasoning_tokens'', JInt (ur_ReasoningTokens u)),
        (''cost_nano_usd'', JInt (ur_CostNanoUSD u)), (''source'', JStr (ur_Source u))])"

definition model_json :: "model \<Rightarrow> json" where
  "model_json m = JObj ([(''id'', JStr (mo_ID m)), (''provider_id'', JStr (mo_ProviderID m)),
     (''upstream_id'', JStr (mo_UpstreamID m))] @ omit_str ''canonical_alias'' (mo_CanonicalAlias m)
     @ [(''context_limit'', JInt (mo_ContextLimit m))] @ omit_str ''capabilities'' (mo_Capabilities m))"

definition candidate_json :: "candidate \<Rightarrow> json" where
  "candidate_json c = JObj [(''account_id'', JStr (cd_AccountID c)), (''model_id'', JStr (cd_ModelID c)),
     (''priority'', JInt (cd_Priority c)), (''weight'', JInt (cd_Weight c))]"

definition policy_json :: "routing_policy \<Rightarrow> json" where
  "policy_json p = JObj [(''id'', JStr (rp_ID p)), (''name'', JStr (rp_Name p)), (''alias'', JStr (rp_Alias p)),
     (''candidates'', JArr (map candidate_json (rp_Candidates p))), (''enabled'', JBool (rp_Enabled p))]"

text \<open>The digest of a token is never serialised (\<open>json:"-"\<close>).\<close>

definition token_json :: "token \<Rightarrow> json" where
  "token_json t = JObj [(''id'', JStr (tk_ID t)), (''name'', JStr (tk_Name t)), (''key_prefix'', JStr (tk_KeyPrefix t)),
     (''enabled'', JBool (tk_Enabled t)), (''created_at'', JStr (tk_CreatedAt t)),
     (''last_used_at'', JStr (tk_LastUsedAt t)), (''project_id'', JStr (tk_ProjectID t)),
     (''model_whitelist'', JStr (tk_ModelWhitelist t)), (''expires_at'', JStr (tk_ExpiresAt t)),
     (''max_concurrency'', JInt (tk_MaxConcurrency t))]"

definition project_json :: "project \<Rightarrow> json" where
  "project_json p = JObj [(''id'', JStr (pj_ID p)), (''name'', JStr (pj_Name p)),
     (''created_at'', JStr (pj_CreatedAt p)), (''updated_at'', JStr (pj_UpdatedAt p))]"

definition job_json :: "refresh_job \<Rightarrow> json" where
  "job_json j = JObj [(''id'', JStr (rj_ID j)), (''account_id'', JStr (rj_AccountID j)),
     (''capability'', JStr (rj_Capability j)), (''state'', JStr (rj_State j)), (''started_at'', JStr (rj_StartedAt j)),
     (''finished_at'', JStr (rj_FinishedAt j)), (''next_run_at'', JStr (rj_NextRunAt j)),
     (''last_success_at'', JStr (rj_LastSuccessAt j)), (''retry_count'', JInt (rj_RetryCount j)),
     (''last_error_code'', JStr (rj_LastErrorCode j)), (''created_at'', JStr (rj_CreatedAt j)),
     (''updated_at'', JStr (rj_UpdatedAt j))]"

definition attempt_json :: "request_attempt \<Rightarrow> json" where
  "attempt_json a = JObj ([(''id'', JStr (ra_ID a)), (''request_id'', JStr (ra_RequestID a)),
     (''attempt_id'', JStr (ra_AttemptID a)), (''account_id'', JStr (ra_AccountID a)),
     (''provider_id'', JStr (ra_ProviderID a)), (''logical_model'', JStr (ra_LogicalModel a)),
     (''actual_model'', JStr (ra_ActualModel a)), (''protocol'', JStr (ra_Protocol a))]
     @ omit_str ''access_token_id'' (ra_AccessTokenID a) @ omit_str ''project_id'' (ra_ProjectID a)
     @ [(''status'', JStr (ra_Status a)), (''input_tokens'', JInt (ra_InputTokens a)),
        (''output_tokens'', JInt (ra_OutputTokens a)), (''cache_read_tokens'', JInt (ra_CacheReadTokens a)),
        (''cache_write_tokens'', JInt (ra_CacheWriteTokens a)), (''reasoning_tokens'', JInt (ra_ReasoningTokens a)),
        (''metering'', JStr (ra_Metering a)), (''latency_ms'', JInt (ra_LatencyMS a)),
        (''status_code'', JInt (ra_StatusCode a))]
     @ omit_str ''error_class'' (ra_ErrorClass a) @ omit_str ''reason_code'' (ra_ReasonCode a)
     @ omit_str ''price_version'' (ra_PriceVersion a) @ [(''occurred_at'', JStr (ra_OccurredAt a))]
     @ omit_str ''finished_at'' (ra_FinishedAt a))"

section \<open>Decoders\<close>

definition bool_field :: "string \<Rightarrow> (string \<times> json) list \<Rightarrow> bool option" where
  "bool_field k ms = as_bool (member k ms)"

definition ptr_field :: "(json \<Rightarrow> 'a option) \<Rightarrow> string \<Rightarrow> (string \<times> json) list \<Rightarrow> 'a option option" where
  "ptr_field f k ms = as_pointer f (member k ms)"

definition strings_field :: "string \<Rightarrow> (string \<times> json) list \<Rightarrow> string list option" where
  "strings_field k ms = as_list as_string (member k ms)"

fun as_real :: "json \<Rightarrow> real option" where
  "as_real JNull = Some 0"
| "as_real (JInt i) = Some (of_int i)"
| "as_real (JDec m e) = Some (of_int m * 10 powr of_int e)"
| "as_real (JFloat x) = Some x"
| "as_real _ = None"

text \<open>\<open>json.NewDecoder(r.Body).Decode(&in)\<close> into an anonymous struct.\<close>

definition read_body :: "((string \<times> json) list \<Rightarrow> 'a option) \<Rightarrow> string \<Rightarrow> 'a option" where
  "read_body f body = Option.bind (json_decode body) (\<lambda>j. Option.bind (as_object j) f)"

definition decode_candidate_in :: "json \<Rightarrow> candidate option" where
  "decode_candidate_in j = do {
     ms \<leftarrow> as_object j; a \<leftarrow> str_field ''account_id'' ms; m \<leftarrow> str_field ''model_id'' ms;
     p \<leftarrow> int_field ''priority'' ms; w \<leftarrow> int_field ''weight'' ms;
     Some \<lparr>cd_AccountID = a, cd_ModelID = m, cd_Priority = p, cd_Weight = w\<rparr> }"

definition decode_price_in :: "(string \<times> json) list \<Rightarrow> price_version option" where
  "decode_price_in ms = do {
     i \<leftarrow> str_field ''id'' ms; pv \<leftarrow> str_field ''provider_id'' ms; m \<leftarrow> str_field ''model_id'' ms;
     pi \<leftarrow> int_field ''input_price_nano'' ms; po \<leftarrow> int_field ''output_price_nano'' ms;
     pc \<leftarrow> int_field ''cache_read_price_nano'' ms; pw \<leftarrow> int_field ''cache_write_price_nano'' ms;
     cu \<leftarrow> str_field ''currency'' ms; ef \<leftarrow> str_field ''effective_at'' ms; so \<leftarrow> str_field ''source'' ms;
     Some \<lparr>pr_ID = i, pr_ProviderID = pv, pr_ModelID = m, pr_InputPriceNano = pi, pr_OutputPriceNano = po,
       pr_CacheReadPriceNano = pc, pr_CacheWritePriceNano = pw, pr_Currency = cu, pr_EffectiveAt = ef,
       pr_Source = so\<rparr> }"

definition decode_pool_in :: "(string \<times> json) list \<Rightarrow> quota_pool option" where
  "decode_pool_in ms = do {
     i \<leftarrow> str_field ''id'' ms; pv \<leftarrow> str_field ''provider_id'' ms; eo \<leftarrow> str_field ''external_org'' ms;
     sc \<leftarrow> str_field ''scope'' ms; mem \<leftarrow> strings_field ''member_ids'' ms;
     Some \<lparr>qp_ID = i, qp_ProviderID = pv, qp_ExternalOrg = eo, qp_Scope = sc, qp_MemberIDs = mem\<rparr> }"

definition decode_snapshot_in :: "(string \<times> json) list \<Rightarrow> quota_snapshot option" where
  "decode_snapshot_in ms = do {
     i \<leftarrow> str_field ''id'' ms; ac \<leftarrow> str_field ''account_id'' ms; po \<leftarrow> str_field ''pool_id'' ms;
     wt \<leftarrow> str_field ''window_type'' ms; li \<leftarrow> ptr_field as_real ''limit'' ms; us \<leftarrow> ptr_field as_real ''used'' ms;
     re \<leftarrow> ptr_field as_real ''remaining'' ms; ra \<leftarrow> ptr_field as_string ''reset_at'' ms;
     so \<leftarrow> str_field ''source'' ms; sr \<leftarrow> str_field ''source_ref'' ms; co \<leftarrow> str_field ''confidence'' ms;
     fr \<leftarrow> str_field ''freshness'' ms; un \<leftarrow> str_field ''unit'' ms; cv \<leftarrow> str_field ''connector_version'' ms;
     op \<leftarrow> str_field ''operator'' ms; me \<leftarrow> ptr_field as_string ''manual_expires_at'' ms;
     ta \<leftarrow> str_field ''taken_at'' ms; ls \<leftarrow> str_field ''last_success_at'' ms;
     Some \<lparr>qs_ID = i, qs_AccountID = ac, qs_PoolID = po, qs_WindowType = wt, qs_Limit = li, qs_Used = us,
       qs_Remaining = re, qs_ResetAt = ra, qs_Source = so, qs_SourceRef = sr, qs_Confidence = co,
       qs_Freshness = fr, qs_Unit = un, qs_ConnectorVersion = cv, qs_Operator = op,
       qs_ManualExpiresAt = me, qs_TakenAt = ta, qs_LastSuccessAt = ls\<rparr> }"

section \<open>Answers, paths and audit\<close>

definition invalid :: "string \<Rightarrow> http_response" where
  "invalid m = writeError (errs_new CodeInvalidRequest m)"

definition internal_error :: "string \<Rightarrow> go_error \<Rightarrow> http_response" where
  "internal_error m e = writeError (errs_wrap CodeInternal m e)"

text \<open>\<open>if err == sql.ErrNoRows\<close> 404, otherwise 500.\<close>

definition not_found_or :: "string \<Rightarrow> string \<Rightarrow> go_error \<Rightarrow> http_response" where
  "not_found_or missing failing e =
     (if e = ErrNoRows then writeError (errs_new CodeNotFound missing) else internal_error failing e)"

definition data_list :: "json list \<Rightarrow> http_response" where
  "data_list js = writeJSON 200 (JObj [(''data'', JArr js)])"

definition ok_true :: http_response where
  "ok_true = writeJSON 200 (JObj [(''ok'', JBool True)])"

definition path_parts :: "string \<Rightarrow> string list" where
  "path_parts p = split_on (CHR ''/'') (trim_of (\<lambda>c. c = CHR ''/'') p)"

definition audit :: "int \<Rightarrow> string \<Rightarrow> string \<Rightarrow> string \<Rightarrow> string \<Rightarrow> db \<Rightarrow> db" where
  "audit t_now nw action tgt detail s = keep_db s (RecordAuditEvent ''admin'' action tgt detail t_now nw s)"

lemma invalid_simps [simp]: "rs_Status (invalid m) = 400"
  by (simp add: invalid_def errs_new_def)

lemma internal_error_simps [simp]: "rs_Status (internal_error m e) = 500"
  by (simp add: internal_error_def errs_wrap_def)

lemma data_list_simps [simp]: "rs_Status (data_list js) = 200" "rs_Body (data_list js) = JsonBody (JObj [(''data'', JArr js)])"
  by (simp_all add: data_list_def)

lemma ok_true_simps [simp]: "rs_Status ok_true = 200" "rs_Body ok_true = JsonBody (JObj [(''ok'', JBool True)])"
  by (simp_all add: ok_true_def)

lemma not_found_or_status [simp]: "rs_Status (not_found_or m f e) = (if e = ErrNoRows then 404 else 500)"
  by (simp add: not_found_or_def errs_new_def)

text \<open>An audit event touches its own table only.\<close>

lemma audit_frame [simp]:
  "providers (audit t nw a g d s) = providers s" "accounts (audit t nw a g d s) = accounts s"
  "access_tokens (audit t nw a g d s) = access_tokens s" "projects (audit t nw a g d s) = projects s"
  "routing_policies (audit t nw a g d s) = routing_policies s" "db_down (audit t nw a g d s) = db_down s"
  "models (audit t nw a g d s) = models s" "quota_pools (audit t nw a g d s) = quota_pools s"
  "quota_snapshots (audit t nw a g d s) = quota_snapshots s" "price_versions (audit t nw a g d s) = price_versions s"
  "request_attempts (audit t nw a g d s) = request_attempts s" "refresh_jobs (audit t nw a g d s) = refresh_jobs s"
  by (auto simp: audit_def keep_db_def RecordAuditEvent_def with_db_def Let_def split: option.splits)

lemma path_parts_examples:
  "path_parts ''/api/v1/tokens/tok_1'' = [''api'', ''v1'', ''tokens'', ''tok_1'']"
  "path_parts ''/api/v1/accounts/a/verify/'' = [''api'', ''v1'', ''accounts'', ''a'', ''verify'']"
  by code_simp+

end
