(* ===== verification/ApiAdmin.thy ===== *)
theory ApiAdmin
  imports ApiJson Access
begin

text \<open>
  The management handlers that work on the database alone (\<open>internal/api/api.go\<close> and the
  projects of \<open>responses_oauth.go\<close>): providers, tokens, projects, models, routing policies,
  prices, usage, quota pools, jobs and requests. A handler is a function of the clock
  (\<open>t_now\<close>, and \<open>nw\<close> its RFC3339 text), the random hexadecimal text it draws, the request and
  the database.
\<close>

type_synonym db_handler = "http_request \<Rightarrow> db \<Rightarrow> http_response \<times> db"

definition bad_method :: http_response where
  "bad_method = invalid ''method not supported''"

definition bad_path :: http_response where
  "bad_path = invalid ''invalid path''"

lemma bad_simps [simp]: "rs_Status bad_method = 400" "rs_Status bad_path = 400"
  by (simp_all add: bad_method_def bad_path_def)

text \<open>\<open>list, err := ...; if err != nil { 500 }; {"data": list}\<close>\<close>

definition list_answer :: "string \<Rightarrow> ('a \<Rightarrow> json) \<Rightarrow> go_error + 'a list \<Rightarrow> http_response" where
  "list_answer m enc r = (case r of Inl e \<Rightarrow> internal_error m e | Inr xs \<Rightarrow> data_list (map enc xs))"

definition defaultBaseURL :: "string \<Rightarrow> string" where
  "defaultBaseURL kind =
    (if kind = ''anthropic'' then ''https://api.anthropic.com''
     else if kind = ''gemini'' then ''https://generativelanguage.googleapis.com''
     else if kind = ''codex'' then ''https://chatgpt.com/backend-api/codex''
     else ''https://api.openai.com'')"

section \<open>Providers\<close>

definition supported_kind :: "string \<Rightarrow> bool" where
  "supported_kind k \<longleftrightarrow> k \<in> set [''openai'', ''anthropic'', ''gemini'', ''openai-compatible'', ''codex'']"

definition decode_provider_in :: "(string \<times> json) list \<Rightarrow> provider option" where
  "decode_provider_in ms = do {
     i \<leftarrow> str_field ''id'' ms; k \<leftarrow> str_field ''kind'' ms; n \<leftarrow> str_field ''name'' ms;
     b \<leftarrow> str_field ''base_url'' ms;
     Some \<lparr>pv_ID = i, pv_Kind = k, pv_Name = n, pv_BaseURL = b, pv_Capabilities = []\<rparr> }"

definition provider_defaults :: "string \<Rightarrow> provider \<Rightarrow> provider" where
  "provider_defaults rnd p = p\<lparr>pv_ID := (if pv_ID p = [] then ''prov_'' @ rnd else pv_ID p),
     pv_Name := (if pv_Name p = [] then pv_Kind p else pv_Name p),
     pv_BaseURL := (if pv_BaseURL p = [] then defaultBaseURL (pv_Kind p) else pv_BaseURL p)\<rparr>"

definition handleProviders :: "string \<Rightarrow> string \<Rightarrow> db_handler" where
  "handleProviders nw rnd r s =
    (if rq_Method r = ''GET'' then (list_answer ''listing providers failed'' provider_json (ListProviders s), s)
     else if rq_Method r = ''POST'' then
       (case read_body decode_provider_in (rq_Body r) of
          None \<Rightarrow> (invalid ''invalid body'', s)
        | Some p0 \<Rightarrow>
            if \<not> supported_kind (pv_Kind p0) then (invalid (''unsupported kind: '' @ pv_Kind p0), s)
            else (let p = provider_defaults rnd p0 in
              (case CreateProvider p nw s of
                 Inl e \<Rightarrow> (internal_error ''creating provider failed'' e, s)
               | Inr s' \<Rightarrow> (writeJSON 201 (JObj [(''id'', JStr (pv_ID p))]), s'))))
     else (bad_method, s))"

definition zero_provider :: provider where
  "zero_provider = \<lparr>pv_ID = [], pv_Kind = [], pv_Name = [], pv_BaseURL = [], pv_Capabilities = []\<rparr>"

definition decode_provider_patch :: "(string \<times> json) list \<Rightarrow> (string option \<times> string option) option" where
  "decode_provider_patch ms = do {
     n \<leftarrow> ptr_field as_string ''name'' ms; b \<leftarrow> ptr_field as_string ''base_url'' ms; Some (n, b) }"

text \<open>What remains when a count fails is zero.\<close>

definition count_or_0 :: "go_error + nat \<Rightarrow> nat" where
  "count_or_0 r = (case r of Inl e \<Rightarrow> 0 | Inr n \<Rightarrow> n)"

definition provider_update :: "int \<Rightarrow> string \<Rightarrow> string \<Rightarrow> db_handler" where
  "provider_update t_now nw i r s =
    (case read_body decode_provider_patch (rq_Body r) of
       None \<Rightarrow> (invalid ''invalid body'', s)
     | Some (n, b) \<Rightarrow>
         (case UpdateProvider i n b nw s of
            Inl e \<Rightarrow> (not_found_or ''no such provider'' ''updating provider failed'' e, s)
          | Inr s1 \<Rightarrow>
              (let s2 = audit t_now nw ''provider.update'' i [] s1;
                   p = (case GetProvider i s2 of Inl e \<Rightarrow> zero_provider | Inr p \<Rightarrow> p)
               in (writeJSON 200 (provider_json p), s2))))"

definition provider_delete :: "int \<Rightarrow> string \<Rightarrow> string \<Rightarrow> db \<Rightarrow> http_response \<times> db" where
  "provider_delete t_now nw i s =
    (if 0 < count_or_0 (CountAccountsByProvider i s)
       then (writeError (errs_new CodeConflict ''provider still referenced by accounts''), s)
     else (case DeleteProvider i s of
         Inl e \<Rightarrow> (not_found_or ''no such provider'' ''deleting provider failed'' e, s)
       | Inr s1 \<Rightarrow> (ok_true, audit t_now nw ''provider.delete'' i [] s1)))"

definition providerAction :: "int \<Rightarrow> string \<Rightarrow> db_handler" where
  "providerAction t_now nw r s =
    (let parts = path_parts (rq_Path r) in
     if length parts \<noteq> 4 then (bad_path, s)
     else (let i = parts ! 3 in
       if rq_Method r = ''GET'' then
         (case GetProvider i s of
            Inl e \<Rightarrow> (not_found_or ''no such provider'' ''reading provider failed'' e, s)
          | Inr p \<Rightarrow> (writeJSON 200 (provider_json p), s))
       else if rq_Method r = ''PATCH'' \<or> rq_Method r = ''PUT'' then provider_update t_now nw i r s
       else if rq_Method r = ''DELETE'' then provider_delete t_now nw i s
       else (bad_method, s)))"

section \<open>Tokens\<close>

record token_in =
  ti_Name :: string
  ti_ProjectID :: string
  ti_Whitelist :: "string list option"
  ti_ExpiresAt :: string
  ti_MaxConcurrency :: int

definition decode_token_in :: "(string \<times> json) list \<Rightarrow> token_in option" where
  "decode_token_in ms = do {
     n \<leftarrow> str_field ''name'' ms; p \<leftarrow> str_field ''project_id'' ms; w \<leftarrow> ptr_field (as_list as_string) ''model_whitelist'' ms;
     x \<leftarrow> str_field ''expires_at'' ms; m \<leftarrow> int_field ''max_concurrency'' ms;
     Some \<lparr>ti_Name = n, ti_ProjectID = p, ti_Whitelist = w, ti_ExpiresAt = x, ti_MaxConcurrency = m\<rparr> }"

text \<open>The checks of a new token, in their order.\<close>

definition token_in_error :: "token_in \<Rightarrow> db \<Rightarrow> http_response option" where
  "token_in_error i s =
    (case (if ti_ProjectID i = [] then None else
             (case GetProject (ti_ProjectID i) s of
                Inl e \<Rightarrow> Some (not_found_or ''no such project'' ''reading project failed'' e)
              | Inr p \<Rightarrow> None)) of
       Some resp \<Rightarrow> Some resp
     | None \<Rightarrow>
         if ti_ExpiresAt i \<noteq> [] \<and> parse_rfc3339 (ti_ExpiresAt i) = None
           then Some (invalid ''expires_at must be RFC3339'')
         else if ti_MaxConcurrency i < 0 then Some (invalid ''max_concurrency must not be negative'')
         else None)"

text \<open>
  A missing whitelist (\<open>nil\<close>) and an empty one admit every model. A list of strings is
  rendered without numbers: the formatter is never used.
\<close>

definition listed_models :: "token_in \<Rightarrow> string list" where
  "listed_models i = (case ti_Whitelist i of None \<Rightarrow> [] | Some ws \<Rightarrow> ws)"

definition whitelist_text :: "string list \<Rightarrow> string" where
  "whitelist_text ws = (if ws = [] then ''[]'' else render (\<lambda>x. []) (JArr (map JStr ws)))"

text \<open>\<open>h24\<close> and \<open>h4\<close> are what \<open>randHex(24)\<close> and \<open>randHex(4)\<close> return.\<close>

definition new_token :: "(string \<Rightarrow> string) \<Rightarrow> string \<Rightarrow> string \<Rightarrow> string \<Rightarrow> token_in \<Rightarrow> token" where
  "new_token sha nw raw h4 i = \<lparr>tk_ID = ''tok_'' @ h4, tk_Name = trim_space (ti_Name i), tk_KeyHash = sha raw,
     tk_KeyPrefix = take 10 raw, tk_Enabled = True, tk_CreatedAt = nw, tk_LastUsedAt = [],
     tk_ProjectID = ti_ProjectID i, tk_ModelWhitelist = whitelist_text (listed_models i),
     tk_ExpiresAt = ti_ExpiresAt i, tk_MaxConcurrency = ti_MaxConcurrency i\<rparr>"

definition token_created :: "token \<Rightarrow> string \<Rightarrow> token_in \<Rightarrow> json" where
  "token_created t raw i = JObj [(''expires_at'', JStr (tk_ExpiresAt t)), (''id'', JStr (tk_ID t)),
     (''key_prefix'', JStr (tk_KeyPrefix t)), (''max_concurrency'', JInt (tk_MaxConcurrency t)),
     (''model_whitelist'', json_nullable (\<lambda>ws. JArr (map JStr ws)) (ti_Whitelist i)),
     (''name'', JStr (tk_Name t)), (''note'', JStr ''the token is shown only once''),
     (''project_id'', JStr (tk_ProjectID t)), (''token'', JStr raw)]"

definition createToken :: "(string \<Rightarrow> string) \<Rightarrow> int \<Rightarrow> string \<Rightarrow> string \<Rightarrow> string \<Rightarrow> db_handler" where
  "createToken sha t_now nw h24 h4 r s =
    (case read_body decode_token_in (rq_Body r) of
       None \<Rightarrow> (invalid ''name missing'', s)
     | Some i \<Rightarrow>
         if trim_space (ti_Name i) = [] then (invalid ''name missing'', s)
         else (case token_in_error i s of
             Some resp \<Rightarrow> (resp, s)
           | None \<Rightarrow>
               (let raw = ''mrt_'' @ h24; t = new_token sha nw raw h4 i in
                (case CreateToken t s of
                   Inl e \<Rightarrow> (internal_error ''creating token failed'' e, s)
                 | Inr s1 \<Rightarrow>
                     (writeJSON 201 (token_created t raw i), audit t_now nw ''token.create'' (tk_ID t) [] s1)))))"

definition handleTokens :: "(string \<Rightarrow> string) \<Rightarrow> int \<Rightarrow> string \<Rightarrow> string \<Rightarrow> string \<Rightarrow> db_handler" where
  "handleTokens sha t_now nw h24 h4 r s =
    (if rq_Method r = ''GET'' then (list_answer ''listing tokens failed'' token_json (ListTokens s), s)
     else if rq_Method r = ''POST'' then createToken sha t_now nw h24 h4 r s
     else (bad_method, s))"

definition decode_enabled :: "(string \<times> json) list \<Rightarrow> bool option option" where
  "decode_enabled ms = ptr_field as_bool ''enabled'' ms"

definition bool_text :: "bool \<Rightarrow> string" where
  "bool_text b = (if b then ''true'' else ''false'')"

definition tokenAction :: "int \<Rightarrow> string \<Rightarrow> db_handler" where
  "tokenAction t_now nw r s =
    (let parts = path_parts (rq_Path r) in
     if length parts \<noteq> 4 then (bad_path, s)
     else (let i = parts ! 3 in
       if rq_Method r = ''PATCH'' \<or> rq_Method r = ''PUT'' then
         (case read_body decode_enabled (rq_Body r) of
            Some (Some en) \<Rightarrow>
              (case SetTokenEnabled i en s of
                 Inl e \<Rightarrow> (not_found_or ''no such token'' ''updating token failed'' e, s)
               | Inr s1 \<Rightarrow> (ok_true, audit t_now nw ''token.status'' i (bool_text en) s1))
          | _ \<Rightarrow> (invalid ''enabled missing'', s))
       else if rq_Method r = ''DELETE'' then
         (case DeleteToken i s of
            Inl e \<Rightarrow> (not_found_or ''no such token'' ''deleting token failed'' e, s)
          | Inr s1 \<Rightarrow> (ok_true, audit t_now nw ''token.delete'' i [] s1))
       else (bad_method, s)))"

section \<open>Projects\<close>

definition decode_project_in :: "(string \<times> json) list \<Rightarrow> (string \<times> string) option" where
  "decode_project_in ms = do { i \<leftarrow> str_field ''id'' ms; n \<leftarrow> str_field ''name'' ms; Some (i, n) }"

definition handleProjects :: "int \<Rightarrow> string \<Rightarrow> string \<Rightarrow> db_handler" where
  "handleProjects t_now nw rnd r s =
    (if rq_Method r = ''GET'' then (list_answer ''listing projects failed'' project_json (ListProjects s), s)
     else if rq_Method r = ''POST'' then
       (case read_body decode_project_in (take 1048576 (rq_Body r)) of
          None \<Rightarrow> (invalid ''name missing'', s)
        | Some (i0, n) \<Rightarrow>
            if trim_space n = [] then (invalid ''name missing'', s)
            else (let i = (if i0 = [] then ''proj_'' @ rnd else i0) in
              (case CreateProject \<lparr>pj_ID = i, pj_Name = trim_space n, pj_CreatedAt = [], pj_UpdatedAt = []\<rparr> nw s of
                 Inl e \<Rightarrow> (internal_error ''creating project failed'' e, s)
               | Inr s1 \<Rightarrow> (writeJSON 201 (JObj [(''id'', JStr i)]), audit t_now nw ''project.create'' i [] s1))))
     else (bad_method, s))"

definition projectAction :: "int \<Rightarrow> string \<Rightarrow> db_handler" where
  "projectAction t_now nw r s =
    (let parts = path_parts (rq_Path r) in
     if length parts \<noteq> 4 \<or> rq_Method r \<noteq> ''DELETE'' then (bad_method, s)
     else (let i = parts ! 3 in
       (case ListTokens s of
          Inl e \<Rightarrow> (internal_error ''listing tokens failed'' e, s)
        | Inr toks \<Rightarrow>
            if list_ex (\<lambda>t. tk_ProjectID t = i) toks
              then (writeError (errs_new CodeConflict ''project still referenced by tokens''), s)
            else (case DeleteProject i s of
                Inl e \<Rightarrow> (not_found_or ''no such project'' ''deleting project failed'' e, s)
              | Inr s1 \<Rightarrow> (ok_true, audit t_now nw ''project.delete'' i [] s1)))))"

section \<open>Models and routing policies\<close>

definition handleModels :: db_handler where
  "handleModels r s =
    (if rq_Method r \<noteq> ''GET'' then (bad_method, s)
     else (list_answer ''listing models failed'' model_json (ListModels s), s))"

definition handleRoutingPolicies :: db_handler where
  "handleRoutingPolicies r s =
    (if rq_Method r \<noteq> ''GET'' then (bad_method, s)
     else (list_answer ''listing policies failed'' policy_json (ListRoutingPolicies s), s))"

text \<open>The body of a policy: its alias comes from the path.\<close>

definition decode_policy_in :: "(string \<times> json) list \<Rightarrow> routing_policy option" where
  "decode_policy_in ms = do {
     i \<leftarrow> str_field ''id'' ms; n \<leftarrow> str_field ''name'' ms;
     cs \<leftarrow> as_list decode_candidate_in (member ''candidates'' ms); e \<leftarrow> bool_field ''enabled'' ms;
     Some \<lparr>rp_ID = i, rp_Name = n, rp_Alias = [], rp_Candidates = cs, rp_Enabled = e\<rparr> }"

definition handleRoutingPolicyByAlias :: "string \<Rightarrow> string \<Rightarrow> db_handler" where
  "handleRoutingPolicyByAlias nw rnd r s =
    (let al = trim_prefix (rq_Path r) ''/api/v1/routing-policies/'' in
     if al = [] then (invalid ''alias missing'', s)
     else if rq_Method r \<noteq> ''PUT'' \<and> rq_Method r \<noteq> ''POST'' then (bad_method, s)
     else (case read_body decode_policy_in (rq_Body r) of
         None \<Rightarrow> (invalid ''invalid body'', s)
       | Some p \<Rightarrow>
           if rp_Candidates p = [] then (invalid ''candidates missing'', s)
           else (let i = (if rp_ID p = [] then ''pol_'' @ rnd else rp_ID p) in
             (case SaveRoutingPolicy (p\<lparr>rp_ID := i, rp_Alias := al\<rparr>) nw s of
                Inl e \<Rightarrow> (internal_error ''saving policy failed'' e, s)
              | Inr s1 \<Rightarrow> (writeJSON 200 (JObj [(''id'', JStr i)]), s1)))))"

section \<open>Prices and usage\<close>

definition price_defaults :: "string \<Rightarrow> price_version \<Rightarrow> price_version" where
  "price_defaults rnd p = p\<lparr>pr_ID := (if pr_ID p = [] then ''price_'' @ rnd else pr_ID p),
     pr_Currency := (if pr_Currency p = [] then ''usd'' else pr_Currency p),
     pr_Source := (if pr_Source p = [] then ''manual'' else pr_Source p)\<rparr>"

definition handlePriceVersions :: "int \<Rightarrow> string \<Rightarrow> string \<Rightarrow> db_handler" where
  "handlePriceVersions t_now nw rnd r s =
    (if rq_Method r = ''GET'' then
       (list_answer ''listing prices failed'' price_json (ListPriceVersions (query_get r ''model_id'') s), s)
     else if rq_Method r = ''POST'' then
       (case read_body decode_price_in (rq_Body r) of
          None \<Rightarrow> (invalid ''model_id or effective_at missing'', s)
        | Some p0 \<Rightarrow>
            if pr_ModelID p0 = [] \<or> pr_EffectiveAt p0 = [] then (invalid ''model_id or effective_at missing'', s)
            else (let p = price_defaults rnd p0 in
              (case UpsertPriceVersion p s of
                 Inl e \<Rightarrow> (internal_error ''writing price failed'' e, s)
               | Inr s1 \<Rightarrow> (writeJSON 201 (JObj [(''id'', JStr (pr_ID p))]),
                   audit t_now nw ''price.create'' (pr_ModelID p) (pr_EffectiveAt p) s1))))
     else (bad_method, s))"

text \<open>An empty parameter does not filter.\<close>

definition usage_filter :: "http_request \<Rightarrow> request_attempt \<Rightarrow> bool" where
  "usage_filter r a \<longleftrightarrow>
     (query_get r ''provider_id'' = [] \<or> ra_ProviderID a = query_get r ''provider_id'') \<and>
     (query_get r ''account_id'' = [] \<or> ra_AccountID a = query_get r ''account_id'') \<and>
     (query_get r ''model_id'' = [] \<or> ra_ActualModel a = query_get r ''model_id'') \<and>
     (query_get r ''project_id'' = [] \<or> ra_ProjectID a = query_get r ''project_id'')"

definition handleUsageSummary :: db_handler where
  "handleUsageSummary r s =
    (if rq_Method r \<noteq> ''GET'' then (bad_method, s)
     else (case AggregateUsage (usage_filter r) s of
         Inl e \<Rightarrow> (internal_error ''aggregating usage failed'' e, s)
       | Inr rows \<Rightarrow> (writeJSON 200 (JObj [(''data'', JArr (map usage_row_json rows)),
             (''disclaimer'', JStr ''only requests forwarded by midroute; costs follow the price version of the event''),
             (''scope'', JStr ''observed_by_midroute''), (''unit'', JStr ''nano_usd'')]), s)))"

section \<open>Quota pools, jobs and requests\<close>

definition handleQuotaPools :: "int \<Rightarrow> string \<Rightarrow> db_handler" where
  "handleQuotaPools t_now nw r s =
    (if rq_Method r = ''GET'' then (list_answer ''listing pools failed'' pool_json (ListQuotaPools s), s)
     else if rq_Method r = ''POST'' then
       (case read_body decode_pool_in (rq_Body r) of
          None \<Rightarrow> (invalid ''id or provider_id missing'', s)
        | Some p \<Rightarrow>
            if qp_ID p = [] \<or> qp_ProviderID p = [] then (invalid ''id or provider_id missing'', s)
            else if qp_MemberIDs p = [] then (invalid ''member_ids missing'', s)
            else (case SaveQuotaPool p nw s of
                Inl e \<Rightarrow> (internal_error ''saving pool failed'' e, s)
              | Inr s1 \<Rightarrow> (writeJSON 201 (JObj [(''id'', JStr (qp_ID p))]),
                  audit t_now nw ''quota_pool.create'' (qp_ID p) (''members='' @ itoa (int (length (qp_MemberIDs p)))) s1)))
     else (bad_method, s))"

definition handleQuotaPoolSnapshots :: db_handler where
  "handleQuotaPoolSnapshots r s =
    (let parts = path_parts (rq_Path r) in
     if length parts \<noteq> 5 \<or> parts ! 4 \<noteq> ''snapshots'' then (bad_path, s)
     else if rq_Method r \<noteq> ''GET'' then (bad_method, s)
     else (list_answer ''listing snapshots failed'' snapshot_json (ListPoolSnapshots (parts ! 3) s), s))"

definition accountQuota :: "string \<Rightarrow> db \<Rightarrow> http_response" where
  "accountQuota i s = list_answer ''listing quota failed'' snapshot_json (ListQuotaSnapshots i s)"

definition handleJob :: db_handler where
  "handleJob r s =
    (let parts = path_parts (rq_Path r) in
     if length parts \<noteq> 4 then (bad_path, s)
     else (case GetRefreshJob (parts ! 3) s of
         Inl e \<Rightarrow> (not_found_or ''no such job'' ''reading job failed'' e, s)
       | Inr j \<Rightarrow> (writeJSON 200 (job_json j), s)))"

definition handleJobs :: db_handler where
  "handleJobs r s =
    (if rq_Method r \<noteq> ''GET'' then (bad_method, s)
     else (list_answer ''listing jobs failed'' job_json (ListRefreshJobs (query_get r ''account_id'') s), s))"

definition handleRequests :: db_handler where
  "handleRequests r s =
    (if rq_Method r \<noteq> ''GET'' then (bad_method, s)
     else (list_answer ''listing requests failed'' attempt_json (ListRecentAttempts 100 s), s))"

definition handleRequestDetail :: db_handler where
  "handleRequestDetail r s =
    (let parts = path_parts (rq_Path r) in
     if length parts \<noteq> 4 then (bad_path, s)
     else (case ListAttemptsByRequest (parts ! 3) s of
         Inl e \<Rightarrow> (internal_error ''reading request failed'' e, s)
       | Inr as \<Rightarrow>
           if as = [] then (writeError (errs_new CodeNotFound ''no such request''), s)
           else (writeJSON 200 (JObj [(''data'', JArr (map attempt_json as)), (''request_id'', JStr (parts ! 3))]), s)))"


section \<open>A created token works, and only while it is enabled\<close>

lemma CreateToken_Inr:
  assumes "CreateToken t s = Inr s'" and "tk_ModelWhitelist t \<noteq> []"
  shows "db_down s = None" and "s' = s\<lparr>access_tokens := access_tokens s @ [t]\<rparr>"
    and "\<not> has_row (\<lambda>r. tk_KeyHash r = tk_KeyHash t) (access_tokens s)"
    and "\<not> has_row (\<lambda>r. tk_ID r = tk_ID t) (access_tokens s)"
  using assms by (auto simp: CreateToken_def with_db_def Let_def has_row_iff split: option.splits if_splits)

lemma whitelist_text_nonempty [simp]: "whitelist_text ws \<noteq> []"
  by (simp add: whitelist_text_def)

lemma createToken_201:
  assumes "createToken sha t_now nw h24 h4 r s = (resp, s')" and "rs_Status resp = 201"
  obtains i s1 where "read_body decode_token_in (rq_Body r) = Some i"
    and "CreateToken (new_token sha nw (''mrt_'' @ h24) h4 i) s = Inr s1"
    and "resp = writeJSON 201 (token_created (new_token sha nw (''mrt_'' @ h24) h4 i) (''mrt_'' @ h24) i)"
    and "s' = audit t_now nw ''token.create'' (''tok_'' @ h4) [] s1"
proof (cases "read_body decode_token_in (rq_Body r)")
  case None
  with assms show ?thesis by (auto simp: createToken_def)
next
  case (Some i)
  have ok: "trim_space (ti_Name i) \<noteq> []" using assms Some by (auto simp: createToken_def)
  have chk: "token_in_error i s = None"
  proof (cases "token_in_error i s")
    case (Some x)
    then have "rs_Status x \<noteq> 201"
      by (auto simp: token_in_error_def split: option.splits if_splits sum.splits)
    moreover have "resp = x" using assms(1) \<open>read_body decode_token_in (rq_Body r) = Some i\<close> ok Some
      by (auto simp: createToken_def)
    ultimately show ?thesis using assms(2) by simp
  qed
  have t: "tk_ID (new_token sha nw (''mrt_'' @ h24) h4 i) = ''tok_'' @ h4" by (simp add: new_token_def)
  show ?thesis
  proof (cases "CreateToken (new_token sha nw (''mrt_'' @ h24) h4 i) s")
    case (Inl e)
    with assms Some ok chk show ?thesis by (auto simp: createToken_def Let_def)
  next
    case (Inr s1)
    show ?thesis
      by (rule that [OF Some Inr]) (use assms(1) Some ok chk Inr t in \<open>simp_all add: createToken_def Let_def\<close>)
  qed
qed


definition token_body :: string where
  "token_body = render (\<lambda>x. []) (JObj [(''name'', JStr ''ci''), (''model_whitelist'', JArr [JStr ''m1''])])"

definition token_post :: http_request where
  "token_post = \<lparr>rq_Method = ''POST'', rq_Path = ''/api/v1/tokens'', rq_Host = ''localhost'',
     rq_RemoteAddr = ''127.0.0.1:5000'', rq_Headers = [], rq_Cookies = [], rq_Query = [], rq_Body = token_body\<rparr>"

definition token_use :: http_request where
  "token_use = token_post\<lparr>rq_Headers := [(''Authorization'', ''Bearer mrt_0123456789'')]\<rparr>"


section \<open>Policies\<close>

text \<open>
  Putting a policy without its id for an alias that already has one answers 200 and does
  nothing for routing: the new row comes after the old one, which the router keeps finding.
\<close>

theorem put_policy_without_id_is_shadowed:
  assumes "GetRoutingPolicyByAlias al s = Inr old"
    and "rq_Method r = ''PUT''" and "rq_Path r = ''/api/v1/routing-policies/'' @ al" and "al \<noteq> []"
    and "read_body decode_policy_in (rq_Body r) = Some p" and "rp_ID p = []" and "rp_Candidates p \<noteq> []"
    and "\<not> has_row (\<lambda>x. rp_ID x = ''pol_'' @ rnd) (routing_policies s)"
  shows "rs_Status (fst (handleRoutingPolicyByAlias nw rnd r s)) = 200 \<and>
    length (routing_policies (snd (handleRoutingPolicyByAlias nw rnd r s))) = Suc (length (routing_policies s)) \<and>
    GetRoutingPolicyByAlias al (snd (handleRoutingPolicyByAlias nw rnd r s)) = Inr old"
proof -
  have al: "trim_prefix (rq_Path r) ''/api/v1/routing-policies/'' = al"
    by (simp add: assms(3) trim_prefix_def has_prefix_def)
  have up: "db_down s = None"
    using assms(1) by (auto simp: GetRoutingPolicyByAlias_def with_db_def split: option.splits)
  obtain x where x: "find (\<lambda>r. rp_Alias r = al) (routing_policies s) = Some x" "old = routing_policy.truncate x"
    using assms(1) up by (auto simp: GetRoutingPolicyByAlias_def with_db_def query_row_def split: option.splits)
  have "snd (handleRoutingPolicyByAlias nw rnd r s) = s\<lparr>routing_policies := routing_policies s @
      [routing_policy.extend (p\<lparr>rp_ID := ''pol_'' @ rnd, rp_Alias := al\<rparr>) (routing_policy_row.fields nw)]\<rparr> \<and>
    rs_Status (fst (handleRoutingPolicyByAlias nw rnd r s)) = 200"
    using assms(2,4-8) al up by (simp add: handleRoutingPolicyByAlias_def Let_def SaveRoutingPolicy_def with_db_def
      upsert_row_def)
  then show ?thesis using x up
    by (simp add: GetRoutingPolicyByAlias_def with_db_def query_row_def find_append)
qed


definition policy_put :: http_request where
  "policy_put = token_post\<lparr>rq_Method := ''PUT'', rq_Path := ''/api/v1/routing-policies/fast'',
     rq_Body := render (\<lambda>x. []) (JObj [(''candidates'', JArr [JObj [(''account_id'', JStr ''a9'')]]), (''enabled'', JBool True)])\<rparr>"

definition policy_new :: routing_policy where
  "policy_new = \<lparr>rp_ID = [], rp_Name = [], rp_Alias = [],
     rp_Candidates = [\<lparr>cd_AccountID = ''a9'', cd_ModelID = [], cd_Priority = 0, cd_Weight = 0\<rparr>], rp_Enabled = True\<rparr>"

lemma put_policy_without_id_is_shadowed_witness:
  "GetRoutingPolicyByAlias ''fast'' (snd (handleRoutingPolicyByAlias [] ''77'' policy_put demo_routes)) =
     Inr (routing_policy.truncate demo_policy)"
proof -
  have h: "GetRoutingPolicyByAlias ''fast'' demo_routes = Inr (routing_policy.truncate demo_policy)"
      "rq_Method policy_put = ''PUT''" "rq_Path policy_put = ''/api/v1/routing-policies/'' @ ''fast''"
      "read_body decode_policy_in (rq_Body policy_put) = Some policy_new"
      "\<not> has_row (\<lambda>x. rp_ID x = ''pol_'' @ ''77'') (routing_policies demo_routes)"
    by code_simp+
  show ?thesis
    using put_policy_without_id_is_shadowed [OF h(1-3) _ h(4) _ _ h(5)] by (simp add: policy_new_def)
qed

end
