(* ===== verification/Quota.thy ===== *)
theory Quota
  imports Store "HOL-Library.AList" "HOL-Library.Multiset"
begin

text \<open>
  Quota observation (\<open>internal/quota/codex.go\<close>, \<open>quota.go\<close>, \<open>service.go\<close>): the \<open>x-codex-*\<close>
  response headers become one snapshot per window, and snapshots, observed or entered by
  hand, become rows. Go iterates over a header map in any order: a header is the list of its
  entries in the order of one iteration. \<open>time.Parse\<close> for RFC 1123 is an argument, as is the
  random hexadecimal text.
\<close>

section \<open>Numbers\<close>

text \<open>
  \<open>strconv.ParseFloat\<close> accepts the names of the infinities and of NaN. A decimal text is read
  exactly, without the rounding to 64 bits; hexadecimal mantissas are not modelled.
\<close>

datatype go_float = Fin real | NaN | PosInf | NegInf

definition split_sign :: "string \<Rightarrow> bool \<times> string" where
  "split_sign s = (if s \<noteq> [] \<and> hd s = CHR ''-'' then (True, tl s)
     else if s \<noteq> [] \<and> hd s = CHR ''+'' then (False, tl s) else (False, s))"

definition parse_exponent :: "string \<Rightarrow> int option" where
  "parse_exponent s =
    (if s = [] then Some 0
     else if hd s = CHR ''e'' \<or> hd s = CHR ''E'' then
       (let (neg, ds) = split_sign (tl s)
        in if all_digits ds then Some (if neg then - dec_val ds else dec_val ds) else None)
     else None)"

definition scale10 :: "int \<Rightarrow> int \<Rightarrow> real" where
  "scale10 m e = (if 0 \<le> e then of_int (m * 10 ^ nat e) else of_int m / of_int (10 ^ nat (- e)))"

definition parse_float :: "string \<Rightarrow> go_float option" where
  "parse_float s =
    (let (neg, r) = split_sign s; l = to_lower r in
     if l = ''inf'' \<or> l = ''infinity'' then Some (if neg then NegInf else PosInf)
     else if to_lower s = ''nan'' then Some NaN
     else (let ip = takeWhile is_digit r; r1 = dropWhile is_digit r;
               point = (r1 \<noteq> [] \<and> hd r1 = CHR ''.'');
               fp = (if point then takeWhile is_digit (tl r1) else []);
               r2 = (if point then dropWhile is_digit (tl r1) else r1)
           in if ip @ fp = [] then None
              else map_option (\<lambda>e. Fin (scale10 (if neg then - dec_val (ip @ fp) else dec_val (ip @ fp)) (e - int (length fp))))
                     (parse_exponent r2)))"

definition parse_int64 :: "string \<Rightarrow> int option" where
  "parse_int64 s = (let (neg, ds) = split_sign s; v = (if neg then - dec_val ds else dec_val ds)
     in if all_digits ds \<and> - (2 ^ 63) \<le> v \<and> v < 2 ^ 63 then Some v else None)"

fun float_less :: "go_float \<Rightarrow> real \<Rightarrow> bool" where
  "float_less (Fin x) y = (x < y)"
| "float_less NegInf y = True"
| "float_less v y = False"

fun float_greater :: "go_float \<Rightarrow> real \<Rightarrow> bool" where
  "float_greater (Fin x) y = (y < x)"
| "float_greater PosInf y = True"
| "float_greater v y = False"

section \<open>Header fields\<close>

record codex_snapshot =
  cs_LimitName :: string
  cs_UsedPercent :: "go_float option"
  cs_WindowMinutes :: "int option"
  cs_ResetAfterSeconds :: "int option"
  cs_ResetAt :: "int option"
  cs_RawResetAt :: string
  cs_Allowed :: "bool option"
  cs_LimitReached :: "bool option"
  cs_Source :: string
  cs_CollectedAt :: int

record observation =
  ob_PlanType :: string
  ob_ActiveLimit :: string
  ob_Snapshots :: "codex_snapshot list"
  ob_Warnings :: "string list"

definition SourceObserved :: string where "SourceObserved = ''observed''"
definition headerPrefix :: string where "headerPrefix = ''x-codex-''"

definition windowSuffixes :: "string list" where
  "windowSuffixes = [''-used-percent'', ''-window-minutes'', ''-reset-after-seconds'', ''-reset-at'',
     ''-allowed'', ''-limit-reached'']"

definition splitWindowField :: "string \<Rightarrow> (string \<times> string) option" where
  "splitWindowField rest = map_option (\<lambda>suf. (trim_suffix rest suf, suf)) (find (has_suffix rest) windowSuffixes)"

definition skipMsg :: "string \<Rightarrow> string \<Rightarrow> string" where
  "skipMsg field v = ''skipped invalid '' @ field @ '' value (length '' @ itoa (int (length v)) @ '')''"

definition parseBoolPtr :: "string \<Rightarrow> bool option" where
  "parseBoolPtr v = (let l = to_lower v in
     if l = ''true'' \<or> l = ''1'' \<or> l = ''yes'' then Some True
     else if l = ''false'' \<or> l = ''0'' \<or> l = ''no'' then Some False else None)"

definition parseUpstreamTime :: "(string \<Rightarrow> int option) \<Rightarrow> (string \<Rightarrow> int option) \<Rightarrow> string \<Rightarrow> int option" where
  "parseUpstreamTime rfc1123 rfc1123z v = (case rfc1123 v of Some t \<Rightarrow> Some t
     | None \<Rightarrow> (case rfc1123z v of Some t \<Rightarrow> Some t | None \<Rightarrow> parse_rfc3339 v))"

text \<open>A field written into its window's snapshot, and the warning, empty when there is none.\<close>

definition applyField ::
  "(string \<Rightarrow> int option) \<Rightarrow> string \<Rightarrow> string \<Rightarrow> codex_snapshot \<Rightarrow> codex_snapshot \<times> string" where
  "applyField up_time suffix v s =
    (let skip = (s, skipMsg (cs_LimitName s @ suffix) v) in
     if suffix = ''-used-percent'' then
       (case parse_float v of None \<Rightarrow> skip
        | Some x \<Rightarrow> if float_less x 0 \<or> float_greater x 100 then skip else (s\<lparr>cs_UsedPercent := Some x\<rparr>, []))
     else if suffix = ''-window-minutes'' then
       (case parse_int64 v of None \<Rightarrow> skip
        | Some n \<Rightarrow> if n \<le> 0 then skip else (s\<lparr>cs_WindowMinutes := Some n\<rparr>, []))
     else if suffix = ''-reset-after-seconds'' then
       (case parse_int64 v of None \<Rightarrow> skip
        | Some n \<Rightarrow> if n < 0 then skip else (s\<lparr>cs_ResetAfterSeconds := Some n\<rparr>, []))
     else if suffix = ''-reset-at'' then
       (case up_time v of Some t \<Rightarrow> (s\<lparr>cs_ResetAt := Some t\<rparr>, []) | None \<Rightarrow> (s\<lparr>cs_RawResetAt := v\<rparr>, []))
     else if suffix = ''-allowed'' then (s\<lparr>cs_Allowed := parseBoolPtr v\<rparr>, [])
     else if suffix = ''-limit-reached'' then (s\<lparr>cs_LimitReached := parseBoolPtr v\<rparr>, [])
     else (s, []))"

definition new_snapshot :: "string \<Rightarrow> int \<Rightarrow> codex_snapshot" where
  "new_snapshot lname t = \<lparr>cs_LimitName = lname, cs_UsedPercent = None, cs_WindowMinutes = None,
     cs_ResetAfterSeconds = None, cs_ResetAt = None, cs_RawResetAt = [], cs_Allowed = None,
     cs_LimitReached = None, cs_Source = SourceObserved, cs_CollectedAt = t\<rparr>"

text \<open>The state of the loop: the two plain values, the snapshots by limit, the warnings, \<open>found\<close>.\<close>

record quota_acc =
  qa_Plan :: string
  qa_Active :: string
  qa_By :: "(string \<times> codex_snapshot) list"
  qa_Warnings :: "string list"
  qa_Found :: bool

definition set_window ::
  "(string \<Rightarrow> int option) \<Rightarrow> int \<Rightarrow> string \<Rightarrow> string \<Rightarrow> string \<Rightarrow> quota_acc \<Rightarrow> quota_acc" where
  "set_window up_time t lname suffix v a =
    (let snap = (case map_of (qa_By a) lname of None \<Rightarrow> new_snapshot lname t | Some s \<Rightarrow> s);
         (snap', warn) = applyField up_time suffix v snap
     in a\<lparr>qa_By := AList.update lname snap' (qa_By a),
          qa_Warnings := (if warn = [] then qa_Warnings a else qa_Warnings a @ [warn])\<rparr>)"

definition header_step ::
  "(string \<Rightarrow> int option) \<Rightarrow> int \<Rightarrow> string \<times> string list \<Rightarrow> quota_acc \<Rightarrow> quota_acc" where
  "header_step up_time t h a0 =
    (let lower = to_lower (trim_space (fst h)) in
     if snd h = [] then a0
     else if \<not> has_prefix lower headerPrefix then a0
     else (let a = a0\<lparr>qa_Found := True\<rparr>; rest = drop (length headerPrefix) lower; v = trim_space (last (snd h)) in
       if rest = ''plan-type'' then a\<lparr>qa_Plan := v\<rparr>
       else if rest = ''active-limit'' then a\<lparr>qa_Active := v\<rparr>
       else (case splitWindowField rest of
           None \<Rightarrow> a
         | Some (lname, suffix) \<Rightarrow> set_window up_time t lname suffix v a)))"

definition ParseCodexQuotaHeaders ::
  "(string \<Rightarrow> int option) \<Rightarrow> int \<Rightarrow> (string \<times> string list) list \<Rightarrow> observation option" where
  "ParseCodexQuotaHeaders up_time t hs =
    (let a = fold (header_step up_time t) hs \<lparr>qa_Plan = [], qa_Active = [], qa_By = [], qa_Warnings = [], qa_Found = False\<rparr>
     in if \<not> qa_Found a then None
        else Some \<lparr>ob_PlanType = qa_Plan a, ob_ActiveLimit = qa_Active a,
               ob_Snapshots = sort_key cs_LimitName (map snd (qa_By a)), ob_Warnings = qa_Warnings a\<rparr>)"

section \<open>Rows\<close>

definition QuotaWindowUnknown :: string where "QuotaWindowUnknown = ''unknown''"

definition mapWindowType :: "string \<Rightarrow> string" where
  "mapWindowType n =
    (if n = ''primary'' then QuotaWindowPrimary
     else if n = ''secondary'' then QuotaWindowSecondary
     else if n = ''code-review'' then QuotaWindowCodeReview
     else if length ''additional-'' < length n \<and> take (length ''additional-'') n = ''additional-'' then QuotaWindowAdditional
     else QuotaWindowUnknown)"

text \<open>The columns hold numbers: NaN, the one value that is none, is written as null.\<close>

definition column_of :: "go_float \<Rightarrow> real option" where
  "column_of v = (case v of Fin x \<Rightarrow> Some x | _ \<Rightarrow> None)"

definition quota_version :: string where "quota_version = ''0.1.0''"

definition snapshot_row :: "string \<Rightarrow> (int \<Rightarrow> string) \<Rightarrow> string \<Rightarrow> string \<Rightarrow> codex_snapshot \<Rightarrow> quota_snapshot" where
  "snapshot_row nw fmt_time rnd acct s = \<lparr>qs_ID = ''qsnap_'' @ cs_LimitName s @ ''_'' @ rnd, qs_AccountID = acct,
     qs_PoolID = [], qs_WindowType = mapWindowType (cs_LimitName s),
     qs_Limit = map_option of_int (cs_WindowMinutes s),
     qs_Used = Option.bind (cs_UsedPercent s) column_of,
     qs_Remaining = (if cs_Allowed s = Some True then
        map_option (\<lambda>u. 100 - u) (Option.bind (cs_UsedPercent s) column_of) else None),
     qs_ResetAt = map_option fmt_time (cs_ResetAt s), qs_Source = QuotaSourceObserved,
     qs_SourceRef = ''x-codex-* response headers'', qs_Confidence = QuotaConfReported,
     qs_Freshness = QuotaFreshFresh, qs_Unit = ''percent'', qs_ConnectorVersion = quota_version,
     qs_Operator = [], qs_ManualExpiresAt = None, qs_TakenAt = nw, qs_LastSuccessAt = nw\<rparr>"

definition ObservationToSnapshots ::
  "string \<Rightarrow> (int \<Rightarrow> string) \<Rightarrow> (nat \<Rightarrow> string) \<Rightarrow> string \<Rightarrow> observation \<Rightarrow> quota_snapshot list" where
  "ObservationToSnapshots nw fmt_time rnd acct obs =
     map (\<lambda>(i, s). snapshot_row nw fmt_time (rnd i) acct s) (enumerate 0 (ob_Snapshots obs))"

text \<open>Each row is saved by its own statement: the rows before a failure stay.\<close>

fun save_all :: "quota_snapshot list \<Rightarrow> db \<Rightarrow> go_error option \<times> db" where
  "save_all [] s = (None, s)"
| "save_all (q # qs) s = (case SaveQuotaSnapshot q s of Inl e \<Rightarrow> (Some e, s) | Inr s' \<Rightarrow> save_all qs s')"

definition RecordObservation ::
  "string \<Rightarrow> (int \<Rightarrow> string) \<Rightarrow> (nat \<Rightarrow> string) \<Rightarrow> string \<Rightarrow> observation \<Rightarrow> db \<Rightarrow> (go_error + nat) \<times> db" where
  "RecordObservation nw fmt_time rnd acct obs s =
    (let qs = ObservationToSnapshots nw fmt_time rnd acct obs in
     case save_all qs s of (Some e, s') \<Rightarrow> (Inl e, s') | (None, s') \<Rightarrow> (Inr (length qs), s'))"

definition manual_snapshot :: "string \<Rightarrow> string \<Rightarrow> string \<Rightarrow> string \<Rightarrow> quota_snapshot \<Rightarrow> quota_snapshot" where
  "manual_snapshot nw rnd acct operator q = q\<lparr>qs_ID := ''qsnap_manual_'' @ rnd, qs_AccountID := acct,
     qs_Source := QuotaSourceManual, qs_SourceRef := ''entered by hand'', qs_Confidence := QuotaConfReported,
     qs_Freshness := QuotaFreshFresh, qs_Operator := operator, qs_ConnectorVersion := quota_version,
     qs_TakenAt := nw, qs_LastSuccessAt := nw,
     qs_Unit := (if qs_Unit q = [] then ''percent'' else qs_Unit q)\<rparr>"

definition ManualSupplement ::
  "string \<Rightarrow> string \<Rightarrow> string \<Rightarrow> string \<Rightarrow> quota_snapshot \<Rightarrow> db \<Rightarrow> go_error + quota_snapshot \<times> db" where
  "ManualSupplement nw rnd acct operator q s =
    (let m = manual_snapshot nw rnd acct operator q in
     map_sum id (\<lambda>s'. (m, s')) (SaveQuotaSnapshot m s))"


section \<open>What a parsed observation holds\<close>

definition sane_snapshot :: "codex_snapshot \<Rightarrow> bool" where
  "sane_snapshot s \<longleftrightarrow>
     (case cs_UsedPercent s of None \<Rightarrow> True | Some (Fin x) \<Rightarrow> 0 \<le> x \<and> x \<le> 100 | Some v \<Rightarrow> v = NaN) \<and>
     (case cs_WindowMinutes s of None \<Rightarrow> True | Some n \<Rightarrow> 1 \<le> n \<and> n < 2 ^ 63) \<and>
     (case cs_ResetAfterSeconds s of None \<Rightarrow> True | Some n \<Rightarrow> 0 \<le> n \<and> n < 2 ^ 63)"

lemma sane_new [simp]: "sane_snapshot (new_snapshot l t)"
  by (simp add: sane_snapshot_def new_snapshot_def)

lemma new_snapshot_name: "cs_LimitName (new_snapshot l t) = l"
  by (simp add: new_snapshot_def)

lemma parse_int64_range: "parse_int64 v = Some n \<Longrightarrow> - (2 ^ 63) \<le> n \<and> n < 2 ^ 63"
  by (auto simp: parse_int64_def Let_def split: prod.splits if_splits)

lemma sane_used:
  "sane_snapshot s \<Longrightarrow> \<not> float_less x 0 \<Longrightarrow> \<not> float_greater x 100 \<Longrightarrow> sane_snapshot (s\<lparr>cs_UsedPercent := Some x\<rparr>)"
  by (cases x) (simp_all add: sane_snapshot_def)

lemma sane_minutes:
  "sane_snapshot s \<Longrightarrow> parse_int64 v = Some n \<Longrightarrow> \<not> n \<le> 0 \<Longrightarrow> sane_snapshot (s\<lparr>cs_WindowMinutes := Some n\<rparr>)"
  by (drule parse_int64_range) (simp add: sane_snapshot_def)

lemma sane_reset:
  "sane_snapshot s \<Longrightarrow> parse_int64 v = Some n \<Longrightarrow> \<not> n < 0 \<Longrightarrow> sane_snapshot (s\<lparr>cs_ResetAfterSeconds := Some n\<rparr>)"
  by (drule parse_int64_range) (simp add: sane_snapshot_def)

lemma sane_others [simp]:
  "sane_snapshot (s\<lparr>cs_ResetAt := r\<rparr>) = sane_snapshot s" "sane_snapshot (s\<lparr>cs_RawResetAt := w\<rparr>) = sane_snapshot s"
  "sane_snapshot (s\<lparr>cs_Allowed := b\<rparr>) = sane_snapshot s" "sane_snapshot (s\<lparr>cs_LimitReached := b\<rparr>) = sane_snapshot s"
  by (simp_all add: sane_snapshot_def)

lemma sane_applyField: "sane_snapshot s \<Longrightarrow> sane_snapshot (fst (applyField up suf v s))"
  by (simp add: applyField_def Let_def sane_used sane_minutes sane_reset split: option.split)

lemma applyField_name: "cs_LimitName (fst (applyField up suf v s)) = cs_LimitName s"
  by (auto simp: applyField_def Let_def split: option.splits)

lemma list_all_update: "P (k, v) \<Longrightarrow> list_all P al \<Longrightarrow> list_all P (AList.update k v al)"
  by (induction al) auto

definition all_sane :: "quota_acc \<Rightarrow> bool" where
  "all_sane a \<longleftrightarrow> list_all (\<lambda>kv. sane_snapshot (snd kv) \<and> cs_LimitName (snd kv) = fst kv) (qa_By a) \<and>
     distinct (map fst (qa_By a))"

lemma all_sane_simps [simp]:
  "all_sane (a\<lparr>qa_Plan := p\<rparr>) = all_sane a" "all_sane (a\<lparr>qa_Active := p\<rparr>) = all_sane a"
  "all_sane (a\<lparr>qa_Found := b\<rparr>) = all_sane a" "all_sane (a\<lparr>qa_Warnings := w\<rparr>) = all_sane a"
  by (simp_all add: all_sane_def)

lemma all_sane_set_window:
  assumes "all_sane a" shows "all_sane (set_window up t l suf v a)"
proof -
  define old where "old = (case map_of (qa_By a) l of None \<Rightarrow> new_snapshot l t | Some s \<Rightarrow> s)"
  have "sane_snapshot old \<and> cs_LimitName old = l"
  proof (cases "map_of (qa_By a) l")
    case None
    then show ?thesis by (simp add: old_def new_snapshot_name)
  next
    case (Some s)
    with assms map_of_SomeD [OF Some] show ?thesis by (auto simp: old_def all_sane_def list_all_iff)
  qed
  then have "sane_snapshot (fst (applyField up suf v old)) \<and> cs_LimitName (fst (applyField up suf v old)) = l"
    by (simp add: sane_applyField applyField_name)
  then have "list_all (\<lambda>kv. sane_snapshot (snd kv) \<and> cs_LimitName (snd kv) = fst kv)
      (AList.update l (fst (applyField up suf v old)) (qa_By a))"
    using assms by (intro list_all_update) (simp_all add: all_sane_def)
  with assms show ?thesis
    by (auto simp: set_window_def Let_def old_def [symmetric] all_sane_def distinct_update split: prod.split)
qed

lemma all_sane_step: "all_sane a \<Longrightarrow> all_sane (header_step up t h a)"
  by (auto simp: header_step_def Let_def intro!: all_sane_set_window split: option.split)

lemma all_sane_fold: "all_sane a \<Longrightarrow> all_sane (fold (header_step up t) hs a)"
  by (induction hs arbitrary: a) (simp_all add: all_sane_step)

text \<open>
  Every window of an observation is within its bounds whatever the headers hold: a used
  percentage is between 0 and 100, or NaN, which the range check lets through; a window
  lasts at least a minute and a reset is not in the past; and no two snapshots are of the
  same limit.
\<close>

theorem quota_headers_bounded:
  "case ParseCodexQuotaHeaders up t hs of None \<Rightarrow> True
   | Some obs \<Rightarrow> list_all sane_snapshot (ob_Snapshots obs) \<and> distinct (map cs_LimitName (ob_Snapshots obs))"
proof -
  define a where "a = fold (header_step up t) hs
    \<lparr>qa_Plan = [], qa_Active = [], qa_By = [], qa_Warnings = [], qa_Found = False\<rparr>"
  have "all_sane a" unfolding a_def by (rule all_sane_fold) (simp add: all_sane_def)
  then have "list_all sane_snapshot (map snd (qa_By a))" and "map cs_LimitName (map snd (qa_By a)) = map fst (qa_By a)"
    and "distinct (map fst (qa_By a))"
    by (auto simp: all_sane_def list_all_iff)
  moreover have "mset (map cs_LimitName (sort_key cs_LimitName (map snd (qa_By a)))) = mset (map fst (qa_By a))"
    using calculation(2) by (simp only: mset_map mset_sort) (metis mset_map)
  ultimately show ?thesis
    using mset_eq_imp_distinct_iff [of "map cs_LimitName (sort_key cs_LimitName (map snd (qa_By a)))" "map fst (qa_By a)"]
    by (simp add: ParseCodexQuotaHeaders_def Let_def a_def [symmetric] list_all_iff)
qed

text \<open>NaN is accepted as a percentage.\<close>

lemma nan_percentage_accepted:
  "map_option (\<lambda>o'. map cs_UsedPercent (ob_Snapshots o'))
     (ParseCodexQuotaHeaders Map.empty 0 [(''X-Codex-Primary-Used-Percent'', [''NaN''])]) = Some [Some NaN]"
  by code_simp


section \<open>The order of the headers does not matter\<close>

text \<open>What a header asks for, once its name is read.\<close>

datatype header_act = Ignore | Touch | SetPlan string | SetActive string | SetField string string string

definition act_of :: "string \<times> string list \<Rightarrow> header_act" where
  "act_of h = (let lower = to_lower (trim_space (fst h)); rest = drop (length headerPrefix) lower;
       v = trim_space (last (snd h)) in
     if snd h = [] then Ignore else if \<not> has_prefix lower headerPrefix then Ignore
     else if rest = ''plan-type'' then SetPlan v else if rest = ''active-limit'' then SetActive v
     else (case splitWindowField rest of None \<Rightarrow> Touch | Some (l, suf) \<Rightarrow> SetField l suf v))"

type_synonym quota_view = "string \<times> string \<times> (string \<Rightarrow> codex_snapshot option) \<times> string multiset \<times> bool"

definition view :: "quota_acc \<Rightarrow> quota_view" where
  "view a = (qa_Plan a, qa_Active a, map_of (qa_By a), mset (qa_Warnings a), qa_Found a)"

fun view_act :: "(string \<Rightarrow> int option) \<Rightarrow> int \<Rightarrow> header_act \<Rightarrow> quota_view \<Rightarrow> quota_view" where
  "view_act up t Ignore q = q"
| "view_act up t Touch (p, c, m, w, f) = (p, c, m, w, True)"
| "view_act up t (SetPlan v) (p, c, m, w, f) = (v, c, m, w, True)"
| "view_act up t (SetActive v) (p, c, m, w, f) = (p, v, m, w, True)"
| "view_act up t (SetField l suf v) (p, c, m, w, f) =
    (let r = applyField up suf v (case m l of None \<Rightarrow> new_snapshot l t | Some s \<Rightarrow> s)
     in (p, c, m(l \<mapsto> fst r), (if snd r = [] then w else add_mset (snd r) w), True))"

lemma view_step: "view (header_step up t h a) = view_act up t (act_of h) (view a)"
  by (auto simp: header_step_def act_of_def view_def set_window_def Let_def update_conv'
      split: option.split prod.split)

lemma view_fold: "view (fold (header_step up t) hs a) = fold (view_act up t) (map act_of hs) (view a)"
  by (induction hs arbitrary: a) (simp_all add: view_step)

text \<open>Two fields of one window go to different places, and the warning depends on neither.\<close>

lemma applyField_warning:
  "cs_LimitName s = cs_LimitName s' \<Longrightarrow> snd (applyField up suf v s) = snd (applyField up suf v s')"
  by (simp add: applyField_def Let_def split: option.split)

lemma suffix_cases:
  obtains
    "suf = ''-used-percent''"
    | "suf = ''-window-minutes''"
    | "suf = ''-reset-after-seconds''"
    | "suf = ''-reset-at''"
    | "suf = ''-allowed''"
    | "suf = ''-limit-reached''"
    | "suf \<notin> set windowSuffixes"
  by (auto simp: windowSuffixes_def)

lemma applyField_simps:
  "applyField up ''-used-percent'' v s = (case parse_float v of
      None \<Rightarrow> (s, skipMsg (cs_LimitName s @ ''-used-percent'') v)
    | Some x \<Rightarrow> if float_less x 0 \<or> float_greater x 100 then (s, skipMsg (cs_LimitName s @ ''-used-percent'') v)
               else (s\<lparr>cs_UsedPercent := Some x\<rparr>, []))"
  "applyField up ''-window-minutes'' v s = (case parse_int64 v of
      None \<Rightarrow> (s, skipMsg (cs_LimitName s @ ''-window-minutes'') v)
    | Some n \<Rightarrow> if n \<le> 0 then (s, skipMsg (cs_LimitName s @ ''-window-minutes'') v)
               else (s\<lparr>cs_WindowMinutes := Some n\<rparr>, []))"
  "applyField up ''-reset-after-seconds'' v s = (case parse_int64 v of
      None \<Rightarrow> (s, skipMsg (cs_LimitName s @ ''-reset-after-seconds'') v)
    | Some n \<Rightarrow> if n < 0 then (s, skipMsg (cs_LimitName s @ ''-reset-after-seconds'') v)
               else (s\<lparr>cs_ResetAfterSeconds := Some n\<rparr>, []))"
  "applyField up ''-reset-at'' v s =
    (case up v of Some x \<Rightarrow> (s\<lparr>cs_ResetAt := Some x\<rparr>, []) | None \<Rightarrow> (s\<lparr>cs_RawResetAt := v\<rparr>, []))"
  "applyField up ''-allowed'' v s = (s\<lparr>cs_Allowed := parseBoolPtr v\<rparr>, [])"
  "applyField up ''-limit-reached'' v s = (s\<lparr>cs_LimitReached := parseBoolPtr v\<rparr>, [])"
  "suf \<notin> set windowSuffixes \<Longrightarrow> applyField up suf v s = (s, [])"
  by (simp_all add: applyField_def Let_def windowSuffixes_def)

lemma applyField_commute:
  assumes "suf \<noteq> suf'"
  shows "fst (applyField up suf v (fst (applyField up suf' v' s))) = fst (applyField up suf' v' (fst (applyField up suf v s)))"
  using assms
  by (cases suf rule: suffix_cases; cases suf' rule: suffix_cases)
    (simp_all add: applyField_simps split: option.split)

lemma applyField_warning_after:
  "snd (applyField up suf v (fst (applyField up suf' v' s))) = snd (applyField up suf v s)"
  by (rule applyField_warning) (rule applyField_name)

fun act_slot :: "header_act \<Rightarrow> string list option" where
  "act_slot Ignore = None"
| "act_slot Touch = None"
| "act_slot (SetPlan v) = Some [''plan'']"
| "act_slot (SetActive v) = Some [''active'']"
| "act_slot (SetField l suf v) = Some [l, suf]"

lemma view_act_commute:
  assumes "act_slot x \<noteq> act_slot y \<or> act_slot x = None"
  shows "view_act up t x (view_act up t y q) = view_act up t y (view_act up t x q)"
proof (cases q)
  case (fields p c m w f)
  show ?thesis
  proof (cases x)
    case x: (SetField l suf v)
    show ?thesis
    proof (cases y)
      case y: (SetField l' suf' v')
      show ?thesis
      proof (cases "l = l'")
        case True
        with assms x y have "suf \<noteq> suf'" by simp
        with True show ?thesis
          by (simp add: x y fields Let_def applyField_commute [of suf suf'] applyField_warning_after add_mset_commute)
      next
        case False
        then show ?thesis by (auto simp: x y fields Let_def fun_upd_twist)
      qed
    qed (simp_all add: x fields Let_def)
  qed (cases y; use assms in \<open>simp add: fields Let_def\<close>)+
qed


lemma splitWindowField_append: "splitWindowField rest = Some (l, suf) \<Longrightarrow> rest = l @ suf"
proof -
  assume "splitWindowField rest = Some (l, suf)"
  then have l: "l = trim_suffix rest suf" and "has_suffix rest suf"
    by (auto simp: splitWindowField_def dest: find_SomeD)
  then have "take (length suf) (rev rest) = rev suf" by (simp add: has_suffix_def has_prefix_def)
  then have "drop (length rest - length suf) rest = suf"
    by (metis length_rev rev_rev_ident rev_take)
  with l \<open>has_suffix rest suf\<close> show ?thesis
    by (metis append_take_drop_id trim_suffix_def)
qed

lemma act_slot_name:
  assumes "act_slot (act_of h) = act_slot (act_of h')" and "act_slot (act_of h) \<noteq> None"
  shows "to_lower (trim_space (fst h)) = to_lower (trim_space (fst h'))"
proof -
  have key: "\<exists>rest. to_lower (trim_space (fst h)) = headerPrefix @ rest \<and> act_slot (act_of h) =
      (if rest = ''plan-type'' then Some [''plan''] else if rest = ''active-limit'' then Some [''active'']
       else map_option (\<lambda>(l, suf). [l, suf]) (splitWindowField rest))"
    if "act_slot (act_of h) \<noteq> None" for h
  proof -
    from that have ne: "snd h \<noteq> []" "has_prefix (to_lower (trim_space (fst h))) headerPrefix"
      by (auto simp: act_of_def Let_def split: if_split_asm)
    then obtain rest where rest: "to_lower (trim_space (fst h)) = headerPrefix @ rest"
      by (metis append_take_drop_id has_prefix_def)
    have "has_prefix (headerPrefix @ rest) headerPrefix" by (simp add: has_prefix_def)
    with ne rest show ?thesis
      by (intro exI [of _ rest]) (simp add: act_of_def Let_def split: option.split)
  qed
  obtain r where r: "to_lower (trim_space (fst h)) = headerPrefix @ r" "act_slot (act_of h) =
      (if r = ''plan-type'' then Some [''plan''] else if r = ''active-limit'' then Some [''active'']
       else map_option (\<lambda>(l, suf). [l, suf]) (splitWindowField r))"
    using key assms(2) by blast
  obtain r' where r': "to_lower (trim_space (fst h')) = headerPrefix @ r'" "act_slot (act_of h') =
      (if r' = ''plan-type'' then Some [''plan''] else if r' = ''active-limit'' then Some [''active'']
       else map_option (\<lambda>(l, suf). [l, suf]) (splitWindowField r'))"
    using key [of h'] assms by auto
  have "r = r'"
    using assms r(2) r'(2) by (auto split: if_splits dest!: splitWindowField_append)
  then show ?thesis by (simp add: r(1) r'(1))
qed

lemma same_alist_sorted:
  assumes "map_of xs = map_of ys" and "distinct (map fst xs)" and "distinct (map fst ys)"
    and "list_all (\<lambda>kv. cs_LimitName (snd kv) = fst kv) xs" and "list_all (\<lambda>kv. cs_LimitName (snd kv) = fst kv) ys"
  shows "sort_key cs_LimitName (map snd xs) = sort_key cs_LimitName (map snd ys)"
proof -
  have "set xs = set ys" using assms(1-3) by (metis map_of_inject_set)
  moreover have "distinct xs" "distinct ys" using assms(2,3) by (simp_all add: distinct_map)
  ultimately have m: "mset xs = mset ys" by (simp add: set_eq_iff_mset_eq_distinct)
  have inj: "inj_on cs_LimitName (set (map snd xs))"
    using assms(2,4) by (auto simp: inj_on_def list_all_iff distinct_map)
  show ?thesis
    by (rule sort_key_inj_key_eq [OF _ inj]) (simp_all add: m)
qed

text \<open>
  C21: the observation does not depend on the order in which Go happens to iterate over the
  headers: for the same headers in another order, no two of which have the same name up to
  case and space, the plan, the active limit and the snapshots are equal, and the warnings
  are the same up to their order.
\<close>

theorem quota_headers_order_irrelevant:
  assumes "mset hs = mset hs'" and "distinct (map (\<lambda>h. to_lower (trim_space (fst h))) hs)"
  shows "case (ParseCodexQuotaHeaders up t hs, ParseCodexQuotaHeaders up t hs') of
      (None, None) \<Rightarrow> True
    | (Some x, Some y) \<Rightarrow> ob_PlanType x = ob_PlanType y \<and> ob_ActiveLimit x = ob_ActiveLimit y \<and>
        ob_Snapshots x = ob_Snapshots y \<and> mset (ob_Warnings x) = mset (ob_Warnings y)
    | _ \<Rightarrow> False"
proof -
  define a0 where "a0 = \<lparr>qa_Plan = [], qa_Active = [], qa_By = [], qa_Warnings = [], qa_Found = False\<rparr>"
  define a where "a = fold (header_step up t) hs a0"
  define a' where "a' = fold (header_step up t) hs' a0"
  have "all_sane a0" by (simp add: a0_def all_sane_def)
  then have sane: "all_sane a" "all_sane a'" by (simp_all add: a_def a'_def all_sane_fold)
  have "fold (\<lambda>h. view_act up t (act_of h)) hs = fold (\<lambda>h. view_act up t (act_of h)) hs'"
  proof (rule fold_multiset_equiv [OF _ assms(1)])
    fix x y assume "x \<in> set hs" "y \<in> set hs"
    with assms(2) have "x = y \<or> to_lower (trim_space (fst x)) \<noteq> to_lower (trim_space (fst y))"
      by (auto simp: distinct_map inj_on_def)
    then show "view_act up t (act_of x) \<circ> view_act up t (act_of y) = view_act up t (act_of y) \<circ> view_act up t (act_of x)"
    proof
      assume "x = y"
      then show ?thesis by simp
    next
      assume "to_lower (trim_space (fst x)) \<noteq> to_lower (trim_space (fst y))"
      then have "act_slot (act_of x) \<noteq> act_slot (act_of y) \<or> act_slot (act_of x) = None"
        using act_slot_name [of x y] by blast
      then show ?thesis by (intro ext) (simp only: comp_apply, rule view_act_commute)
    qed
  qed
  then have v: "view a = view a'" by (simp add: a_def a'_def view_fold fold_map comp_def)
  then have "sort_key cs_LimitName (map snd (qa_By a)) = sort_key cs_LimitName (map snd (qa_By a'))"
    using sane by (intro same_alist_sorted) (auto simp: view_def all_sane_def list_all_iff)
  moreover have "qa_Plan a = qa_Plan a'" "qa_Active a = qa_Active a'" "qa_Found a = qa_Found a'"
      "mset (qa_Warnings a) = mset (qa_Warnings a')"
    using v by (simp_all add: view_def)
  moreover have "ParseCodexQuotaHeaders up t hs = (if \<not> qa_Found a then None
        else Some \<lparr>ob_PlanType = qa_Plan a, ob_ActiveLimit = qa_Active a,
               ob_Snapshots = sort_key cs_LimitName (map snd (qa_By a)), ob_Warnings = qa_Warnings a\<rparr>)"
    by (simp only: ParseCodexQuotaHeaders_def Let_def a_def a0_def)
  moreover have "ParseCodexQuotaHeaders up t hs' = (if \<not> qa_Found a' then None
        else Some \<lparr>ob_PlanType = qa_Plan a', ob_ActiveLimit = qa_Active a',
               ob_Snapshots = sort_key cs_LimitName (map snd (qa_By a')), ob_Warnings = qa_Warnings a'\<rparr>)"
    by (simp only: ParseCodexQuotaHeaders_def Let_def a'_def a0_def)
  ultimately show ?thesis by simp
qed

definition demo_headers :: "(string \<times> string list) list" where
  "demo_headers = [(''X-Codex-Plan-Type'', [''pro'']), (''X-Codex-Primary-Used-Percent'', [''41'']),
     (''X-Codex-Primary-Allowed'', [''true'']), (''X-Codex-Secondary-Window-Minutes'', [''-3''])]"

lemma quota_headers_order_irrelevant_witness:
  "map_option ob_Snapshots (ParseCodexQuotaHeaders Map.empty 0 demo_headers) =
   map_option ob_Snapshots (ParseCodexQuotaHeaders Map.empty 0 (rev demo_headers))"
proof -
  have d: "distinct (map (\<lambda>h. to_lower (trim_space (fst h))) demo_headers)" by code_simp
  show ?thesis
    using quota_headers_order_irrelevant [OF _ d, of "rev demo_headers" Map.empty 0] by (auto split: option.splits)
qed

section \<open>Observed and manual values\<close>

text \<open>
  A value entered by hand does not displace what the platform reported: after a manual
  supplement under a fresh id the latest automatic snapshot of every account and window is
  the one it was, and the rows gain exactly the manual one.
\<close>

theorem manual_keeps_automatic:
  assumes "ManualSupplement nw rnd acct operator q s = Inr (m, s')"
    and "\<not> has_row (\<lambda>r. qs_ID r = ''qsnap_manual_'' @ rnd) (quota_snapshots s)"
  shows "LatestQuotaSnapshot a w s' = LatestQuotaSnapshot a w s \<and>
    quota_snapshots s' = quota_snapshots s @ [m\<lparr>qs_ManualExpiresAt := Some (strOrEmpty (qs_ManualExpiresAt m))\<rparr>] \<and>
    qs_Source m = QuotaSourceManual \<and> qs_AccountID m = acct"
  using assms
  by (auto simp: ManualSupplement_def Let_def SaveQuotaSnapshot_def with_db_def manual_snapshot_def
      LatestQuotaSnapshot_def split: option.splits if_splits)

definition hand_entry :: quota_snapshot where
  "hand_entry = \<lparr>qs_ID = [], qs_AccountID = [], qs_PoolID = [], qs_WindowType = ''month'', qs_Limit = Some 100,
     qs_Used = Some 5, qs_Remaining = None, qs_ResetAt = None, qs_Source = [], qs_SourceRef = [],
     qs_Confidence = [], qs_Freshness = [], qs_Unit = ''usd'', qs_ConnectorVersion = [], qs_Operator = [],
     qs_ManualExpiresAt = None, qs_TakenAt = [], qs_LastSuccessAt = []\<rparr>"

definition quota_db :: db where
  "quota_db = empty_db\<lparr>accounts := [account.extend
     \<lparr>ac_ID = ''a'', ac_ProviderID = ''p'', ac_Name = [], ac_Status = ''active'', ac_Mode = [], ac_AuthType = [],
      ac_BillingMode = [], ac_AuthState = [], ac_VaultProvider = [], ac_SecretService = [], ac_SecretAccount = [],
      ac_SecretFingerprint = [], ac_LastVerifiedAt = []\<rparr> (account_row.fields [] [])]\<rparr>"

lemma manual_keeps_automatic_witness:
  "\<exists>m s'. ManualSupplement ''t'' ''77'' ''a'' ''admin'' hand_entry quota_db = Inr (m, s') \<and>
     LatestQuotaSnapshot ''a'' ''month'' s' = LatestQuotaSnapshot ''a'' ''month'' quota_db"
proof -
  have "\<exists>p. ManualSupplement ''t'' ''77'' ''a'' ''admin'' hand_entry quota_db = Inr p"
    by (simp add: ManualSupplement_def Let_def SaveQuotaSnapshot_def with_db_def manual_snapshot_def hand_entry_def
        quota_db_def empty_db_def account.defs account_row.defs)
  then obtain m s' where m: "ManualSupplement ''t'' ''77'' ''a'' ''admin'' hand_entry quota_db = Inr (m, s')"
    by force
  have "\<not> has_row (\<lambda>r. qs_ID r = ''qsnap_manual_'' @ ''77'') (quota_snapshots quota_db)"
    by (simp add: quota_db_def empty_db_def)
  from manual_keeps_automatic [OF m this, of "''a''" "''month''"] m show ?thesis by blast
qed

end
