(* ===== verification/Scheduler.thy ===== *)
theory Scheduler
  imports StoreInv
begin

text \<open>
  Background refresh jobs (\<open>internal/scheduler/scheduler.go\<close>). A job function works on the
  world \<open>'w\<close>, of which the database is a part (\<open>get\<close>, \<open>put\<close>); the keys in flight are those
  of the calls that hold the scheduler's map when this one takes the mutex. The clock is read
  three times in a run: at the start, at the end, and for the next run.
\<close>

record sched_config =
  sg_BaseBackoff :: int
  sg_MaxRetries :: int

definition DefaultConfig :: sched_config where
  "DefaultConfig = \<lparr>sg_BaseBackoff = seconds 5, sg_MaxRetries = 5\<rparr>"

record sched_clock =
  sk_Start :: int
  sk_Finish :: int
  sk_Next :: int
  sk_Fmt :: "int \<Rightarrow> string"
  sk_nw :: string

type_synonym 'w job_fn = "string \<Rightarrow> 'w \<Rightarrow> go_error option \<times> 'w"

record 'w db_part =
  dp_get :: "'w \<Rightarrow> db"
  dp_put :: "db \<Rightarrow> 'w \<Rightarrow> 'w"

definition ErrBusy :: go_error where
  "ErrBusy = Sentinel ''scheduler: job already in flight''"

definition backoff :: "sched_config \<Rightarrow> int \<Rightarrow> int" where
  "backoff cfg retry =
    (if retry \<le> 0 then sg_BaseBackoff cfg
     else (let d = sg_BaseBackoff cfg * 2 ^ nat (min retry 5) in if minutes 5 < d then minutes 5 else d))"

definition error_code :: "go_error \<Rightarrow> string" where
  "error_code e = (case errs_as e of Some b \<Rightarrow> code_string (biz_code b) | None \<Rightarrow> ''error'')"

text \<open>The job of a key, when the query works and finds one.\<close>

definition job_of :: "string \<Rightarrow> string \<Rightarrow> db \<Rightarrow> refresh_job option" where
  "job_of acct cp s = (case GetRefreshJobByKey acct cp s of Inl e \<Rightarrow> None | Inr j \<Rightarrow> j)"

text \<open>A statement whose error is dropped.\<close>

definition run_stmt :: "'w db_part \<Rightarrow> (db \<Rightarrow> go_error + db) \<Rightarrow> 'w \<Rightarrow> 'w" where
  "run_stmt dp f w = (case f (dp_get dp w) of Inl e \<Rightarrow> w | Inr s' \<Rightarrow> dp_put dp s' w)"

definition runJob ::
  "'w db_part \<Rightarrow> sched_config \<Rightarrow> sched_clock \<Rightarrow> refresh_job \<Rightarrow> 'w job_fn \<Rightarrow> 'w \<Rightarrow> 'w" where
  "runJob dp cfg ck job fn w0 =
    (let (err, w) = fn (rj_AccountID job) w0; finished = sk_Fmt ck (sk_Finish ck) in
     case err of
       None \<Rightarrow> run_stmt dp (UpdateRefreshJobState (rj_ID job) ''success'' finished finished finished 0 [] (sk_nw ck)) w
     | Some e \<Rightarrow>
         (let retry = (case job_of (rj_AccountID job) (rj_Capability job) (dp_get dp w) of
                         Some cur \<Rightarrow> rj_RetryCount cur + 1 | None \<Rightarrow> 0);
              nextRun = sk_Fmt ck (sk_Next ck + backoff cfg retry)
          in if sg_MaxRetries cfg \<le> retry
             then run_stmt dp (UpdateRefreshJobState (rj_ID job) ''failed'' finished nextRun [] retry (error_code e) (sk_nw ck)) w
             else run_stmt dp (UpdateRefreshJobState (rj_ID job) ''failed'' finished nextRun [] retry (error_code e) (sk_nw ck)) w))"

text \<open>\<open>fmt.Sprintf("%x", n)\<close>\<close>

function (sequential) hex_text :: "nat \<Rightarrow> string" where
  "hex_text n = (if n < 16 then [''0123456789abcdef'' ! n]
     else hex_text (n div 16) @ [''0123456789abcdef'' ! (n mod 16)])"
  by pat_completeness auto
termination
  by (relation "measure id") auto

declare hex_text.simps [simp del]

definition new_job :: "sched_clock \<Rightarrow> string \<Rightarrow> string \<Rightarrow> int \<Rightarrow> refresh_job" where
  "new_job ck acct cp retry = \<lparr>rj_ID = ''job_'' @ hex_text (nat (sk_Start ck)), rj_AccountID = acct,
     rj_Capability = cp, rj_State = ''running'', rj_StartedAt = sk_Fmt ck (sk_Start ck), rj_FinishedAt = [],
     rj_NextRunAt = [], rj_LastSuccessAt = [], rj_RetryCount = retry, rj_LastErrorCode = [],
     rj_CreatedAt = sk_Fmt ck (sk_Start ck), rj_UpdatedAt = []\<rparr>"

definition zero_job :: refresh_job where
  "zero_job = \<lparr>rj_ID = [], rj_AccountID = [], rj_Capability = [], rj_State = [], rj_StartedAt = [],
     rj_FinishedAt = [], rj_NextRunAt = [], rj_LastSuccessAt = [], rj_RetryCount = 0, rj_LastErrorCode = [],
     rj_CreatedAt = [], rj_UpdatedAt = []\<rparr>"

definition Enqueue ::
  "'w db_part \<Rightarrow> (string \<Rightarrow> 'w job_fn option) \<Rightarrow> sched_config \<Rightarrow> sched_clock \<Rightarrow> string set \<Rightarrow> string \<Rightarrow> string \<Rightarrow> 'w
     \<Rightarrow> (refresh_job option \<times> go_error option) \<times> 'w" where
  "Enqueue dp jobs cfg ck inflight acct cp w =
    (case jobs cp of
       None \<Rightarrow> ((None, Some (BizErr (errs_new CodeUnsupported (''unsupported capability: '' @ cp)))), w)
     | Some fn \<Rightarrow>
         if acct @ ''|'' @ cp \<in> inflight then ((job_of acct cp (dp_get dp w), Some ErrBusy), w)
         else (let cur = job_of acct cp (dp_get dp w) in
           if (case cur of None \<Rightarrow> False | Some j \<Rightarrow> job_active j) then ((cur, Some ErrBusy), w)
           else (let job = new_job ck acct cp (case cur of None \<Rightarrow> 0 | Some j \<Rightarrow> rj_RetryCount j) in
             (case UpsertRefreshJob job (sk_nw ck) (dp_get dp w) of
                Inl e \<Rightarrow> ((None, Some e), w)
              | Inr s1 \<Rightarrow>
                  (let w2 = runJob dp cfg ck job fn (dp_put dp s1 w) in
                   case GetRefreshJob (rj_ID job) (dp_get dp w2) of
                     Inl e \<Rightarrow> ((Some zero_job, Some e), w2)
                   | Inr j \<Rightarrow> ((Some j, None), w2))))))"

section \<open>Backoff\<close>

lemma minutes_5 [simp]: "minutes 5 = 300000000000"
  by (simp add: minutes_def seconds_def)

text \<open>
  With a base of at most five minutes the delay before the next run is never shorter than
  the base, never longer than five minutes, grows with the number of failures, and is the
  base doubled once for each failure until that limit.
\<close>

theorem backoff_bounds:
  assumes "0 \<le> sg_BaseBackoff cfg" and "sg_BaseBackoff cfg \<le> minutes 5" and "m \<le> n"
  shows "sg_BaseBackoff cfg \<le> backoff cfg n \<and> backoff cfg n \<le> minutes 5 \<and> backoff cfg m \<le> backoff cfg n \<and>
    (0 \<le> n \<and> n \<le> 5 \<longrightarrow> backoff cfg n = min (minutes 5) (sg_BaseBackoff cfg * 2 ^ nat n))"
proof -
  have grow: "sg_BaseBackoff cfg * 2 ^ a \<le> sg_BaseBackoff cfg * 2 ^ b" if "a \<le> b" for a b :: nat
    using that assms(1) by (intro mult_left_mono power_increasing) auto
  have one: "sg_BaseBackoff cfg \<le> sg_BaseBackoff cfg * 2 ^ a" for a :: nat
    using grow [of 0 a] by simp
  have "nat (min m 5) \<le> nat (min n 5)" using assms(3) by (intro nat_mono) auto
  with grow have "sg_BaseBackoff cfg * 2 ^ nat (min m 5) \<le> sg_BaseBackoff cfg * 2 ^ nat (min n 5)" by blast
  moreover have "0 \<le> n \<and> n \<le> 5 \<Longrightarrow> backoff cfg n = min (minutes 5) (sg_BaseBackoff cfg * 2 ^ nat n)"
    using assms(2) by (cases "n = 0") (auto simp: backoff_def Let_def min_def)
  ultimately show ?thesis
    using assms one [of "nat (min n 5)"] by (auto simp: backoff_def Let_def)
qed

lemma backoff_bounds_witness:
  "backoff DefaultConfig 3 = seconds 40 \<and> backoff DefaultConfig 2 \<le> backoff DefaultConfig 3 \<and>
   backoff DefaultConfig 9 \<le> minutes 5"
proof -
  have h: "0 \<le> sg_BaseBackoff DefaultConfig" "sg_BaseBackoff DefaultConfig \<le> minutes 5"
    by (simp_all add: DefaultConfig_def seconds_def)
  show ?thesis
    using backoff_bounds [OF h, of 2 3] backoff_bounds [OF h, of 9 9] by (simp add: DefaultConfig_def seconds_def min_def)
qed

section \<open>Runs\<close>

text \<open>
  What the scheduler relies on when it works on the world through its database: what was
  written is read back.
\<close>

locale db_field =
  fixes dp :: "'w db_part"
  assumes get_put: "dp_get dp (dp_put dp s w) = s"

text \<open>The handlers' world is the database beside the vault.\<close>

definition fst_part :: "(db \<times> 'v) db_part" where
  "fst_part = \<lparr>dp_get = fst, dp_put = (\<lambda>s w. (s, snd w))\<rparr>"

lemma fst_part_simps [simp]: "dp_get fst_part w = fst w" "dp_put fst_part s w = (s, snd w)"
  by (simp_all add: fst_part_def)

interpretation world: db_field fst_part
  by unfold_locales simp

definition job_upsert :: "refresh_job \<Rightarrow> string \<Rightarrow> refresh_job list \<Rightarrow> refresh_job list" where
  "job_upsert j nw rows = upsert_row (\<lambda>r. job_key r = job_key j)
        (\<lambda>r. r\<lparr>rj_ID := rj_ID j, rj_State := rj_State j, rj_StartedAt := rj_StartedAt j,
               rj_FinishedAt := rj_FinishedAt j, rj_NextRunAt := rj_NextRunAt j,
               rj_LastSuccessAt := rj_LastSuccessAt j, rj_RetryCount := rj_RetryCount j,
               rj_LastErrorCode := rj_LastErrorCode j, rj_UpdatedAt := nw\<rparr>)
        (j\<lparr>rj_CreatedAt := nw, rj_UpdatedAt := nw\<rparr>) rows"

lemma job_upsert_find:
  assumes "\<not> has_row (\<lambda>r. rj_ID r = rj_ID j \<and> job_key r \<noteq> job_key j) rows"
  shows "\<exists>j1. find (\<lambda>r. rj_ID r = rj_ID j) (job_upsert j nw rows) = Some j1 \<and>
    find (\<lambda>r. job_key r = job_key j) (job_upsert j nw rows) = Some j1 \<and> rj_RetryCount j1 = rj_RetryCount j"
proof (cases "has_row (\<lambda>r. job_key r = job_key j) rows")
  case True
  have "\<exists>j1. find (\<lambda>r. rj_ID r = rj_ID j) (upd_where (\<lambda>r. job_key r = job_key j) f rows) = Some j1 \<and>
    find (\<lambda>r. job_key r = job_key j) (upd_where (\<lambda>r. job_key r = job_key j) f rows) = Some j1 \<and>
    rj_RetryCount j1 = rj_RetryCount j"
    if "\<And>r. rj_ID (f r) = rj_ID j \<and> job_key (f r) = job_key r \<and> rj_RetryCount (f r) = rj_RetryCount j"
    for f :: "refresh_job \<Rightarrow> refresh_job"
    using True assms by (induction rows) (auto simp: that)
  from this [of "\<lambda>r. r\<lparr>rj_ID := rj_ID j, rj_State := rj_State j, rj_StartedAt := rj_StartedAt j,
      rj_FinishedAt := rj_FinishedAt j, rj_NextRunAt := rj_NextRunAt j, rj_LastSuccessAt := rj_LastSuccessAt j,
      rj_RetryCount := rj_RetryCount j, rj_LastErrorCode := rj_LastErrorCode j, rj_UpdatedAt := nw\<rparr>"]
  show ?thesis using True by (simp add: job_upsert_def upsert_row_def job_key_def)
next
  case False
  then have "find (\<lambda>r. job_key r = job_key j) rows = None" by (simp add: find_None_has_row)
  moreover have "find (\<lambda>r. rj_ID r = rj_ID j) rows = None"
    using assms False by (auto simp: find_None_has_row has_row_iff)
  ultimately show ?thesis using False
    by (simp add: job_upsert_def upsert_row_def find_append job_key_def)
qed

definition finished_job :: "sched_config \<Rightarrow> sched_clock \<Rightarrow> int \<Rightarrow> go_error option \<Rightarrow> refresh_job \<Rightarrow> refresh_job" where
  "finished_job cfg ck prev err j = (case err of
     None \<Rightarrow> j\<lparr>rj_State := ''success'', rj_FinishedAt := sk_Fmt ck (sk_Finish ck),
       rj_NextRunAt := sk_Fmt ck (sk_Finish ck), rj_LastSuccessAt := sk_Fmt ck (sk_Finish ck), rj_RetryCount := 0,
       rj_LastErrorCode := [], rj_UpdatedAt := sk_nw ck\<rparr>
   | Some e \<Rightarrow> j\<lparr>rj_State := ''failed'', rj_FinishedAt := sk_Fmt ck (sk_Finish ck),
       rj_NextRunAt := sk_Fmt ck (sk_Next ck + backoff cfg (prev + 1)), rj_LastSuccessAt := [],
       rj_RetryCount := prev + 1, rj_LastErrorCode := error_code e, rj_UpdatedAt := sk_nw ck\<rparr>)"

context db_field
begin

lemma runJob_finishes:
  assumes "dp_get dp w0 = s" and "db_down s = None"
    and "refresh_jobs s = job_upsert job nw rows"
    and "\<not> has_row (\<lambda>r. rj_ID r = rj_ID job \<and> job_key r \<noteq> job_key job) rows"
    and "refresh_jobs (dp_get dp (snd (fn (rj_AccountID job) w0))) = refresh_jobs s"
    and "db_down (dp_get dp (snd (fn (rj_AccountID job) w0))) = None"
  shows "\<exists>j1. GetRefreshJob (rj_ID job) (dp_get dp (runJob dp cfg ck job fn w0)) =
    Inr (finished_job cfg ck (rj_RetryCount job) (fst (fn (rj_AccountID job) w0)) j1)"
proof -
  obtain err w where f: "fn (rj_AccountID job) w0 = (err, w)" by (cases "fn (rj_AccountID job) w0")
  obtain j1 where j1: "find (\<lambda>r. rj_ID r = rj_ID job) (job_upsert job nw rows) = Some j1"
    "find (\<lambda>r. job_key r = job_key job) (job_upsert job nw rows) = Some j1" "rj_RetryCount j1 = rj_RetryCount job"
    using job_upsert_find [OF assms(4), of nw] by blast
  let ?s = "dp_get dp w"
  have tab: "refresh_jobs ?s = job_upsert job nw rows" and up: "db_down ?s = None"
    using assms(3,5,6) f by simp_all
  have prev: "job_of (rj_AccountID job) (rj_Capability job) ?s = Some j1"
    using j1(2) up by (simp add: job_of_def GetRefreshJobByKey_def with_db_def tab job_key_def)
  have get: "GetRefreshJob (rj_ID job) (?s\<lparr>refresh_jobs := upd_where (\<lambda>r. rj_ID r = rj_ID job) g (refresh_jobs ?s)\<rparr>) =
      Inr (g j1)" if "\<And>r. rj_ID (g r) = rj_ID r" for g :: "refresh_job \<Rightarrow> refresh_job"
    using find_upd_where_key [of rj_ID g "rj_ID job" "refresh_jobs ?s"] that j1(1) up
    by (simp add: GetRefreshJob_def with_db_def query_row_def tab)
  show ?thesis
  proof (cases err)
    case None
    show ?thesis
      by (rule exI [of _ j1])
        (simp add: runJob_def f None run_stmt_def UpdateRefreshJobState_def with_db_def up get_put get finished_job_def
          Let_def)
  next
    case (Some e)
    show ?thesis
      by (rule exI [of _ j1])
        (simp add: runJob_def f Some prev j1(3) run_stmt_def UpdateRefreshJobState_def with_db_def up get_put get
          finished_job_def Let_def)
  qed
qed

lemma Enqueue_finishes:
  assumes "jobs cp = Some fn" and "acct @ ''|'' @ cp \<notin> inflight" and "db_down (dp_get dp w) = None"
    and "case job_of acct cp (dp_get dp w) of None \<Rightarrow> True | Some j \<Rightarrow> \<not> job_active j"
    and fresh: "\<not> has_row (\<lambda>r. rj_ID r = ''job_'' @ hex_text (nat (sk_Start ck)) \<and> job_key r \<noteq> (acct, cp))
                 (refresh_jobs (dp_get dp w))"
    and keeps: "\<And>w'. refresh_jobs (dp_get dp (snd (fn acct w'))) = refresh_jobs (dp_get dp w') \<and>
                    db_down (dp_get dp (snd (fn acct w'))) = db_down (dp_get dp w')"
  shows "\<exists>j w0. fst (Enqueue dp jobs cfg ck inflight acct cp w) = (Some
    (finished_job cfg ck (case job_of acct cp (dp_get dp w) of None \<Rightarrow> 0 | Some c \<Rightarrow> rj_RetryCount c)
          (fst (fn acct w0)) j), None)"
proof -
  define prev where "prev = (case job_of acct cp (dp_get dp w) of None \<Rightarrow> 0 | Some c \<Rightarrow> rj_RetryCount c)"
  define job where "job = new_job ck acct cp prev"
  have idle: "\<not> (case job_of acct cp (dp_get dp w) of None \<Rightarrow> False | Some j \<Rightarrow> job_active j)"
    using assms(4) by (simp split: option.splits)
  have key: "job_key job = (acct, cp)" "rj_ID job = ''job_'' @ hex_text (nat (sk_Start ck))"
    "rj_AccountID job = acct" "rj_RetryCount job = prev"
    by (simp_all add: job_def new_job_def job_key_def)
  define s1 where "s1 = (dp_get dp w)\<lparr>refresh_jobs := job_upsert job (sk_nw ck) (refresh_jobs (dp_get dp w))\<rparr>"
  have ups: "UpsertRefreshJob job (sk_nw ck) (dp_get dp w) = Inr s1"
    using assms(3) fresh by (simp add: UpsertRefreshJob_def with_db_def s1_def job_upsert_def key)
  obtain j1 where j1: "GetRefreshJob (rj_ID job) (dp_get dp (runJob dp cfg ck job fn (dp_put dp s1 w))) =
      Inr (finished_job cfg ck prev (fst (fn acct (dp_put dp s1 w))) j1)"
    using runJob_finishes [of "dp_put dp s1 w" s1 job "sk_nw ck" "refresh_jobs (dp_get dp w)" fn cfg ck]
      assms(3) fresh keeps by (auto simp: get_put s1_def key)
  have "fst (Enqueue dp jobs cfg ck inflight acct cp w) =
      (Some (finished_job cfg ck prev (fst (fn acct (dp_put dp s1 w))) j1), None)"
    using assms(1,2) idle by (simp add: Enqueue_def Let_def prev_def [symmetric] job_def [symmetric] ups j1)
  then show ?thesis unfolding prev_def [symmetric] by blast
qed

end


text \<open>After the sweep of a restart no job blocks its key.\<close>

lemma restart_unblocks:
  assumes "MarkInterruptedRefreshJobs nw s = Inr (n, s')"
  shows "case job_of acct cp s' of None \<Rightarrow> True | Some j \<Rightarrow> \<not> job_active j"
proof -
  have "refresh_jobs s' = upd_where job_active (\<lambda>r. r\<lparr>rj_State := ''interrupted'', rj_UpdatedAt := nw\<rparr>) (refresh_jobs s)"
    using assms by (auto simp: MarkInterruptedRefreshJobs_def with_db_def split: option.splits)
  then have "\<not> has_row job_active (refresh_jobs s')"
    by (auto simp: has_row_iff set_upd_where job_active_def)
  then show ?thesis
    by (auto simp: job_of_def GetRefreshJobByKey_def with_db_def has_row_iff split: option.splits sum.splits dest: find_SomeD)
qed

text \<open>
  C22: after the sweep of a restart a refresh of any account and capability that is not in
  flight runs to its end, whatever its state was: it answers with a job that is not left
  running, but successful, with its retries reset, or failed, with one retry more and the
  next run after the backoff. A failure erases the time of the last success, and a job that
  has failed as often as \<open>MaxRetries\<close> allows runs again all the same.
\<close>

theorem refresh_job_finishes:
  assumes "MarkInterruptedRefreshJobs nw0 s0 = Inr (n, s)" and "db_down s = None"
    and "jobs cp = Some fn" and "acct @ ''|'' @ cp \<notin> inflight"
    and "\<not> has_row (\<lambda>r. rj_ID r = ''job_'' @ hex_text (nat (sk_Start ck)) \<and> job_key r \<noteq> (acct, cp)) (refresh_jobs s)"
    and "\<And>w'. fst (fn acct w') = err \<and> refresh_jobs (fst (snd (fn acct w'))) = refresh_jobs (fst w') \<and>
           db_down (fst (snd (fn acct w'))) = db_down (fst w')"
  shows "\<exists>j. fst (Enqueue fst_part jobs cfg ck inflight acct cp (s, v)) = (Some j, None) \<and>
    (case err of
       None \<Rightarrow> rj_State j = ''success'' \<and> rj_RetryCount j = 0 \<and> rj_LastSuccessAt j = sk_Fmt ck (sk_Finish ck)
     | Some e \<Rightarrow> rj_State j = ''failed'' \<and> rj_LastSuccessAt j = [] \<and> rj_LastErrorCode j = error_code e \<and>
         (let retry = (case job_of acct cp s of None \<Rightarrow> 0 | Some c \<Rightarrow> rj_RetryCount c) + 1
          in rj_RetryCount j = retry \<and> rj_NextRunAt j = sk_Fmt ck (sk_Next ck + backoff cfg retry)))"
proof -
  obtain j where "fst (Enqueue fst_part jobs cfg ck inflight acct cp (s, v)) =
      (Some (finished_job cfg ck (case job_of acct cp s of None \<Rightarrow> 0 | Some c \<Rightarrow> rj_RetryCount c) err j), None)"
    using world.Enqueue_finishes [of jobs cp fn acct inflight "(s, v)" ck cfg] restart_unblocks [OF assms(1)]
      assms(2-6) by auto
  then show ?thesis
    by (auto simp: finished_job_def Let_def split: option.split)
qed


definition stuck_job :: refresh_job where
  "stuck_job = zero_job\<lparr>rj_ID := ''job_1'', rj_AccountID := ''a'', rj_Capability := ''models'',
     rj_State := ''running'', rj_LastSuccessAt := ''yesterday'', rj_RetryCount := 7\<rparr>"

definition demo_clock :: sched_clock where
  "demo_clock = \<lparr>sk_Start = 255, sk_Finish = 256, sk_Next = 0, sk_Fmt = itoa, sk_nw = ''now''\<rparr>"

lemma refresh_job_finishes_witness:
  "\<exists>j. fst (Enqueue fst_part (\<lambda>c. Some (\<lambda>a w. (Some ErrNoRows, w))) DefaultConfig demo_clock {} ''a'' ''models''
     (snd (projr (MarkInterruptedRefreshJobs ''n'' (empty_db\<lparr>refresh_jobs := [stuck_job]\<rparr>))), ())) = (Some j, None) \<and>
     rj_RetryCount j = 8 \<and> rj_LastSuccessAt j = []"
proof -
  let ?before = "empty_db\<lparr>refresh_jobs := [stuck_job]\<rparr>"
  let ?s = "empty_db\<lparr>refresh_jobs := [stuck_job\<lparr>rj_State := ''interrupted'', rj_UpdatedAt := ''n''\<rparr>]\<rparr>"
  have m: "MarkInterruptedRefreshJobs ''n'' ?before = Inr (1, ?s)"
    by code_simp
  have up: "db_down ?s = None" by (simp add: empty_db_def)
  have fresh: "\<not> has_row (\<lambda>r. rj_ID r = ''job_'' @ hex_text (nat (sk_Start demo_clock)) \<and> job_key r \<noteq> (''a'', ''models''))
      (refresh_jobs ?s)"
    by code_simp
  have k: "map_option rj_RetryCount (job_of ''a'' ''models'' ?s) = Some 7"
    by code_simp
  then obtain c where c: "job_of ''a'' ''models'' ?s = Some c" "rj_RetryCount c = 7" by auto
  obtain j where "fst (Enqueue fst_part (\<lambda>c. Some (\<lambda>a w. (Some ErrNoRows, w))) DefaultConfig demo_clock {} ''a'' ''models''
      (?s, ())) = (Some j, None)" "rj_RetryCount j = 8 \<and> rj_LastSuccessAt j = []"
    using refresh_job_finishes [OF m up, of "\<lambda>c. Some (\<lambda>a w. (Some ErrNoRows, w))" "''models''"
        "\<lambda>a w. (Some ErrNoRows, w)" "''a''" "{}" demo_clock "Some ErrNoRows" DefaultConfig "()"] fresh
    by (auto simp: c Let_def)
  then show ?thesis by (simp add: m)
qed

end
