(* ===== verification/Accounts.thy ===== *)
theory Accounts
  imports ApiAdmin Oauth Connectors Quota Scheduler
begin

text \<open>
  Accounts: the resolution of an account to an upstream target with its credential
  (\<open>internal/api/api.go\<close>), model discovery, the capability check
  (\<open>internal/accounts/accounts.go\<close>) and the account handlers. The world is the database
  beside the state of the vault. A refresh of OAuth tokens is the whole call of its creator
  (its interleavings are in \<open>Oauth\<close>); the services that \<open>NewApp\<close> always sets are not
  optional here.
\<close>

record 'v app_env =
  ev_Ops :: "'v vault_ops"
  ev_OAuth :: "string \<Rightarrow> oauth_provider option"
  ev_CapOAuth :: "string \<Rightarrow> bool"
  ev_Call :: call_env
  ev_Fmt :: "int \<Rightarrow> string"
  ev_Now :: int
  ev_Rand :: string
  ev_Sched :: sched_clock
  ev_Inflight :: "string set"

definition ev_nw :: "'v app_env \<Rightarrow> string" where
  "ev_nw env = ev_Fmt env (ev_Now env)"

type_synonym 'v world = "db \<times> 'v"
type_synonym 'v app_handler = "http_request \<Rightarrow> 'v world \<Rightarrow> http_response \<times> 'v world"

definition audit_in :: "'v app_env \<Rightarrow> string \<Rightarrow> string \<Rightarrow> string \<Rightarrow> db \<Rightarrow> db" where
  "audit_in env action tgt detail s = audit (ev_Now env) (ev_nw env) action tgt detail s"

section \<open>Targets\<close>

definition base_url_of :: "provider \<Rightarrow> string" where
  "base_url_of prov = (if pv_BaseURL prov = [] then defaultBaseURL (pv_Kind prov) else pv_BaseURL prov)"

definition account_ref :: "account \<Rightarrow> secret_ref" where
  "account_ref acc = zero_ref\<lparr>sr_VaultProvider := ac_VaultProvider acc, sr_Service := ac_SecretService acc,
     sr_Account := ac_SecretAccount acc\<rparr>"

definition make_target :: "provider \<Rightarrow> string \<Rightarrow> string \<Rightarrow> target" where
  "make_target prov key m = \<lparr>t_ProviderKind = pv_Kind prov, t_BaseURL = base_url_of prov, t_APIKey = key, t_ModelID = m\<rparr>"

definition with_ref :: "secret_ref \<Rightarrow> account \<Rightarrow> account" where
  "with_ref ref acc = acc\<lparr>ac_VaultProvider := sr_VaultProvider ref, ac_SecretService := sr_Service ref,
     ac_SecretAccount := sr_Account ref, ac_SecretFingerprint := sr_Fingerprint ref\<rparr>"

definition resolveOAuthTarget ::
  "'v app_env \<Rightarrow> account \<Rightarrow> provider \<Rightarrow> string \<Rightarrow> 'v world \<Rightarrow> (go_error + target) \<times> 'v world" where
  "resolveOAuthTarget env acc prov m w =
    (case ev_OAuth env (pv_Kind prov) of
       None \<Rightarrow> (Inl (TextError (''platform '' @ pv_Kind prov @ '' has no OAuth service'')), w)
     | Some p \<Rightarrow>
         (let ref = account_ref acc;
              ((newRef, bundle, err), v') = refreshOnce (ev_Ops env) (ce_Net (ev_Call env)) p (ev_Fmt env) (ev_Now env)
                (sr_Service ref) (sr_Account ref) ref (snd w)
          in case err of
               Some e \<Rightarrow>
                 if errors_is e ErrRefreshRejected
                 then (Inl (WrapError ''oauth credential expired, authorize again: '' e []),
                       (keep_db (fst w) (SetAccountAuthState (ac_ID acc) AuthStateReauthRequired (ev_nw env) (fst w)), v'))
                 else (Inl (WrapError ''oauth refresh failed: '' e []), (fst w, v'))
             | None \<Rightarrow>
                 (let s' = (if sr_Fingerprint newRef \<noteq> ac_SecretFingerprint acc
                            then keep_db (fst w) (UpdateAccountSecretRef (ac_ID acc) (with_ref newRef acc) (ev_nw env) (fst w))
                            else fst w)
                  in (Inr (make_target prov (tb_AccessToken bundle) m), (s', v')))))"

definition resolveTarget ::
  "'v app_env \<Rightarrow> account \<Rightarrow> string \<Rightarrow> 'v world \<Rightarrow> (go_error + target) \<times> 'v world" where
  "resolveTarget env acc m w =
    (case GetProvider (ac_ProviderID acc) (fst w) of
       Inl e \<Rightarrow> (Inl e, w)
     | Inr prov \<Rightarrow>
         if ac_Status acc \<noteq> ''active'' then (Inl (TextError (''account unavailable: '' @ ac_Status acc)), w)
         else if ac_AuthType acc = AuthOAuth then resolveOAuthTarget env acc prov m w
         else (case v_Get (ev_Ops env) (account_ref acc) (snd w) of
             Inl e \<Rightarrow> (Inl e, w)
           | Inr sec \<Rightarrow> (Inr (make_target prov sec m), w)))"

definition resolveTargetFromRef :: "'v app_env \<Rightarrow> provider \<Rightarrow> secret_ref \<Rightarrow> 'v \<Rightarrow> go_error + target" where
  "resolveTargetFromRef env prov ref v =
     map_sum id (\<lambda>sec. make_target prov sec []) (v_Get (ev_Ops env) ref v)"

definition ResolveForRouter :: "'v app_env \<Rightarrow> string \<Rightarrow> 'v world \<Rightarrow> (go_error + resolved_target) \<times> 'v world" where
  "ResolveForRouter env i w =
    (case GetAccount i (fst w) of
       Inl e \<Rightarrow> (Inl e, w)
     | Inr acc \<Rightarrow>
         (case resolveTarget env acc [] w of
            (Inl e, w') \<Rightarrow> (Inl e, w')
          | (Inr t, w') \<Rightarrow> (Inr \<lparr>rt_AccountID = ac_ID acc, rt_ModelID = t_ModelID t, rt_Target = t\<rparr>, w')))"

text \<open>Of the database, a resolution changes nothing but the rows of accounts.\<close>

lemma resolveTarget_accounts: "\<exists>as. fst (snd (resolveTarget env acc m w)) = (fst w)\<lparr>accounts := as\<rparr>"
proof -
  have same: "\<exists>as. s = s\<lparr>accounts := as\<rparr>" for s :: db by (rule exI [of _ "accounts s"]) simp
  have "\<exists>as. keep_db s (UpdateAccountSecretRef i a nw s) = s\<lparr>accounts := as\<rparr>"
    "\<exists>as. keep_db s (SetAccountAuthState i x nw s) = s\<lparr>accounts := as\<rparr>" for s i a nw x
    using same [of s]
    by (auto simp: keep_db_def UpdateAccountSecretRef_def SetAccountAuthState_def with_db_Inr update_account_def split: sum.split)
  with same show ?thesis
    by (auto simp: resolveTarget_def resolveOAuthTarget_def Let_def split: sum.split option.split prod.split)
qed

lemma ResolveForRouter_accounts: "\<exists>as. fst (snd (ResolveForRouter env i w)) = (fst w)\<lparr>accounts := as\<rparr>"
proof (cases "GetAccount i (fst w)")
  case (Inl e)
  then show ?thesis by (simp add: ResolveForRouter_def) (rule exI [of _ "accounts (fst w)"], simp)
next
  case (Inr acc)
  obtain r s v where "resolveTarget env acc [] w = (r, (s, v))" by (metis surj_pair)
  with Inr resolveTarget_accounts [of env acc "[]" w] show ?thesis
    by (auto simp: ResolveForRouter_def split: sum.split)
qed

text \<open>So every other table is as it was.\<close>

lemma resolved_frame:
  assumes "\<And>s as. f (s\<lparr>accounts := as\<rparr>) = f s"
  shows "f (fst (snd (resolveTarget env acc m w))) = f (fst w)" "f (fst (snd (ResolveForRouter env i w))) = f (fst w)"
  using resolveTarget_accounts [of env acc m w] ResolveForRouter_accounts [of env i w] assms by auto

section \<open>Discovery\<close>

definition provModelID :: "string \<Rightarrow> string \<Rightarrow> string" where
  "provModelID pid up = pid @ ''|'' @ up"

definition found_models :: "string \<Rightarrow> model_info list \<Rightarrow> model list" where
  "found_models pid infos = map (\<lambda>mi. \<lparr>mo_ID = provModelID pid (mi_UpstreamID mi), mo_ProviderID = pid,
     mo_UpstreamID = mi_UpstreamID mi, mo_CanonicalAlias = [], mo_ContextLimit = mi_ContextLimit mi,
     mo_Capabilities = []\<rparr>) infos"

definition found_rows :: "string \<Rightarrow> model_info list \<Rightarrow> model_info_row list" where
  "found_rows pid infos = map (\<lambda>mi. \<lparr>mir_ModelID = provModelID pid (mi_UpstreamID mi), mir_Listed = True,
     mir_Probed = False, mir_Usable = True\<rparr>) infos"

definition RunDiscover :: "'v app_env \<Rightarrow> account \<Rightarrow> 'v world \<Rightarrow> go_error option \<times> 'v world" where
  "RunDiscover env acc w =
    (case resolveTarget env acc [] w of
       (Inl e, w1) \<Rightarrow> (Some e, w1)
     | (Inr t, w1) \<Rightarrow>
         (case DiscoverModels (ev_Call env) (NewConnector (t_ProviderKind t)) t of
            Inl e \<Rightarrow> (Some e, w1)
          | Inr infos \<Rightarrow>
              (case UpsertModels (found_models (ac_ProviderID acc) infos) (ev_nw env) (fst w1) of
                 Inl e \<Rightarrow> (Some e, w1)
               | Inr s2 \<Rightarrow>
                   (case SaveAccountModels (ac_ID acc) (found_rows (ac_ProviderID acc) infos) (ev_nw env) s2 of
                      Inl e \<Rightarrow> (Some e, (s2, snd w1))
                    | Inr s3 \<Rightarrow> (None, (s3, snd w1))))))"

section \<open>Capabilities\<close>

definition ConnectorVersion :: string where "ConnectorVersion = ''0.1.0''"

definition cap_of :: "string \<Rightarrow> string \<Rightarrow> string \<Rightarrow> string \<Rightarrow> account_capability" where
  "cap_of nw name status reason = \<lparr>cap_AccountID = [], cap_Capability = name, cap_Status = status,
     cap_Reason = reason, cap_ConnectorVersion = ConnectorVersion, cap_CheckedAt = nw\<rparr>"

definition statusFromErr :: "go_error \<Rightarrow> string" where
  "statusFromErr e = (if errors_is e ErrAuth then CapabilityPermissionRequired
     else if errors_is e ErrRateLimited then CapabilityUnknown else CapabilityError)"

definition subscriptionCapability :: "string \<Rightarrow> string \<Rightarrow> string \<times> string" where
  "subscriptionCapability kind auth =
    (if kind = ''codex'' then (CapabilityUnknown, ''observed passively from response headers'')
     else if kind = ''anthropic'' then (CapabilityPermissionRequired, ''needs an organisation admin credential'')
     else if kind = ''gemini'' then (CapabilityUnsupported, ''needs GCP billing permission'')
     else if auth = AuthOAuth then (CapabilityUnknown, ''to be verified for this platform'')
     else (CapabilityUnsupported, ''no verified way to read subscriptions''))"

definition quotaCapability :: "string \<Rightarrow> string \<Rightarrow> string \<times> string" where
  "quotaCapability kind auth =
    (if kind = ''codex'' then (CapabilityUnknown, ''observed passively from response headers'')
     else if kind = ''gemini'' then (CapabilityPermissionRequired, ''needs cloud monitoring permission'')
     else if kind = ''anthropic'' then (CapabilityPermissionRequired, ''needs an admin credential'')
     else (CapabilityUnsupported, ''no verified way to read quota''))"

definition staticCatalogFor :: "string \<Rightarrow> string list" where
  "staticCatalogFor kind = (if kind = KindAnthropic then
     [''claude-3-5-haiku-20241022'', ''claude-3-5-sonnet-20241022'', ''claude-3-5-sonnet-20240620'',
      ''claude-sonnet-4-20250514'', ''claude-opus-4-20250514'', ''claude-3-opus-20240229'', ''claude-3-haiku-20240307'']
     else [])"

definition verify_cap :: "'v app_env \<Rightarrow> account \<Rightarrow> connector_impl \<Rightarrow> target option \<Rightarrow> string \<times> string" where
  "verify_cap env acc conn t =
    (if ac_AuthType acc = AuthManual then (CapabilityUnsupported, ''manual data, nothing to verify'')
     else (case t of
         None \<Rightarrow> (CapabilityError, ''credential cannot be resolved'')
       | Some tg \<Rightarrow> (case ValidateCredential (ev_Call env) conn tg of
             None \<Rightarrow> (CapabilitySupported, []) | Some e \<Rightarrow> (statusFromErr e, ''verification failed''))))"

definition discover_cap :: "'v app_env \<Rightarrow> string \<Rightarrow> connector_impl \<Rightarrow> target option \<Rightarrow> string \<times> string" where
  "discover_cap env kind conn t = (case t of
      None \<Rightarrow> (CapabilityError, ''credential unavailable'')
    | Some tg \<Rightarrow> (case DiscoverModels (ev_Call env) conn tg of
        Inl e \<Rightarrow> (statusFromErr e, ''discovery failed'')
      | Inr infos \<Rightarrow>
          if length infos = length (staticCatalogFor kind) \<and> 0 < length infos
          then (CapabilityUnknown, ''static catalog, live permission not verified'')
          else (CapabilitySupported, ''models found: '' @ itoa (int (length infos)))))"

definition forward_cap :: "account \<Rightarrow> bool \<Rightarrow> string \<times> string" where
  "forward_cap acc credsOK =
    (if ac_Mode acc = ModeMonitorOnly then (CapabilityUnsupported, ''monitor-only account'')
     else if \<not> credsOK then (CapabilityError, ''credential unavailable'')
     else if ac_AuthState acc = AuthStateReauthRequired \<or> ac_AuthState acc = AuthStateExpired
       then (CapabilityReauthRequired, ''authorization expired'')
     else (CapabilitySupported, []))"

definition oauth_cap :: "bool \<Rightarrow> account \<Rightarrow> string \<times> string" where
  "oauth_cap registered acc =
    (if \<not> registered then (CapabilityUnsupported, ''no verified OAuth for this platform'')
     else if ac_AuthType acc = AuthOAuth then
       (if ac_AuthState acc = AuthStateReauthRequired then (CapabilityReauthRequired, ''authorize again'')
        else (CapabilitySupported, []))
     else if ac_AuthType acc = AuthAPIKey then (CapabilityUnsupported, ''api key in use'')
     else (CapabilityUnknown, ''neither OAuth nor api key''))"

definition refresh_cap :: "account \<Rightarrow> string \<times> string" where
  "refresh_cap acc =
    (if ac_AuthType acc = AuthOAuth then (CapabilitySupported, ''token refresh'')
     else if ac_AuthType acc = AuthAPIKey then (CapabilityUnsupported, ''api key needs no refresh'')
     else (CapabilityUnsupported, ''manual data has no refresh''))"

definition capability_matrix :: "'v app_env \<Rightarrow> account \<Rightarrow> provider \<Rightarrow> target option \<Rightarrow> account_capability list" where
  "capability_matrix env acc prov t =
    (let kind = pv_Kind prov; conn = NewConnector kind; credsOK = (t \<noteq> None); c = (\<lambda>n sr. cap_of (ev_nw env) n (fst sr) (snd sr))
     in [c CapNameVerifyCredential (verify_cap env acc conn t), c CapNameDiscoverModels (discover_cap env kind conn t),
         c CapNameForward (forward_cap acc credsOK), c CapNameOAuth (oauth_cap (ev_CapOAuth env kind) acc),
         c CapNameSubscription (subscriptionCapability kind (ac_AuthType acc)),
         c CapNameQuota (quotaCapability kind (ac_AuthType acc)), c CapNameRefresh (refresh_cap acc),
         c CapNameProbeHealth (if credsOK then (CapabilitySupported, ''active probe within its budget'')
                               else (CapabilityError, ''credential unavailable''))])"

definition Check :: "'v app_env \<Rightarrow> account \<Rightarrow> 'v world \<Rightarrow> (go_error + account_capability list) \<times> 'v world" where
  "Check env acc w =
    (case GetProvider (ac_ProviderID acc) (fst w) of
       Inl e \<Rightarrow> (Inl (BizErr (errs_wrap CodeInternal ''reading provider failed'' e)), w)
     | Inr prov \<Rightarrow>
         (let (t, w1) = (if ac_AuthType acc = AuthManual then (None, w)
                         else (case resolveTarget env acc [] w of (Inl e, w') \<Rightarrow> (None, w') | (Inr t, w') \<Rightarrow> (Some t, w')));
              caps = capability_matrix env acc prov t
          in case SaveAccountCapabilities (ac_ID acc) caps (ev_nw env) (fst w1) of
               Inl e \<Rightarrow> (Inl (BizErr (errs_wrap CodeInternal ''saving capabilities failed'' e)), w1)
             | Inr s' \<Rightarrow> (Inr caps, (s', snd w1))))"

text \<open>The two refresh jobs the server registers (\<open>cmd/server/main.go\<close>).\<close>

definition sched_jobs :: "'v app_env \<Rightarrow> string \<Rightarrow> 'v world job_fn option" where
  "sched_jobs env cp =
    (if cp = ''models'' then Some (\<lambda>i w. case GetAccount i (fst w) of
         Inl e \<Rightarrow> (Some e, w) | Inr acc \<Rightarrow> RunDiscover env acc w)
     else if cp = ''capabilities'' then Some (\<lambda>i w. case GetAccount i (fst w) of
         Inl e \<Rightarrow> (Some e, w)
       | Inr acc \<Rightarrow> (case Check env acc w of (Inl e, w') \<Rightarrow> (Some e, w') | (Inr cs, w') \<Rightarrow> (None, w')))
     else None)"

end
