(* ===== verification/ApiAccounts.thy ===== *)
theory ApiAccounts
  imports Accounts
begin

text \<open>
  The account handlers (\<open>internal/api/api.go\<close>, and the local disconnection of
  \<open>responses_oauth.go\<close>): creation with the key in the vault, update, deletion, verification,
  discovery, rotation of the credential, quota and refresh.
\<close>

definition no_account :: "go_error \<Rightarrow> http_response" where
  "no_account e = not_found_or ''no such account'' ''reading account failed'' e"

section \<open>Creation\<close>

definition decode_account_in :: "(string \<times> json) list \<Rightarrow> (string \<times> string \<times> string \<times> string) option" where
  "decode_account_in ms = do {
     p \<leftarrow> str_field ''provider_id'' ms; n \<leftarrow> str_field ''name'' ms; k \<leftarrow> str_field ''api_key'' ms;
     m \<leftarrow> str_field ''mode'' ms; Some (p, n, k, m) }"

definition new_account :: "string \<Rightarrow> provider \<Rightarrow> string \<Rightarrow> string \<Rightarrow> secret_ref \<Rightarrow> account" where
  "new_account aid prov n m ref = \<lparr>ac_ID = aid, ac_ProviderID = pv_ID prov,
     ac_Name = (if n = [] then pv_Kind prov @ ''-'' @ take 8 aid else n), ac_Status = ''active'', ac_Mode = m,
     ac_AuthType = AuthAPIKey, ac_BillingMode = BillingUnknown, ac_AuthState = AuthStateUnknown,
     ac_VaultProvider = sr_VaultProvider ref, ac_SecretService = sr_Service ref,
     ac_SecretAccount = sr_Account ref, ac_SecretFingerprint = sr_Fingerprint ref, ac_LastVerifiedAt = []\<rparr>"

definition createAccount :: "'v app_env \<Rightarrow> 'v app_handler" where
  "createAccount env r w =
    (case read_body decode_account_in (rq_Body r) of
       None \<Rightarrow> (invalid ''invalid body'', w)
     | Some (pid, n, key, m0) \<Rightarrow>
         if pid = [] \<or> key = [] then (invalid ''provider_id or api_key missing'', w)
         else (let m = (if m0 = [] then ModeRelayAndMonitor else m0) in
           if m \<noteq> ModeMonitorOnly \<and> m \<noteq> ModeRelayAndMonitor then (invalid ''unsupported mode'', w)
           else (case GetProvider pid (fst w) of
               Inl e \<Rightarrow> (not_found_or ''no such provider'' ''reading provider failed'' e, w)
             | Inr prov \<Rightarrow>
                 (let aid = ''acc_'' @ ev_Rand env in
                  (case v_Store (ev_Ops env) (''account-'' @ pid) aid key (snd w) of
                     (Inl e, v1) \<Rightarrow> (internal_error ''storing credential failed'' e, (fst w, v1))
                   | (Inr ref, v1) \<Rightarrow>
                       (case CreateAccount (new_account aid prov n m ref) (ev_nw env) (fst w) of
                          Inl e \<Rightarrow> (internal_error ''creating account failed'' e, (fst w, snd (v_Delete (ev_Ops env) ref v1)))
                        | Inr s1 \<Rightarrow> (writeJSON 201 (JObj [(''id'', JStr aid),
                              (''secret_fingerprint'', JStr (sr_Fingerprint ref))]), (s1, v1))))))))"

definition handleAccounts :: "'v app_env \<Rightarrow> 'v app_handler" where
  "handleAccounts env r w =
    (if rq_Method r = ''GET'' then (list_answer ''listing accounts failed'' account_json (ListAccounts (fst w)), w)
     else if rq_Method r = ''POST'' then createAccount env r w
     else (bad_method, w))"

section \<open>Update and deletion\<close>

definition decode_account_patch :: "(string \<times> json) list \<Rightarrow> (string option \<times> string option) option" where
  "decode_account_patch ms = do {
     n \<leftarrow> ptr_field as_string ''name'' ms; st \<leftarrow> ptr_field as_string ''status'' ms; Some (n, st) }"

definition zero_account :: account where
  "zero_account = \<lparr>ac_ID = [], ac_ProviderID = [], ac_Name = [], ac_Status = [], ac_Mode = [], ac_AuthType = [],
     ac_BillingMode = [], ac_AuthState = [], ac_VaultProvider = [], ac_SecretService = [], ac_SecretAccount = [],
     ac_SecretFingerprint = [], ac_LastVerifiedAt = []\<rparr>"

text \<open>The two steps of an update; the first error answers and leaves what was done.\<close>

definition patch_status :: "'v app_env \<Rightarrow> string \<Rightarrow> string option \<Rightarrow> db \<Rightarrow> http_response option \<times> db" where
  "patch_status env aid st s = (case st of
      None \<Rightarrow> (None, s)
    | Some x \<Rightarrow>
        if x \<noteq> ''active'' \<and> x \<noteq> ''disabled'' \<and> x \<noteq> ''error'' then (Some (invalid (''illegal status: '' @ x)), s)
        else (case SetAccountStatus aid x (ev_nw env) s of
            Inl e \<Rightarrow> (Some (internal_error ''updating status failed'' e), s)
          | Inr s1 \<Rightarrow> (None, audit_in env ''account.status'' aid x s1)))"

definition patch_name :: "'v app_env \<Rightarrow> string \<Rightarrow> string \<Rightarrow> string option \<Rightarrow> db \<Rightarrow> http_response option \<times> db" where
  "patch_name env aid old n s = (case n of
      None \<Rightarrow> (None, s)
    | Some x \<Rightarrow>
        if x = [] \<or> x = old then (None, s)
        else (case SetAccountName aid x (ev_nw env) s of
            Inl e \<Rightarrow> (Some (internal_error ''updating name failed'' e), s)
          | Inr s1 \<Rightarrow> (None, audit_in env ''account.rename'' aid [] s1)))"

definition updateAccount :: "'v app_env \<Rightarrow> string \<Rightarrow> 'v app_handler" where
  "updateAccount env aid r w =
    (case read_body decode_account_patch (rq_Body r) of
       None \<Rightarrow> (invalid ''invalid body'', w)
     | Some (n, st) \<Rightarrow>
         (case GetAccount aid (fst w) of
            Inl e \<Rightarrow> (no_account e, w)
          | Inr acc \<Rightarrow>
              (case patch_status env aid st (fst w) of
                 (Some resp, s1) \<Rightarrow> (resp, (s1, snd w))
               | (None, s1) \<Rightarrow>
                   (case patch_name env aid (ac_Name acc) n s1 of
                      (Some resp, s2) \<Rightarrow> (resp, (s2, snd w))
                    | (None, s2) \<Rightarrow>
                        (writeJSON 200 (account_json (case GetAccount aid s2 of Inl e \<Rightarrow> zero_account | Inr a \<Rightarrow> a)),
                         (s2, snd w))))))"

definition deleteAccount :: "'v app_env \<Rightarrow> string \<Rightarrow> 'v world \<Rightarrow> http_response \<times> 'v world" where
  "deleteAccount env aid w =
    (case GetAccount aid (fst w) of
       Inl e \<Rightarrow> (no_account e, w)
     | Inr acc \<Rightarrow>
         if 0 < count_or_0 (CountRoutingCandidatesByAccount aid (fst w))
           then (writeError (errs_new CodeConflict ''account still referenced by routing policies''), w)
         else if 0 < count_or_0 (CountUsageEventsByAccount aid (fst w))
           then (writeError (errs_new CodeConflict ''account has usage records''), w)
         else (case DeleteAccount aid (fst w) of
             Inl e \<Rightarrow> (internal_error ''deleting account failed'' e, w)
           | Inr s1 \<Rightarrow> (ok_true, (audit_in env ''account.delete'' aid [] s1, snd w))))"

section \<open>Actions\<close>

definition decode_api_key :: "(string \<times> json) list \<Rightarrow> string option" where
  "decode_api_key ms = str_field ''api_key'' ms"

definition drop_ref :: "'v app_env \<Rightarrow> secret_ref \<Rightarrow> 'v \<Rightarrow> 'v" where
  "drop_ref env ref v = snd (v_Delete (ev_Ops env) ref v)"

definition rotateCredential :: "'v app_env \<Rightarrow> string \<Rightarrow> account \<Rightarrow> 'v app_handler" where
  "rotateCredential env aid acc r w =
    (case read_body decode_api_key (rq_Body r) of
       None \<Rightarrow> (invalid ''api_key missing'', w)
     | Some key0 \<Rightarrow>
         (let key = trim_space key0 in
          if key = [] then (invalid ''api_key missing'', w)
          else (case GetProvider (ac_ProviderID acc) (fst w) of
              Inl e \<Rightarrow> (internal_error ''reading provider failed'' e, w)
            | Inr prov \<Rightarrow>
                (case v_Store (ev_Ops env) (''account-'' @ ac_ProviderID acc) (aid @ ''-rot'') key (snd w) of
                   (Inl e, v1) \<Rightarrow> (internal_error ''storing credential failed'' e, (fst w, v1))
                 | (Inr newRef, v1) \<Rightarrow>
                     (case resolveTargetFromRef env prov newRef v1 of
                        Inl e \<Rightarrow> (internal_error ''resolving credential failed'' e, (fst w, drop_ref env newRef v1))
                      | Inr t \<Rightarrow>
                          (case ValidateCredential (ev_Call env) (NewConnector (t_ProviderKind t)) t of
                             Some e \<Rightarrow> (writeError (errs_wrap CodeUpstreamAuth ''new credential rejected, old one kept'' e),
                               (audit_in env ''account.credential.rotate.failed'' aid [] (fst w), drop_ref env newRef v1))
                           | None \<Rightarrow>
                               (case SetAccountCredentialRef aid (sr_VaultProvider newRef) (sr_Service newRef)
                                       (sr_Account newRef) (sr_Fingerprint newRef) (ev_nw env) (fst w) of
                                  Inl e \<Rightarrow> (internal_error ''switching credential failed'' e, (fst w, drop_ref env newRef v1))
                                | Inr s1 \<Rightarrow>
                                    (let s2 = keep_db s1 (SetAccountStatus aid ''active'' (ev_nw env) s1);
                                         s3 = keep_db s2 (SetAccountVerifiedAt aid (ev_nw env) (ev_nw env) s2)
                                     in (writeJSON 200 (JObj [(''ok'', JBool True),
                                           (''secret_fingerprint'', JStr (sr_Fingerprint newRef)),
                                           (''verified_at'', JStr (ev_nw env))]),
                                         (audit_in env ''account.credential.rotate'' aid [] s3, v1))))))))))"

definition revokeAccount :: "'v app_env \<Rightarrow> string \<Rightarrow> 'v app_handler" where
  "revokeAccount env aid r w =
    (if rq_Method r \<noteq> ''POST'' then (bad_method, w)
     else (case GetAccount aid (fst w) of
         Inl e \<Rightarrow> ((if errors_is e ErrNoRows then writeError (errs_new CodeNotFound ''no such account'')
                    else internal_error ''reading account failed'' e), w)
       | Inr acc \<Rightarrow>
           (case v_Delete (ev_Ops env) (account_ref acc) (snd w) of (derr, v1) \<Rightarrow>
              if (case derr of None \<Rightarrow> False | Some e \<Rightarrow> \<not> errors_is e ErrNotFound)
              then (internal_error ''removing credential failed'' (case derr of Some e \<Rightarrow> e | None \<Rightarrow> ErrNotFound), (fst w, v1))
              else (let s1 = keep_db (fst w) (SetAccountAuthState aid AuthStateReauthRequired (ev_nw env) (fst w))
                    in (writeJSON 200 (JObj [(''note'', JStr ''local disconnection; authorize again to use it''),
                          (''ok'', JBool True), (''remote_revoked'', JBool False)]),
                        (audit_in env ''account.revoke'' aid ''local-disconnect'' s1, v1))))))"

definition accountManualQuota :: "'v app_env \<Rightarrow> string \<Rightarrow> 'v app_handler" where
  "accountManualQuota env aid r w =
    (case read_body decode_snapshot_in (rq_Body r) of
       None \<Rightarrow> (invalid ''window_type missing'', w)
     | Some q \<Rightarrow>
         if qs_WindowType q = [] then (invalid ''window_type missing'', w)
         else if qs_Used q = None \<and> qs_Remaining q = None \<and> qs_Limit q = None
           then (invalid ''one of limit, used, remaining is required'', w)
         else (case ManualSupplement (ev_nw env) (ev_Rand env) aid ''admin'' q (fst w) of
             Inl e \<Rightarrow> (internal_error ''writing quota failed'' e, w)
           | Inr (m, s1) \<Rightarrow> (writeJSON 201 (snapshot_json m),
               (audit_in env ''quota.manual'' aid (qs_WindowType m) s1, snd w))))"

definition decode_capability_in :: "(string \<times> json) list \<Rightarrow> string option" where
  "decode_capability_in ms = str_field ''capability'' ms"

definition refreshAccount :: "'v app_env \<Rightarrow> string \<Rightarrow> 'v app_handler" where
  "refreshAccount env aid r w =
    (case GetAccount aid (fst w) of
       Inl e \<Rightarrow> (no_account e, w)
     | Inr acc \<Rightarrow>
         (case read_body decode_capability_in (rq_Body r) of
            None \<Rightarrow> (invalid ''capability missing'', w)
          | Some cp \<Rightarrow>
              if cp = [] then (invalid ''capability missing'', w)
              else (case Enqueue fst_part (sched_jobs env) DefaultConfig (ev_Sched env) (ev_Inflight env) aid cp w of
                  ((job, Some e), w1) \<Rightarrow>
                    ((if errors_is e ErrBusy then
                        (case job of Some j \<Rightarrow> writeJSON 200 (JObj [(''busy'', JBool True), (''job_id'', JStr (rj_ID j))])
                                   | None \<Rightarrow> writeJSON 202 (JObj [(''busy'', JBool True)]))
                      else internal_error ''creating refresh job failed'' e), w1)
                | ((Some j, None), w1) \<Rightarrow>
                    (writeJSON 202 (JObj [(''job_id'', JStr (rj_ID j)), (''state'', JStr (rj_State j))]), w1)
                | ((None, None), w1) \<Rightarrow> (writeJSON 202 (JObj []), w1))))"

definition verify_action :: "'v app_env \<Rightarrow> string \<Rightarrow> target \<Rightarrow> 'v world \<Rightarrow> http_response \<times> 'v world" where
  "verify_action env aid t w =
    (case ValidateCredential (ev_Call env) (NewConnector (t_ProviderKind t)) t of
       Some e \<Rightarrow> (writeError (errs_wrap CodeUpstreamAuth ''verification failed'' e),
         (keep_db (fst w) (SetAccountStatus aid ''error'' (ev_nw env) (fst w)), snd w))
     | None \<Rightarrow>
         (let s1 = keep_db (fst w) (SetAccountStatus aid ''active'' (ev_nw env) (fst w));
              s2 = keep_db s1 (SetAccountVerifiedAt aid (ev_nw env) (ev_nw env) s1)
          in (writeJSON 200 (JObj [(''ok'', JBool True), (''verified_at'', JStr (ev_nw env))]), (s2, snd w))))"

definition discover_action :: "'v app_env \<Rightarrow> string \<Rightarrow> account \<Rightarrow> target \<Rightarrow> 'v world \<Rightarrow> http_response \<times> 'v world" where
  "discover_action env aid acc t w =
    (case DiscoverModels (ev_Call env) (NewConnector (t_ProviderKind t)) t of
       Inl e \<Rightarrow> (writeError (errs_wrap CodeUpstreamError ''discovery failed'' e), w)
     | Inr infos \<Rightarrow>
         (case UpsertModels (found_models (ac_ProviderID acc) infos) (ev_nw env) (fst w) of
            Inl e \<Rightarrow> (internal_error ''saving models failed'' e, w)
          | Inr s1 \<Rightarrow>
              (case SaveAccountModels aid (found_rows (ac_ProviderID acc) infos) (ev_nw env) s1 of
                 Inl e \<Rightarrow> (internal_error ''saving account models failed'' e, (s1, snd w))
               | Inr s2 \<Rightarrow> (writeJSON 200 (JObj [(''count'', JInt (int (length infos))), (''ok'', JBool True)]), (s2, snd w)))))"

definition accountSubAction :: "'v app_env \<Rightarrow> string \<Rightarrow> string \<Rightarrow> 'v app_handler" where
  "accountSubAction env aid action r w =
    (case GetAccount aid (fst w) of
       Inl e \<Rightarrow> (no_account e, w)
     | Inr acc \<Rightarrow>
         if action = ''revoke'' then
           (if ac_AuthType acc \<noteq> AuthOAuth then (invalid ''revoke is for OAuth accounts'', w) else revokeAccount env aid r w)
         else if action = ''capabilities'' then
           (case Check env acc w of
              (Inl e, w1) \<Rightarrow> (internal_error ''capability check failed'' e, w1)
            | (Inr cs, w1) \<Rightarrow> (data_list (map capability_json cs), w1))
         else if action = ''credential'' then
           (if rq_Method r \<noteq> ''POST'' then (invalid ''use POST'', w) else rotateCredential env aid acc r w)
         else if action = ''quota'' then
           (if rq_Method r \<noteq> ''GET'' then (invalid ''use GET'', w) else (accountQuota aid (fst w), w))
         else if action = ''quota-manual'' then
           (if rq_Method r \<noteq> ''PUT'' \<and> rq_Method r \<noteq> ''POST'' then (invalid ''use PUT or POST'', w)
            else accountManualQuota env aid r w)
         else if action = ''refresh'' then
           (if rq_Method r \<noteq> ''POST'' then (invalid ''use POST'', w) else refreshAccount env aid r w)
         else if action \<noteq> ''verify'' \<and> action \<noteq> ''discover'' then (invalid (''unsupported action: '' @ action), w)
         else (case resolveTarget env acc [] w of
             (Inl e, w1) \<Rightarrow> (internal_error ''resolving target failed'' e, w1)
           | (Inr t, w1) \<Rightarrow> if action = ''verify'' then verify_action env aid t w1 else discover_action env aid acc t w1))"

definition accountAction :: "'v app_env \<Rightarrow> 'v app_handler" where
  "accountAction env r w =
    (let parts = path_parts (rq_Path r) in
     if length parts = 4 then
       (if rq_Method r = ''GET'' then
          (case GetAccount (parts ! 3) (fst w) of
             Inl e \<Rightarrow> (no_account e, w) | Inr acc \<Rightarrow> (writeJSON 200 (account_json acc), w))
        else if rq_Method r = ''PATCH'' \<or> rq_Method r = ''PUT'' then updateAccount env (parts ! 3) r w
        else if rq_Method r = ''DELETE'' then deleteAccount env (parts ! 3) w
        else (bad_method, w))
     else if length parts = 5 then accountSubAction env (parts ! 3) (parts ! 4) r w
     else (bad_path, w))"


section \<open>A new account reaches its platform with its key\<close>

lemma createAccount_201:
  assumes "createAccount env r w = (resp, w')" and "rs_Status resp = 201"
  obtains pid n key m prov ref v1 s1 where "read_body decode_account_in (rq_Body r) = Some (pid, n, key, m)"
    and "GetProvider pid (fst w) = Inr prov"
    and "v_Store (ev_Ops env) (''account-'' @ pid) (''acc_'' @ ev_Rand env) key (snd w) = (Inr ref, v1)"
    and "CreateAccount (new_account (''acc_'' @ ev_Rand env) prov n (if m = [] then ModeRelayAndMonitor else m) ref)
           (ev_nw env) (fst w) = Inr s1"
    and "w' = (s1, v1)"
    and "resp = writeJSON 201 (JObj [(''id'', JStr (''acc_'' @ ev_Rand env)), (''secret_fingerprint'', JStr (sr_Fingerprint ref))])"
proof (cases "read_body decode_account_in (rq_Body r)")
  case None
  with assms show ?thesis by (auto simp: createAccount_def)
next
  case (Some q)
  obtain pid n key m where q: "q = (pid, n, key, m)" by (cases q) auto
  note c = assms(1) [unfolded createAccount_def Some q option.case prod.case Let_def]
  show ?thesis
  proof (cases "GetProvider pid (fst w)")
    case (Inl e)
    with c assms(2) show ?thesis by (auto split: if_splits)
  next
    case prov: (Inr prov)
    show ?thesis
    proof (cases "v_Store (ev_Ops env) (''account-'' @ pid) (''acc_'' @ ev_Rand env) key (snd w)")
      case (Pair res v1)
      show ?thesis
      proof (cases res)
        case (Inl e)
        with c assms(2) prov Pair show ?thesis by (auto split: if_splits)
      next
        case ref: (Inr ref)
        show ?thesis
        proof (cases "CreateAccount (new_account (''acc_'' @ ev_Rand env) prov n (if m = [] then ModeRelayAndMonitor else m) ref)
            (ev_nw env) (fst w)")
          case (Inl e)
          with c assms(2) prov Pair ref show ?thesis by (auto split: if_splits)
        next
          case (Inr s1)
          show ?thesis
            by (rule that [OF Some [unfolded q] prov Pair [unfolded ref] Inr])
              (use c assms(2) prov Pair ref Inr in \<open>auto split: if_splits\<close>)
        qed
      qed
    qed
  qed
qed

lemma CreateAccount_Inr:
  assumes "CreateAccount a nw s = Inr s'"
  shows "s' = s\<lparr>accounts := accounts s @ [account.extend a (account_row.fields nw nw)]\<rparr>" and "db_down s = None"
    and "\<not> has_row (\<lambda>r. ac_ID r = ac_ID a) (accounts s)"
  using assms by (auto simp: CreateAccount_def with_db_def split: option.splits if_splits)

lemma account_truncate_extend [simp]: "account.truncate (account.extend a x) = a"
  by (cases a) (simp add: account.defs)

lemma GetAccount_new:
  assumes "CreateAccount a nw s = Inr s'"
  shows "GetAccount (ac_ID a) s' = Inr a"
proof -
  note c = CreateAccount_Inr [OF assms]
  have "ac_ID (account.extend a (account_row.fields nw nw)) = ac_ID a" by (simp add: account.defs)
  moreover have "find (\<lambda>r. ac_ID r = ac_ID a) (accounts s) = None" using c(3) by (simp add: find_None_has_row)
  ultimately show ?thesis
    by (simp add: GetAccount_def with_db_def query_row_def c(1,2) find_append)
qed


section \<open>Rotation\<close>

definition rotation_ref :: "string \<Rightarrow> account \<Rightarrow> secret_ref" where
  "rotation_ref aid acc = zero_ref\<lparr>sr_Service := ''account-'' @ ac_ProviderID acc, sr_Account := aid @ ''-rot''\<rparr>"

lemma rotateCredential_401:
  assumes "rotateCredential env aid acc r (s, v) = (resp, (s', v'))" and "rs_Status resp = 401"
  shows "\<exists>key ref v1. v_Store (ev_Ops env) (''account-'' @ ac_ProviderID acc) (aid @ ''-rot'') key v = (Inr ref, v1) \<and>
    v' = snd (v_Delete (ev_Ops env) ref v1) \<and> s' = audit_in env ''account.credential.rotate.failed'' aid [] s"
  using assms
  by (auto simp: rotateCredential_def Let_def drop_ref_def errs_wrap_def split: option.splits sum.splits prod.splits if_splits)

text \<open>
  A rotation whose new key the platform rejects leaves the accounts as they were, and the
  old key readable when it is not itself the product of a rotation. Every rotation uses the
  same slot of the vault: once an account has been rotated, a rejected key takes the place of
  the active one and is then deleted, so the account is left without a credential.
\<close>

theorem rejected_rotation:
  assumes "ev_Ops env = memory_vault sha nw"
    and "rotateCredential env aid acc r (s, v) = (resp, (s', v'))" and "rs_Status resp = 401"
  shows "accounts s' = accounts s \<and>
    v_Get (ev_Ops env) (account_ref acc) v' =
      (if mem_slot (account_ref acc) = mem_slot (rotation_ref aid acc) then Inl ErrNotFound
       else v_Get (ev_Ops env) (account_ref acc) v)"
proof -
  obtain key ref v1 where st: "v_Store (memory_vault sha nw) (''account-'' @ ac_ProviderID acc) (aid @ ''-rot'') key v = (Inr ref, v1)"
    and v': "v' = snd (v_Delete (memory_vault sha nw) ref v1)"
    and s': "s' = audit_in env ''account.credential.rotate.failed'' aid [] s"
    using rotateCredential_401 [OF assms(2,3)] by (auto simp: assms(1))
  have slot: "mem_slot ref = mem_slot (rotation_ref aid acc)" and "mv_db v1 (mem_slot ref) \<noteq> None"
    using st by (auto simp: memory_vault_def mem_Store_def Let_def mem_slot_def rotation_ref_def)
  then obtain v2 where "v_Delete (memory_vault sha nw) ref v1 = (None, v2)" using mem_Delete_present by blast
  then have gone: "v_Get (memory_vault sha nw) ref v' = Inl ErrNotFound" using mv.delete_gone v' by simp
  show ?thesis
  proof (cases "mem_slot (account_ref acc) = mem_slot (rotation_ref aid acc)")
    case True
    with slot have "mem_slot (account_ref acc) = mem_slot ref" by simp
    then show ?thesis using gone mv.get_slot [of "account_ref acc" ref] True by (simp add: s' audit_in_def assms(1))
  next
    case False
    with slot mv.rollback_safe(2) [OF st, of "account_ref acc"] v' show ?thesis
      by (simp add: s' audit_in_def assms(1))
  qed
qed


section \<open>OAuth accounts\<close>

text \<open>
  Using an OAuth account whose token is still fresh loses its fingerprint: the reference
  the resolver builds has none, the refresh hands it back as it is, and the empty fingerprint
  counts as a change that is written to the account.
\<close>

theorem fresh_oauth_token_erases_fingerprint:
  assumes "ac_Status acc = ''active''" and "ac_AuthType acc = AuthOAuth" and "ac_SecretFingerprint acc \<noteq> []"
    and "GetProvider (ac_ProviderID acc) s = Inr prov" and "ev_OAuth env (pv_Kind prov) = Some p"
    and "v_Get (ev_Ops env) (account_ref acc) v = Inr (mustJSON b)"
    and "\<not> needsRefresh (tb_ExpiresAt b) (ev_Now env) refreshLead"
  shows "resolveTarget env acc m (s, v) = (Inr (make_target prov (tb_AccessToken b) m),
    (s\<lparr>accounts := upd_where (\<lambda>r. ac_ID r = ac_ID acc)
        (set_secret_ref (ac_VaultProvider acc) (ac_SecretService acc) (ac_SecretAccount acc) [] (ev_nw env))
        (accounts s)\<rparr>, v))"
proof -
  have "db_down s = None" using assms(4) by (auto simp: GetProvider_def with_db_def split: option.splits)
  moreover have "refreshOnce (ev_Ops env) (ce_Net (ev_Call env)) p (ev_Fmt env) (ev_Now env)
      (sr_Service (account_ref acc)) (sr_Account (account_ref acc)) (account_ref acc) v = ((account_ref acc, b, None), v)"
    using assms(6,7) by (simp add: refreshOnce_def read_stored_bundle)
  ultimately show ?thesis
    using assms(1-5)
    by (simp add: resolveTarget_def resolveOAuthTarget_def Let_def keep_db_def UpdateAccountSecretRef_def with_db_def
        update_account_def with_ref_def account_ref_def zero_ref_def)
qed

section \<open>Deletion\<close>

lemma has_row_upd_key:
  "(\<And>r. key (f r) = key r) \<Longrightarrow> has_row (\<lambda>r. key r = k) (upd_where p f rows) = has_row (\<lambda>r. key r = k) rows"
  by (induction rows) auto

lemma SaveAccountCapabilities_row:
  assumes "SaveAccountCapabilities aid (c # cs) nw s = Inr s'" and "cap_AccountID c = []"
  shows "has_row (\<lambda>r. cap_AccountID r = aid) (account_capabilities s')" and "db_down s' = None"
    and "accounts s' = accounts s" and "routing_policies s' = routing_policies s" and "usage_events s' = usage_events s"
proof -
  have one: "has_row (\<lambda>r. cap_AccountID r = aid) (account_capabilities s2)"
    if "upsert_capability aid nw c s1 = Inr s2" for s1 s2
    using that assms(2)
    by (auto simp: upsert_capability_def Let_def has_row_upd_key [of cap_AccountID] account_capability.defs
        split: if_splits) (auto simp: has_row_iff)
  have keep: "has_row (\<lambda>r. cap_AccountID r = aid) (account_capabilities s2)"
    if "has_row (\<lambda>r. cap_AccountID r = aid) (account_capabilities s1)" "upsert_capability aid nw d s1 = Inr s2" for d s1 s2
    using that by (auto simp: upsert_capability_def Let_def has_row_upd_key [of cap_AccountID] split: if_splits)
  have frame: "db_down s2 = db_down s1 \<and> accounts s2 = accounts s1 \<and> routing_policies s2 = routing_policies s1 \<and>
      usage_events s2 = usage_events s1"
    if "upsert_capability aid nw d s1 = Inr s2" for d s1 s2
    using that by (auto simp: upsert_capability_def Let_def split: if_splits)
  have tx: "(has_row (\<lambda>r. cap_AccountID r = aid) (account_capabilities s1) \<longrightarrow>
        has_row (\<lambda>r. cap_AccountID r = aid) (account_capabilities s2)) \<and>
      db_down s2 = db_down s1 \<and> accounts s2 = accounts s1 \<and> routing_policies s2 = routing_policies s1 \<and>
      usage_events s2 = usage_events s1"
    if "in_tx (upsert_capability aid nw) ds s1 = Inr s2" for ds s1 s2
    using that
  proof (induction ds arbitrary: s1)
    case (Cons d ds)
    then obtain s3 where s3: "upsert_capability aid nw d s1 = Inr s3" "in_tx (upsert_capability aid nw) ds s3 = Inr s2"
      by (auto split: sum.splits)
    from Cons.IH [OF s3(2)] keep [OF _ s3(1)] frame [OF s3(1)] show ?case by auto
  qed simp
  have dn: "db_down s = None" and all: "in_tx (upsert_capability aid nw) (c # cs) s = Inr s'"
    using assms(1) by (auto simp: SaveAccountCapabilities_def with_db_def split: option.splits)
  then obtain s1 where s1: "upsert_capability aid nw c s = Inr s1" "in_tx (upsert_capability aid nw) cs s1 = Inr s'"
    by (auto split: sum.splits)
  from tx [OF s1(2)] one [OF s1(1)] show "has_row (\<lambda>r. cap_AccountID r = aid) (account_capabilities s')" by simp
  from tx [OF all] dn show "db_down s' = None" "accounts s' = accounts s"
    "routing_policies s' = routing_policies s" "usage_events s' = usage_events s" by auto
qed

lemma Check_Inr:
  assumes "Check env acc w = (Inr caps, w')"
  obtains c cs s1 where "SaveAccountCapabilities (ac_ID acc) (c # cs) (ev_nw env) s1 = Inr (fst w')" and "cap_AccountID c = []"
  using assms that
  by (auto simp: Check_def Let_def capability_matrix_def cap_of_def split: sum.splits prod.splits if_splits)

text \<open>
  Once the capabilities of an account have been looked at, the account cannot be deleted
  any more: its capability rows reference it and nothing removes them, so the request is
  answered 500, not the conflict a client could resolve, and nothing changes.
\<close>

theorem checked_account_cannot_be_deleted:
  assumes "Check env acc w = (Inr caps, w')" and "GetAccount (ac_ID acc) (fst w') = Inr acc'"
    and "CountRoutingCandidatesByAccount (ac_ID acc) (fst w') = Inr 0"
    and "CountUsageEventsByAccount (ac_ID acc) (fst w') = Inr 0"
  shows "rs_Status (fst (deleteAccount env (ac_ID acc) w')) = 500 \<and> snd (deleteAccount env (ac_ID acc) w') = w'"
proof -
  obtain c cs s1 where "SaveAccountCapabilities (ac_ID acc) (c # cs) (ev_nw env) s1 = Inr (fst w')" "cap_AccountID c = []"
    by (rule Check_Inr [OF assms(1)])
  note c = SaveAccountCapabilities_row [OF this]
  have "\<exists>e. DeleteAccount (ac_ID acc) (fst w') = Inl e"
    using c(1,2) by (simp add: DeleteAccount_def with_db_def)
  then show ?thesis
    using assms(2-4) by (auto simp: deleteAccount_def count_or_0_def)
qed


section \<open>Concrete runs\<close>

definition app_demo :: "mem_vault app_env" where
  "app_demo = \<lparr>ev_Ops = memory_vault (\<lambda>x. x) ''0'', ev_OAuth = (\<lambda>k. Some Codex), ev_CapOAuth = (\<lambda>k. True),
     ev_Call = demo_env (demo_reply 401 []), ev_Fmt = (\<lambda>t. ''now''), ev_Now = 0, ev_Rand = ''0777'',
     ev_Sched = demo_clock, ev_Inflight = {}\<rparr>"

definition demo_provider :: provider_row where
  "demo_provider = \<lparr>pv_ID = ''p'', pv_Kind = ''openai'', pv_Name = ''P'', pv_BaseURL = [], pv_Capabilities = [],
     pv_created_at = [], pv_updated_at = []\<rparr>"

definition rotated_account :: account_row where
  "rotated_account = (demo_account ''a'')\<lparr>ac_SecretService := ''account-p'', ac_SecretAccount := ''a-rot''\<rparr>"

definition app_db :: db where
  "app_db = empty_db\<lparr>providers := [demo_provider], accounts := [rotated_account]\<rparr>"

definition json_post :: "json \<Rightarrow> http_request" where
  "json_post j = token_post\<lparr>rq_Body := render (\<lambda>x. []) j\<rparr>"

definition account_post :: http_request where
  "account_post = json_post (JObj [(''provider_id'', JStr ''p''), (''api_key'', JStr ''sk-1'')])"


definition rotate_post :: http_request where
  "rotate_post = json_post (JObj [(''api_key'', JStr ''sk-2'')])"

definition rotated_vault :: mem_vault where
  "rotated_vault = snd (mem_Store (\<lambda>x. x) ''0'' ''account-p'' ''a-rot'' ''sk-1'' NewInMemoryVault)"

lemma rejected_rotation_witness:
  "v_Get (ev_Ops app_demo) (account_ref (account.truncate rotated_account)) rotated_vault = Inr ''sk-1'' \<and>
   v_Get (ev_Ops app_demo) (account_ref (account.truncate rotated_account))
     (snd (snd (rotateCredential app_demo ''a'' (account.truncate rotated_account) rotate_post (app_db, rotated_vault)))) = Inl ErrNotFound"
proof -
  let ?acc = "account.truncate rotated_account"
  obtain resp s' v' where c: "rotateCredential app_demo ''a'' ?acc rotate_post (app_db, rotated_vault) = (resp, (s', v'))"
    by (metis prod.exhaust)
  have "rs_Status (fst (rotateCredential app_demo ''a'' ?acc rotate_post (app_db, rotated_vault))) = 401" by code_simp
  then have st: "rs_Status resp = 401" by (simp add: c)
  have o: "ev_Ops app_demo = memory_vault (\<lambda>x. x) ''0''" by (simp add: app_demo_def)
  have slot: "mem_slot (account_ref ?acc) = mem_slot (rotation_ref ''a'' ?acc)" by code_simp
  have "v_Get (ev_Ops app_demo) (account_ref ?acc) rotated_vault = Inr ''sk-1''" by code_simp
  with rejected_rotation [OF o c st] slot show ?thesis by (simp add: c)
qed

definition oauth_account :: account where
  "oauth_account = account.truncate (rotated_account\<lparr>ac_AuthType := AuthOAuth, ac_SecretFingerprint := ''abc''\<rparr>)"

definition fresh_bundle :: token_bundle where
  "fresh_bundle = zero_bundle\<lparr>tb_AccessToken := ''at'', tb_ExpiresAt := ''2030-01-01T00:00:00Z''\<rparr>"

definition oauth_vault :: mem_vault where
  "oauth_vault = snd (mem_Store (\<lambda>x. x) ''0'' ''account-p'' ''a-rot'' (mustJSON fresh_bundle) NewInMemoryVault)"

lemma fresh_oauth_token_erases_fingerprint_witness:
  "map ac_SecretFingerprint (accounts (fst (snd (resolveTarget app_demo oauth_account [] (app_db, oauth_vault))))) = [[]]"
proof -
  have a: "ac_Status oauth_account = ''active''" "ac_AuthType oauth_account = AuthOAuth" "ac_SecretFingerprint oauth_account \<noteq> []"
    by code_simp+
  have p: "GetProvider (ac_ProviderID oauth_account) app_db = Inr (provider.truncate demo_provider)"
    "map ac_ID (accounts app_db) = [ac_ID oauth_account]"
    by code_simp+
  have o: "ev_OAuth app_demo (pv_Kind (provider.truncate demo_provider)) = Some Codex" by (simp add: app_demo_def)
  have g: "v_Get (ev_Ops app_demo) (account_ref oauth_account) oauth_vault = Inr (mustJSON fresh_bundle)"
    by (simp add: app_demo_def memory_vault_def mem_Get_def oauth_vault_def mem_Store_def Let_def account_ref_def
        oauth_account_def rotated_account_def demo_account_def account.defs zero_ref_def)
  have n: "\<not> needsRefresh (tb_ExpiresAt fresh_bundle) (ev_Now app_demo) refreshLead" by code_simp
  have "length (accounts app_db) = 1" using p(2) by (metis length_map length_Cons One_nat_def list.size(3))
  then obtain x where "accounts app_db = [x]" by (metis One_nat_def length_0_conv length_Suc_conv)
  with fresh_oauth_token_erases_fingerprint [OF a p(1) o g n, of "[]"] p(2) show ?thesis
    by (simp add: set_secret_ref_def)
qed

definition manual_account :: account where
  "manual_account = account.truncate (rotated_account\<lparr>ac_AuthType := AuthManual\<rparr>)"

lemma checked_account_cannot_be_deleted_witness:
  "rs_Status (fst (deleteAccount app_demo ''a'' (snd (Check app_demo manual_account (app_db, NewInMemoryVault))))) = 500"
proof -
  obtain res w' where c: "Check app_demo manual_account (app_db, NewInMemoryVault) = (res, w')" by (metis prod.exhaust)
  have "is_ok (fst (Check app_demo manual_account (app_db, NewInMemoryVault)))" by code_simp
  then obtain caps where caps: "res = Inr caps" by (auto simp: c is_ok_iff)
  have k: "ac_ID manual_account = ''a''" by code_simp
  have g: "is_ok (GetAccount ''a'' (fst (snd (Check app_demo manual_account (app_db, NewInMemoryVault))))) \<and>
      CountRoutingCandidatesByAccount ''a'' (fst (snd (Check app_demo manual_account (app_db, NewInMemoryVault)))) = Inr 0 \<and>
      CountUsageEventsByAccount ''a'' (fst (snd (Check app_demo manual_account (app_db, NewInMemoryVault)))) = Inr 0"
    by code_simp
  then obtain acc' where "GetAccount ''a'' (fst w') = Inr acc'" "CountRoutingCandidatesByAccount ''a'' (fst w') = Inr 0"
      "CountUsageEventsByAccount ''a'' (fst w') = Inr 0" by (auto simp: c is_ok_iff)
  with checked_account_cannot_be_deleted [OF c [unfolded caps]] show ?thesis by (simp add: c k)
qed

end
