(* ===== verification/Gateway.thy ===== *)
theory Gateway
  imports ApiAccounts Access
begin

text \<open>
  The inference plane (\<open>internal/api/api.go\<close>, \<open>responses_oauth.go\<close>): the token middleware,
  the model list, and chat completions, plain and streamed, over the router with the attempt
  recorder as its hook and the platform connectors behind it. The client may stop reading:
  \<open>gv_Write n\<close> is the error of a write after \<open>n\<close> chunks. The router's resolver is
  \<open>ResolveForRouter\<close> on the database and the vault, with the clock and the network of each
  candidate (\<open>gv_App\<close>): it may refresh the tokens of a candidate before the candidate is called.
\<close>

record 'v gate_env =
  gv_Sha :: "string \<Rightarrow> string"
  gv_Now :: int
  gv_nw :: string
  gv_ReqHex :: string
  gv_UsageHex :: string
  gv_App :: "nat \<Rightarrow> 'v app_env"
  gv_Calls :: "nat \<Rightarrow> call_env"
  gv_Lat :: "nat \<Rightarrow> int"
  gv_Latency :: int
  gv_Unix :: int
  gv_Rec :: recorder_ctx
  gv_Write :: "nat \<Rightarrow> go_error option"

lemma ResolveForRouter_api_key:
  assumes "GetAccount i (fst w) = Inr acc" and "ac_AuthType acc \<noteq> AuthOAuth"
  shows "snd (ResolveForRouter env i w) = w"
  using assms by (auto simp: ResolveForRouter_def resolveTarget_def split: sum.split)

section \<open>Token middleware\<close>

type_synonym 'v token_handler = "token \<Rightarrow> 'v app_handler"

definition requireToken ::
  "'v gate_env \<Rightarrow> 'v token_handler \<Rightarrow> http_request \<Rightarrow> 'v world \<times> access_state \<Rightarrow> http_response \<times> ('v world \<times> access_state)" where
  "requireToken gv next_h r w =
    (case Authenticate (gv_Sha gv) (gv_Now gv) (gv_nw gv) r (fst (fst w)) of
       (Inl e, s1) \<Rightarrow>
         ((if errors_is e ErrUnauthorized
           then (let resp = writeError (errs_new CodeUnauthorized ''token missing, invalid, disabled or expired'')
                 in resp\<lparr>rs_Headers := (''WWW-Authenticate'', ''Bearer'') # rs_Headers resp\<rparr>)
           else internal_error ''token check failed'' e), ((s1, snd (fst w)), snd w))
     | (Inr tok, s1) \<Rightarrow>
         (case Acquire (tk_ID tok) (tk_MaxConcurrency tok) (snd w) of
            Inl e \<Rightarrow> (writeError (errs_retryable (errs_new CodeRateLimited ''token concurrency limit reached'')), ((s1, snd (fst w)), snd w))
          | Inr (lease, a1) \<Rightarrow> (let (resp, w2) = next_h tok r (s1, snd (fst w)) in (resp, (w2, Release lease a1)))))"

definition checkModelAllowed :: "token \<Rightarrow> string \<Rightarrow> http_response option" where
  "checkModelAllowed tok m =
    (if ModelAllowed tok m then None
     else Some (writeError (errs_new CodeForbidden (''model not allowed for token: '' @ m))))"

section \<open>Models\<close>

definition gateway_model_json :: "int \<Rightarrow> model \<Rightarrow> json" where
  "gateway_model_json t m = JObj [(''id'', JStr (mo_UpstreamID m)), (''object'', JStr ''model''), (''created'', JInt t),
     (''owned_by'', JStr (mo_ProviderID m))]"

definition handleGatewayModels :: "'v gate_env \<Rightarrow> 'v token_handler" where
  "handleGatewayModels gv tok r w =
    (if rq_Method r \<noteq> ''GET'' then (bad_method, w)
     else (case ListModels (fst w) of
         Inl e \<Rightarrow> (internal_error ''listing models failed'' e, w)
       | Inr ms \<Rightarrow> (writeJSON 200 (JObj [(''data'', JArr (map (gateway_model_json (gv_Unix gv)) ms)),
                                       (''object'', JStr ''list'')]), w)))"

section \<open>Errors and usage\<close>

definition mapRelayError :: "go_error \<Rightarrow> biz_error" where
  "mapRelayError e =
    (if errors_is e ErrNoCandidate then errs_new CodeModelUnavailable ''no usable channel''
     else if errors_is e ErrAuth then errs_new CodeUpstreamAuth ''upstream authentication failed''
     else if errors_is e ErrRateLimited then errs_retryable (errs_new CodeRateLimited ''upstream rate limit'')
     else if errors_is e ErrTimeout then errs_retryable (errs_new CodeUpstreamTimeout ''upstream timeout'')
     else if errors_is e ErrNetwork then errs_retryable (errs_new CodeUpstreamError ''network error'')
     else if errors_is e ErrTruncated then errs_retryable (errs_new CodeUpstreamError ''stream truncated'')
     else if errors_is e ErrModelUnavailable then errs_new CodeModelUnavailable ''upstream model unavailable''
     else if errors_is e ErrUpstream then errs_retryable (errs_new CodeUpstreamError ''upstream error'')
     else if errors_is e ErrQuotaExhausted then errs_new CodeQuotaExhausted ''upstream quota exhausted''
     else errs_wrap CodeUpstreamError ''relay failed'' e)"

definition selected_account :: "decision option \<Rightarrow> string" where
  "selected_account d = (case d of None \<Rightarrow> []
     | Some x \<Rightarrow> (case index_byte (d_Selected x) (CHR ''@'') of
         None \<Rightarrow> [] | Some i \<Rightarrow> if 0 < i then take i (d_Selected x) else []))"

definition usage_of ::
  "'v gate_env \<Rightarrow> string \<Rightarrow> string \<Rightarrow> decision option \<Rightarrow> usage_dto option \<Rightarrow> code option \<Rightarrow> usage_event" where
  "usage_of gv rid m d u errc = \<lparr>ue_ID = ''ue_'' @ gv_UsageHex gv, ue_RequestID = rid,
     ue_AccountID = selected_account d, ue_ModelID = m,
     ue_InputTokens = (case u of None \<Rightarrow> 0 | Some x \<Rightarrow> PromptTokens x),
     ue_OutputTokens = (case u of None \<Rightarrow> 0 | Some x \<Rightarrow> CompletionTokens x),
     ue_CacheTokens = (case u of None \<Rightarrow> 0 | Some x \<Rightarrow> (case CachedTokens x of None \<Rightarrow> 0 | Some n \<Rightarrow> n)),
     ue_ReasoningTokens = 0,
     ue_StatusCode = (case errc of None \<Rightarrow> 200 | Some c \<Rightarrow> HTTPStatus c),
     ue_LatencyMS = gv_Latency gv, ue_ErrorClass = (case errc of None \<Rightarrow> [] | Some c \<Rightarrow> code_string c)\<rparr>"

definition recordUsage ::
  "'v gate_env \<Rightarrow> string \<Rightarrow> string \<Rightarrow> decision option \<Rightarrow> usage_dto option \<Rightarrow> code option \<Rightarrow> db \<Rightarrow> db" where
  "recordUsage gv rid m d u errc s = keep_db s (RecordUsageEvent (usage_of gv rid m d u errc) (gv_nw gv) s)"

section \<open>Chat completions\<close>

definition as_decimal :: "json \<Rightarrow> decimal option" where
  "as_decimal j = (case j of JNull \<Rightarrow> Some (Dec 0 0) | JInt i \<Rightarrow> Some (Dec i 0) | JDec m e \<Rightarrow> Some (Dec m e) | _ \<Rightarrow> None)"

definition decode_stream_options :: "json \<Rightarrow> bool option" where
  "decode_stream_options j = do { ms \<leftarrow> as_object j; bool_field ''include_usage'' ms }"

definition decode_chat_request :: "(string \<times> json) list \<Rightarrow> json chat_request option" where
  "decode_chat_request ms = do {
     m \<leftarrow> str_field ''model'' ms; msgs \<leftarrow> as_list decode_message (member ''messages'' ms);
     st \<leftarrow> bool_field ''stream'' ms; te \<leftarrow> ptr_field as_decimal ''temperature'' ms;
     mt \<leftarrow> ptr_field as_int ''max_tokens'' ms; tp \<leftarrow> ptr_field as_decimal ''top_p'' ms;
     sp \<leftarrow> strings_field ''stop'' ms; tl \<leftarrow> as_list Some (member ''tools'' ms);
     so \<leftarrow> ptr_field decode_stream_options ''stream_options'' ms;
     Some \<lparr>cr_Model = m, Messages = msgs, Stream = st, Temperature = te, MaxTokens = mt, TopP = tp,
       Stop = sp, Tools = tl, IncludeUsage = so\<rparr> }"

definition choice_json :: "chat_choice \<Rightarrow> json" where
  "choice_json c = JObj [(''index'', JInt (ch_Index c)), (''message'', chat_message_json (ch_Message c)),
     (''finish_reason'', JStr (FinishReason c))]"

definition usage_json :: "usage_dto \<Rightarrow> json" where
  "usage_json u = JObj ([(''prompt_tokens'', JInt (PromptTokens u)), (''completion_tokens'', JInt (CompletionTokens u)),
     (''total_tokens'', JInt (TotalTokens u))]
     @ omit_ptr ''prompt_tokens_details'' (\<lambda>n. JObj [(''cached_tokens'', JInt n), (''reasoning_tokens'', JInt 0)]) (CachedTokens u)
     @ omit_ptr ''completion_tokens_details'' (\<lambda>n. JObj [(''reasoning_tokens'', JInt n)]) (CompletionReasoning u))"

definition chat_response_json :: "chat_response \<Rightarrow> json" where
  "chat_response_json p = JObj ([(''id'', JStr (cp_ID p)), (''object'', JStr (cp_Object p)), (''created'', JInt (cp_Created p)),
     (''model'', JStr (cp_Model p)), (''choices'', JArr (map choice_json (Choices p)))]
     @ omit_ptr ''usage'' usage_json (cp_Usage p))"

text \<open>The recorder of a request carries the identity the middleware put in its context.\<close>

definition request_recorder :: "'v gate_env \<Rightarrow> token \<Rightarrow> recorder_ctx" where
  "request_recorder gv tok = (gv_Rec gv)\<lparr>rc_TokenID := tk_ID tok, rc_ProjectID := tk_ProjectID tok\<rparr>"

text \<open>What a streamed answer works on: the database, what the client has got, \<open>started\<close>.\<close>

record 'v stream_state =
  ss_world :: "'v world"
  ss_out :: "string list"
  ss_started :: bool

definition write_chunk :: "'v gate_env \<Rightarrow> string \<Rightarrow> 'v stream_state \<Rightarrow> go_error option \<times> 'v stream_state" where
  "write_chunk gv b st = (case gv_Write gv (length (ss_out st)) of
     Some e \<Rightarrow> (Some e, st) | None \<Rightarrow> (None, st\<lparr>ss_out := ss_out st @ [b]\<rparr>))"

definition on_chunk :: "'v gate_env \<Rightarrow> 'v stream_state callback" where
  "on_chunk gv b st = write_chunk gv b (st\<lparr>ss_started := True\<rparr>)"

text \<open>The recorder knows the database, the resolver the database and the vault.\<close>

definition world_hook :: "db attempt_hook \<Rightarrow> 'v world attempt_hook" where
  "world_hook = hook_on fst (\<lambda>s w. (s, snd w))"

definition stream_hook :: "db attempt_hook \<Rightarrow> 'v stream_state attempt_hook" where
  "stream_hook = hook_on (fst \<circ> ss_world) (\<lambda>s st. st\<lparr>ss_world := (s, snd (ss_world st))\<rparr>)"

definition world_resolver :: "'v gate_env \<Rightarrow> 'v world resolver" where
  "world_resolver gv i a w = ResolveForRouter (gv_App gv i) a w"

definition stream_resolver :: "'v gate_env \<Rightarrow> 'v stream_state resolver" where
  "stream_resolver gv i a st = (let (r, w') = world_resolver gv i a (ss_world st) in (r, st\<lparr>ss_world := w'\<rparr>))"

definition sse_line :: "string \<Rightarrow> string" where
  "sse_line s = ''data: '' @ s @ [CHR 0x0A, CHR 0x0A]"

definition stream_error_event :: "biz_error \<Rightarrow> string \<Rightarrow> string" where
  "stream_error_event e rid = sse_line (render (\<lambda>x. []) (JObj [(''error'', JObj
     [(''code'', JStr (code_string (biz_code e))), (''message'', JStr (biz_msg e)), (''request_id'', JStr rid)])]))"

definition usage_total :: "token_usage option \<Rightarrow> usage_dto option" where
  "usage_total u = map_option (\<lambda>x. \<lparr>PromptTokens = InputTokens x, CompletionTokens = OutputTokens x,
     TotalTokens = InputTokens x + OutputTokens x, CachedTokens = None, CompletionReasoning = None\<rparr>) u"

definition stream_response :: "string list \<Rightarrow> http_response" where
  "stream_response out = \<lparr>rs_Status = 200, rs_Headers = [(''Content-Type'', ''text/event-stream''),
     (''Cache-Control'', ''no-cache'')], rs_Body = TextBody (concat out)\<rparr>"

text \<open>The model of the request is the alias the router looks up.\<close>

definition run_stream ::
  "'v gate_env \<Rightarrow> token \<Rightarrow> json chat_request \<Rightarrow> string \<Rightarrow> 'v world \<Rightarrow>
     ((go_error + token_usage option) \<times> decision option) \<times> 'v stream_state" where
  "run_stream gv tok req rid w = ForwardStream (fst \<circ> ss_world) (Some (stream_hook (Recorder (request_recorder gv tok))))
     (stream_resolver gv) (real_streamer (gv_Calls gv)) (gv_Lat gv) (gv_Unix gv) (cr_Model req) req rid (on_chunk gv)
     \<lparr>ss_world = w, ss_out = [], ss_started = False\<rparr>"

definition streamChat :: "'v gate_env \<Rightarrow> token \<Rightarrow> json chat_request \<Rightarrow> string \<Rightarrow> 'v world \<Rightarrow> http_response \<times> 'v world" where
  "streamChat gv tok req rid w =
    (let ((r, d), st) = run_stream gv tok req rid w in
     case r of
       Inl e \<Rightarrow>
         (let stable = mapRelayError e in
          if \<not> ss_started st then
            (stream_response (ss_out (snd (write_chunk gv (stream_error_event stable rid) st))),
             apfst (recordUsage gv rid (cr_Model req) d None (Some (biz_code stable))) (ss_world st))
          else
            (stream_response (ss_out (snd (write_chunk gv (sse_line ''[DONE]'') st))),
             apfst (recordUsage gv rid (cr_Model req) d None (Some (biz_code stable))) (ss_world st)))
     | Inr u \<Rightarrow>
         (stream_response (ss_out (snd (write_chunk gv (sse_line ''[DONE]'') st))),
          apfst (recordUsage gv rid (cr_Model req) d (usage_total u) None) (ss_world st)))"

definition from_code :: "go_error \<Rightarrow> code" where
  "from_code e = (case errs_from (Some e) of Some b \<Rightarrow> biz_code b | None \<Rightarrow> CodeInternal)"

definition plainChat :: "'v gate_env \<Rightarrow> token \<Rightarrow> json chat_request \<Rightarrow> string \<Rightarrow> 'v world \<Rightarrow> http_response \<times> 'v world" where
  "plainChat gv tok req rid w =
    (let ((r, d), w1) = Forward fst (Some (world_hook (Recorder (request_recorder gv tok)))) (world_resolver gv)
           (real_forwarder (gv_Calls gv)) (gv_Lat gv) (gv_Unix gv) (cr_Model req) req rid w
     in case r of
          Inl e \<Rightarrow> (writeError (mapRelayError e), apfst (recordUsage gv rid (cr_Model req) d None (Some (from_code e))) w1)
        | Inr resp \<Rightarrow>
            (let resp' = resp\<lparr>cp_ID := (if cp_ID resp = [] then ''chatcmpl-'' @ rid else cp_ID resp), cp_Model := cr_Model req\<rparr>
             in (writeJSON 200 (chat_response_json resp'), apfst (recordUsage gv rid (cr_Model req) d (cp_Usage resp) None) w1)))"

definition handleChatCompletions :: "'v gate_env \<Rightarrow> 'v token_handler" where
  "handleChatCompletions gv tok r w =
    (if rq_Method r \<noteq> ''POST'' then (bad_method, w)
     else (case read_body decode_chat_request (rq_Body r) of
         None \<Rightarrow> (invalid ''invalid body'', w)
       | Some req \<Rightarrow>
           if cr_Model req = [] \<or> Messages req = [] then (invalid ''model or messages missing'', w)
           else (case checkModelAllowed tok (cr_Model req) of
               Some resp \<Rightarrow> (resp, w)
             | None \<Rightarrow>
                 (let rid = ''req_'' @ gv_ReqHex gv in
                  if Stream req then streamChat gv tok req rid w else plainChat gv tok req rid w))))"

section \<open>Nothing is left behind\<close>

lemma recordUsage_frame [simp]:
  "request_attempts (recordUsage gv rid m d u errc s) = request_attempts s"
  "db_down (recordUsage gv rid m d u errc s) = db_down s"
  by (auto simp: recordUsage_def keep_db_def RecordUsageEvent_def with_db_Inr split: sum.split if_splits)

lemma pending_of_attempts: "request_attempts s' = request_attempts s \<Longrightarrow> pending_attempts s' = pending_attempts s"
  by (simp add: pending_attempts_def)

lemma world_resolver_frame:
  assumes "\<And>s as. f (s\<lparr>accounts := as\<rparr>) = f s"
  shows "f (fst (snd (world_resolver gv i a w))) = f (fst w)"
  by (simp add: world_resolver_def resolved_frame(2) [of f, OF assms])

lemma stream_resolver_frame:
  assumes "\<And>s as. f (s\<lparr>accounts := as\<rparr>) = f s"
  shows "f (fst (ss_world (snd (stream_resolver gv i a st)))) = f (fst (ss_world st))"
  using world_resolver_frame [of f gv i a "ss_world st", OF assms] by (auto simp: stream_resolver_def split: prod.splits)

text \<open>The recorder and the resolver of a request, and the platform connectors, meet the router's contract.\<close>

interpretation plain: routed_ledger "world_hook (Recorder rc)" "\<lambda>w. db_down (fst w) = None"
  "\<lambda>w. pending_attempts (fst w)" "world_resolver gv" for rc gv
proof (intro routed_ledger.intro routed_ledger_axioms.intro)
  show "attempt_ledger (world_hook (Recorder rc)) (\<lambda>w. db_down (fst w) = None) (\<lambda>w. pending_attempts (fst w))"
    unfolding world_hook_def by (rule recorder.lifted) simp
qed (simp add: world_resolver_frame [of db_down] pending_attempts_def world_resolver_frame [of request_attempts])

interpretation streamed: recorded_stream "stream_hook (Recorder rc)" "\<lambda>st. db_down (fst (ss_world st)) = None"
  "\<lambda>st. pending_attempts (fst (ss_world st))" "stream_resolver gv" "real_streamer ce" for rc gv ce
proof (intro recorded_stream.intro routed_ledger.intro routed_ledger_axioms.intro conn.streaming_connector_axioms)
  show "attempt_ledger (stream_hook (Recorder rc)) (\<lambda>st. db_down (fst (ss_world st)) = None) (\<lambda>st. pending_attempts (fst (ss_world st)))"
    using recorder.lifted [of "fst \<circ> ss_world" "\<lambda>s st. st\<lparr>ss_world := (s, snd (ss_world st))\<rparr>" rc] by (simp add: stream_hook_def)
qed (simp add: stream_resolver_frame [of db_down] pending_attempts_def stream_resolver_frame [of request_attempts])

lemma write_chunk_frame [simp]: "ss_world (snd (write_chunk gv b st)) = ss_world st"
  by (simp add: write_chunk_def split: option.split)

lemma on_chunk_frame [simp]: "ss_world (snd (on_chunk gv b st)) = ss_world st"
  by (simp add: on_chunk_def)

lemma run_stream_settles:
  assumes "db_down (fst w) = None"
  shows "pending_attempts (fst (ss_world (snd (run_stream gv tok req rid w)))) \<subseteq> pending_attempts (fst w)"
proof (cases "resolveCandidates (cr_Model req) (fst w)")
  case (Inl e)
  then show ?thesis by (simp add: run_stream_def ForwardStream_def)
next
  case (Inr r)
  obtain cands pid where r: "r = (cands, pid)" by fastforce
  define st where "st = \<lparr>ss_world = w, ss_out = [], ss_started = False\<rparr>"
  have st: "ss_world st = w" by (simp add: st_def)
  from assms have "pending_attempts (fst (ss_world (snd (snd (stream_loop (Some (stream_hook (Recorder (request_recorder gv tok))))
      (stream_resolver gv) (real_streamer (gv_Calls gv)) (gv_Lat gv) (cr_Model req) req rid (on_chunk gv) 0 cands
      (new_decision rid (cr_Model req) pid (gv_Unix gv)) ErrNoCandidate (False, st)))))) \<subseteq> pending_attempts (fst (ss_world st))"
    using streamed.stream_loop_settles [of "on_chunk gv" "(False, st)"] by (simp add: st)
  then show ?thesis
    by (auto simp: run_stream_def ForwardStream_def st_def [symmetric] st Inr r split: prod.splits)
qed

lemma streamChat_settles:
  "db_down (fst w) = None \<Longrightarrow> pending_attempts (fst (snd (streamChat gv tok req rid w))) \<subseteq> pending_attempts (fst w)"
  using run_stream_settles [of w gv tok req rid]
  by (auto simp: streamChat_def Let_def pending_attempts_def split: prod.splits sum.splits)

lemma plainChat_settles:
  "db_down (fst w) = None \<Longrightarrow> pending_attempts (fst (snd (plainChat gv tok req rid w))) \<subseteq> pending_attempts (fst w)"
  using plain.Forward_settles [of w fst "request_recorder gv tok" gv "real_forwarder (gv_Calls gv)"
      "gv_Lat gv" "gv_Unix gv" "cr_Model req" req rid]
  by (auto simp: plainChat_def Let_def pending_attempts_def split: prod.splits sum.splits)

lemma handleChatCompletions_settles:
  "db_down (fst w) = None \<Longrightarrow> pending_attempts (fst (snd (handleChatCompletions gv tok r w))) \<subseteq> pending_attempts (fst w)"
  by (simp add: handleChatCompletions_def Let_def streamChat_settles plainChat_settles split: option.split)

lemma Authenticate_frame:
  assumes "Authenticate sha t nw r s = (x, s1)"
  shows "request_attempts s1 = request_attempts s \<and> db_down s1 = db_down s \<and> accounts s1 = accounts s"
proof -
  have "request_attempts s' = request_attempts s \<and> db_down s' = db_down s \<and> accounts s' = accounts s" if "TouchToken i nw s = Inr s'" for i s'
    using that by (auto simp: TouchToken_def with_db_Inr)
  with assms show ?thesis
    by (auto simp: Authenticate_def Let_def split: option.splits sum.splits if_splits)
qed

lemma Authenticate_usage:
  assumes "Authenticate sha t nw r s = (x, s1)"
  shows "usage_events s1 = usage_events s"
proof -
  have "usage_events s' = usage_events s" if "TouchToken i nw s = Inr s'" for i s'
    using that by (auto simp: TouchToken_def with_db_Inr)
  with assms show ?thesis
    by (auto simp: Authenticate_def Let_def split: option.splits sum.splits if_splits)
qed

lemma Authenticate_accepted:
  assumes "Authenticate sha t nw r s = (x, s1)" and "x = Inr tok"
  obtains row where "find (\<lambda>x. tk_KeyHash x = sha (bearerToken r)) (access_tokens s) = Some row"
    and "tok = row\<lparr>tk_KeyHash := []\<rparr>" and "tk_Enabled row"
    and "tk_ExpiresAt row = [] \<or> (\<exists>x. parse_rfc3339 (tk_ExpiresAt row) = Some x \<and> t \<le> x)"
  using assms
  by (auto simp: Authenticate_def Let_def FindTokenByKeyHash_def with_db_def query_row_def scanToken_def
      split: option.splits sum.splits if_splits)

lemma Acquire_Release:
  assumes "access_steps mx a" and "Acquire tok m a = Inr (n, a1)"
  shows "inUse (Release n a1) = inUse a \<and> held (Release n a1) = held a"
proof -
  from assms(2) have a1: "n = next_lease a"
    "a1 = a\<lparr>inUse := (inUse a)(tok := inUse a tok + 1), held := (n, tok) # held a, next_lease := Suc n\<rparr>"
    by (auto simp: Acquire_def split: if_splits)
  from held_fresh [OF assms(1)] have "filter (\<lambda>l. fst l \<noteq> n) (held a) = held a"
    by (intro filter_True) (auto simp: a1(1))
  moreover have "0 < inUse a tok + 1" using inUse_outstanding [OF assms(1)] by simp
  ultimately show ?thesis by (simp add: Release_def a1(2))
qed

lemma requireToken_frame:
  assumes "access_steps mx a" and "requireToken gv next_h r ((s, v), a) = (resp, (w', a'))"
  shows "inUse a' = inUse a \<and> held a' = held a \<and>
    ((\<exists>tok s1. request_attempts s1 = request_attempts s \<and> db_down s1 = db_down s \<and> w' = snd (next_h tok r (s1, v)))
     \<or> (request_attempts (fst w') = request_attempts s \<and> rs_Status resp \<in> {401, 429, 500}))"
proof -
  obtain x s1 where A: "Authenticate (gv_Sha gv) (gv_Now gv) (gv_nw gv) r s = (x, s1)" by fastforce
  note fr = Authenticate_frame [OF A]
  show ?thesis
  proof (cases x)
    case (Inl e)
    with assms(2) fr show ?thesis
      by (auto simp: requireToken_def A Let_def internal_error_def split: if_splits)
  next
    case (Inr tok)
    show ?thesis
    proof (cases "Acquire (tk_ID tok) (tk_MaxConcurrency tok) a")
      case refused: (Inl e)
      with assms(2) fr Inr show ?thesis by (auto simp: requireToken_def A)
    next
      case acq: (Inr y)
      obtain n a1 where y: "y = (n, a1)" by fastforce
      obtain resp' w2 where nx: "next_h tok r (s1, v) = (resp', w2)" by (metis surj_pair)
      have eqs: "resp = resp'" "w' = w2" "a' = Release n a1"
        using assms(2) by (simp_all add: requireToken_def A Inr acq y nx)
      have "w' = snd (next_h tok r (s1, v))" by (simp add: eqs nx)
      with Acquire_Release [OF assms(1) acq [unfolded y]] fr show ?thesis unfolding eqs(3) by blast
    qed
  qed
qed

text \<open>
  C24: a chat request, plain or streamed, whatever its token, body, candidates and upstreams,
  whatever tokens are refreshed for it, and whether or not the client stops reading, leaves no
  attempt of its own in state \<open>started\<close>, and gives its concurrency lease back: the counters
  and the outstanding leases of every token are what they were.
\<close>

theorem chat_request_settles:
  assumes "db_down s = None" and "access_steps mx a"
    and "requireToken gv (handleChatCompletions gv) r ((s, v), a) = (resp, ((s', v'), a'))"
  shows "(\<forall>x \<in> set (request_attempts s'). ra_Status x = ''started'' \<longrightarrow>
      attempt_key x \<in> attempt_key ` {y \<in> set (request_attempts s). ra_Status y = ''started''}) \<and>
    InUse t a' = InUse t a \<and> held a' = held a"
proof -
  have sub: "pending_attempts s' \<subseteq> pending_attempts s"
    using requireToken_frame [OF assms(2,3)]
  proof (elim conjE disjE exE)
    fix tok s1
    assume "request_attempts s1 = request_attempts s" "db_down s1 = db_down s" "(s', v') = snd (handleChatCompletions gv tok r (s1, v))"
    with handleChatCompletions_settles [of "(s1, v)" gv tok r] assms(1) show ?thesis
      by (metis fst_conv pending_of_attempts)
  next
    assume "request_attempts (fst (s', v')) = request_attempts s"
    then show ?thesis by (simp add: pending_attempts_def)
  qed
  then show ?thesis
    using requireToken_frame [OF assms(2,3)] by (auto simp: pending_attempts_def InUse_def)
qed

text \<open>
  C25: no upstream work without a right to it. When a chat request changes the attempts, the
  usage, the accounts or the vault, its bearer token's digest is a row of the token table that
  is enabled and not expired, and the row's whitelist admits the model the body names.
\<close>

theorem chat_request_authorized:
  assumes "requireToken gv (handleChatCompletions gv) r ((s, v), a) = (resp, ((s', v'), a'))"
    and "request_attempts s' \<noteq> request_attempts s \<or> usage_events s' \<noteq> usage_events s \<or> accounts s' \<noteq> accounts s \<or> v' \<noteq> v"
  shows "\<exists>row req. row \<in> set (access_tokens s) \<and> tk_KeyHash row = gv_Sha gv (bearerToken r) \<and> tk_Enabled row \<and>
      (tk_ExpiresAt row = [] \<or> (\<exists>x. parse_rfc3339 (tk_ExpiresAt row) = Some x \<and> gv_Now gv \<le> x)) \<and>
      read_body decode_chat_request (rq_Body r) = Some req \<and> ModelAllowed row (cr_Model req)"
proof -
  obtain x s1 where A: "Authenticate (gv_Sha gv) (gv_Now gv) (gv_nw gv) r s = (x, s1)" by fastforce
  note fr = Authenticate_frame [OF A] Authenticate_usage [OF A]
  from assms fr obtain tok where x: "x = Inr tok"
    by (cases x) (auto simp: requireToken_def A Let_def split: if_splits)
  from assms(1) have "(s', v') = (s1, v) \<or> (s', v') = snd (handleChatCompletions gv tok r (s1, v))"
    by (auto simp: requireToken_def A x split: sum.splits prod.splits)
  with assms(2) fr have ch: "snd (handleChatCompletions gv tok r (s1, v)) \<noteq> (s1, v)" by auto
  then obtain req where req: "read_body decode_chat_request (rq_Body r) = Some req" "ModelAllowed tok (cr_Model req)"
    by (auto simp: handleChatCompletions_def checkModelAllowed_def split: if_splits option.splits)
  from A x obtain row where row: "find (\<lambda>x. tk_KeyHash x = gv_Sha gv (bearerToken r)) (access_tokens s) = Some row"
      "tok = row\<lparr>tk_KeyHash := []\<rparr>" "tk_Enabled row"
      "tk_ExpiresAt row = [] \<or> (\<exists>x. parse_rfc3339 (tk_ExpiresAt row) = Some x \<and> gv_Now gv \<le> x)"
    by (rule Authenticate_accepted)
  from req(2) row(2) have "ModelAllowed row (cr_Model req)" by (simp add: ModelAllowed_def cong: if_cong)
  with row req(1) find_SomeD [OF row(1)] show ?thesis by blast
qed

section \<open>What a failure looks like\<close>

lemma feed_writes:
  assumes "\<And>n. gv_Write gv n = None"
  shows "(ss_out (snd (feed (on_chunk gv) bs st)), ss_started (snd (feed (on_chunk gv) bs st))) =
    (ss_out st @ bs, ss_started st \<or> bs \<noteq> [])"
proof (induction bs arbitrary: st)
  case (Cons b bs)
  have "on_chunk gv b st = (None, st\<lparr>ss_started := True, ss_out := ss_out st @ [b]\<rparr>)"
    using assms by (simp add: on_chunk_def write_chunk_def)
  with Cons show ?case by simp
qed simp

lemma stream_out:
  "ss_out (snd (hook_Start (stream_hook h) i info st)) = ss_out st"
  "ss_started (snd (hook_Start (stream_hook h) i info st)) = ss_started st"
  "ss_out (hook_Finish (stream_hook h) i rid att res st) = ss_out st"
  "ss_started (hook_Finish (stream_hook h) i rid att res st) = ss_started st"
  "ss_out (snd (stream_resolver gv j a st)) = ss_out st"
  "ss_started (snd (stream_resolver gv j a st)) = ss_started st"
  by (simp_all add: stream_hook_def hook_on_def stream_resolver_def split: prod.split)

text \<open>What the client has got is the output of one connector's run, for the candidate selected.\<close>

lemma run_stream_output:
  assumes "\<And>n. gv_Write gv n = None" and "run_stream gv tok req rid w = ((res, d), st)"
  shows "ss_started st = (ss_out st \<noteq> []) \<and> (if ss_out st = [] then True else
     (\<exists>j (c :: candidate) impl t s0 sel. snd (real_streamer (gv_Calls gv) j impl t (req\<lparr>cr_Model := cd_ModelID c\<rparr>) (wrapped (on_chunk gv)) (False, s0))
          = (True, snd (feed (on_chunk gv) (ss_out st) s0)) \<and>
        d = Some sel \<and> d_Selected sel = cd_AccountID c @ ''@'' @ cd_ModelID c))"
proof (cases "resolveCandidates (cr_Model req) (fst w)")
  case (Inl e)
  with assms(2) show ?thesis by (auto simp: run_stream_def ForwardStream_def)
next
  case (Inr r)
  obtain cands pid where r: "r = (cands, pid)" by fastforce
  define st0 where "st0 = \<lparr>ss_world = w, ss_out = [], ss_started = False\<rparr>"
  have sd: "ss_world st0 = w" by (simp add: st0_def)
  let ?seen = "\<lambda>st. (ss_out st, ss_started st)"
  let ?L = "stream_loop (Some (stream_hook (Recorder (request_recorder gv tok)))) (stream_resolver gv) (real_streamer (gv_Calls gv))
      (gv_Lat gv) (cr_Model req) req rid (on_chunk gv) 0 cands (new_decision rid (cr_Model req) pid (gv_Unix gv)) ErrNoCandidate (False, st0)"
  obtain bs s0 where o: "?seen s0 = ?seen st0" "?seen (snd (snd ?L)) = ?seen (snd (feed (on_chunk gv) bs s0))"
    and run: "bs \<noteq> [] \<longrightarrow> (\<exists>j c impl t. (j, c) \<in> set (enumerate 0 cands) \<and>
        snd (real_streamer (gv_Calls gv) j impl t (req\<lparr>cr_Model := cd_ModelID c\<rparr>) (wrapped (on_chunk gv)) (False, s0)) = (True, snd (feed (on_chunk gv) bs s0)) \<and>
        d_Selected (snd (fst ?L)) = cd_AccountID c @ ''@'' @ cd_ModelID c)"
    using conn.one_run_outputs [where out = ?seen and h = "stream_hook (Recorder (request_recorder gv tok))" and resolve = "stream_resolver gv"]
    by (simp only: stream_out prod.inject) blast
  have seen: "ss_out (snd (snd ?L)) = bs" "ss_started (snd (snd ?L)) = (bs \<noteq> [])"
    using o feed_writes [OF assms(1), of bs s0] by (simp_all add: st0_def)
  have eqs: "st = snd (snd ?L)" "d = Some (snd (fst ?L))"
    using assms(2) by (auto simp: run_stream_def ForwardStream_def st0_def [symmetric] sd Inr r split: prod.splits)
  have out: "ss_out st = bs" "ss_started st = (bs \<noteq> [])" unfolding eqs(1) by (rule seen)+
  show ?thesis
  proof (cases "bs = []")
    case False
    then obtain j impl t and c :: candidate where r: "snd (real_streamer (gv_Calls gv) j impl t (req\<lparr>cr_Model := cd_ModelID c\<rparr>)
          (wrapped (on_chunk gv)) (False, s0)) = (True, snd (feed (on_chunk gv) bs s0))"
        "d_Selected (snd (fst ?L)) = cd_AccountID c @ ''@'' @ cd_ModelID c"
      using run by blast
    have "\<exists>sel. d = Some sel \<and> d_Selected sel = cd_AccountID c @ ''@'' @ cd_ModelID c"
      unfolding eqs(2) by (rule exI, rule conjI [OF refl r(2)])
    with r(1) False show ?thesis unfolding out by (simp only: if_False simp_thms) blast
  qed (simp add: out)
qed

text \<open>The texts a failed forward can put before a client.\<close>

definition relay_messages :: "string list" where
  "relay_messages = [''no usable channel'', ''upstream authentication failed'', ''upstream rate limit'', ''upstream timeout'',
     ''network error'', ''stream truncated'', ''upstream model unavailable'', ''upstream error'', ''upstream quota exhausted'',
     ''relay failed'']"

lemma mapRelayError_fixed: "biz_msg (mapRelayError e) \<in> set relay_messages \<and> biz_code (mapRelayError e) \<noteq> CodeInternal"
  by (simp add: mapRelayError_def relay_messages_def)


lemma recorder_keeps_usage:
  "usage_events (snd (hook_Start (Recorder rc) i info s)) = usage_events s"
  "usage_events (hook_Finish (Recorder rc) i rid att res s) = usage_events s"
  "db_down (snd (hook_Start (Recorder rc) i info s)) = db_down s"
  "db_down (hook_Finish (Recorder rc) i rid att res s) = db_down s"
  by (auto simp: Recorder_def Recorder_StartAttempt_def Recorder_FinishAttempt_def keep_db_def CreateAttempt_def
      FinishAttempt_def with_db_Inr affected_Inr split: sum.splits if_splits)

lemma world_hook_keeps_usage:
  "usage_events (fst (snd (hook_Start (world_hook (Recorder rc)) i info w))) = usage_events (fst w)"
  "usage_events (fst (hook_Finish (world_hook (Recorder rc)) i rid att res w)) = usage_events (fst w)"
  "db_down (fst (snd (hook_Start (world_hook (Recorder rc)) i info w))) = db_down (fst w)"
  "db_down (fst (hook_Finish (world_hook (Recorder rc)) i rid att res w)) = db_down (fst w)"
  by (auto simp: world_hook_def hook_on_def recorder_keeps_usage split: prod.split) (metis recorder_keeps_usage snd_conv)+

text \<open>
  A plain request that fails is booked as an internal error. Whatever class the failure
  has, and whatever status the client is told (never 500), the usage event of a failure that
  carries no stable error of its own says 500 and \<open>internal_error\<close>; the message the client
  gets is again one of the fixed texts.
\<close>

theorem failed_chat_booked_as_internal:
  assumes "fst (fst (Forward fst (Some (world_hook (Recorder (request_recorder gv tok)))) (world_resolver gv) (real_forwarder (gv_Calls gv))
      (gv_Lat gv) (gv_Unix gv) (cr_Model req) req rid (s, v))) = Inl e"
    and "errs_as e = None" and "db_down s = None" and "(''ue_'' @ gv_UsageHex gv) \<notin> ue_ID ` set (usage_events s)"
  shows "plainChat gv tok req rid (s, v) = (writeError (mapRelayError e), snd (plainChat gv tok req rid (s, v))) \<and>
    biz_msg (mapRelayError e) \<in> set relay_messages \<and> HTTPStatus (biz_code (mapRelayError e)) \<noteq> 500 \<and>
    (\<exists>ev. usage_events (fst (snd (plainChat gv tok req rid (s, v)))) = usage_events s @ [ev] \<and>
       ue_RequestID ev = rid \<and> ue_StatusCode ev = 500 \<and> ue_ErrorClass ev = ''internal_error'')"
proof -
  let ?F = "Forward fst (Some (world_hook (Recorder (request_recorder gv tok)))) (world_resolver gv) (real_forwarder (gv_Calls gv))
      (gv_Lat gv) (gv_Unix gv) (cr_Model req) req rid (s, v)"
  obtain d s1 v1 where F: "?F = ((Inl e, d), (s1, v1))" using assms(1) by (metis prod.collapse)
  have keep: "usage_events s1 = usage_events s \<and> db_down s1 = db_down s"
    using Forward_keeps [where Q = "\<lambda>w. usage_events (fst w) = usage_events s \<and> db_down (fst w) = db_down s" and s = "(s, v)"
        and h = "world_hook (Recorder (request_recorder gv tok))" and resolve = "world_resolver gv" and store = fst
        and fwd = "real_forwarder (gv_Calls gv)" and lat = "gv_Lat gv" and t_unix = "gv_Unix gv" and al = "cr_Model req"
        and req = req and rid = rid]
    by (simp add: F world_hook_keeps_usage world_resolver_frame [of usage_events] world_resolver_frame [of db_down])
  have nw: "\<not> has_row (\<lambda>r. ue_ID r = ''ue_'' @ gv_UsageHex gv) (usage_events s1)"
    using assms(4) keep unfolding has_row_iff by (metis image_eqI)
  have fc: "from_code e = CodeInternal" using assms(2) by (simp add: from_code_def errs_from_def)
  define ev where "ev = usage_of gv rid (cr_Model req) d None (Some CodeInternal)"
  have ev: "ue_RequestID ev = rid" "ue_StatusCode ev = 500" "ue_ErrorClass ev = ''internal_error''"
    "ue_ID ev = ''ue_'' @ gv_UsageHex gv"
    by (simp_all add: ev_def usage_of_def)
  have "usage_events (recordUsage gv rid (cr_Model req) d None (Some CodeInternal) s1)
      = usage_events s @ [usage_event.extend ev (usage_event_row.fields (gv_nw gv))]"
    unfolding recordUsage_def ev_def [symmetric]
    using nw keep assms(3) ev(4) by (simp add: keep_db_def RecordUsageEvent_def with_db_def)
  moreover have "ue_RequestID (usage_event.extend ev x) = ue_RequestID ev" "ue_StatusCode (usage_event.extend ev x) = ue_StatusCode ev"
    "ue_ErrorClass (usage_event.extend ev x) = ue_ErrorClass ev" for x
    by (simp_all add: usage_event.extend_def)
  moreover have "HTTPStatus c \<noteq> 500" if "c \<noteq> CodeInternal" for c using that by (cases c) auto
  ultimately show ?thesis
    using mapRelayError_fixed [of e] ev by (auto simp: plainChat_def F fc)
qed

text \<open>Witnesses: an accepted token, a request whose only account is rate limited, and an empty store.\<close>

text \<open>The account with a key of the demonstration vault, under an upstream that refuses.\<close>

definition demo_gate :: "mem_vault gate_env" where
  "demo_gate = \<lparr>gv_Sha = id, gv_Now = 0, gv_nw = ''now'', gv_ReqHex = ''1'', gv_UsageHex = ''1'',
     gv_App = (\<lambda>i. app_demo),
     gv_Calls = (\<lambda>i. demo_env (\<lambda>out. Inl (NetError ''refused'' (Some ECONNRESET)))), gv_Lat = (\<lambda>i. 0),
     gv_Latency = 0, gv_Unix = 0, gv_Rec = demo_rc, gv_Write = (\<lambda>n. None)\<rparr>"

definition demo_chat :: http_request where
  "demo_chat = demo_call\<lparr>rq_Body := ''{\"model\":\"fast\",\"messages\":[{\"role\":\"user\",\"content\":\"hi\"}]}''\<rparr>"

definition demo_gateway_db :: db where
  "demo_gateway_db = app_db\<lparr>access_tokens := [demo_token], routing_policies := [demo_policy\<lparr>rp_Candidates :=
     [\<lparr>cd_AccountID = ''a'', cd_ModelID = ''m1'', cd_Priority = 1, cd_Weight = 1\<rparr>]\<rparr>]\<rparr>"

text \<open>The attempt is recorded and settled; the usage event says 500.\<close>

lemma demo_chat_books:
  "map ue_StatusCode (usage_events (fst (fst (snd (requireToken demo_gate (handleChatCompletions demo_gate) demo_chat
     ((demo_gateway_db, rotated_vault), new_access)))))) = [500]"
  "map ra_Status (request_attempts (fst (fst (snd (requireToken demo_gate (handleChatCompletions demo_gate) demo_chat
     ((demo_gateway_db, rotated_vault), new_access)))))) = [''failed'']"
  by code_simp+

lemma chat_request_settles_witness:
  "held (snd (snd (requireToken demo_gate (handleChatCompletions demo_gate) demo_chat ((demo_gateway_db, rotated_vault), new_access)))) = []"
proof -
  obtain resp s' v' a' where w: "requireToken demo_gate (handleChatCompletions demo_gate) demo_chat ((demo_gateway_db, rotated_vault), new_access)
      = (resp, ((s', v'), a'))" by (metis prod.collapse)
  have "db_down demo_gateway_db = None" by (simp add: demo_gateway_db_def app_db_def empty_db_def)
  from chat_request_settles [OF this access_steps.start w] have "held a' = held new_access" by blast
  then show ?thesis unfolding w by (simp add: new_access_def)
qed

lemma chat_request_authorized_witness:
  "demo_token \<in> set (access_tokens demo_gateway_db) \<and>
   (\<exists>row req. row \<in> set (access_tokens demo_gateway_db) \<and> read_body decode_chat_request (rq_Body demo_chat) = Some req \<and>
      ModelAllowed row (cr_Model req))"
proof -
  obtain resp s' v' a' where w: "requireToken demo_gate (handleChatCompletions demo_gate) demo_chat ((demo_gateway_db, rotated_vault), new_access)
      = (resp, ((s', v'), a'))" by (metis prod.collapse)
  have "usage_events s' \<noteq> usage_events demo_gateway_db"
    using demo_chat_books(1) unfolding w by (auto simp: demo_gateway_db_def app_db_def empty_db_def)
  from chat_request_authorized [OF w disjI2 [OF disjI1 [OF this]]] show ?thesis by (auto simp: demo_gateway_db_def)
qed

definition demo_stream_request :: "json chat_request" where
  "demo_stream_request = NewChatRequest ''fast'' []"


lemma failed_chat_booked_as_internal_witness:
  "\<exists>ev. usage_events (fst (snd (plainChat demo_gate demo_token demo_stream_request ''req_1'' (app_db, rotated_vault)))) = [ev] \<and>
     ue_StatusCode ev = 500"
proof -
  define res where "res = fst (fst (Forward fst (Some (world_hook (Recorder (request_recorder demo_gate demo_token)))) (world_resolver demo_gate)
      (real_forwarder (gv_Calls demo_gate)) (gv_Lat demo_gate) (gv_Unix demo_gate) (cr_Model demo_stream_request)
      demo_stream_request ''req_1'' (app_db, rotated_vault)))"
  have "map_sum (\<lambda>e. errs_as e = None) id res = Inl True" unfolding res_def by code_simp
  then obtain e where e: "res = Inl e" "errs_as e = None" by (cases res) auto
  from failed_chat_booked_as_internal [OF e [unfolded res_def]] show ?thesis by (auto simp: app_db_def empty_db_def)
qed

end
