(* ===== verification/Responses.thy ===== *)
theory Responses
  imports Gateway
begin

text \<open>
  The Responses protocol (\<open>internal/protocols/responses/responses.go\<close>): one forwarded request,
  plain or streamed, and what is read out of the answer in passing: its id, model and usage.
  The HTTP client is the argument \<open>net\<close>; \<open>bad_url\<close> is the verdict of building the request,
  \<open>ctx i\<close> the state of the request's context before line \<open>i\<close> is read.
\<close>

section \<open>Data\<close>

record resp_target =
  rp_BaseURL :: string
  rp_Token :: string

record resp_usage =
  ru_InputTokens :: int
  ru_CachedTokens :: int
  ru_OutputTokens :: int
  ru_ReasoningTokens :: int

text \<open>\<open>Usage\<close> with \<open>HasUsage\<close>: no usage is \<open>None\<close>.\<close>

record resp_meta =
  me_ID :: string
  me_Model :: string
  me_Usage :: "resp_usage option"

definition zero_meta :: resp_meta where
  "zero_meta = \<lparr>me_ID = [], me_Model = [], me_Usage = None\<rparr>"

fun RateLimited :: "go_error \<Rightarrow> bool" where
  "RateLimited (StatusError st c b) = (st = 429)"
| "RateLimited _ = False"

definition maxBody :: nat where "maxBody = 4194304"

section \<open>What is read in passing\<close>

definition decode_cached :: "json \<Rightarrow> int option" where
  "decode_cached j = do { ms \<leftarrow> as_object j; int_field ''cached_tokens'' ms }"

definition decode_reasoning :: "json \<Rightarrow> int option" where
  "decode_reasoning j = do { ms \<leftarrow> as_object j; int_field ''reasoning_tokens'' ms }"

definition decode_resp_usage :: "json \<Rightarrow> resp_usage option" where
  "decode_resp_usage j = do {
     ms \<leftarrow> as_object j; i \<leftarrow> int_field ''input_tokens'' ms; c \<leftarrow> ptr_field decode_cached ''input_tokens_details'' ms;
     o' \<leftarrow> int_field ''output_tokens'' ms; r \<leftarrow> ptr_field decode_reasoning ''output_tokens_details'' ms;
     Some \<lparr>ru_InputTokens = i, ru_CachedTokens = (case c of None \<Rightarrow> 0 | Some n \<Rightarrow> n), ru_OutputTokens = o',
       ru_ReasoningTokens = (case r of None \<Rightarrow> 0 | Some n \<Rightarrow> n)\<rparr> }"

definition decode_resp_object :: "json \<Rightarrow> (string \<times> string \<times> resp_usage option) option" where
  "decode_resp_object j = do {
     ms \<leftarrow> as_object j; i \<leftarrow> str_field ''id'' ms; m \<leftarrow> str_field ''model'' ms; u \<leftarrow> ptr_field decode_resp_usage ''usage'' ms;
     Some (i, m, u) }"

text \<open>
  The container is the raw member \<open>response\<close> when there is one (also when it is \<open>null\<close>),
  otherwise the whole value.
\<close>

definition meta_source :: "json \<Rightarrow> json option" where
  "meta_source j = do {
     ms \<leftarrow> as_object j; t \<leftarrow> str_field ''type'' ms;
     Some (if ''response'' \<in> fst ` set ms then member ''response'' ms else j) }"

definition extractMeta :: "string \<Rightarrow> resp_meta \<Rightarrow> resp_meta" where
  "extractMeta data meta =
    (case Option.bind (Option.bind (json_parse data) meta_source) decode_resp_object of
       None \<Rightarrow> meta
     | Some (i, m, u) \<Rightarrow>
         \<lparr>me_ID = (if i = [] then me_ID meta else i), me_Model = (if m = [] then me_Model meta else m),
          me_Usage = (if u = None then me_Usage meta else u)\<rparr>)"

text \<open>\<open>int(v)\<close> of a \<open>float64\<close> truncates towards zero.\<close>

definition json_trunc :: "int \<Rightarrow> int \<Rightarrow> int" where
  "json_trunc m e = (if 0 \<le> e then m * 10 ^ nat e else sgn m * (\<bar>m\<bar> div 10 ^ nat (- e)))"

definition code_text :: "json \<Rightarrow> string" where
  "code_text j = (case j of JStr s \<Rightarrow> s | JInt i \<Rightarrow> itoa i | JDec m e \<Rightarrow> itoa (json_trunc m e) | _ \<Rightarrow> [])"

definition decode_error_code :: "json \<Rightarrow> string option" where
  "decode_error_code j = do {
     ms \<leftarrow> as_object j; es \<leftarrow> as_object (member ''error'' ms); t \<leftarrow> str_field ''type'' es;
     Some (let c = code_text (member ''code'' es) in if c = [] then t else c) }"

definition parseStatusError :: "upstream_response \<Rightarrow> go_error" where
  "parseStatusError resp = (let body = take 512 (us_Data resp) in
     StatusError (us_Status resp)
       (case Option.bind (json_parse body) decode_error_code of None \<Rightarrow> [] | Some c \<Rightarrow> c) body)"

section \<open>Streaming\<close>

definition sniff :: "string \<Rightarrow> resp_meta \<Rightarrow> resp_meta" where
  "sniff line meta = (let trimmed = trim_eol line in
     if has_prefix trimmed ''data:'' then
       (let payload = trim_space (drop 5 trimmed) in
        if payload \<noteq> [] \<and> payload \<noteq> ''[DONE]'' then extractMeta payload meta else meta)
     else meta)"

definition read_stream_error :: "go_error option \<Rightarrow> go_error option" where
  "read_stream_error ending = map_option (\<lambda>e. WrapError ''responses: read stream: '' e []) ending"

text \<open>One round per line; the last one handles the read that ended the body.\<close>

fun streamSSE ::
  "'w callback \<Rightarrow> (nat \<Rightarrow> go_error option) \<Rightarrow> go_error option \<Rightarrow> nat \<Rightarrow> string list \<Rightarrow> string \<Rightarrow> resp_meta \<Rightarrow> 'w
     \<Rightarrow> (resp_meta \<times> go_error option) \<times> 'w" where
  "streamSSE cb ctx ending i [] tail meta w =
    (case ctx i of
       Some e \<Rightarrow> ((meta, Some e), w)
     | None \<Rightarrow>
         if tail = [] then ((meta, read_stream_error ending), w)
         else (case cb tail w of
             (Some e, w1) \<Rightarrow> ((meta, Some e), w1)
           | (None, w1) \<Rightarrow> ((sniff tail meta, read_stream_error ending), w1)))"
| "streamSSE cb ctx ending i (line # ls) tail meta w =
    (case ctx i of
       Some e \<Rightarrow> ((meta, Some e), w)
     | None \<Rightarrow>
         (case cb line w of
            (Some e, w1) \<Rightarrow> ((meta, Some e), w1)
          | (None, w1) \<Rightarrow> streamSSE cb ctx ending (Suc i) ls tail (sniff line meta) w1))"

section \<open>Forwarding\<close>

definition responses_request :: "resp_target \<Rightarrow> string \<Rightarrow> bool \<Rightarrow> http_out" where
  "responses_request t body stream = \<lparr>ho_Method = ''POST'', ho_URL = trim_suffix (rp_BaseURL t) ''/'' @ ''/responses'',
     ho_Headers = [(''Content-Type'', ''application/json''),
       (''Accept'', if stream then ''text/event-stream'' else ''application/json''),
       (''Authorization'', ''Bearer '' @ rp_Token t)], ho_Body = Some body\<rparr>"

definition forward_plain :: "upstream_response \<Rightarrow> 'w callback \<Rightarrow> 'w \<Rightarrow> (resp_meta \<times> go_error option) \<times> 'w" where
  "forward_plain resp cb w =
    (case (if length (us_Data resp) < maxBody then us_End resp else None) of
       Some e \<Rightarrow> ((zero_meta, Some (WrapError ''responses: read body: '' e [])), w)
     | None \<Rightarrow> (let data = take maxBody (us_Data resp) in
         case cb data w of
           (Some e, w1) \<Rightarrow> ((zero_meta, Some e), w1)
         | (None, w1) \<Rightarrow> ((extractMeta data zero_meta, None), w1)))"

definition responses_Forward ::
  "(string \<Rightarrow> go_error option) \<Rightarrow> transport \<Rightarrow> (nat \<Rightarrow> go_error option) \<Rightarrow> resp_target \<Rightarrow> string \<Rightarrow> bool
     \<Rightarrow> 'w callback \<Rightarrow> 'w \<Rightarrow> (resp_meta option \<times> go_error option) \<times> 'w" where
  "responses_Forward bad_url net ctx t body stream cb w =
    (let out = responses_request t body stream in
     case bad_url (ho_URL out) of
       Some e \<Rightarrow> ((None, Some (WrapError ''responses: build request: '' e [])), w)
     | None \<Rightarrow>
         (case net out of
            Inl e \<Rightarrow> ((None, Some (WrapError ''responses: upstream request: '' e [])), w)
          | Inr resp \<Rightarrow>
              if \<not> status_ok (us_Status resp) then ((None, Some (parseStatusError resp)), w)
              else (let ((meta, err), w1) =
                  (if stream then (let (ls, tail) = split_lines (us_Data resp) in
                     streamSSE cb ctx (us_End resp) 0 ls tail zero_meta w)
                   else forward_plain resp cb w)
                in ((Some meta, err), w1))))"

section \<open>Bytes pass unchanged\<close>

lemma streamSSE_feed:
  assumes "\<And>i. ctx i = None"
  shows "streamSSE cb ctx ending i ls tail meta w =
    (case feed cb (ls @ (if tail = [] then [] else [tail])) w of
       (Some e, w') \<Rightarrow> ((fst (fst (streamSSE cb ctx ending i ls tail meta w)), Some e), w')
     | (None, w') \<Rightarrow> ((fold sniff (ls @ (if tail = [] then [] else [tail])) meta, read_stream_error ending), w'))"
proof (induction ls arbitrary: i meta w)
  case Nil
  then show ?case by (auto simp: assms split: prod.split option.split)
next
  case (Cons l ls)
  then show ?case by (auto simp: assms split: prod.splits option.splits)
qed

lemma streamSSE_accepted:
  assumes "\<And>i. ctx i = None" and "feed cb (ls @ (if tail = [] then [] else [tail])) w = (None, w')"
  shows "streamSSE cb ctx ending i ls tail meta w =
    ((fold sniff (ls @ (if tail = [] then [] else [tail])) meta, read_stream_error ending), w')"
  by (subst streamSSE_feed [OF assms(1)]) (simp only: assms(2) prod.case option.case)

lemma split_lines_pieces: "split_lines s = (ls, tail) \<Longrightarrow> concat (ls @ (if tail = [] then [] else [tail])) = s"
  using split_lines_concat [of s ls tail] by auto

end
