(* ===== verification/RespApi.thy ===== *)
theory RespApi
  imports Responses
begin

text \<open>
  The Responses endpoint (\<open>handleResponses\<close>, \<open>forwardResponses\<close>, \<open>recordResponsesUsage\<close>,
  \<open>rewriteResponsesModel\<close> and \<open>responsesRetryable\<close> of \<open>internal/api/responses_oauth.go\<close>). The
  response writer is part of the state, because several candidates may write to it: its
  header is sent at most once, what is written is kept chunk by chunk. Candidate \<open>i\<close> has its
  own network, context, clock and random id.
\<close>

record resp_env =
  re_BadURL :: "string \<Rightarrow> go_error option"
  re_Net :: "nat \<Rightarrow> transport"
  re_Ctx :: "nat \<Rightarrow> nat \<Rightarrow> go_error option"
  re_Hex :: "nat \<Rightarrow> string"
  re_Latency :: "nat \<Rightarrow> int"
  re_Clock :: "nat \<Rightarrow> int"
  re_Write :: "nat \<Rightarrow> go_error option"
  re_ReqHex :: string

section \<open>The response writer\<close>

record client_writer =
  cw_Status :: "int option"
  cw_Headers :: "(string \<times> string) list"
  cw_Out :: "string list"

definition new_writer :: client_writer where
  "new_writer = \<lparr>cw_Status = None, cw_Headers = [], cw_Out = []\<rparr>"

text \<open>Headers set after the header was sent have no effect, nor has a second \<open>WriteHeader\<close>.\<close>

definition send_header :: "int \<Rightarrow> (string \<times> string) list \<Rightarrow> client_writer \<Rightarrow> client_writer" where
  "send_header st hs cw = (if cw_Status cw = None then cw\<lparr>cw_Status := Some st, cw_Headers := hs\<rparr> else cw)"

definition write_out :: "resp_env \<Rightarrow> string \<Rightarrow> client_writer \<Rightarrow> go_error option \<times> client_writer" where
  "write_out re b cw = (case re_Write re (length (cw_Out cw)) of
     Some e \<Rightarrow> (Some e, cw) | None \<Rightarrow> (None, cw\<lparr>cw_Out := cw_Out cw @ [b]\<rparr>))"

text \<open>\<open>writeError\<close> on the writer: the JSON text ends with a newline.\<close>

definition answer_error :: "resp_env \<Rightarrow> biz_error \<Rightarrow> client_writer \<Rightarrow> client_writer" where
  "answer_error re e cw = snd (write_out re (render (\<lambda>x. []) (error_body e) @ [CHR 0x0A])
     (send_header (HTTPStatus (biz_code e)) [(''Content-Type'', ''application/json'')] cw))"

section \<open>Pieces\<close>

definition responsesBindingTTL :: int where "responsesBindingTTL = 24 * hours 1"

definition maxResponsesBody :: nat where "maxResponsesBody = 4194304"

record resp_cand =
  rc_accountID :: string
  rc_modelID :: string
  rc_sticky :: bool

text \<open>
  The members are kept by value under their last occurrence, in the order of their names; the
  spelling of numbers and escapes is not modelled.
\<close>

definition raw_object :: "(string \<times> json) list \<Rightarrow> (string \<times> json) list" where
  "raw_object ms = map (\<lambda>k. (k, member k ms)) (sort (remdups (map fst ms)))"

definition rewriteResponsesModel :: "string \<Rightarrow> string \<Rightarrow> go_error + json" where
  "rewriteResponsesModel body m =
    (case Option.bind (json_parse body) as_object of
       None \<Rightarrow> Inl (TextError ''json'')
     | Some ms \<Rightarrow> Inr (JObj (raw_object (ms @ [(''model'', JStr m)]))))"

definition retry_words :: "string list" where
  "retry_words = [''connection'', ''timeout'', ''EOF'', ''refused'', ''broken pipe'']"

fun status_error :: "go_error \<Rightarrow> int option" where
  "status_error (StatusError st c b) = Some st"
| "status_error _ = None"

text \<open>\<open>errors.As\<close> with a \<open>*responses.StatusError\<close>\<close>

definition as_status :: "go_error \<Rightarrow> go_error option" where
  "as_status err = find (\<lambda>e. status_error e \<noteq> None) (err_tree err)"

definition responsesRetryable :: "go_error option \<Rightarrow> bool" where
  "responsesRetryable err = (case err of None \<Rightarrow> False
     | Some e \<Rightarrow> (case as_status e of
          Some se \<Rightarrow> RateLimited se \<or> (case status_error se of None \<Rightarrow> False | Some st \<Rightarrow> 500 \<le> st)
        | None \<Rightarrow> list_ex (str_contains (error_text e)) retry_words))"

definition responses_usage ::
  "resp_env \<Rightarrow> nat \<Rightarrow> string \<Rightarrow> string \<Rightarrow> string \<Rightarrow> resp_meta option \<Rightarrow> code option \<Rightarrow> usage_event" where
  "responses_usage re i rid m aid meta errc =
    (let u = Option.bind meta me_Usage in
     \<lparr>ue_ID = ''ue_'' @ re_Hex re i, ue_RequestID = rid, ue_AccountID = aid, ue_ModelID = m,
      ue_InputTokens = (case u of None \<Rightarrow> 0 | Some x \<Rightarrow> ru_InputTokens x),
      ue_OutputTokens = (case u of None \<Rightarrow> 0 | Some x \<Rightarrow> ru_OutputTokens x),
      ue_CacheTokens = (case u of None \<Rightarrow> 0 | Some x \<Rightarrow> ru_CachedTokens x),
      ue_ReasoningTokens = (case u of None \<Rightarrow> 0 | Some x \<Rightarrow> ru_ReasoningTokens x),
      ue_StatusCode = (case errc of None \<Rightarrow> 200 | Some c \<Rightarrow> HTTPStatus c),
      ue_LatencyMS = re_Latency re i, ue_ErrorClass = (case errc of None \<Rightarrow> [] | Some c \<Rightarrow> code_string c)\<rparr>)"

definition recordResponsesUsage ::
  "'v app_env \<Rightarrow> resp_env \<Rightarrow> nat \<Rightarrow> string \<Rightarrow> string \<Rightarrow> string \<Rightarrow> resp_meta option \<Rightarrow> code option \<Rightarrow> db \<Rightarrow> db" where
  "recordResponsesUsage env re i rid m aid meta errc s =
     keep_db s (RecordUsageEvent (responses_usage re i rid m aid meta errc) (ev_Fmt env (re_Clock re i)) s)"

section \<open>One candidate\<close>

definition resp_callback :: "resp_env \<Rightarrow> bool \<Rightarrow> (bool \<times> client_writer) callback" where
  "resp_callback re stream b st =
    (let cw = (if fst st then snd st
               else send_header 200 (if stream then [] else [(''Content-Type'', ''application/json'')]) (snd st));
         (e, cw') = write_out re b cw
     in (e, (True, cw')))"

definition resp_binding :: "'v app_env \<Rightarrow> resp_env \<Rightarrow> nat \<Rightarrow> resp_cand \<Rightarrow> string \<Rightarrow> response_binding" where
  "resp_binding env re i c rid = \<lparr>rb_ResponseID = rid, rb_AccountID = rc_accountID c, rb_ModelID = rc_modelID c,
     rb_CreatedAt = [], rb_ExpiresAt = ev_Fmt env (re_Clock re i + responsesBindingTTL)\<rparr>"

definition forwardResponses ::
  "'v app_env \<Rightarrow> resp_env \<Rightarrow> nat \<Rightarrow> resp_target \<Rightarrow> string \<Rightarrow> bool \<Rightarrow> string \<Rightarrow> resp_cand \<Rightarrow> db \<times> client_writer
     \<Rightarrow> go_error option \<times> (db \<times> client_writer)" where
  "forwardResponses env re i t body stream rid c st =
    (let ((meta, err), (started, cw)) =
           responses_Forward (re_BadURL re) (re_Net re i) (re_Ctx re i) t body stream (resp_callback re stream) (False, snd st)
     in case err of
          Some e \<Rightarrow>
            if \<not> started then (Some e, (fst st, cw))
            else (Some e, (recordResponsesUsage env re i rid (rc_modelID c) (rc_accountID c) meta (Some CodeUpstreamError) (fst st), cw))
        | None \<Rightarrow>
            (let s1 = recordResponsesUsage env re i rid (rc_modelID c) (rc_accountID c) meta None (fst st);
                 s2 = (case meta of
                         None \<Rightarrow> s1
                       | Some m \<Rightarrow> if me_ID m = [] then s1
                           else keep_db s1 (SaveResponseBinding (resp_binding env re i c (me_ID m)) (ev_Fmt env (re_Clock re i)) s1))
             in (None, (s2, cw))))"

section \<open>The candidates in turn\<close>

definition reauthorize :: string where "reauthorize = ''authorize again''"

text \<open>\<open>None\<close> as the outcome: the request was answered; otherwise the last error, if any.\<close>

fun responses_loop ::
  "'v app_env \<Rightarrow> resp_env \<Rightarrow> string \<Rightarrow> bool \<Rightarrow> string \<Rightarrow> nat \<Rightarrow> resp_cand list \<Rightarrow> go_error option
     \<Rightarrow> 'v world \<times> client_writer \<Rightarrow> go_error option option \<times> ('v world \<times> client_writer)" where
  "responses_loop env re body stream rid i [] le st = (Some le, st)"
| "responses_loop env re body stream rid i (c # cs) le ((s, v), cw) =
    (case GetAccount (rc_accountID c) s of
       Inl e \<Rightarrow> responses_loop env re body stream rid (Suc i) cs (Some e) ((s, v), cw)
     | Inr acc \<Rightarrow>
         (case resolveTarget env acc [] (s, v) of
            (Inl e, w1) \<Rightarrow>
              if str_contains (error_text e) reauthorize then (Some (Some e), (w1, cw))
              else responses_loop env re body stream rid (Suc i) cs (Some e) (w1, cw)
          | (Inr t, (s1, v1)) \<Rightarrow>
              (case rewriteResponsesModel body (rc_modelID c) of
                 Inl e \<Rightarrow> (None, ((s1, v1), answer_error re (errs_wrap CodeInternal ''rewriting the model failed'' e) cw))
               | Inr up \<Rightarrow>
                   (case forwardResponses env re i \<lparr>rp_BaseURL = t_BaseURL t, rp_Token = t_APIKey t\<rparr>
                           (render (\<lambda>x. []) up) stream rid c (s1, cw) of
                      (None, (s2, cw2)) \<Rightarrow> (None, ((s2, v1), cw2))
                    | (Some e, (s2, cw2)) \<Rightarrow>
                        if rc_sticky c \<or> \<not> responsesRetryable (Some e) then (Some (Some e), ((s2, v1), cw2))
                        else responses_loop env re body stream rid (Suc i) cs (Some e) ((s2, v1), cw2)))))"

definition decode_responses_probe :: "json \<Rightarrow> (string \<times> bool \<times> string) option" where
  "decode_responses_probe j = do {
     ms \<leftarrow> as_object j; m \<leftarrow> str_field ''model'' ms; st \<leftarrow> bool_field ''stream'' ms;
     p \<leftarrow> str_field ''previous_response_id'' ms; Some (m, st, p) }"

text \<open>Where a request may go: the bound account of a continued session, or the router's candidates.\<close>

definition responses_candidates :: "'v app_env \<Rightarrow> string \<Rightarrow> string \<Rightarrow> db \<Rightarrow> biz_error + resp_cand list" where
  "responses_candidates env m prev s =
    (if prev \<noteq> [] then
       (case GetResponseBinding (ev_Now env) prev s of
          Inl e \<Rightarrow> Inl (if errors_is e ErrNoRows then errs_new CodeNotFound ''session handle missing or expired''
                        else errs_wrap CodeInternal ''reading session binding failed'' e)
        | Inr b \<Rightarrow>
            (case GetAccount (rb_AccountID b) s of
               Inl e \<Rightarrow> Inl (errs_new CodeUpstreamAuth ''bound account unavailable'')
             | Inr acc \<Rightarrow>
                 if ac_Status acc \<noteq> ''active'' \<or> ac_Mode acc = ModeMonitorOnly
                 then Inl (errs_new CodeUpstreamAuth ''bound account unavailable'')
                 else Inr [\<lparr>rc_accountID = rb_AccountID b, rc_modelID = m, rc_sticky = True\<rparr>]))
     else (case resolveCandidates m s of
         Inl e \<Rightarrow> Inl (mapRelayError e)
       | Inr (cs, pid) \<Rightarrow> Inr (map (\<lambda>c. \<lparr>rc_accountID = cd_AccountID c, rc_modelID = cd_ModelID c, rc_sticky = False\<rparr>) cs)))"

definition relay_responses ::
  "'v app_env \<Rightarrow> resp_env \<Rightarrow> string \<Rightarrow> string \<Rightarrow> bool \<Rightarrow> string \<Rightarrow> resp_cand list \<Rightarrow> 'v world \<times> client_writer
     \<Rightarrow> 'v world \<times> client_writer" where
  "relay_responses env re body m stream rid cands st =
    (case responses_loop env re body stream rid 0 cands None st of
       (None, st1) \<Rightarrow> st1
     | (Some le, ((s1, v1), cw1)) \<Rightarrow>
         (let stable = mapRelayError (case le of None \<Rightarrow> TextError ''no usable candidate'' | Some e \<Rightarrow> e)
          in ((recordResponsesUsage env re (length cands) rid m [] None (Some (biz_code stable)) s1, v1),
              answer_error re stable cw1)))"

definition handleResponses ::
  "'v app_env \<Rightarrow> resp_env \<Rightarrow> token \<Rightarrow> http_request \<Rightarrow> 'v world \<Rightarrow> client_writer \<times> 'v world" where
  "handleResponses env re tok r w =
    (let answer = (\<lambda>e. (answer_error re e new_writer, w)) in
     if rq_Method r \<noteq> ''POST'' then answer (errs_new CodeInvalidRequest ''method not supported'')
     else if maxResponsesBody < length (rq_Body r) then answer (errs_new CodeInvalidRequest ''body too large'')
     else (case Option.bind (json_parse (rq_Body r)) decode_responses_probe of
         None \<Rightarrow> answer (errs_new CodeInvalidRequest ''body must be a JSON object'')
       | Some (m, stream, prev) \<Rightarrow>
           if m = [] then answer (errs_new CodeInvalidRequest ''model missing'')
           else if \<not> ModelAllowed tok m then answer (errs_new CodeForbidden (''model not allowed for token: '' @ m))
           else (case responses_candidates env m prev (fst w) of
               Inl e \<Rightarrow> answer e
             | Inr cands \<Rightarrow>
                 (let (w', cw) = relay_responses env re (rq_Body r) m stream (''req_'' @ re_ReqHex re) cands (w, new_writer)
                  in (cw, w')))))"

section \<open>Only the model changes\<close>

lemma member_append: "member k (ms @ [(k', v)]) = (if k' = k then v else member k ms)"
  by (rule member_simps)

lemma member_raw_object: "member k (raw_object ms) = member k ms"
proof -
  have "find (\<lambda>kv. fst kv = k) (rev (map (\<lambda>k. (k, member k ms)) ks)) = (if k \<in> set ks then Some (k, member k ms) else None)" for ks
    by (induction ks rule: rev_induct) auto
  moreover have "member k ms = JNull" if "k \<notin> fst ` set ms"
    using that by (auto simp: member_def image_iff split: option.split dest!: find_SomeD)
  ultimately show ?thesis unfolding raw_object_def member_def [of k "map _ _"] by auto
qed

lemma responses_rewrites: "json_parse body = Some (JObj ms) \<Longrightarrow> \<exists>up. rewriteResponsesModel body m = Inr up"
  by (simp add: rewriteResponsesModel_def)

text \<open>
  What is sent upstream differs from the client's body in the model only: the names of
  the members are those of the body and \<open>model\<close>, each once and in order, every other member
  has the value the body gives it, and the text sent reads back as that object.
\<close>

theorem responses_model_rewrite:
  assumes "json_parse body = Some (JObj ms)"
  shows "\<exists>us. rewriteResponsesModel body m = Inr (JObj us) \<and> sorted (map fst us) \<and> distinct (map fst us) \<and>
    set (map fst us) = insert ''model'' (set (map fst ms)) \<and>
    (\<forall>k. member k us = (if k = ''model'' then JStr m else member k ms)) \<and>
    (if textual (JObj us) then json_parse (render fmt (JObj us)) = Some (JObj us) else True)"
proof -
  let ?us = "raw_object (ms @ [(''model'', JStr m)])"
  have keys: "map fst ?us = sort (remdups (map fst (ms @ [(''model'', JStr m)])))"
    by (simp add: raw_object_def comp_def)
  have "member k ?us = (if k = ''model'' then JStr m else member k ms)" for k
    by (simp add: member_raw_object member_append)
  moreover have "rewriteResponsesModel body m = Inr (JObj ?us)"
    by (simp add: rewriteResponsesModel_def assms)
  moreover have "json_parse (render fmt (JObj ?us)) = Some (JObj ?us)" if "textual (JObj ?us)"
    using that by (rule json_parse_render)
  ultimately show ?thesis by (intro exI [of _ ?us]) (simp add: keys)
qed

section \<open>A stream in full\<close>

lemma resp_feed:
  assumes "\<And>n. re_Write re n = None"
  shows "feed (resp_callback re True) bs (started, cw) =
    (None, (started \<or> bs \<noteq> [], if bs = [] then cw else (if started then cw else send_header 200 [] cw)\<lparr>cw_Out := cw_Out cw @ bs\<rparr>))"
proof (induction bs arbitrary: started cw)
  case (Cons b bs)
  have "cw_Out (send_header st hs cw) = cw_Out cw" for st hs by (simp add: send_header_def)
  then show ?case
    using Cons by (simp add: resp_callback_def write_out_def assms Let_def)
qed simp

text \<open>The tables a resolution of an API key reads.\<close>

definition same_routes :: "db \<Rightarrow> db \<Rightarrow> bool" where
  "same_routes s s' \<longleftrightarrow> accounts s' = accounts s \<and> providers s' = providers s \<and> db_down s' = db_down s"

lemma same_routes_usage: "same_routes s (recordResponsesUsage env re i rid m aid meta errc s)"
  by (auto simp: same_routes_def recordResponsesUsage_def keep_db_def RecordUsageEvent_def with_db_Inr split: sum.split if_splits)

lemma same_routes_binding: "same_routes s (keep_db s (SaveResponseBinding b nw s))"
  by (auto simp: same_routes_def keep_db_def SaveResponseBinding_def with_db_Inr split: sum.split)

lemma same_routes_trans: "same_routes s s' \<Longrightarrow> same_routes s' s'' \<Longrightarrow> same_routes s s''"
  by (simp add: same_routes_def)

lemma same_routes_GetAccount: "same_routes s s' \<Longrightarrow> GetAccount i s' = GetAccount i s"
  by (simp add: same_routes_def GetAccount_def with_db_def)

lemma same_routes_resolve:
  assumes "same_routes s s'" and "resolveTarget env acc m (s, v) = (Inr t, w)" and "ac_AuthType acc \<noteq> AuthOAuth"
  shows "resolveTarget env acc m (s', v) = (Inr t, (s', v))"
proof -
  have "GetProvider i s' = GetProvider i s" for i
    using assms(1) by (simp add: same_routes_def GetProvider_def with_db_def)
  with assms(2,3) show ?thesis by (auto simp: resolveTarget_def split: sum.splits if_splits)
qed

lemma forwardResponses_streams:
  assumes "\<And>n. re_Write re n = None" and "\<And>u. re_BadURL re u = None" and "\<And>n. re_Ctx re i n = None"
    and "\<And>out. re_Net re i out = Inr resp" and "status_ok (us_Status resp)" and "us_Data resp \<noteq> []"
  shows "\<exists>s' bs. forwardResponses env re i t body True rid c (s, cw) =
      (read_stream_error (us_End resp), (s', (send_header 200 [] cw)\<lparr>cw_Out := cw_Out cw @ bs\<rparr>)) \<and>
      concat bs = us_Data resp \<and> same_routes s s'"
proof -
  obtain ls tail where sl: "split_lines (us_Data resp) = (ls, tail)" by fastforce
  let ?bs = "ls @ (if tail = [] then [] else [tail])"
  have bs: "concat ?bs = us_Data resp" by (rule split_lines_pieces [OF sl])
  with assms(6) have ne: "?bs \<noteq> []" by (metis concat.simps(1))
  have run: "streamSSE (resp_callback re True) (re_Ctx re i) (us_End resp) 0 ls tail zero_meta (False, cw) =
      ((fold sniff ?bs zero_meta, read_stream_error (us_End resp)), (True, (send_header 200 [] cw)\<lparr>cw_Out := cw_Out cw @ ?bs\<rparr>))"
    by (intro streamSSE_accepted assms(3)) (simp only: resp_feed [OF assms(1)] ne if_False simp_thms)
  define cw2 where "cw2 = (send_header 200 [] cw)\<lparr>cw_Out := cw_Out cw @ ?bs\<rparr>"
  define mt where "mt = fold sniff ?bs zero_meta"
  have fwd: "responses_Forward (re_BadURL re) (re_Net re i) (re_Ctx re i) t body True (resp_callback re True) (False, cw) =
      ((Some mt, read_stream_error (us_End resp)), (True, cw2))"
    using assms(5) by (simp add: responses_Forward_def Let_def assms(2,4) sl run cw2_def mt_def)
  let ?rec = "recordResponsesUsage env re i rid (rc_modelID c) (rc_accountID c) (Some mt)"
  have "\<exists>s'. forwardResponses env re i t body True rid c (s, cw) = (read_stream_error (us_End resp), (s', cw2)) \<and> same_routes s s'"
  proof (cases "us_End resp")
    case None
    then show ?thesis
      using same_routes_usage [of s] same_routes_trans [OF same_routes_usage same_routes_binding, of s]
      by (cases "me_ID mt = []") (simp_all add: forwardResponses_def fwd read_stream_error_def Let_def)
  next
    case (Some e)
    then show ?thesis
      using same_routes_usage [of s] by (simp add: forwardResponses_def fwd read_stream_error_def)
  qed
  then show ?thesis using bs unfolding cw2_def by blast
qed

lemma str_contains_append: "str_contains s w \<Longrightarrow> str_contains (p @ s) w"
  by (induction p) auto

text \<open>
  C27: the endpoint switches accounts in the middle of an answer. When the stream of the first
  candidate breaks off after output with an error whose text names a connection, a timeout or
  an end of file, the second candidate is called with the whole request again and its stream
  is appended: the client gets both answers in one body, with status 200.
\<close>

theorem responses_switches_after_output:
  assumes "\<And>n. re_Write re n = None" and "\<And>u. re_BadURL re u = None" and "\<And>i n. re_Ctx re i n = None"
    and "json_parse body = Some (JObj ms)" and "\<not> rc_sticky c1"
    and "GetAccount (rc_accountID c1) s = Inr a1" and "resolveTarget env a1 [] (s, v) = (Inr t1, (s, v))"
    and "GetAccount (rc_accountID c2) s = Inr a2" and "resolveTarget env a2 [] (s, v) = (Inr t2, (s, v))"
    and "ac_AuthType a2 \<noteq> AuthOAuth"
    and "\<And>out. re_Net re 0 out = Inr r1" and "status_ok (us_Status r1)" and "us_Data r1 \<noteq> []" and "us_End r1 = Some e"
    and "as_status e = None" and "word \<in> set retry_words" and "str_contains (error_text e) word"
    and "\<And>out. re_Net re 1 out = Inr r2" and "status_ok (us_Status r2)" and "us_Data r2 \<noteq> []" and "us_End r2 = None"
  shows "cw_Status (snd (relay_responses env re body m True rid (c1 # c2 # cs) ((s, v), new_writer))) = Some 200 \<and>
    concat (cw_Out (snd (relay_responses env re body m True rid (c1 # c2 # cs) ((s, v), new_writer)))) = us_Data r1 @ us_Data r2"
proof -
  obtain up1 up2 where up: "rewriteResponsesModel body (rc_modelID c1) = Inr up1" "rewriteResponsesModel body (rc_modelID c2) = Inr up2"
    using responses_rewrites [OF assms(4)] by metis
  define T where "T t = \<lparr>rp_BaseURL = t_BaseURL t, rp_Token = t_APIKey t\<rparr>" for t :: target
  obtain s1 bs1 where f1: "forwardResponses env re 0 (T t1) (render (\<lambda>x. []) up1) True rid c1 (s, new_writer) =
      (read_stream_error (Some e), (s1, (send_header 200 [] new_writer)\<lparr>cw_Out := cw_Out new_writer @ bs1\<rparr>))"
      "concat bs1 = us_Data r1" "same_routes s s1"
    using forwardResponses_streams [where re = re and i = 0 and resp = r1 and env = env and t = "T t1" and
        body = "render (\<lambda>x. []) up1" and rid = rid and c = c1 and s = s and cw = new_writer, OF assms(1,2,3,11,12,13)]
    unfolding assms(14) by blast
  define cw1 where "cw1 = (send_header 200 [] new_writer)\<lparr>cw_Out := cw_Out new_writer @ bs1\<rparr>"
  obtain s2 bs2 where f2: "forwardResponses env re 1 (T t2) (render (\<lambda>x. []) up2) True rid c2 (s1, cw1) =
      (read_stream_error None, (s2, (send_header 200 [] cw1)\<lparr>cw_Out := cw_Out cw1 @ bs2\<rparr>))" "concat bs2 = us_Data r2"
    using forwardResponses_streams [where re = re and i = 1 and resp = r2 and env = env and t = "T t2" and
        body = "render (\<lambda>x. []) up2" and rid = rid and c = c2 and s = s1 and cw = cw1, OF assms(1,2,3,18,19,20)]
    unfolding assms(21) by blast
  have retry: "responsesRetryable (read_stream_error (Some e))"
  proof -
    have "as_status (WrapError p e q) = None" for p q using assms(15) by (simp add: as_status_def)
    moreover have "list_ex (str_contains (error_text (WrapError p e []))) retry_words" for p
      using assms(16) str_contains_append [OF assms(17), of p] unfolding list_ex_iff error_text.simps append_Nil2 by blast
    ultimately show ?thesis by (simp only: responsesRetryable_def read_stream_error_def option.map option.case)
  qed
  note g2 = same_routes_GetAccount [OF f1(3)] same_routes_resolve [OF f1(3) assms(9,10)]
  have "responses_loop env re body True rid 0 (c1 # c2 # cs) None ((s, v), new_writer) =
      (None, ((s2, v), (send_header 200 [] cw1)\<lparr>cw_Out := cw_Out cw1 @ bs2\<rparr>))"
    using f1(1) f2(1) retry
    by (simp add: assms(5-9) up g2 T_def [symmetric] cw1_def [symmetric] read_stream_error_def)
  with f1(2) f2(2) show ?thesis
    by (simp add: relay_responses_def cw1_def send_header_def new_writer_def)
qed

section \<open>A session stays with its account\<close>

definition bound_account :: "string \<Rightarrow> db \<Rightarrow> string option" where
  "bound_account rid s = map_option rb_AccountID (find (\<lambda>b. rb_ResponseID b = rid) (response_bindings s))"

definition keeps_bindings :: "db \<Rightarrow> db \<Rightarrow> bool" where
  "keeps_bindings s s' \<longleftrightarrow> (\<forall>rid a. bound_account rid s = Some a \<longrightarrow> bound_account rid s' = Some a)"

lemma keeps_refl [simp]: "keeps_bindings s s"
  by (simp add: keeps_bindings_def)

lemma keeps_trans: "keeps_bindings s s' \<Longrightarrow> keeps_bindings s' s'' \<Longrightarrow> keeps_bindings s s''"
  by (simp add: keeps_bindings_def)

lemma keeps_same: "response_bindings s' = response_bindings s \<Longrightarrow> keeps_bindings s s'"
  by (simp add: keeps_bindings_def bound_account_def)

lemma keeps_usage [simp]: "keeps_bindings s (recordResponsesUsage env re i rid m aid meta errc s)"
  by (rule keeps_same)
    (auto simp: recordResponsesUsage_def keep_db_def RecordUsageEvent_def with_db_Inr split: sum.split if_splits)

lemma keeps_save: "keeps_bindings s (keep_db s (SaveResponseBinding b nw s))"
proof -
  have "find (\<lambda>x. rb_ResponseID x = rid) rows = Some z \<Longrightarrow>
      \<exists>y. find (\<lambda>x. rb_ResponseID x = rid) (upd_where (\<lambda>x. rb_ResponseID x = k) (\<lambda>x. x\<lparr>rb_ExpiresAt := e\<rparr>) rows) = Some y \<and>
        rb_AccountID y = rb_AccountID z" for rid k e z rows
    by (induction rows) (auto split: if_splits)
  then show ?thesis
    by (auto simp: keeps_bindings_def bound_account_def keep_db_def SaveResponseBinding_def with_db_Inr upsert_row_def
        find_append split: sum.split)
qed

lemma keeps_resolve: "keeps_bindings s (fst (snd (resolveTarget env acc m (s, v))))"
  using resolveTarget_accounts [of env acc m "(s, v)"] by (auto intro!: keeps_same)

lemma keeps_forward: "keeps_bindings s (fst (snd (forwardResponses env re i t body stream rid c (s, cw))))"
  using keeps_trans [OF keeps_usage keeps_save]
  by (auto simp: forwardResponses_def Let_def split: prod.split option.split)

lemma keeps_loop: "keeps_bindings s (fst (fst (snd (responses_loop env re body stream rid i cs le ((s, v), cw)))))"
proof (induction cs arbitrary: i le s v cw)
  case (Cons c cs)
  show ?case
  proof (cases "GetAccount (rc_accountID c) s")
    case (Inl e)
    then show ?thesis by (simp add: Cons)
  next
    case acc: (Inr acc)
    obtain res s1 v1 where r: "resolveTarget env acc [] (s, v) = (res, (s1, v1))" by (metis prod.exhaust)
    have k1: "keeps_bindings s s1" using keeps_resolve [of s env acc "[]" v] by (simp add: r)
    show ?thesis
    proof (cases res)
      case (Inl e)
      then show ?thesis using k1 keeps_trans [OF k1 Cons] by (simp add: acc r)
    next
      case (Inr t)
      have step: "keeps_bindings s (fst (fst (snd (case forwardResponses env re i tt up stream rid c (s1, cw) of
            (None, (s2, cw2)) \<Rightarrow> (None, ((s2, v1), cw2))
          | (Some e, (s2, cw2)) \<Rightarrow> if rc_sticky c \<or> \<not> responsesRetryable (Some e) then (Some (Some e), ((s2, v1), cw2))
              else responses_loop env re body stream rid (Suc i) cs (Some e) ((s2, v1), cw2)))))" for tt up
        using k1 keeps_forward [of s1 env re i tt up stream rid c cw] Cons
        by (auto split: prod.split option.split intro: keeps_trans)
      show ?thesis
        by (cases "rewriteResponsesModel body (rc_modelID c)") (simp_all add: acc r Inr step k1)
    qed
  qed
qed simp

text \<open>
  C28: a session stays with the account that started it. Whatever request the endpoint handles,
  a response id that is bound to an account stays bound to it, and a request that continues
  the response either is refused or has that account as its only candidate, without failover.
\<close>

theorem session_affinity:
  assumes "find (\<lambda>b. rb_ResponseID b = prev) (response_bindings (fst w)) = Some b" and "prev \<noteq> []"
    and "handleResponses env re tok r w = (cw, w')"
  shows "(\<exists>b'. find (\<lambda>b. rb_ResponseID b = prev) (response_bindings (fst w')) = Some b' \<and> rb_AccountID b' = rb_AccountID b) \<and>
    (case responses_candidates env2 m prev (fst w') of
       Inl e \<Rightarrow> biz_code e \<in> {CodeNotFound, CodeInternal, CodeUpstreamAuth}
     | Inr cs \<Rightarrow> cs = [\<lparr>rc_accountID = rb_AccountID b, rc_modelID = m, rc_sticky = True\<rparr>])"
proof -
  have relay: "keeps_bindings s (fst (fst (relay_responses env re body m' stream rid cs ((s, v), cw0))))" for s body m' stream rid cs v cw0
    using keeps_loop [of s env re body stream rid 0 cs None v cw0] keeps_trans [OF _ keeps_usage]
    by (auto simp: relay_responses_def Let_def split: prod.split option.split)
  have "keeps_bindings (fst w) (fst w')"
    using assms(3) relay [of "fst w" _ _ _ _ _ "snd w"]
    by (auto simp: handleResponses_def Let_def split: if_splits option.splits sum.splits prod.splits) (metis fst_conv)+
  moreover have "bound_account prev (fst w) = Some (rb_AccountID b)" by (simp add: bound_account_def assms(1))
  ultimately have "bound_account prev (fst w') = Some (rb_AccountID b)" by (simp add: keeps_bindings_def)
  then obtain b' where b': "find (\<lambda>b. rb_ResponseID b = prev) (response_bindings (fst w')) = Some b'" "rb_AccountID b' = rb_AccountID b"
    by (auto simp: bound_account_def)
  then show ?thesis
    using assms(2) by (auto simp: responses_candidates_def GetResponseBinding_def with_db_def query_row_def split: sum.splits option.splits if_splits)
qed

section \<open>Concrete runs\<close>

definition demo_bytes :: "string \<Rightarrow> go_error option \<Rightarrow> upstream_response" where
  "demo_bytes d e = \<lparr>us_Status = 200, us_Headers = [], us_Data = d, us_End = e\<rparr>"

definition io_UnexpectedEOF :: go_error where
  "io_UnexpectedEOF = Sentinel ''unexpected EOF''"

definition demo_resp :: resp_env where
  "demo_resp = \<lparr>re_BadURL = (\<lambda>u. None),
     re_Net = (\<lambda>i out. Inr (if i = 0 then demo_bytes ''data: 1'' (Some io_UnexpectedEOF) else demo_bytes ''data: 2'' None)),
     re_Ctx = (\<lambda>i n. None), re_Hex = (\<lambda>i. itoa (int i)), re_Latency = (\<lambda>i. 0), re_Clock = (\<lambda>i. 0), re_Write = (\<lambda>n. None),
     re_ReqHex = ''1''\<rparr>"

lemma singleton_list: "distinct ks \<Longrightarrow> set ks = {k} \<Longrightarrow> ks = [k]"
  by (cases ks; cases "tl ks") auto

lemma responses_model_rewrite_witness:
  "rewriteResponsesModel ''{ }'' ''gpt'' = Inr (JObj [(''model'', JStr ''gpt'')])"
proof -
  have p: "json_parse ''{ }'' = Some (JObj [])" by code_simp
  define md where "md = ''model''"
  obtain us where us: "rewriteResponsesModel ''{ }'' ''gpt'' = Inr (JObj us)" "distinct (map fst us)"
      "set (map fst us) = {md}" "member md us = JStr ''gpt''"
    using responses_model_rewrite [OF p, of "''gpt''" "\<lambda>x. []", folded md_def] by (auto simp del: set_map)
  have "map fst us = [md]" by (rule singleton_list [OF us(2,3)])
  with us(4) have "us = [(md, JStr ''gpt'')]" by (auto simp: member_def map_eq_Cons_conv)
  with us(1) show ?thesis by (simp add: md_def)
qed

definition demo_cand :: "string \<Rightarrow> resp_cand" where
  "demo_cand m = \<lparr>rc_accountID = ''a'', rc_modelID = m, rc_sticky = False\<rparr>"

lemma responses_switches_after_output_witness:
  "concat (cw_Out (snd (relay_responses app_demo demo_resp ''{ }'' ''m'' True ''req_1'' [demo_cand ''m1'', demo_cand ''m2'']
     ((app_db, rotated_vault), new_writer)))) = ''data: 1data: 2''"
proof -
  let ?acc = "account.truncate rotated_account"
  let ?t = "make_target (provider.truncate demo_provider) ''sk-1'' []"
  have p: "json_parse ''{ }'' = Some (JObj [])" by code_simp
  have a: "GetAccount (rc_accountID (demo_cand m)) app_db = Inr ?acc" for m
    by (simp add: demo_cand_def GetAccount_def with_db_def query_row_def app_db_def empty_db_def rotated_account_def demo_account_def)
  have g: "v_Get (ev_Ops app_demo) (account_ref ?acc) rotated_vault = Inr ''sk-1''" by code_simp
  have pr: "GetProvider (ac_ProviderID ?acc) app_db = Inr (provider.truncate demo_provider)" by code_simp
  have st: "ac_Status ?acc = ''active''" "ac_AuthType ?acc \<noteq> AuthOAuth" by code_simp+
  have r: "resolveTarget app_demo ?acc [] (app_db, rotated_vault) = (Inr ?t, (app_db, rotated_vault))"
    by (simp only: resolveTarget_def fst_conv snd_conv pr g sum.case st simp_thms if_False)
  have n: "re_Write demo_resp n = None" "re_BadURL demo_resp u = None" "re_Ctx demo_resp i n = None" for n i u
    by (simp_all add: demo_resp_def)
  have net: "re_Net demo_resp 0 out = Inr (demo_bytes ''data: 1'' (Some io_UnexpectedEOF))"
    "re_Net demo_resp 1 out = Inr (demo_bytes ''data: 2'' None)" for out
    by (simp_all add: demo_resp_def)
  have ok: "status_ok (us_Status (demo_bytes d e))" "us_Data (demo_bytes d e) = d" "us_End (demo_bytes d e) = e" for d e
    by (simp_all add: demo_bytes_def status_ok_def)
  have e: "as_status io_UnexpectedEOF = None" "''EOF'' \<in> set retry_words" "str_contains (error_text io_UnexpectedEOF) ''EOF''"
    by code_simp+
  have sticky: "\<not> rc_sticky (demo_cand ''m1'')" by (simp add: demo_cand_def)
  have "concat (cw_Out (snd (relay_responses app_demo demo_resp ''{ }'' ''m'' True ''req_1'' [demo_cand ''m1'', demo_cand ''m2'']
     ((app_db, rotated_vault), new_writer)))) =
    us_Data (demo_bytes ''data: 1'' (Some io_UnexpectedEOF)) @ us_Data (demo_bytes ''data: 2'' None)"
    by (rule conjunct2 [OF responses_switches_after_output [where e = io_UnexpectedEOF and word = "''EOF''",
          OF n p sticky a r a r st(2) net(1) ok(1) _ ok(3) e net(2) ok(1) _ ok(3)]]) (simp_all add: ok)
  then show ?thesis by (simp add: ok)
qed

definition bound_db :: db where
  "bound_db = app_db\<lparr>response_bindings := [\<lparr>rb_ResponseID = ''resp_1'', rb_AccountID = ''a'', rb_ModelID = ''m'',
     rb_CreatedAt = [], rb_ExpiresAt = []\<rparr>]\<rparr>"

lemma session_affinity_witness:
  "\<exists>b'. find (\<lambda>b. rb_ResponseID b = ''resp_1'') (response_bindings
     (fst (snd (handleResponses app_demo demo_resp demo_token demo_chat (bound_db, rotated_vault))))) = Some b' \<and> rb_AccountID b' = ''a''"
proof -
  obtain cw w' where h: "handleResponses app_demo demo_resp demo_token demo_chat (bound_db, rotated_vault) = (cw, w')"
    by (metis prod.exhaust)
  have b: "find (\<lambda>b. rb_ResponseID b = ''resp_1'') (response_bindings (fst (bound_db, rotated_vault))) =
      Some \<lparr>rb_ResponseID = ''resp_1'', rb_AccountID = ''a'', rb_ModelID = ''m'', rb_CreatedAt = [], rb_ExpiresAt = []\<rparr>"
    by (simp add: bound_db_def)
  from conjunct1 [OF session_affinity [where m = "''m''" and ?env2.0 = app_demo, OF b _ h]] show ?thesis by (simp add: h)
qed

end
