(* ===== verification/Messages.thy ===== *)
theory Messages
  imports RespApi
begin

text \<open>
  The Anthropic Messages endpoint (\<open>internal/api/anthropic.go\<close>): messages, plain and streamed,
  and token counting. Only the model of the body is rewritten; the client's headers on the
  allowlist go upstream. The response writer and the environment are those of \<open>RespApi\<close>; the
  reads of a streamed body are one read of all of it, which the reader cannot tell from any
  other split.
\<close>

definition maxAnthropicBody :: nat where "maxAnthropicBody = 8388608"

definition anthropicHeaderAllowlist :: "string list" where
  "anthropicHeaderAllowlist = [''anthropic-version'', ''anthropic-beta'', ''content-type'', ''x-api-key'']"

section \<open>Body and headers\<close>

text \<open>
  \<open>map[string]any\<close> and back: at every level the last member of a name, in the order of the
  names. A number is kept by value (beyond \<open>2^53\<close> a \<open>float64\<close> would round it).
\<close>

fun any_json :: "json \<Rightarrow> json" where
  "any_json (JArr vs) = JArr (map any_json vs)"
| "any_json (JObj ms) = JObj (raw_object (map (\<lambda>kv. (fst kv, any_json (snd kv))) ms))"
| "any_json j = j"

definition rewriteAnthropicModel :: "string \<Rightarrow> string \<Rightarrow> go_error + json" where
  "rewriteAnthropicModel body m =
    (case Option.bind (json_parse body) as_object of
       None \<Rightarrow> Inl (TextError ''json'')
     | Some ms \<Rightarrow> Inr (any_json (JObj (ms @ [(''model'', JStr m)]))))"

text \<open>The map of headers: the account's key first, then the client's values over it.\<close>

definition put_header :: "string \<Rightarrow> string \<Rightarrow> (string \<times> string) list \<Rightarrow> (string \<times> string) list" where
  "put_header k v hs = filter (\<lambda>h. fst h \<noteq> k) hs @ [(k, v)]"

definition client_header :: "http_request \<Rightarrow> string \<Rightarrow> (string \<times> string) list \<Rightarrow> (string \<times> string) list" where
  "client_header r k hs = (let v = header_get r k in if v = [] then hs else put_header k v hs)"

definition anthropic_out_headers :: "target \<Rightarrow> http_request \<Rightarrow> (string \<times> string) list" where
  "anthropic_out_headers t r =
    fold (client_header r) anthropicHeaderAllowlist [(''x-api-key'', t_APIKey t)]"

definition messages_url :: "target \<Rightarrow> string \<Rightarrow> string" where
  "messages_url t path = trim_right_of (\<lambda>c. c = CHR ''/'') (t_BaseURL t) @ path"

definition resp_header :: "string \<Rightarrow> upstream_response \<Rightarrow> string" where
  "resp_header k resp = (case find (\<lambda>kv. equal_fold (fst kv) k) (us_Headers resp) of None \<Rightarrow> [] | Some kv \<Rightarrow> snd kv)"

section \<open>Usage\<close>

definition decode_message_usage :: "json \<Rightarrow> usage_dto option" where
  "decode_message_usage j = do {
     ms \<leftarrow> as_object j; i \<leftarrow> int_field ''input_tokens'' ms; o' \<leftarrow> int_field ''output_tokens'' ms;
     cc \<leftarrow> int_field ''cache_creation_input_tokens'' ms; cr \<leftarrow> int_field ''cache_read_input_tokens'' ms;
     Some \<lparr>PromptTokens = i, CompletionTokens = o', TotalTokens = i + o', CachedTokens = Some (cr + cc),
       CompletionReasoning = None\<rparr> }"

definition decode_message_answer :: "json \<Rightarrow> usage_dto option option" where
  "decode_message_answer j = do { ms \<leftarrow> as_object j; ptr_field decode_message_usage ''usage'' ms }"

definition message_usage :: "string \<Rightarrow> usage_dto option" where
  "message_usage raw = (case Option.bind (json_parse raw) decode_message_answer of None \<Rightarrow> None | Some u \<Rightarrow> u)"

text \<open>\<open>recordUsage\<close> with the clock and id of candidate \<open>i\<close> and the decision \<open>account@model\<close>.\<close>

definition gate_of :: "'v app_env \<Rightarrow> resp_env \<Rightarrow> nat \<Rightarrow> 'v gate_env \<Rightarrow> 'v gate_env" where
  "gate_of env re i gv = gv\<lparr>gv_nw := ev_Fmt env (re_Clock re i), gv_UsageHex := re_Hex re i, gv_Latency := re_Latency re i\<rparr>"

definition recordAnthropicUsage ::
  "'v gate_env \<Rightarrow> string \<Rightarrow> string \<Rightarrow> string \<Rightarrow> string \<Rightarrow> code option \<Rightarrow> db \<Rightarrow> db" where
  "recordAnthropicUsage gv rid m aid raw errc s =
     recordUsage gv rid m (Some ((new_decision rid m [] 0)\<lparr>d_Selected := aid @ ''@'' @ m\<rparr>)) (message_usage raw) errc s"

section \<open>One candidate\<close>

definition message_cb :: "resp_env \<Rightarrow> client_writer callback" where
  "message_cb re b cw = write_out re b cw"

definition forwardAnthropic ::
  "'v app_env \<Rightarrow> resp_env \<Rightarrow> 'v gate_env \<Rightarrow> nat \<Rightarrow> http_request \<Rightarrow> target \<Rightarrow> string \<Rightarrow> bool \<Rightarrow> string \<Rightarrow> string \<Rightarrow> string
     \<Rightarrow> db \<times> client_writer \<Rightarrow> go_error option \<times> (db \<times> client_writer)" where
  "forwardAnthropic env re gv i r t body stream rid aid m st =
    (let url = messages_url t ''/v1/messages'' in
     case re_BadURL re url of
       Some e \<Rightarrow> (Some e, st)
     | None \<Rightarrow>
         (case re_Net re i \<lparr>ho_Method = ''POST'', ho_URL = url, ho_Headers = anthropic_out_headers t r, ho_Body = Some body\<rparr> of
            Inl e \<Rightarrow> (Some (Classify 0 (Some e)), st)
          | Inr resp \<Rightarrow>
              if \<not> status_ok (us_Status resp)
              then (Some (ClassifyWithBody (us_Status resp) (take 4096 (us_Data resp))), st)
              else if \<not> stream then
                (case us_End resp of
                   Some e \<Rightarrow> (Some e, st)
                 | None \<Rightarrow>
                     (let cw = snd (write_out re (us_Data resp)
                         (send_header 200 [(''content-type'', resp_header ''content-type'' resp)] (snd st)))
                      in (None, (recordAnthropicUsage (gate_of env re i gv) rid m aid (us_Data resp) None (fst st), cw))))
              else
                (let (err, cw) = consumeAnthropicSSE (re_Ctx re i 0) [us_Data resp] (us_End resp) (message_cb re)
                       (send_header 200 [(''content-type'', ''text/event-stream'')] (snd st))
                 in (err, (fst st, cw)))))"

section \<open>The handlers\<close>

fun messages_loop ::
  "'v app_env \<Rightarrow> resp_env \<Rightarrow> 'v gate_env \<Rightarrow> http_request \<Rightarrow> bool \<Rightarrow> string \<Rightarrow> nat \<Rightarrow> candidate list \<Rightarrow> go_error option
     \<Rightarrow> 'v world \<times> client_writer \<Rightarrow> go_error option option \<times> ('v world \<times> client_writer)" where
  "messages_loop env re gv r stream rid i [] le st = (Some le, st)"
| "messages_loop env re gv r stream rid i (c # cs) le ((s, v), cw) =
    (case GetAccount (cd_AccountID c) s of
       Inl e \<Rightarrow> messages_loop env re gv r stream rid (Suc i) cs (Some e) ((s, v), cw)
     | Inr acc \<Rightarrow>
         (case resolveTarget env acc [] (s, v) of
            (Inl e, w1) \<Rightarrow> messages_loop env re gv r stream rid (Suc i) cs (Some e) (w1, cw)
          | (Inr t, (s1, v1)) \<Rightarrow>
              (case rewriteAnthropicModel (rq_Body r) (cd_ModelID c) of
                 Inl e \<Rightarrow> (None, ((s1, v1), answer_error re (errs_wrap CodeInternal ''rewriting the model failed'' e) cw))
               | Inr up \<Rightarrow>
                   (case forwardAnthropic env re gv i r t (render (\<lambda>x. []) up) stream rid (ac_ID acc) (cd_ModelID c) (s1, cw) of
                      (None, (s2, cw2)) \<Rightarrow> (None, ((s2, v1), cw2))
                    | (Some e, (s2, cw2)) \<Rightarrow>
                        if \<not> Retryable (Some e) then (Some (Some e), ((s2, v1), cw2))
                        else messages_loop env re gv r stream rid (Suc i) cs (Some e) ((s2, v1), cw2)))))"

definition decode_message_probe :: "json \<Rightarrow> (string \<times> bool) option" where
  "decode_message_probe j = do { ms \<leftarrow> as_object j; m \<leftarrow> str_field ''model'' ms; st \<leftarrow> bool_field ''stream'' ms; Some (m, st) }"

definition relay_messages_to ::
  "'v app_env \<Rightarrow> resp_env \<Rightarrow> 'v gate_env \<Rightarrow> http_request \<Rightarrow> bool \<Rightarrow> string \<Rightarrow> candidate list \<Rightarrow> 'v world \<times> client_writer
     \<Rightarrow> 'v world \<times> client_writer" where
  "relay_messages_to env re gv r stream rid cands st =
    (case messages_loop env re gv r stream rid 0 cands None st of
       (None, st1) \<Rightarrow> st1
     | (Some le, (w1, cw1)) \<Rightarrow>
         (w1, answer_error re (mapRelayError (case le of None \<Rightarrow> ErrNoCandidate | Some e \<Rightarrow> e)) cw1))"

definition handleAnthropicMessages ::
  "'v app_env \<Rightarrow> resp_env \<Rightarrow> 'v gate_env \<Rightarrow> token \<Rightarrow> http_request \<Rightarrow> 'v world \<Rightarrow> client_writer \<times> 'v world" where
  "handleAnthropicMessages env re gv tok r w =
    (let answer = (\<lambda>e. (answer_error re e new_writer, w)) in
     if rq_Method r \<noteq> ''POST'' then answer (errs_new CodeInvalidRequest ''method not supported'')
     else if maxAnthropicBody < length (rq_Body r) then answer (errs_new CodeInvalidRequest ''body too large'')
     else (case Option.bind (json_parse (rq_Body r)) decode_message_probe of
         None \<Rightarrow> answer (errs_new CodeInvalidRequest ''body must be a JSON object'')
       | Some (m, stream) \<Rightarrow>
           if m = [] then answer (errs_new CodeInvalidRequest ''model missing'')
           else if \<not> ModelAllowed tok m then answer (errs_new CodeForbidden (''model not allowed for token: '' @ m))
           else (case resolveCandidates m (fst w) of
               Inl e \<Rightarrow> answer (mapRelayError e)
             | Inr (cands, pid) \<Rightarrow>
                 (let (w', cw) = relay_messages_to env re gv r stream (''req_'' @ re_ReqHex re) cands (w, new_writer)
                  in (cw, w')))))"

text \<open>The body is cut after \<open>maxAnthropicBody + 1\<close> bytes, without a check of its length.\<close>

definition count_headers :: "target \<Rightarrow> http_request \<Rightarrow> (string \<times> string) list" where
  "count_headers t r = [(''x-api-key'', t_APIKey t), (''anthropic-version'', header_get r ''anthropic-version'')]
     @ (if header_get r ''anthropic-beta'' = [] then [] else [(''anthropic-beta'', header_get r ''anthropic-beta'')])"

definition count_answer :: "resp_env \<Rightarrow> http_request \<Rightarrow> target \<Rightarrow> go_error + json \<Rightarrow> client_writer" where
  "count_answer re r t up =
    (let url = messages_url t ''/v1/messages/count_tokens'' in
     case re_BadURL re url of
       Some e \<Rightarrow> answer_error re (errs_wrap CodeInternal ''building the request failed'' e) new_writer
     | None \<Rightarrow>
         (case re_Net re 0 \<lparr>ho_Method = ''POST'', ho_URL = url, ho_Headers = count_headers t r,
                 ho_Body = Some (case up of Inl e \<Rightarrow> [] | Inr j \<Rightarrow> render (\<lambda>x. []) j)\<rparr> of
            Inl e \<Rightarrow> answer_error re (mapRelayError (Classify 0 (Some e))) new_writer
          | Inr resp \<Rightarrow>
              if \<not> status_ok (us_Status resp)
              then answer_error re (mapRelayError (ClassifyWithBody (us_Status resp) (take 4096 (us_Data resp)))) new_writer
              else snd (write_out re (us_Data resp)
                  (send_header 200 [(''content-type'', resp_header ''content-type'' resp)] new_writer))))"

definition handleAnthropicCountTokens ::
  "'v app_env \<Rightarrow> resp_env \<Rightarrow> token \<Rightarrow> http_request \<Rightarrow> 'v world \<Rightarrow> client_writer \<times> 'v world" where
  "handleAnthropicCountTokens env re tok r w =
    (let answer = (\<lambda>e. (answer_error re e new_writer, w)); body = take (Suc maxAnthropicBody) (rq_Body r) in
     if rq_Method r \<noteq> ''POST'' then answer (errs_new CodeInvalidRequest ''method not supported'')
     else (case Option.bind (json_parse body) (\<lambda>j. Option.bind (as_object j) (str_field ''model'')) of
         None \<Rightarrow> answer (errs_new CodeInvalidRequest ''model missing'')
       | Some m \<Rightarrow>
           if m = [] then answer (errs_new CodeInvalidRequest ''model missing'')
           else if \<not> ModelAllowed tok m then answer (errs_new CodeForbidden (''model not allowed for token: '' @ m))
           else (case resolveCandidates m (fst w) of
               Inl e \<Rightarrow> answer (mapRelayError e)
             | Inr ([], pid) \<Rightarrow> answer (errs_new CodeModelUnavailable ''no usable channel'')
             | Inr (c # cs, pid) \<Rightarrow>
                 (case GetAccount (cd_AccountID c) (fst w) of
                    Inl e \<Rightarrow> answer (errs_wrap CodeInternal ''reading account failed'' e)
                  | Inr acc \<Rightarrow>
                      (case resolveTarget env acc [] w of
                         (Inl e, w1) \<Rightarrow> (answer_error re (errs_wrap CodeInternal ''resolving the target failed'' e) new_writer, w1)
                       | (Inr t, w1) \<Rightarrow> (count_answer re r t (rewriteAnthropicModel body (cd_ModelID c)), w1))))))"

section \<open>Whose key is used\<close>

lemma drop_client_headers:
  "x \<notin> set ks \<Longrightarrow> filter (\<lambda>h. fst h \<noteq> x) (fold (client_header r) ks hs) = fold (client_header r) ks (filter (\<lambda>h. fst h \<noteq> x) hs)"
proof (induction ks arbitrary: hs)
  case (Cons k ks)
  then have "filter (\<lambda>h. fst h \<noteq> x) (client_header r k hs) = client_header r k (filter (\<lambda>h. fst h \<noteq> x) hs)"
    by (auto simp: client_header_def put_header_def Let_def intro: filter_cong)
  with Cons show ?case by simp
qed simp

lemma other_client_headers:
  "x \<notin> set ks \<Longrightarrow> map_of (fold (client_header r) ks hs) x = map_of hs x"
proof (induction ks arbitrary: hs)
  case (Cons k ks)
  have "map_of (filter (\<lambda>h. fst h \<noteq> k) hs) x = map_of hs x" if "x \<noteq> k"
    using that by (induction hs) auto
  then have "map_of (client_header r k hs) x = map_of hs x"
    using Cons.prems by (auto simp: client_header_def put_header_def Let_def map_add_def split: option.split)
  with Cons show ?case by simp
qed simp

lemma out_headers_split:
  obtains ks where "anthropicHeaderAllowlist = ks @ [''x-api-key'']" and "''x-api-key'' \<notin> set ks"
  by (rule that [of "[''anthropic-version'', ''anthropic-beta'', ''content-type'']"]) (simp_all add: anthropicHeaderAllowlist_def)

lemma out_headers_key:
  assumes "header_get r ''x-api-key'' \<noteq> []"
  shows "anthropic_out_headers (t\<lparr>t_APIKey := k\<rparr>) r = anthropic_out_headers t r"
    and "map_of (anthropic_out_headers t r) ''x-api-key'' = Some (header_get r ''x-api-key'')"
proof -
  define xk where "xk = ''x-api-key''"
  obtain ks where ks: "anthropicHeaderAllowlist = ks @ [xk]" "xk \<notin> set ks" unfolding xk_def by (rule out_headers_split)
  have o: "anthropic_out_headers u r = fold (client_header r) ks [] @ [(xk, header_get r xk)]" for u
    using assms [folded xk_def] drop_client_headers [OF ks(2), of r "[(xk, t_APIKey u)]"]
    by (simp add: anthropic_out_headers_def ks(1) xk_def [symmetric] client_header_def [of r xk] put_header_def Let_def)
  have "map_of (fold (client_header r) ks []) xk = None" by (simp add: other_client_headers [OF ks(2)])
  then show "map_of (anthropic_out_headers t r) ''x-api-key'' = Some (header_get r ''x-api-key'')"
    unfolding xk_def [symmetric] o by (simp add: map_add_def)
  show "anthropic_out_headers (t\<lparr>t_APIKey := k\<rparr>) r = anthropic_out_headers t r" by (simp only: o)
qed

lemma out_headers_own_key:
  assumes "header_get r ''x-api-key'' = []"
  shows "map_of (anthropic_out_headers t r) ''x-api-key'' = Some (t_APIKey t)"
proof -
  define xk where "xk = ''x-api-key''"
  obtain ks where ks: "anthropicHeaderAllowlist = ks @ [xk]" "xk \<notin> set ks" unfolding xk_def by (rule out_headers_split)
  show ?thesis
    using assms [folded xk_def] other_client_headers [OF ks(2), of r "[(xk, t_APIKey t)]"]
    by (simp add: anthropic_out_headers_def ks(1) xk_def [symmetric] client_header_def [of r xk])
qed

text \<open>
  The key sent upstream is the client's. A client of the Messages endpoint that sends an
  \<open>x-api-key\<close> header replaces the key of the chosen account with it: the account's key has no
  effect on the request, on the answer and on what is recorded. Without the header the
  account's key is sent.
\<close>

theorem messages_client_key_wins:
  "(if header_get r ''x-api-key'' = [] then map_of (anthropic_out_headers t r) ''x-api-key'' = Some (t_APIKey t)
    else map_of (anthropic_out_headers t r) ''x-api-key'' = Some (header_get r ''x-api-key'') \<and>
      forwardAnthropic env re gv i r t body stream rid aid m st =
      forwardAnthropic env re gv i r (t\<lparr>t_APIKey := k\<rparr>) body stream rid aid m st)"
proof (cases "header_get r ''x-api-key'' = []")
  case True
  then show ?thesis by (simp add: out_headers_own_key)
next
  case False
  have u: "messages_url (t\<lparr>t_APIKey := k\<rparr>) p = messages_url t p" for p by (simp add: messages_url_def)
  show ?thesis
    unfolding forwardAnthropic_def u out_headers_key(1) [OF False, where t = t and k = k]
    by (simp only: False if_False out_headers_key(2) [OF False] simp_thms)
qed

section \<open>Metering\<close>

definition metered :: "db \<Rightarrow> usage_event_row list \<times> request_attempt list" where
  "metered s = (usage_events s, request_attempts s)"

lemma metered_resolve: "metered (fst (snd (resolveTarget env acc m (s, v)))) = metered s"
  using resolved_frame(1) [of metered env acc m "(s, v)"] by (simp add: metered_def)

lemma metered_stream: "fst (snd (forwardAnthropic env re gv i r t body True rid aid m (s, cw))) = s"
  by (auto simp: forwardAnthropic_def Let_def split: option.split sum.split prod.split)

lemma metered_loop: "metered (fst (fst (snd (messages_loop env re gv r True rid i cs le ((s, v), cw))))) = metered s"
proof (induction cs arbitrary: i le s v cw)
  case (Cons c cs)
  show ?case
  proof (cases "GetAccount (cd_AccountID c) s")
    case (Inl e)
    then show ?thesis by (simp add: Cons)
  next
    case acc: (Inr acc)
    obtain res s1 v1 where r: "resolveTarget env acc [] (s, v) = (res, (s1, v1))" by (metis prod.exhaust)
    have k1: "metered s1 = metered s" using metered_resolve [where env = env and acc = acc and m = "[]" and s = s and v = v] by (simp add: r)
    show ?thesis
    proof (cases res)
      case (Inl e)
      then show ?thesis using k1 Cons by (simp add: acc r)
    next
      case (Inr t)
      show ?thesis
      proof (cases "rewriteAnthropicModel (rq_Body r) (cd_ModelID c)")
        case up: (Inr up)
        obtain err s2 cw2 where f: "forwardAnthropic env re gv i r t (render (\<lambda>x. []) up) True rid (ac_ID acc) (cd_ModelID c) (s1, cw) = (err, (s2, cw2))"
          by (metis prod.exhaust)
        with metered_stream [of env re gv i r t "render (\<lambda>x. []) up" rid "ac_ID acc" "cd_ModelID c" s1 cw] have "s2 = s1" by simp
        then show ?thesis using k1 Cons by (cases err) (simp_all add: acc r Inr up f)
      qed (simp add: acc r Inr k1)
    qed
  qed
qed simp

text \<open>
  C29: streamed messages are not metered. Whatever the upstreams answer, a streamed request to
  the Messages endpoint leaves the usage events and the attempts as they were: neither its
  tokens nor its failures are recorded.
\<close>

theorem streamed_messages_unmetered:
  assumes "Option.bind (json_parse (rq_Body r)) decode_message_probe = Some (m, True)"
    and "handleAnthropicMessages env re gv tok r w = (cw, (s', v'))"
  shows "usage_events s' = usage_events (fst w) \<and> request_attempts s' = request_attempts (fst w)"
proof -
  have "metered (fst (fst (relay_messages_to env re gv r True rid cs ((s, v), cw0)))) = metered s" for rid cs s v cw0
    using metered_loop [of env re gv r rid 0 cs None s v cw0]
    by (auto simp: relay_messages_to_def split: prod.split option.split)
  then have relay: "relay_messages_to env re gv r True rid cs (w, cw0) = ((s', v'), cw1) \<Longrightarrow> metered s' = metered (fst w)" for rid cs cw0 cw1
    by (metis fst_conv prod.collapse)
  have "metered s' = metered (fst w)"
    using assms relay by (auto simp: handleAnthropicMessages_def Let_def split: if_splits sum.splits prod.splits)
  then show ?thesis by (simp add: metered_def)
qed

definition message_post :: http_request where
  "message_post = demo_chat\<lparr>rq_Body := ''{\"model\":\"fast\",\"stream\":true}''\<rparr>"

lemma streamed_messages_unmetered_witness:
  "usage_events (fst (snd (handleAnthropicMessages app_demo demo_resp demo_gate demo_token message_post (app_db, rotated_vault)))) = []"
proof -
  obtain cw s' v' where h: "handleAnthropicMessages app_demo demo_resp demo_gate demo_token message_post (app_db, rotated_vault) = (cw, (s', v'))"
    by (metis prod.exhaust)
  have "Option.bind (json_parse (rq_Body message_post)) decode_message_probe = Some (''fast'', True)" by code_simp
  from streamed_messages_unmetered [OF this h] show ?thesis unfolding h by (simp add: app_db_def empty_db_def)
qed

end
