(* ===== verification/OauthFlows.thy ===== *)
theory OauthFlows
  imports ApiAccounts
begin

text \<open>
  Authorization flows (\<open>internal/api/responses_oauth.go\<close> from \<open>oauthFlow\<close> on, and
  \<open>internal/connectors/oauth/callback.go\<close>): start, the callback listener, manual completion,
  status. A flow is kept under its state parameter; every platform has its own store of
  pending states. A completion is three atomic sections, which interleave with those of other
  completions: exchanging the code, looking at the flow, creating the account.
\<close>

section \<open>Callbacks\<close>

record callback_result =
  cb_Code :: string
  cb_State :: string
  cb_Error :: string

text \<open>\<open>url.QueryUnescape\<close>; \<open>None\<close> is an invalid escape.\<close>

fun query_unescape :: "string \<Rightarrow> string option" where
  "query_unescape [] = Some []"
| "query_unescape (c # s) =
    (if c = CHR ''%'' then
       (case s of
          a # b # r \<Rightarrow> (case (hex_digit a, hex_digit b) of
             (Some x, Some y) \<Rightarrow> map_option ((#) (byte (16 * x + y))) (query_unescape r)
           | _ \<Rightarrow> None)
        | _ \<Rightarrow> None)
     else map_option ((#) (if c = CHR ''+'' then CHR '' '' else c)) (query_unescape s))"

text \<open>\<open>URL.Query()\<close>: members with a semicolon or an invalid escape are dropped.\<close>

definition query_member :: "string \<Rightarrow> (string \<times> string) list" where
  "query_member m =
    (if m = [] \<or> CHR '';'' \<in> set m then []
     else (let (k, v) = (case index_byte m (CHR ''='') of None \<Rightarrow> (m, []) | Some i \<Rightarrow> (take i m, drop (Suc i) m))
           in case (query_unescape k, query_unescape v) of (Some k', Some v') \<Rightarrow> [(k', v')] | _ \<Rightarrow> []))"

definition url_query :: "string \<Rightarrow> (string \<times> string) list" where
  "url_query raw =
    (let u = takeWhile (\<lambda>c. c \<noteq> CHR ''#'') raw
     in case index_byte u (CHR ''?'') of None \<Rightarrow> [] | Some i \<Rightarrow> concat (map query_member (split_on (CHR ''&'') (drop (Suc i) u))))"

definition query_value :: "(string \<times> string) list \<Rightarrow> string \<Rightarrow> string" where
  "query_value q k = (case map_of q k of None \<Rightarrow> [] | Some v \<Rightarrow> v)"

definition callback_of :: "(string \<times> string) list \<Rightarrow> callback_result" where
  "callback_of q = \<lparr>cb_Code = query_value q ''code'', cb_State = query_value q ''state'', cb_Error = query_value q ''error''\<rparr>"

text \<open>A control character is the error of \<open>url.Parse\<close> that is modelled; other malformed authorities are not.\<close>

definition ExtractCallback :: "string \<Rightarrow> go_error + callback_result" where
  "ExtractCallback raw =
    (let u = trim_space raw in
     if list_ex (\<lambda>c. c \<in> set control_chars \<or> c = CHR 0x7F) u
     then Inl (WrapError ''oauth: parse callback url: '' (TextError ''net/url: invalid control character in URL'') [])
     else Inr (callback_of (url_query u)))"

text \<open>What ends the wait of the listener: a request to any path, or no request.\<close>

datatype listener_event = Got http_request | Cancelled go_error | TimedOut | Stopped go_error

fun AwaitCallback :: "listener_event \<Rightarrow> go_error + callback_result" where
  "AwaitCallback (Got r) = Inr (callback_of (rq_Query r))"
| "AwaitCallback (Cancelled e) = Inl e"
| "AwaitCallback TimedOut = Inl (TextError ''oauth: callback timeout after 5m0s'')"
| "AwaitCallback (Stopped e) = Inl (WrapError ''oauth: callback listener stopped: '' e [])"

section \<open>Flows\<close>

record oauth_flow =
  fl_provider :: string
  fl_state :: string
  fl_name :: string
  fl_providerID :: string
  fl_mode :: string
  fl_status :: string
  fl_accountID :: string
  fl_err :: string

record 'v flow_world =
  fw_world :: "'v world"
  fw_states :: "string \<Rightarrow> state_store"
  fw_flows :: "string \<Rightarrow> oauth_flow option"

definition flows_add :: "oauth_flow \<Rightarrow> 'v flow_world \<Rightarrow> 'v flow_world" where
  "flows_add fl w = w\<lparr>fw_flows := (fw_flows w)(fl_state fl \<mapsto> fl)\<rparr>"

definition flows_get :: "string \<Rightarrow> 'v flow_world \<Rightarrow> oauth_flow option" where
  "flows_get state w = fw_flows w state"

definition set_flow :: "string \<Rightarrow> (oauth_flow \<Rightarrow> oauth_flow) \<Rightarrow> 'v flow_world \<Rightarrow> 'v flow_world" where
  "set_flow k f w = w\<lparr>fw_flows := (fw_flows w)(k := map_option f (fw_flows w k))\<rparr>"

definition flow_failed :: "string \<Rightarrow> oauth_flow \<Rightarrow> oauth_flow" where
  "flow_failed e fl = fl\<lparr>fl_status := ''failed'', fl_err := e\<rparr>"

definition stableOAuthErr :: "go_error \<Rightarrow> string" where
  "stableOAuthErr e =
    (if errors_is e ErrStateInvalid then ''state invalid or consumed''
     else if errors_is e ErrStateExpired then ''authorization expired''
     else if errors_is e ErrAuthorizationCancelled then ''cancelled by the user''
     else if errors_is e ErrRefreshRejected then ''refresh token rejected''
     else ''authorization failed'')"

definition stableOAuthErrStr :: "string \<Rightarrow> string \<Rightarrow> string" where
  "stableOAuthErrStr status detail = (if detail \<noteq> [] then detail else status)"

section \<open>Completion\<close>

text \<open>First section: the code is exchanged and the tokens are stored.\<close>

definition flow_exchange ::
  "'v app_env \<Rightarrow> oauth_provider \<Rightarrow> string \<Rightarrow> callback_result \<Rightarrow> 'v flow_world \<Rightarrow> (go_error + secret_ref) \<times> 'v flow_world" where
  "flow_exchange env p pname cb w =
    (let (res, (st, v)) = CompleteAuth (ev_Ops env) (ce_Net (ev_Call env)) p (ev_Fmt env) (ev_Now env) (cb_State cb) (cb_Code cb)
           (cb_Error cb) (fw_states w pname, snd (fw_world w))
     in (map_sum id fst res, w\<lparr>fw_world := (fst (fw_world w), v), fw_states := (fw_states w)(pname := st)\<rparr>))"

text \<open>Second section: \<open>Inl\<close> is the answer when the completion ends here.\<close>

definition flow_check ::
  "string \<Rightarrow> go_error + secret_ref \<Rightarrow> 'v flow_world \<Rightarrow> ((go_error + account) + secret_ref) \<times> 'v flow_world" where
  "flow_check k res w =
    (if map_option fl_status (fw_flows w k) \<noteq> Some ''pending'' then (Inl (Inr zero_account), w)
     else (case res of
         Inl e \<Rightarrow> (Inl (Inl e), set_flow k (flow_failed (stableOAuthErr e)) w)
       | Inr ref \<Rightarrow> (Inr ref, w)))"

definition oauth_account_of :: "oauth_flow \<Rightarrow> provider \<Rightarrow> string \<Rightarrow> secret_ref \<Rightarrow> account" where
  "oauth_account_of fl prov aid ref = \<lparr>ac_ID = aid, ac_ProviderID = pv_ID prov,
     ac_Name = (if fl_name fl = [] then fl_provider fl @ ''-'' @ take 8 aid else fl_name fl),
     ac_Status = ''active'', ac_Mode = fl_mode fl, ac_AuthType = AuthOAuth, ac_BillingMode = BillingUnknown,
     ac_AuthState = AuthStateOK, ac_VaultProvider = sr_VaultProvider ref, ac_SecretService = sr_Service ref,
     ac_SecretAccount = sr_Account ref, ac_SecretFingerprint = sr_Fingerprint ref, ac_LastVerifiedAt = []\<rparr>"

text \<open>Third section: the account is created and the flow completed.\<close>

definition flow_create ::
  "'v app_env \<Rightarrow> string \<Rightarrow> oauth_flow \<Rightarrow> secret_ref \<Rightarrow> 'v flow_world \<Rightarrow> (go_error + account) \<times> 'v flow_world" where
  "flow_create env k fl ref w =
    (let (s, v) = fw_world w in
     case GetProvider (fl_providerID fl) s of
       Inl e \<Rightarrow> (Inl e, set_flow k (flow_failed ''no such provider'') w)
     | Inr prov \<Rightarrow>
         (let aid = ''acc_'' @ ev_Rand env; acc = oauth_account_of fl prov aid ref in
          case CreateAccount acc (ev_nw env) s of
            Inl e \<Rightarrow> (Inl e, set_flow k (flow_failed ''creating account failed'')
                       (w\<lparr>fw_world := (s, snd (v_Delete (ev_Ops env) ref v))\<rparr>))
          | Inr s1 \<Rightarrow> (Inr acc, set_flow k (\<lambda>f. f\<lparr>fl_status := ''completed'', fl_accountID := aid\<rparr>)
                       (w\<lparr>fw_world := (audit_in env ''oauth.complete'' aid (fl_provider fl) s1, v)\<rparr>))))"

definition completeFlowAccount ::
  "'v app_env \<Rightarrow> oauth_flow \<Rightarrow> callback_result \<Rightarrow> 'v flow_world \<Rightarrow> (go_error + account) \<times> 'v flow_world" where
  "completeFlowAccount env fl cb w =
    (case ev_OAuth env (fl_provider fl) of
       None \<Rightarrow> (Inl (TextError ''oauth: provider not registered''), w)
     | Some p \<Rightarrow>
         (let (res, w1) = flow_exchange env p (fl_provider fl) cb w in
          case flow_check (fl_state fl) res w1 of
            (Inl ans, w2) \<Rightarrow> (ans, w2)
          | (Inr ref, w2) \<Rightarrow> flow_create env (fl_state fl) fl ref w2))"

section \<open>Handlers\<close>

definition ensureProvider :: "'v app_env \<Rightarrow> string \<Rightarrow> string \<Rightarrow> db \<Rightarrow> (go_error + string \<times> bool) \<times> db" where
  "ensureProvider env rnd kind s =
    (case ListProviders s of
       Inl e \<Rightarrow> (Inl e, s)
     | Inr ps \<Rightarrow>
         (case find (\<lambda>p. pv_Kind p = kind) ps of
            Some p \<Rightarrow> (Inr (pv_ID p, False), s)
          | None \<Rightarrow>
              (let i = ''prov_'' @ rnd in
               case CreateProvider \<lparr>pv_ID = i, pv_Kind = kind, pv_Name = kind, pv_BaseURL = defaultBaseURL kind, pv_Capabilities = []\<rparr>
                      (ev_nw env) s of
                 Inl e \<Rightarrow> (Inl e, s)
               | Inr s1 \<Rightarrow> (Inr (i, True), s1))))"

text \<open>\<open>strings.Index\<close> with a text.\<close>

fun index_text :: "string \<Rightarrow> string \<Rightarrow> nat option" where
  "index_text w [] = (if w = [] then Some 0 else None)"
| "index_text w (c # s) = (if has_prefix (c # s) w then Some 0 else map_option Suc (index_text w s))"

definition extractStateParam :: "string \<Rightarrow> string" where
  "extractStateParam url = (case index_text ''state='' url of
      None \<Rightarrow> []
    | Some i \<Rightarrow> takeWhile (\<lambda>c. c \<noteq> CHR ''&'' \<and> c \<noteq> CHR ''#'') (drop (i + 6) url))"

text \<open>The random values of a start, and whether the callback port could be opened.\<close>

record start_env =
  st_ShaRaw :: "string \<Rightarrow> string"
  st_Verifier :: string
  st_State :: string
  st_FlowHex :: string
  st_ProvHex :: string
  st_Listen :: bool

text \<open>Errors of the decoder are ignored: a member of another type is left empty.\<close>

definition lenient_field :: "string \<Rightarrow> string \<Rightarrow> string" where
  "lenient_field k body = (case Option.bind (json_decode body) as_object of
      None \<Rightarrow> [] | Some ms \<Rightarrow> (case as_string (member k ms) of None \<Rightarrow> [] | Some v \<Rightarrow> v))"

definition start_provider ::
  "'v app_env \<Rightarrow> start_env \<Rightarrow> string \<Rightarrow> string \<Rightarrow> db \<Rightarrow> (http_response + string) \<times> db" where
  "start_provider env se pname pid s =
    (if pid = [] then
       (case ensureProvider env (st_ProvHex se) pname s of
          (Inl e, s1) \<Rightarrow> (Inl (internal_error ''preparing provider failed'' e), s1)
        | (Inr (i, fresh), s1) \<Rightarrow> (Inr i, s1))
     else (case GetProvider pid s of
         Inl e \<Rightarrow> (Inl (writeError (errs_new CodeNotFound ''no such provider'')), s)
       | Inr p \<Rightarrow> if pv_Kind p \<noteq> pname then (Inl (invalid ''kind differs from the platform''), s) else (Inr pid, s)))"

definition start_answer :: "string \<Rightarrow> string \<Rightarrow> bool \<Rightarrow> http_response" where
  "start_answer url fid listening = writeJSON 200 (JObj [(''auth_url'', JStr url), (''callback_listener'', JBool listening),
     (''flow_id'', JStr fid), (''hint'', JStr ''authorize in the browser; otherwise paste the callback address into complete'')])"

definition oauthStart ::
  "'v app_env \<Rightarrow> start_env \<Rightarrow> string \<Rightarrow> http_request \<Rightarrow> 'v flow_world \<Rightarrow> http_response \<times> 'v flow_world" where
  "oauthStart env se pname r w =
    (if rq_Method r \<noteq> ''POST'' then (bad_method, w)
     else (case ev_OAuth env pname of
         None \<Rightarrow> (writeError (errs_new CodeNotFound (''platform has no OAuth: '' @ pname)), w)
       | Some p \<Rightarrow>
           (let m0 = lenient_field ''mode'' (rq_Body r); m = (if m0 = [] then ModeRelayAndMonitor else m0) in
            if m \<noteq> ModeMonitorOnly \<and> m \<noteq> ModeRelayAndMonitor then (invalid ''unsupported mode'', w)
            else (case start_provider env se pname (lenient_field ''provider_id'' (rq_Body r)) (fst (fw_world w)) of
                (Inl resp, s1) \<Rightarrow> (resp, w\<lparr>fw_world := (s1, snd (fw_world w))\<rparr>)
              | (Inr pid, s1) \<Rightarrow>
                  (let w1 = w\<lparr>fw_world := (s1, snd (fw_world w))\<rparr>; fid = ''flow_'' @ st_FlowHex se in
                   case StartAuth (ev_Ops env) p (st_ShaRaw se) (ev_Now env) (st_Verifier se) (st_State se)
                          (''oauth-'' @ pname) fid (fw_states w pname) of
                     (Inl e, ss) \<Rightarrow>
                       ((if errors_is e ErrVaultNotPersistent then writeError (errs_new CodeForbidden ''vault is not persistent'')
                         else internal_error ''starting authorization failed'' e), w1\<lparr>fw_states := (fw_states w)(pname := ss)\<rparr>)
                   | (Inr url, ss) \<Rightarrow>
                       (let fl = \<lparr>fl_provider = pname, fl_state = extractStateParam url, fl_name = lenient_field ''name'' (rq_Body r),
                              fl_providerID = pid, fl_mode = m, fl_status = ''pending'', fl_accountID = [], fl_err = []\<rparr>
                        in (start_answer url fid (st_Listen se),
                            flows_add fl (w1\<lparr>fw_states := (fw_states w)(pname := ss),
                              fw_world := (audit_in env ''oauth.start'' pname [] s1, snd (fw_world w))\<rparr>)))))))) "

text \<open>What the listener of a flow does with the event that ends its wait.\<close>

definition listener_done :: "'v app_env \<Rightarrow> oauth_flow \<Rightarrow> listener_event \<Rightarrow> 'v flow_world \<Rightarrow> 'v flow_world" where
  "listener_done env fl ev w = (case AwaitCallback ev of Inl e \<Rightarrow> w | Inr cb \<Rightarrow> snd (completeFlowAccount env fl cb w))"

definition oauth_created :: "account \<Rightarrow> http_response" where
  "oauth_created acc = writeJSON 201 (JObj [(''auth_type'', JStr (ac_AuthType acc)), (''id'', JStr (ac_ID acc)),
     (''provider_id'', JStr (ac_ProviderID acc)), (''secret_fingerprint'', JStr (ac_SecretFingerprint acc))])"

definition oauthComplete :: "'v app_env \<Rightarrow> string \<Rightarrow> http_request \<Rightarrow> 'v flow_world \<Rightarrow> http_response \<times> 'v flow_world" where
  "oauthComplete env pname r w =
    (if rq_Method r \<noteq> ''POST'' then (bad_method, w)
     else if ev_OAuth env pname = None then (writeError (errs_new CodeNotFound (''platform has no OAuth: '' @ pname)), w)
     else (case read_body (str_field ''callback_url'') (rq_Body r) of
         None \<Rightarrow> (invalid ''callback_url missing'', w)
       | Some u \<Rightarrow>
           if trim_space u = [] then (invalid ''callback_url missing'', w)
           else (case ExtractCallback u of
               Inl e \<Rightarrow> (invalid ''callback address cannot be parsed'', w)
             | Inr cb \<Rightarrow>
                 (case flows_get (cb_State cb) w of
                    None \<Rightarrow> (writeError (errs_new CodeNotFound ''no such flow''), w)
                  | Some fl \<Rightarrow>
                      if fl_provider fl \<noteq> pname then (writeError (errs_new CodeNotFound ''no such flow''), w)
                      else (case completeFlowAccount env fl cb w of
                          (Inl e, w1) \<Rightarrow>
                            (let f = (case flows_get (fl_state fl) w1 of None \<Rightarrow> fl | Some f \<Rightarrow> f) in
                             (writeError (errs_new CodeUpstreamAuth (''authorization not completed: ''
                                @ stableOAuthErrStr (fl_status f) (fl_err f))), w1))
                        | (Inr acc, w1) \<Rightarrow> (oauth_created acc, w1))))))"

definition oauthFlowStatus :: "string \<Rightarrow> string \<Rightarrow> 'v flow_world \<Rightarrow> http_response" where
  "oauthFlowStatus pname state w =
    (case flows_get state w of
       None \<Rightarrow> writeError (errs_new CodeNotFound ''no such flow'')
     | Some fl \<Rightarrow>
         if fl_provider fl \<noteq> pname then writeError (errs_new CodeNotFound ''no such flow'')
         else writeJSON 200 (JObj [(''account_id'', JStr (fl_accountID fl)), (''error'', JStr (fl_err fl)), (''status'', JStr (fl_status fl))]))"

definition oauthAction :: "'v app_env \<Rightarrow> start_env \<Rightarrow> http_request \<Rightarrow> 'v flow_world \<Rightarrow> http_response \<times> 'v flow_world" where
  "oauthAction env se r w =
    (let parts = path_parts (rq_Path r) in
     if length parts = 5 then
       (if parts ! 4 = ''start'' then oauthStart env se (parts ! 3) r w
        else if parts ! 4 = ''complete'' then oauthComplete env (parts ! 3) r w
        else (invalid (''unsupported action: '' @ parts ! 4), w))
     else if length parts = 6 \<and> parts ! 4 = ''flows'' then (oauthFlowStatus (parts ! 3) (parts ! 5) w, w)
     else (bad_path, w))"

section \<open>A request that is no callback\<close>

lemma flow_exchange_ok:
  assumes "CompleteAuth (ev_Ops env) (ce_Net (ev_Call env)) p (ev_Fmt env) (ev_Now env) (cb_State cb) (cb_Code cb) (cb_Error cb)
      (fw_states w pname, snd (fw_world w)) = (Inr (ref, b), (st, v))"
  shows "flow_exchange env p pname cb w =
    (Inr ref, w\<lparr>fw_world := (fst (fw_world w), v), fw_states := (fw_states w)(pname := st)\<rparr>)"
  by (simp add: flow_exchange_def assms)

lemma stray_request:
  assumes "ev_OAuth env (fl_provider fl) = Some p" and "fw_flows w (fl_state fl) = Some f" and "fl_status f = ''pending''"
    and "query_value (rq_Query r) ''state'' = [] \<or> query_value (rq_Query r) ''code'' = []"
  shows "\<exists>e. listener_done env fl (Got r) w = set_flow (fl_state fl) (flow_failed e) w"
proof -
  let ?cb = "callback_of (rq_Query r)"
  have "\<exists>e. CompleteAuth (ev_Ops env) (ce_Net (ev_Call env)) p (ev_Fmt env) (ev_Now env) (cb_State ?cb) (cb_Code ?cb) (cb_Error ?cb)
      (fw_states w (fl_provider fl), snd (fw_world w)) = (Inl e, (fw_states w (fl_provider fl), snd (fw_world w)))"
    using assms(4) by (auto simp: CompleteAuth_def callback_of_def)
  then obtain e where "flow_exchange env p (fl_provider fl) ?cb w = (Inl e, w)"
    by (auto simp: flow_exchange_def fun_upd_idem)
  then show ?thesis
    using assms(1-3) by (auto simp: listener_done_def completeFlowAccount_def flow_check_def)
qed

lemma late_completion:
  assumes "ev_OAuth env (fl_provider fl) = Some p" and "map_option fl_status (fw_flows w (fl_state fl)) \<noteq> Some ''pending''"
    and "CompleteAuth (ev_Ops env) (ce_Net (ev_Call env)) p (ev_Fmt env) (ev_Now env) (cb_State cb) (cb_Code cb) (cb_Error cb)
      (fw_states w (fl_provider fl), snd (fw_world w)) = (Inr (ref, b), (st, v))"
  shows "completeFlowAccount env fl cb w =
    (Inr zero_account, w\<lparr>fw_world := (fst (fw_world w), v), fw_states := (fw_states w)(fl_provider fl := st)\<rparr>)"
  using assms(1,2) by (simp add: completeFlowAccount_def flow_exchange_ok [OF assms(3)] flow_check_def)

text \<open>
  C30: a request that is no callback spoils the authorization. Any request to the callback
  port without a code or a state (a browser's request for its icon, say) fails the pending
  flow, though its state is not consumed. When the real callback address is then pasted, the
  code is exchanged and the tokens are stored in the vault, but no account is created, the
  flow stays failed, and the answer is 201 with an empty account id.
\<close>

theorem stray_callback_orphans_tokens:
  assumes "ev_OAuth env (fl_provider fl) = Some p" and "fw_flows w (fl_state fl) = Some fl" and "fl_status fl = ''pending''"
    and "query_value (rq_Query stray) ''state'' = [] \<or> query_value (rq_Query stray) ''code'' = []"
    and "rq_Method r = ''POST''" and "read_body (str_field ''callback_url'') (rq_Body r) = Some u" and "trim_space u \<noteq> []"
    and "ExtractCallback u = Inr cb" and "cb_State cb = fl_state fl"
    and "CompleteAuth (ev_Ops env) (ce_Net (ev_Call env)) p (ev_Fmt env) (ev_Now env) (cb_State cb) (cb_Code cb) (cb_Error cb)
      (fw_states w (fl_provider fl), snd (fw_world w)) = (Inr (ref, b), (st, v))"
    and "oauthComplete env (fl_provider fl) r (listener_done env fl (Got stray) w) = (resp, w')"
  shows "resp = oauth_created zero_account \<and> rs_Status resp = 201 \<and> ac_ID zero_account = [] \<and>
    fw_world w' = (fst (fw_world w), v) \<and> (\<exists>f. fw_flows w' (fl_state fl) = Some f \<and> fl_status f = ''failed'')"
proof -
  obtain e where l: "listener_done env fl (Got stray) w = set_flow (fl_state fl) (flow_failed e) w"
    using stray_request [OF assms(1,2,3,4)] by blast
  let ?w = "set_flow (fl_state fl) (flow_failed e) w"
  have f: "fw_flows ?w (fl_state fl) = Some (flow_failed e fl)" "fw_states ?w = fw_states w" "fw_world ?w = fw_world w"
    by (simp_all add: set_flow_def assms(2))
  let ?fl = "flow_failed e fl"
  have k: "fl_provider ?fl = fl_provider fl" "fl_state ?fl = fl_state fl" "fl_status ?fl = ''failed''"
    by (simp_all add: flow_failed_def)
  have "completeFlowAccount env ?fl cb ?w =
      (Inr zero_account, ?w\<lparr>fw_world := (fst (fw_world ?w), v), fw_states := (fw_states ?w)(fl_provider ?fl := st)\<rparr>)"
    by (rule late_completion [where p = p and ref = ref and b = b]) (simp_all add: k f assms(1,10))
  then have "(resp, w') = (oauth_created zero_account, ?w\<lparr>fw_world := (fst (fw_world w), v), fw_states := (fw_states w)(fl_provider fl := st)\<rparr>)"
    using assms(11) by (simp add: oauthComplete_def l assms(1,5-9) flows_get_def f k)
  then show ?thesis
    using f k by (simp add: oauth_created_def zero_account_def)
qed

section \<open>A callback of another flow\<close>

text \<open>
  A listener takes the callback of any flow. When a second authorization of the platform
  is started while the listener of the first still holds the port, the callback of the second
  completes the first: the account gets the name, provider and mode of the first flow with the
  tokens of the second authorization, and the second flow stays pending although its state is
  used up.
\<close>

theorem callback_completes_other_flow:
  assumes "ev_OAuth env (fl_provider fl1) = Some p" and "fw_flows w (fl_state fl1) = Some fl1" and "fl_status fl1 = ''pending''"
    and "fw_flows w (fl_state fl2) = Some fl2" and "fl_status fl2 = ''pending''" and "fl_state fl1 \<noteq> fl_state fl2"
    and "query_value (rq_Query r) ''state'' = fl_state fl2"
    and "CompleteAuth (ev_Ops env) (ce_Net (ev_Call env)) p (ev_Fmt env) (ev_Now env) (fl_state fl2) (query_value (rq_Query r) ''code'')
      (query_value (rq_Query r) ''error'') (fw_states w (fl_provider fl1), snd (fw_world w)) = (Inr (ref, b), (st, v))"
    and "GetProvider (fl_providerID fl1) (fst (fw_world w)) = Inr prov"
    and "CreateAccount (oauth_account_of fl1 prov (''acc_'' @ ev_Rand env) ref) (ev_nw env) (fst (fw_world w)) = Inr s1"
  shows "let w' = listener_done env fl1 (Got r) w in
    accounts (fst (fw_world w')) = accounts s1 \<and> snd (fw_world w') = v \<and>
    map_option fl_status (fw_flows w' (fl_state fl1)) = Some ''completed'' \<and>
    fw_flows w' (fl_state fl2) = Some fl2 \<and> fw_states w' (fl_provider fl1) (fl_state fl2) = None"
proof -
  define cb where "cb = callback_of (rq_Query r)"
  have cb: "cb_State cb = fl_state fl2" "cb_Code cb = query_value (rq_Query r) ''code''" "cb_Error cb = query_value (rq_Query r) ''error''"
    by (simp_all add: cb_def callback_of_def assms(7))
  have used: "st (fl_state fl2) = None"
    using assms(8) by (auto simp: CompleteAuth_def consume_def Let_def split: if_splits option.splits sum.splits prod.splits)
  have x: "flow_exchange env p (fl_provider fl1) cb w =
      (Inr ref, w\<lparr>fw_world := (fst (fw_world w), v), fw_states := (fw_states w)(fl_provider fl1 := st)\<rparr>)"
    by (rule flow_exchange_ok) (simp only: cb assms(8))
  have acc: "accounts (audit_in env a k d s) = accounts s" for a k d s
    by (auto simp: audit_in_def audit_def keep_db_def RecordAuditEvent_def with_db_Inr Let_def split: sum.split if_splits)
  show ?thesis
    using assms(6)
    by (simp add: listener_done_def cb_def [symmetric] completeFlowAccount_def assms(1-5,9) assms(10) [simplified] x
        flow_check_def flow_create_def set_flow_def used acc Let_def)
qed

section \<open>Concrete runs\<close>

definition token_answer :: string where
  "token_answer = ''{\"access_token\":\"at\",\"refresh_token\":\"rt\"}''"

definition flow_demo :: "mem_vault app_env" where
  "flow_demo = app_demo\<lparr>ev_Call := demo_env (demo_reply 200 token_answer)\<rparr>"

definition demo_flow :: "string \<Rightarrow> oauth_flow" where
  "demo_flow k = \<lparr>fl_provider = ''codex'', fl_state = k, fl_name = k, fl_providerID = ''p'', fl_mode = ModeMonitorOnly,
     fl_status = ''pending'', fl_accountID = [], fl_err = []\<rparr>"

definition demo_entry :: state_entry where
  "demo_entry = \<lparr>se_verifier = ''v'', se_service = ''oauth-codex'', se_account = ''flow_1'', se_expiresAt = 1\<rparr>"

definition demo_flows :: "mem_vault flow_world" where
  "demo_flows = \<lparr>fw_world = (app_db, NewInMemoryVault), fw_states = (\<lambda>p. [''s1'' \<mapsto> demo_entry, ''s2'' \<mapsto> demo_entry]),
     fw_flows = [''s1'' \<mapsto> demo_flow ''s1'', ''s2'' \<mapsto> demo_flow ''s2'']\<rparr>"

definition callback_get :: "string \<Rightarrow> http_request" where
  "callback_get k = demo_call\<lparr>rq_Method := ''GET'', rq_Query := [(''code'', ''c''), (''state'', k)]\<rparr>"

definition complete_post :: http_request where
  "complete_post = demo_call\<lparr>rq_Body := ''{\"callback_url\":\"http://localhost:1455/auth/callback?code=c&state=s1\"}''\<rparr>"

lemma demo_exchange:
  assumes "k \<in> {''s1'', ''s2''}"
  obtains ref b st v where "CompleteAuth (ev_Ops flow_demo) (ce_Net (ev_Call flow_demo)) Codex (ev_Fmt flow_demo) (ev_Now flow_demo) k ''c'' []
      (fw_states demo_flows ''codex'', NewInMemoryVault) = (Inr (ref, b), (st, v))"
proof -
  have d: "Option.bind (json_decode (take 1048576 token_answer)) decode_token_resp = Some (''at'', ''rt'', [], 0)"
  proof -
    have "Option.bind (json_decode token_answer) decode_token_resp = Some (''at'', ''rt'', [], 0)" by code_simp
    moreover have "take 1048576 token_answer = token_answer" by (simp add: token_answer_def)
    ultimately show ?thesis by simp
  qed
  have "exchange (ce_Net (ev_Call flow_demo)) Codex (ev_Fmt flow_demo) (ev_Now flow_demo) ''c'' ver =
      Inr (new_bundle (ev_Fmt flow_demo) (ev_Now flow_demo) (''at'', ''rt'', [], 0))" for ver
    using d by (simp add: exchange_def form_post_def flow_demo_def demo_env_def demo_reply_def)
  then have "is_ok (fst (CompleteAuth (ev_Ops flow_demo) (ce_Net (ev_Call flow_demo)) Codex (ev_Fmt flow_demo) (ev_Now flow_demo) k ''c'' []
      (fw_states demo_flows ''codex'', NewInMemoryVault)))"
    using assms by (auto simp: CompleteAuth_def consume_def demo_flows_def demo_entry_def Let_def flow_demo_def app_demo_def
        memory_vault_def mem_Store_def)
  then show ?thesis using that by (auto simp: is_ok_iff) (metis prod.collapse)
qed

lemma demo_flow_facts:
  "ev_OAuth flow_demo ''codex'' = Some Codex" "fl_provider (demo_flow k) = ''codex''" "fl_state (demo_flow k) = k"
  "fl_status (demo_flow k) = ''pending''" "fl_providerID (demo_flow k) = ''p''"
  "fw_flows demo_flows ''s1'' = Some (demo_flow ''s1'')" "fw_flows demo_flows ''s2'' = Some (demo_flow ''s2'')"
  "fw_world demo_flows = (app_db, NewInMemoryVault)"
  by (simp_all add: flow_demo_def app_demo_def demo_flow_def demo_flows_def)

lemma stray_callback_orphans_tokens_witness:
  "accounts (fst (fw_world (snd (oauthComplete flow_demo ''codex'' complete_post
     (listener_done flow_demo (demo_flow ''s1'') (Got demo_call) demo_flows))))) = accounts app_db"
proof -
  obtain resp w' where c: "oauthComplete flow_demo ''codex'' complete_post
      (listener_done flow_demo (demo_flow ''s1'') (Got demo_call) demo_flows) = (resp, w')" by (metis prod.exhaust)
  obtain ref b st v where x: "CompleteAuth (ev_Ops flow_demo) (ce_Net (ev_Call flow_demo)) Codex (ev_Fmt flow_demo) (ev_Now flow_demo) ''s1'' ''c'' []
      (fw_states demo_flows ''codex'', NewInMemoryVault) = (Inr (ref, b), (st, v))" using demo_exchange [of "''s1''"] by blast
  define u where "u = ''http://localhost:1455/auth/callback?code=c&state=s1''"
  define cb where "cb = \<lparr>cb_Code = ''c'', cb_State = ''s1'', cb_Error = []\<rparr>"
  have q: "query_value (rq_Query demo_call) ''code'' = []" "rq_Method complete_post = ''POST''"
    "read_body (str_field ''callback_url'') (rq_Body complete_post) = Some u" "trim_space u \<noteq> []" "ExtractCallback u = Inr cb"
    unfolding u_def cb_def by code_simp+
  note k = demo_flow_facts
  show ?thesis
    using stray_callback_orphans_tokens [where env = flow_demo and fl = "demo_flow ''s1''" and p = Codex and w = demo_flows and stray = demo_call
        and r = complete_post and u = u and cb = cb and ref = ref and b = b and st = st and v = v and resp = resp and w' = w'] x c q
    by (simp add: k cb_def)
qed

lemma callback_completes_other_flow_witness:
  "map_option fl_status (fw_flows (listener_done flow_demo (demo_flow ''s1'') (Got (callback_get ''s2'')) demo_flows) ''s1'') = Some ''completed'' \<and>
   map_option fl_status (fw_flows (listener_done flow_demo (demo_flow ''s1'') (Got (callback_get ''s2'')) demo_flows) ''s2'') = Some ''pending''"
proof -
  obtain ref b st v where x: "CompleteAuth (ev_Ops flow_demo) (ce_Net (ev_Call flow_demo)) Codex (ev_Fmt flow_demo) (ev_Now flow_demo) ''s2'' ''c'' []
      (fw_states demo_flows ''codex'', NewInMemoryVault) = (Inr (ref, b), (st, v))" using demo_exchange [of "''s2''"] by blast
  have p: "GetProvider ''p'' app_db = Inr (provider.truncate demo_provider)" by code_simp
  have q: "query_value (rq_Query (callback_get ''s2'')) ''state'' = ''s2''" "query_value (rq_Query (callback_get ''s2'')) ''code'' = ''c''"
    "query_value (rq_Query (callback_get ''s2'')) ''error'' = []"
    by code_simp+
  have i: "ac_ID (oauth_account_of fl prov aid ref) = aid" "ac_ProviderID (oauth_account_of fl prov aid ref) = pv_ID prov" for fl prov aid
    by (simp_all add: oauth_account_of_def)
  have "\<exists>s1. CreateAccount (oauth_account_of (demo_flow ''s1'') (provider.truncate demo_provider) (''acc_'' @ ev_Rand flow_demo) ref) (ev_nw flow_demo) app_db = Inr s1"
    unfolding CreateAccount_def i
    by (simp add: app_db_def empty_db_def with_db_def rotated_account_def demo_account_def flow_demo_def app_demo_def demo_provider_def provider.truncate_def)
  then obtain s1 where "CreateAccount (oauth_account_of (demo_flow ''s1'') (provider.truncate demo_provider) (''acc_'' @ ev_Rand flow_demo) ref) (ev_nw flow_demo) app_db = Inr s1" by blast
  with callback_completes_other_flow [where env = flow_demo and ?fl1.0 = "demo_flow ''s1''" and ?fl2.0 = "demo_flow ''s2''" and p = Codex and w = demo_flows
      and r = "callback_get ''s2''" and ref = ref and b = b and st = st and v = v and prov = "provider.truncate demo_provider" and ?s1.0 = s1] x
  show ?thesis by (simp add: demo_flow_facts p q Let_def)
qed

end
