(* ===== verification/Health.thy ===== *)
theory Health
  imports Complex_Main GoLib
begin

text \<open>
  The health engine (\<open>internal/health/health.go\<close>): the metrics of a window of samples, the
  score and fault class, and the engine that lets a status change only when it is sustained.
  A \<open>float64\<close> is a real number here.
\<close>

section \<open>Data\<close>

datatype fault_class = FaultNone | FaultAccountLimited | FaultProviderDegraded | FaultModelBusy | FaultNetwork
datatype health_status = StatusHealthy | StatusDegraded | StatusBusy | StatusLimited | StatusUnknown
datatype confidence = ConfidenceLow | ConfidenceMedium | ConfidenceHigh

record health_sample =
  hs_ModelID :: string
  hs_ConnectionID :: string
  hs_TTFTMS :: real
  hs_LatencyMS :: real
  hs_StatusCode :: int
  hs_ErrorClass :: string
  hs_SampledAt :: int

record health_metrics =
  hm_SampleCount :: nat
  hm_TTFTP50 :: real
  hm_TTFTP95 :: real
  hm_LatencyP50 :: real
  hm_LatencyP95 :: real
  hm_Rate429 :: real
  hm_Rate5xx :: real
  hm_RateTimeout :: real
  hm_RateNetwork :: real

section \<open>Metrics\<close>

definition Percentile :: "real list \<Rightarrow> real \<Rightarrow> real" where
  "Percentile xs p =
    (let n = length xs in
     if n = 0 then 0
     else if n = 1 then xs ! 0
     else (let idx = p / 100 * real (n - 1); lo = nat \<lfloor>idx\<rfloor>; hi = (if n \<le> lo + 1 then n - 1 else lo + 1);
               frac = idx - real lo
           in xs ! lo + (xs ! hi - xs ! lo) * frac))"

text \<open>The classes a sample counts for, in the order of the switch.\<close>

datatype sample_class = Is429 | Is5xx | IsTimeout | IsNetwork | IsOther

definition class_of :: "health_sample \<Rightarrow> sample_class" where
  "class_of s =
    (if hs_StatusCode s = 429 then Is429
     else if 500 \<le> hs_StatusCode s \<and> hs_StatusCode s < 600 then Is5xx
     else if hs_ErrorClass s = ''timeout'' then IsTimeout
     else if hs_ErrorClass s = ''network'' then IsNetwork else IsOther)"

definition rate_of :: "sample_class \<Rightarrow> health_sample list \<Rightarrow> real" where
  "rate_of c ss = real (length (filter (\<lambda>s. class_of s = c) ss)) * (1 / real (length ss))"

definition ComputeMetrics :: "health_sample list \<Rightarrow> health_metrics" where
  "ComputeMetrics ss =
    (if ss = [] then \<lparr>hm_SampleCount = 0, hm_TTFTP50 = 0, hm_TTFTP95 = 0, hm_LatencyP50 = 0, hm_LatencyP95 = 0,
       hm_Rate429 = 0, hm_Rate5xx = 0, hm_RateTimeout = 0, hm_RateNetwork = 0\<rparr>
     else (let ttft = sort (map hs_TTFTMS ss); lat = sort (map hs_LatencyMS ss) in
       \<lparr>hm_SampleCount = length ss, hm_TTFTP50 = Percentile ttft 50, hm_TTFTP95 = Percentile ttft 95,
        hm_LatencyP50 = Percentile lat 50, hm_LatencyP95 = Percentile lat 95,
        hm_Rate429 = rate_of Is429 ss, hm_Rate5xx = rate_of Is5xx ss,
        hm_RateTimeout = rate_of IsTimeout ss, hm_RateNetwork = rate_of IsNetwork ss\<rparr>))"

definition Score :: "health_metrics \<Rightarrow> real" where
  "Score m =
    (if hm_SampleCount m = 0 then 0
     else (let s1 = 100 - hm_Rate429 m * 30 - hm_Rate5xx m * 45 - hm_RateTimeout m * 40 - hm_RateNetwork m * 35;
               s2 = (if 3000 < hm_TTFTP95 m then s1 - 10 else s1);
               s3 = (if 10000 < hm_TTFTP95 m then s2 - 10 else s2);
               s4 = (if 20000 < hm_LatencyP95 m then s3 - 10 else s3)
           in if s4 < 0 then 0 else s4))"

definition health_Classify :: "health_metrics \<Rightarrow> bool \<Rightarrow> fault_class" where
  "health_Classify m accountLimited =
    (if hm_SampleCount m = 0 then FaultNone
     else if accountLimited then FaultAccountLimited
     else if 3 / 10 < hm_RateNetwork m \<or> 1 / 2 < hm_RateTimeout m then FaultNetwork
     else if 4 / 10 < hm_Rate5xx m then FaultProviderDegraded
     else if 3 / 10 < hm_Rate429 m then FaultModelBusy
     else if 10000 < hm_TTFTP95 m \<or> 5000 < hm_TTFTP50 m then FaultModelBusy
     else if Score m < 60 then FaultProviderDegraded
     else FaultNone)"

fun ToStatus :: "fault_class \<Rightarrow> health_status" where
  "ToStatus FaultAccountLimited = StatusLimited"
| "ToStatus FaultProviderDegraded = StatusDegraded"
| "ToStatus FaultNetwork = StatusDegraded"
| "ToStatus FaultModelBusy = StatusBusy"
| "ToStatus FaultNone = StatusHealthy"

definition ConfidenceOf :: "nat \<Rightarrow> confidence" where
  "ConfidenceOf n = (if 100 \<le> n then ConfidenceHigh else if 20 \<le> n then ConfidenceMedium else ConfidenceLow)"

record health_result =
  hr_ModelID :: string
  hr_ConnectionID :: string
  hr_Status :: health_status
  hr_Score :: real
  hr_Confidence :: confidence
  hr_Fault :: fault_class
  hr_SampleCount :: nat
  hr_Metrics :: health_metrics
  hr_ComputedAt :: int
  hr_Stable :: bool

definition minStableSamples :: nat where "minStableSamples = 20"

definition Evaluate :: "int \<Rightarrow> health_sample list \<Rightarrow> bool \<Rightarrow> health_result" where
  "Evaluate t_now ss accountLimited =
    (let m = ComputeMetrics ss; fault = health_Classify m accountLimited in
     \<lparr>hr_ModelID = (case ss of [] \<Rightarrow> [] | s # _ \<Rightarrow> hs_ModelID s),
      hr_ConnectionID = (case ss of [] \<Rightarrow> [] | s # _ \<Rightarrow> hs_ConnectionID s),
      hr_Status = ToStatus fault, hr_Score = Score m, hr_Confidence = ConfidenceOf (hm_SampleCount m), hr_Fault = fault,
      hr_SampleCount = hm_SampleCount m, hr_Metrics = m, hr_ComputedAt = t_now,
      hr_Stable = (minStableSamples \<le> hm_SampleCount m)\<rparr>)"

section \<open>The engine\<close>

record window_state =
  ws_downgradeCount :: nat
  ws_recoverCount :: nat
  ws_currentStatus :: health_status

record thresholds =
  th_BusyScore :: real
  th_DegradedScore :: real

definition DefaultThresholds :: thresholds where
  "DefaultThresholds = \<lparr>th_BusyScore = 70, th_DegradedScore = 40\<rparr>"

record health_engine =
  he_Thresholds :: thresholds
  he_DowngradeSustained :: nat
  he_RecoverSustained :: nat
  he_MinSamples :: nat
  he_state :: "string \<Rightarrow> window_state option"

definition NewEngine :: health_engine where
  "NewEngine = \<lparr>he_Thresholds = DefaultThresholds, he_DowngradeSustained = 2, he_RecoverSustained = 2,
     he_MinSamples = minStableSamples, he_state = (\<lambda>k. None)\<rparr>"

text \<open>A status without a rank (\<open>unknown\<close>) has the zero value of the map.\<close>

fun statusRank :: "health_status \<Rightarrow> nat" where
  "statusRank StatusHealthy = 0"
| "statusRank StatusBusy = 1"
| "statusRank StatusDegraded = 2"
| "statusRank StatusLimited = 3"
| "statusRank StatusUnknown = 0"

definition worse :: "health_status \<Rightarrow> health_status \<Rightarrow> bool" where
  "worse a b \<longleftrightarrow> statusRank b < statusRank a"

definition errNoSamples :: string where "errNoSamples = ''health: no samples''"

definition fresh_window :: window_state where
  "fresh_window = \<lparr>ws_downgradeCount = 0, ws_recoverCount = 0, ws_currentStatus = StatusHealthy\<rparr>"

definition engine_key :: "health_result \<Rightarrow> string" where
  "engine_key r = (if hr_ConnectionID r = [] then hr_ModelID r else hr_ConnectionID r @ ''|'' @ hr_ModelID r)"

text \<open>The hysteresis: the state of a key, the status wanted, and what is reported.\<close>

definition settle ::
  "nat \<Rightarrow> nat \<Rightarrow> health_result \<Rightarrow> window_state \<Rightarrow> health_result \<times> window_state" where
  "settle dn up r st =
    (let desired = hr_Status r; cur = ws_currentStatus st in
     if desired = cur then (r, st\<lparr>ws_downgradeCount := 0, ws_recoverCount := 0\<rparr>)
     else if worse desired cur then
       (let st1 = st\<lparr>ws_downgradeCount := ws_downgradeCount st + 1, ws_recoverCount := 0\<rparr> in
        if ws_downgradeCount st1 < dn then (r\<lparr>hr_Status := cur, hr_Stable := False\<rparr>, st1)
        else (r\<lparr>hr_Stable := True\<rparr>, st1\<lparr>ws_currentStatus := desired, ws_downgradeCount := 0\<rparr>))
     else
       (let st1 = st\<lparr>ws_recoverCount := ws_recoverCount st + 1, ws_downgradeCount := 0\<rparr> in
        if ws_recoverCount st1 < up then (r\<lparr>hr_Status := cur, hr_Stable := False\<rparr>, st1)
        else (r\<lparr>hr_Stable := True\<rparr>, st1\<lparr>ws_currentStatus := desired, ws_recoverCount := 0\<rparr>)))"

definition Observe ::
  "int \<Rightarrow> health_sample list \<Rightarrow> bool \<Rightarrow> health_engine \<Rightarrow> (string + health_result) \<times> health_engine" where
  "Observe t_now ss accountLimited e =
    (if ss = [] then (Inl errNoSamples, e)
     else (let r = Evaluate t_now ss accountLimited; key = engine_key r;
               st = (case he_state e key of None \<Rightarrow> fresh_window | Some st \<Rightarrow> st);
               e1 = e\<lparr>he_state := (he_state e)(key \<mapsto> st)\<rparr>
           in if hr_SampleCount r < he_MinSamples e
              then (Inr (r\<lparr>hr_Stable := False, hr_Status := StatusUnknown, hr_ComputedAt := t_now\<rparr>), e1)
              else (let (r', st') = settle (he_DowngradeSustained e) (he_RecoverSustained e) r st
                    in (Inr (r'\<lparr>hr_ComputedAt := t_now\<rparr>), e1\<lparr>he_state := (he_state e)(key \<mapsto> st')\<rparr>))))"

section \<open>Bounds\<close>

lemma rates_sum: "(\<Sum>c \<leftarrow> [Is429, Is5xx, IsTimeout, IsNetwork]. real (length (filter (\<lambda>s. class_of s = c) ss))) \<le> real (length ss)"
proof (induction ss)
  case (Cons s ss)
  then show ?case by (cases "class_of s") auto
qed simp

lemma rates_bounded:
  assumes "ss \<noteq> []"
  shows "0 \<le> rate_of c ss" and "rate_of Is429 ss + rate_of Is5xx ss + rate_of IsTimeout ss + rate_of IsNetwork ss \<le> 1"
proof -
  show "0 \<le> rate_of c ss" by (simp add: rate_of_def)
  have "real (length ss) > 0" using assms by simp
  then show "rate_of Is429 ss + rate_of Is5xx ss + rate_of IsTimeout ss + rate_of IsNetwork ss \<le> 1"
    using rates_sum [of ss] by (simp add: rate_of_def field_simps)
qed

lemma Percentile_between:
  assumes "sorted xs" and "xs \<noteq> []" and "0 \<le> p" and "p \<le> 100"
  shows "xs ! 0 \<le> Percentile xs p \<and> Percentile xs p \<le> xs ! (length xs - 1)"
proof (cases "length xs = 1")
  case True
  then show ?thesis by (simp add: Percentile_def)
next
  case False
  with assms(2) have n: "1 < length xs" by (cases xs) auto
  define idx where "idx = p / 100 * real (length xs - 1)"
  define lo where "lo = nat \<lfloor>idx\<rfloor>"
  define hi where "hi = (if length xs \<le> lo + 1 then length xs - 1 else lo + 1)"
  have i0: "0 \<le> idx" using assms(3) by (simp add: idx_def)
  have "p / 100 * real (length xs - 1) \<le> 1 * real (length xs - 1)"
    using assms(4) by (intro mult_right_mono) auto
  then have i1: "idx \<le> real (length xs - 1)" by (simp add: idx_def)
  have lo: "real lo \<le> idx" "idx < real lo + 1" using i0 by (auto simp: lo_def)
  with i1 have lol: "lo \<le> length xs - 1" by linarith
  have hi_bounds: "lo \<le> hi" "hi < length xs" using lol n by (auto simp: hi_def)
  have le: "xs ! lo \<le> xs ! hi" using assms(1) hi_bounds by (simp add: sorted_nth_mono)
  have f: "0 \<le> idx - real lo" "idx - real lo \<le> 1" using lo by linarith+
  have P: "Percentile xs p = xs ! lo + (xs ! hi - xs ! lo) * (idx - real lo)"
  proof -
    have "length xs \<noteq> 0" "length xs \<noteq> 1" using n by auto
    then show ?thesis unfolding Percentile_def Let_def hi_def lo_def idx_def by (simp only: if_False)
  qed
  have "0 \<le> (xs ! hi - xs ! lo) * (idx - real lo)" using le f by simp
  moreover have "(xs ! hi - xs ! lo) * (idx - real lo) \<le> xs ! hi - xs ! lo"
    using le f by (simp add: mult_left_le)
  moreover have "xs ! 0 \<le> xs ! lo" "xs ! hi \<le> xs ! (length xs - 1)"
    using assms(1) hi_bounds n by (auto intro: sorted_nth_mono)
  ultimately show ?thesis using P by linarith
qed

lemma Score_bounds:
  assumes "hm_SampleCount m \<noteq> 0"
    and "55 \<le> 100 - hm_Rate429 m * 30 - hm_Rate5xx m * 45 - hm_RateTimeout m * 40 - hm_RateNetwork m * 35" (is "55 \<le> ?s")
    and "100 - hm_Rate429 m * 30 - hm_Rate5xx m * 45 - hm_RateTimeout m * 40 - hm_RateNetwork m * 35 \<le> 100"
  shows "25 \<le> Score m \<and> Score m \<le> 100"
proof -
  define s1 where "s1 = ?s"
  have s: "55 \<le> s1" "s1 \<le> 100" using assms(2,3) by (simp_all only: s1_def)
  show ?thesis
    unfolding Score_def s1_def [symmetric] using assms(1) s by (simp add: Let_def)
qed


section \<open>Hysteresis\<close>

text \<open>
  The abstract machine of a key: the status, and how long a change has been wanted, counted
  upwards for a worse status and downwards for a better one.
\<close>

type_synonym hysteresis = "health_status \<times> int"

definition hyst_step :: "int \<Rightarrow> int \<Rightarrow> health_status \<Rightarrow> hysteresis \<Rightarrow> hysteresis" where
  "hyst_step dn up d h =
    (if d = fst h then (fst h, 0)
     else if worse d (fst h) then (let n = max (snd h) 0 + 1 in if n < dn then (fst h, n) else (d, 0))
     else (let n = max (- snd h) 0 + 1 in if n < up then (fst h, - n) else (d, 0)))"

definition abs_window :: "window_state \<Rightarrow> hysteresis" where
  "abs_window st = (ws_currentStatus st, int (ws_downgradeCount st) - int (ws_recoverCount st))"

definition engine_view :: "health_engine \<Rightarrow> string \<Rightarrow> hysteresis" where
  "engine_view e k = (case he_state e k of None \<Rightarrow> (StatusHealthy, 0) | Some st \<Rightarrow> abs_window st)"

text \<open>At most one of the two counters runs.\<close>

definition engine_wf :: "health_engine \<Rightarrow> bool" where
  "engine_wf e \<longleftrightarrow> (\<forall>k st. he_state e k = Some st \<longrightarrow> ws_downgradeCount st = 0 \<or> ws_recoverCount st = 0)"

lemma settle_step:
  assumes "ws_downgradeCount st = 0 \<or> ws_recoverCount st = 0" and "settle dn up r st = (r', st')"
  shows "abs_window st' = hyst_step (int dn) (int up) (hr_Status r) (abs_window st) \<and>
    hr_Status r' = ws_currentStatus st' \<and> (ws_downgradeCount st' = 0 \<or> ws_recoverCount st' = 0) \<and>
    (hr_Status r \<noteq> ws_currentStatus st \<longrightarrow> hr_Stable r' = (ws_currentStatus st' \<noteq> ws_currentStatus st))"
  using assms by (auto simp: settle_def hyst_step_def abs_window_def Let_def split: if_splits)

lemma Observe_cases:
  assumes "ss \<noteq> []" and "r0 = Evaluate t_now ss lmt" and "k = engine_key r0"
  obtains (few) r where "length ss < he_MinSamples e" and "Observe t_now ss lmt e =
      (Inr r, e\<lparr>he_state := (he_state e)(k \<mapsto> case he_state e k of None \<Rightarrow> fresh_window | Some st \<Rightarrow> st)\<rparr>)" and "hr_Status r = StatusUnknown"
  | (enough) r st' where "he_MinSamples e \<le> length ss"
    and "settle (he_DowngradeSustained e) (he_RecoverSustained e) r0 (case he_state e k of None \<Rightarrow> fresh_window | Some st \<Rightarrow> st) = (r, st')"
    and "Observe t_now ss lmt e = (Inr (r\<lparr>hr_ComputedAt := t_now\<rparr>), e\<lparr>he_state := (he_state e)(k \<mapsto> st')\<rparr>)"
proof -
  have n: "hr_SampleCount r0 = length ss" using assms(1,2) by (simp add: Evaluate_def ComputeMetrics_def Let_def)
  show thesis
  proof (cases "length ss < he_MinSamples e")
    case True
    with assms n show thesis by (intro few) (auto simp: Observe_def Let_def)
  next
    case False
    obtain r st' where s: "settle (he_DowngradeSustained e) (he_RecoverSustained e) r0
        (case he_state e k of None \<Rightarrow> fresh_window | Some st \<Rightarrow> st) = (r, st')" by fastforce
    with assms n False show thesis by (intro enough [OF _ s]) (auto simp: Observe_def Let_def)
  qed
qed

text \<open>
  C31: the engine refines the abstract hysteresis. Observing a window moves the machine of its
  key by one step for the status the window asks for, leaves every other key alone, keeps at
  most one of the two counters of a key running, and reports the status of the machine; a
  window with too few samples moves nothing and reports \<open>unknown\<close>.
\<close>

theorem Observe_refines_hysteresis:
  assumes "engine_wf e" and "ss \<noteq> []"
  shows "\<exists>r e'. Observe t_now ss lmt e = (Inr r, e') \<and> engine_wf e' \<and>
    (let k = engine_key (Evaluate t_now ss lmt); d = hr_Status (Evaluate t_now ss lmt) in
     (\<forall>k'. engine_view e' k' =
        (if k' = k \<and> he_MinSamples e \<le> length ss
         then hyst_step (int (he_DowngradeSustained e)) (int (he_RecoverSustained e)) d (engine_view e k') else engine_view e k')) \<and>
     hr_Status r = (if he_MinSamples e \<le> length ss then fst (engine_view e' k) else StatusUnknown))"
proof -
  define r0 where "r0 = Evaluate t_now ss lmt"
  define k where "k = engine_key r0"
  let ?st = "case he_state e k of None \<Rightarrow> fresh_window | Some st \<Rightarrow> st"
  have wf: "ws_downgradeCount ?st = 0 \<or> ws_recoverCount ?st = 0"
    using assms(1) by (auto simp: engine_wf_def fresh_window_def split: option.split)
  have v: "abs_window ?st = engine_view e k"
    by (auto simp: engine_view_def abs_window_def fresh_window_def split: option.split)
  show ?thesis
    using assms(2) r0_def k_def
  proof (cases rule: Observe_cases [where e = e])
    case (few r)
    have "engine_view (e\<lparr>he_state := (he_state e)(k \<mapsto> ?st)\<rparr>) k' = engine_view e k'" for k'
      using v by (simp add: engine_view_def)
    moreover have "engine_wf (e\<lparr>he_state := (he_state e)(k \<mapsto> ?st)\<rparr>)"
      using assms(1) wf by (auto simp: engine_wf_def)
    ultimately show ?thesis using few by (auto simp: r0_def [symmetric] k_def [symmetric] Let_def)
  next
    case (enough r st')
    note s = settle_step [OF wf enough(2)]
    have "engine_view (e\<lparr>he_state := (he_state e)(k \<mapsto> st')\<rparr>) k' =
        (if k' = k then hyst_step (int (he_DowngradeSustained e)) (int (he_RecoverSustained e)) (hr_Status r0) (engine_view e k') else engine_view e k')" for k'
      using s v by (simp add: engine_view_def)
    moreover have "engine_wf (e\<lparr>he_state := (he_state e)(k \<mapsto> st')\<rparr>)"
      using assms(1) s by (auto simp: engine_wf_def)
    moreover have "engine_view (e\<lparr>he_state := (he_state e)(k \<mapsto> st')\<rparr>) k = abs_window st'"
      by (simp add: engine_view_def)
    then have "hr_Status r = fst (engine_view (e\<lparr>he_state := (he_state e)(k \<mapsto> st')\<rparr>) k)"
      using conjunct1 [OF conjunct2 [OF s]] by (simp only: abs_window_def fst_conv)
    ultimately show ?thesis using enough(1,3) by (auto simp: r0_def [symmetric] k_def [symmetric] Let_def)
  qed
qed

text \<open>
  With the default settings one window never changes the status of a key at rest, and two
  windows in a row that ask for the same status establish it, whatever was before.
\<close>

lemma hysteresis_two_windows:
  "(if snd h = 0 then fst (hyst_step 2 2 d h) = fst h else True) \<and>
   (if \<bar>snd h\<bar> \<le> 1 then fst (hyst_step 2 2 d (hyst_step 2 2 d h)) = d \<and> \<bar>snd (hyst_step 2 2 d h)\<bar> \<le> 1 else True) \<and>
   he_DowngradeSustained NewEngine = 2 \<and> he_RecoverSustained NewEngine = 2 \<and> engine_wf NewEngine \<and> engine_view NewEngine k = (StatusHealthy, 0)"
  by (auto simp: hyst_step_def Let_def NewEngine_def engine_wf_def engine_view_def)

definition demo_samples :: "health_sample list" where
  "demo_samples = replicate 20 \<lparr>hs_ModelID = ''m'', hs_ConnectionID = [], hs_TTFTMS = 0, hs_LatencyMS = 0, hs_StatusCode = 503,
     hs_ErrorClass = [], hs_SampledAt = 0\<rparr>"

lemma Observe_refines_hysteresis_witness:
  "\<exists>r e'. Observe 0 demo_samples False NewEngine = (Inr r, e') \<and> hr_Status r = StatusHealthy"
proof -
  have n: "demo_samples \<noteq> []" "length demo_samples = 20" by (simp_all add: demo_samples_def)
  have w: "engine_wf NewEngine" "he_MinSamples NewEngine = 20" "he_DowngradeSustained NewEngine = 2"
    "he_RecoverSustained NewEngine = 2" "\<And>k. engine_view NewEngine k = (StatusHealthy, 0)"
    by (simp_all add: NewEngine_def engine_wf_def engine_view_def minStableSamples_def)
  have "fst (hyst_step 2 2 d (StatusHealthy, 0)) = StatusHealthy" for d by (auto simp: hyst_step_def Let_def)
  with Observe_refines_hysteresis [OF w(1) n(1), of 0 False] show ?thesis by (auto simp: w n Let_def)
qed

end
