(* ===== verification/Billing.thy ===== *)
theory Billing
  imports ApiJson Connectors
begin

text \<open>
  Official usage, cost and quota (\<open>internal/usage/billing.go\<close>, \<open>openai.go\<close>, \<open>anthropic.go\<close>,
  \<open>gemini.go\<close>) and their reconciliation with what was observed (\<open>reconcile.go\<close>). The HTTP
  client of an adapter is optional: \<open>NewAdapter\<close> leaves it \<open>nil\<close>, and a request on it panics,
  which is the result \<open>None\<close>. \<open>bad_url\<close> is the verdict of building a request, \<open>fmt_day\<close>
  formats a day; times are in seconds and a \<open>float64\<close> is a real number.
\<close>

section \<open>Data\<close>

datatype bill_provider = ProviderOpenAI | ProviderAnthropic | ProviderGemini | ProviderOther string
datatype bill_capability = CapVerifyCredential | CapFetchUsage | CapFetchCost | CapFetchQuota | CapFetchPlanWindows | CapFetchStatus
datatype bill_source = SourceOfficial | SourceObserved | SourceEstimated | SourceManual
datatype bill_confidence = ConfidenceExact | ConfidenceReported | ConfidenceEstimated | ConfidenceUnavailable

record bill_window =
  bw_Start :: int
  bw_End :: int

record capability_result =
  br_Capability :: bill_capability
  br_Supported :: bool
  br_Reason :: string
  br_TestedAt :: int

record bill_usage =
  bu_Provider :: bill_provider
  bu_WindowStart :: int
  bu_WindowEnd :: int
  bu_InputTokens :: int
  bu_OutputTokens :: int
  bu_CacheTokens :: int
  bu_Requests :: int
  bu_Source :: bill_source
  bu_Confidence :: bill_confidence
  bu_Note :: string
  bu_CollectedAt :: int

record bill_cost =
  bc_Provider :: bill_provider
  bc_Amount :: real
  bc_Currency :: string
  bc_Source :: bill_source
  bc_Confidence :: bill_confidence
  bc_Note :: string
  bc_CollectedAt :: int

record diff_entry =
  de_Metric :: string
  de_Official :: real
  de_Observed :: real
  de_Diff :: real
  de_OfficialConf :: bill_confidence
  de_ObservedConf :: bill_confidence
  de_Interpretation :: string

record reconciliation =
  rn_Provider :: bill_provider
  rn_Window :: bill_window
  rn_Entries :: "diff_entry list"
  rn_Generated :: int

definition bill_ErrUnsupported :: go_error where
  "bill_ErrUnsupported = Sentinel ''billing: capability unsupported''"

text \<open>The OpenAI and Anthropic adapters: base URL and client.\<close>

record http_adapter =
  ad_baseURL :: string
  ad_client :: "transport option"

datatype adapter = OpenAIAdapter http_adapter | AnthropicAdapter http_adapter | GeminiAdapter | UnsupportedAdapter bill_provider

definition NewAdapter :: "bill_provider \<Rightarrow> adapter" where
  "NewAdapter p = (case p of
      ProviderOpenAI \<Rightarrow> OpenAIAdapter \<lparr>ad_baseURL = [], ad_client = None\<rparr>
    | ProviderAnthropic \<Rightarrow> AnthropicAdapter \<lparr>ad_baseURL = [], ad_client = None\<rparr>
    | ProviderGemini \<Rightarrow> GeminiAdapter
    | ProviderOther s \<Rightarrow> UnsupportedAdapter p)"

definition openAIBase :: string where "openAIBase = ''https://api.openai.com/v1''"
definition anthropicBase :: string where "anthropicBase = ''https://api.anthropic.com''"

text \<open>The options of a constructor: a base URL and a client, each optional; \<open>dflt\<close> is \<open>http.DefaultClient\<close>.\<close>

definition new_http_adapter :: "string \<Rightarrow> transport \<Rightarrow> string \<Rightarrow> transport option \<Rightarrow> http_adapter" where
  "new_http_adapter base dflt url client =
     \<lparr>ad_baseURL = (if url = [] then base else trim_right_of (\<lambda>c. c = CHR ''/'') url),
      ad_client = Some (case client of None \<Rightarrow> dflt | Some c \<Rightarrow> c)\<rparr>"

definition NewOpenAIAdapter :: "transport \<Rightarrow> string \<Rightarrow> transport option \<Rightarrow> adapter" where
  "NewOpenAIAdapter dflt url client = OpenAIAdapter (new_http_adapter openAIBase dflt url client)"

definition NewAnthropicAdapter :: "transport \<Rightarrow> string \<Rightarrow> transport option \<Rightarrow> adapter" where
  "NewAnthropicAdapter dflt url client = AnthropicAdapter (new_http_adapter anthropicBase dflt url client)"

fun adapter_Provider :: "adapter \<Rightarrow> bill_provider" where
  "adapter_Provider (OpenAIAdapter a) = ProviderOpenAI"
| "adapter_Provider (AnthropicAdapter a) = ProviderAnthropic"
| "adapter_Provider GeminiAdapter = ProviderGemini"
| "adapter_Provider (UnsupportedAdapter p) = p"

fun adapter_Capabilities :: "adapter \<Rightarrow> bill_capability list" where
  "adapter_Capabilities (OpenAIAdapter a) = [CapVerifyCredential, CapFetchUsage, CapFetchCost]"
| "adapter_Capabilities (AnthropicAdapter a) = [CapVerifyCredential, CapFetchUsage, CapFetchCost]"
| "adapter_Capabilities GeminiAdapter = [CapVerifyCredential, CapFetchUsage, CapFetchQuota]"
| "adapter_Capabilities (UnsupportedAdapter p) = [CapVerifyCredential]"

section \<open>Keys and notes\<close>

definition openai_isAdminKey :: "string \<Rightarrow> bool" where
  "openai_isAdminKey key \<longleftrightarrow> has_prefix key ''sk-admin-'' \<or> has_prefix key ''sk-proj-''"

definition anthropic_isAdminKey :: "string \<Rightarrow> bool" where
  "anthropic_isAdminKey key \<longleftrightarrow> has_prefix key ''sk-ant-admin''"

definition isPlaceholder :: "string \<Rightarrow> bool" where
  "isPlaceholder key \<longleftrightarrow> key = [] \<or> has_prefix key ''sk-placeholder'' \<or> has_prefix key ''dry-run''"

definition truncate_text :: "string \<Rightarrow> nat \<Rightarrow> string" where
  "truncate_text s n = (if length s \<le> n then s else take n s @ ''...'')"

definition orUnsupported :: "bool \<Rightarrow> string \<Rightarrow> string" where
  "orUnsupported b reason = (if b then [] else reason)"

definition blank_usage :: "bill_provider \<Rightarrow> bill_window \<Rightarrow> bill_source \<Rightarrow> bill_confidence \<Rightarrow> string \<Rightarrow> int \<Rightarrow> bill_usage" where
  "blank_usage p w src conf note t = \<lparr>bu_Provider = p, bu_WindowStart = bw_Start w, bu_WindowEnd = bw_End w,
     bu_InputTokens = 0, bu_OutputTokens = 0, bu_CacheTokens = 0, bu_Requests = 0, bu_Source = src,
     bu_Confidence = conf, bu_Note = note, bu_CollectedAt = t\<rparr>"

definition unavailableUsage :: "bill_provider \<Rightarrow> bill_window \<Rightarrow> string \<Rightarrow> int \<Rightarrow> bill_usage" where
  "unavailableUsage p w note t = blank_usage p w SourceOfficial ConfidenceUnavailable note t"

definition estimatedUsage :: "bill_provider \<Rightarrow> bill_window \<Rightarrow> string \<Rightarrow> int \<Rightarrow> bill_usage" where
  "estimatedUsage p w note t = blank_usage p w SourceEstimated ConfidenceEstimated note t"

definition blank_cost :: "bill_provider \<Rightarrow> bill_source \<Rightarrow> bill_confidence \<Rightarrow> string \<Rightarrow> int \<Rightarrow> bill_cost" where
  "blank_cost p src conf note t = \<lparr>bc_Provider = p, bc_Amount = 0, bc_Currency = [], bc_Source = src,
     bc_Confidence = conf, bc_Note = note, bc_CollectedAt = t\<rparr>"

section \<open>Requests\<close>

record bill_env =
  be_BadURL :: "string \<Rightarrow> go_error option"
  be_Day :: "int \<Rightarrow> string"
  be_Unix :: int

text \<open>\<open>client.Do\<close> of a request just built; \<open>None\<close> is the panic on a \<open>nil\<close> client.\<close>

definition bill_call :: "bill_env \<Rightarrow> http_adapter \<Rightarrow> http_out \<Rightarrow> (go_error + upstream_response) option" where
  "bill_call be a out = (case be_BadURL be (ho_URL out) of
      Some e \<Rightarrow> Some (Inl e)
    | None \<Rightarrow> map_option (\<lambda>net. net out) (ad_client a))"

definition openai_get :: "http_adapter \<Rightarrow> string \<Rightarrow> string \<Rightarrow> http_out" where
  "openai_get a key path = \<lparr>ho_Method = ''GET'', ho_URL = ad_baseURL a @ path,
     ho_Headers = [(''Authorization'', ''Bearer '' @ key)], ho_Body = None\<rparr>"

definition anthropic_report :: "http_adapter \<Rightarrow> string \<Rightarrow> string option \<Rightarrow> http_out" where
  "anthropic_report a key body = \<lparr>ho_Method = (if body = None then ''GET'' else ''POST''),
     ho_URL = ad_baseURL a @ ''/v1/organizations/usage_report/messages'',
     ho_Headers = [(''x-api-key'', key), (''anthropic-version'', ''2023-06-01'')]
       @ (if body = None then [] else [(''content-type'', ''application/json'')]), ho_Body = body\<rparr>"

definition http_refusal :: "int \<Rightarrow> string \<Rightarrow> go_error" where
  "http_refusal st note = TextError (''HTTP '' @ itoa st @ note)"

definition openai_probe :: "bill_env \<Rightarrow> http_adapter \<Rightarrow> string \<Rightarrow> go_error option option" where
  "openai_probe be a key =
    map_option (\<lambda>res. case res of
        Inl e \<Rightarrow> Some e
      | Inr resp \<Rightarrow> if us_Status resp = 200 then None
          else if us_Status resp = 401 \<or> us_Status resp = 403 then Some (http_refusal (us_Status resp) '': no organisation usage permission'')
          else Some (http_refusal (us_Status resp) []))
      (bill_call be a (openai_get a key ''/organization/usage/completions?start_time=1&bucket_width=1d''))"

definition anthropic_probe :: "bill_env \<Rightarrow> http_adapter \<Rightarrow> string \<Rightarrow> go_error option option" where
  "anthropic_probe be a key =
    map_option (\<lambda>res. case res of
        Inl e \<Rightarrow> Some e
      | Inr resp \<Rightarrow> if us_Status resp = 200 \<or> us_Status resp = 405 then None
          else if us_Status resp = 401 \<or> us_Status resp = 403 then Some (http_refusal (us_Status resp) '': no admin permission'')
          else Some (http_refusal (us_Status resp) []))
      (bill_call be a (anthropic_report a key None))"

text \<open>A capability matrix before the probe, and what a failed probe makes of it.\<close>

definition bill_matrix :: "int \<Rightarrow> bool \<Rightarrow> (bill_capability \<times> string) list \<Rightarrow> capability_result list" where
  "bill_matrix t admin crs = map (\<lambda>(c, reason). \<lparr>br_Capability = c, br_Supported = admin,
     br_Reason = orUnsupported admin reason, br_TestedAt = t\<rparr>) crs"

definition openai_CapabilityMatrix :: "bill_env \<Rightarrow> http_adapter \<Rightarrow> string \<Rightarrow> capability_result list option" where [simp]:
  "openai_CapabilityMatrix be a key =
    (let rs = bill_matrix (be_Unix be) (openai_isAdminKey key) [(CapVerifyCredential, ''organisation admin credential needed''),
           (CapFetchUsage, ''usage needs organisation permission''), (CapFetchCost, ''cost needs organisation permission'')]
     in if openai_isAdminKey key \<and> \<not> isPlaceholder key
        then map_option (\<lambda>err. case err of
            None \<Rightarrow> rs
          | Some e \<Rightarrow> map (\<lambda>i. (rs ! i)\<lparr>br_Supported := False,
              br_Reason := (if i = 0 then ''verification failed: '' @ error_text e else br_Reason (rs ! i))\<rparr>) [0..<length rs])
          (openai_probe be a key)
        else Some rs)"

definition anthropic_CapabilityMatrix :: "bill_env \<Rightarrow> http_adapter \<Rightarrow> string \<Rightarrow> capability_result list option" where [simp]:
  "anthropic_CapabilityMatrix be a key =
    (let rs = bill_matrix (be_Unix be) (anthropic_isAdminKey key) [(CapVerifyCredential, ''admin key needed''),
           (CapFetchUsage, ''usage needs admin permission''), (CapFetchCost, ''cost needs admin permission'')]
     in if anthropic_isAdminKey key \<and> \<not> isPlaceholder key
        then map_option (\<lambda>err. case err of
            None \<Rightarrow> rs
          | Some e \<Rightarrow> map (\<lambda>r. r\<lparr>br_Supported := False,
              br_Reason := (if br_Reason r = [] then ''verification failed: '' @ error_text e else br_Reason r)\<rparr>) rs)
          (anthropic_probe be a key)
        else Some rs)"

definition gemini_CapabilityMatrix :: "bill_env \<Rightarrow> string \<Rightarrow> capability_result list option" where [simp]:
  "gemini_CapabilityMatrix be key =
    Some (map (\<lambda>c. \<lparr>br_Capability = c, br_Supported = False, br_Reason = ''cloud permissions needed'', br_TestedAt = be_Unix be\<rparr>)
       [CapVerifyCredential, CapFetchUsage, CapFetchQuota])"

definition unsupported_CapabilityMatrix :: "bill_env \<Rightarrow> string \<Rightarrow> capability_result list option" where [simp]:
  "unsupported_CapabilityMatrix be key =
    Some [\<lparr>br_Capability = CapVerifyCredential, br_Supported = False, br_Reason = ''unknown provider'', br_TestedAt = 0\<rparr>]"

fun adapter_CapabilityMatrix :: "bill_env \<Rightarrow> adapter \<Rightarrow> string \<Rightarrow> capability_result list option" where
  "adapter_CapabilityMatrix be (OpenAIAdapter a) key = openai_CapabilityMatrix be a key"
| "adapter_CapabilityMatrix be (AnthropicAdapter a) key = anthropic_CapabilityMatrix be a key"
| "adapter_CapabilityMatrix be GeminiAdapter key = gemini_CapabilityMatrix be key"
| "adapter_CapabilityMatrix be (UnsupportedAdapter p) key = unsupported_CapabilityMatrix be key"

section \<open>Usage\<close>

definition decode_openai_result :: "json \<Rightarrow> (int \<times> int \<times> int \<times> int) option" where
  "decode_openai_result j = do {
     ms \<leftarrow> as_object j; i \<leftarrow> int_field ''input_tokens'' ms; o' \<leftarrow> int_field ''output_tokens'' ms;
     c \<leftarrow> int_field ''input_cached_tokens'' ms; n \<leftarrow> int_field ''num_requests'' ms; Some (i, o', c, n) }"

definition decode_openai_bucket :: "json \<Rightarrow> (int \<times> int \<times> int \<times> int) list option" where
  "decode_openai_bucket j = do {
     ms \<leftarrow> as_object j; t \<leftarrow> int_field ''start_time'' ms; as_list decode_openai_result (member ''results'' ms) }"

definition decode_openai_usage :: "json \<Rightarrow> (int \<times> int \<times> int \<times> int) list option" where
  "decode_openai_usage j = do { ms \<leftarrow> as_object j; bs \<leftarrow> as_list decode_openai_bucket (member ''data'' ms); Some (concat bs) }"

text \<open>Sums are taken in \<open>int64\<close>: they wrap around.\<close>

definition wrap64 :: "int \<Rightarrow> int" where
  "wrap64 x = (x + 2 ^ 63) mod 2 ^ 64 - 2 ^ 63"

definition add_result :: "int \<times> int \<times> int \<times> int \<Rightarrow> bill_usage \<Rightarrow> bill_usage" where
  "add_result r u = (case r of (i, o', c, n) \<Rightarrow> u\<lparr>bu_InputTokens := wrap64 (bu_InputTokens u + i),
     bu_OutputTokens := wrap64 (bu_OutputTokens u + o'), bu_CacheTokens := wrap64 (bu_CacheTokens u + c),
     bu_Requests := wrap64 (bu_Requests u + n)\<rparr>)"

text \<open>What every usage answer goes through: refusal, read error, status, parsing.\<close>

definition usage_answer ::
  "bill_provider \<Rightarrow> bill_env \<Rightarrow> bill_window \<Rightarrow> string \<Rightarrow> string \<Rightarrow> (json \<Rightarrow> 'a option) \<Rightarrow> ('a \<Rightarrow> bill_usage)
     \<Rightarrow> go_error + upstream_response \<Rightarrow> go_error + bill_usage" where
  "usage_answer p be w label refusal decode build res =
    (case res of
       Inl e \<Rightarrow> Inl e
     | Inr resp \<Rightarrow>
         if us_Status resp = 401 \<or> us_Status resp = 403
         then Inr (unavailableUsage p w (''HTTP '' @ itoa (us_Status resp) @ refusal) (be_Unix be))
         else (case us_End resp of
             Some e \<Rightarrow> Inl e
           | None \<Rightarrow>
               if us_Status resp \<noteq> 200
               then Inl (TextError (label @ '': HTTP '' @ itoa (us_Status resp) @ '': '' @ truncate_text (us_Data resp) 300))
               else (case Option.bind (json_parse (us_Data resp)) decode of
                   None \<Rightarrow> Inl (WrapError (label @ '': parse: '') (TextError ''json'') [])
                 | Some x \<Rightarrow> Inr (build x))))"

definition openai_window :: "bill_window \<Rightarrow> string" where
  "openai_window w = (let s = bw_Start w; e = (if bw_End w \<le> s then s + 86400 else bw_End w) in
     ''/organization/usage/completions?start_time='' @ itoa s @ ''&end_time='' @ itoa e @ ''&bucket_width=1d'')"

definition decode_anthropic_total :: "json \<Rightarrow> (int \<times> int \<times> int) option" where
  "decode_anthropic_total j = do {
     ms \<leftarrow> as_object j; ts \<leftarrow> as_object (member ''total'' ms); i \<leftarrow> int_field ''input_tokens'' ts;
     o' \<leftarrow> int_field ''output_tokens'' ts; r \<leftarrow> int_field ''cache_read_tokens'' ts; c \<leftarrow> int_field ''cache_write_tokens'' ts;
     Some (i, o', wrap64 (r + c)) }"

definition anthropic_payload :: "bill_env \<Rightarrow> bill_window \<Rightarrow> string" where
  "anthropic_payload be w = ''{\"type\":\"usage_report\",\"period\":{\"granularity\":\"day\",\"start\":\"'' @ be_Day be (bw_Start w)
     @ ''\",\"end\":\"'' @ be_Day be (bw_End w) @ ''\"}}''"

definition openai_FetchUsage :: "bill_env \<Rightarrow> http_adapter \<Rightarrow> string \<Rightarrow> bill_window \<Rightarrow> (go_error + bill_usage) option" where [simp]:
  "openai_FetchUsage be a key w =
    (if isPlaceholder key then Some (Inr (estimatedUsage ProviderOpenAI w ''dry run'' (be_Unix be)))
     else if \<not> openai_isAdminKey key then Some (Inr (unavailableUsage ProviderOpenAI w ''organisation admin credential needed'' (be_Unix be)))
     else map_option (usage_answer ProviderOpenAI be w ''openai usage'' '': no organisation usage permission'' decode_openai_usage
            (\<lambda>rs. fold add_result rs (blank_usage ProviderOpenAI w SourceOfficial ConfidenceExact [] (be_Unix be))))
          (bill_call be a (openai_get a key (openai_window w))))"

definition anthropic_FetchUsage :: "bill_env \<Rightarrow> http_adapter \<Rightarrow> string \<Rightarrow> bill_window \<Rightarrow> (go_error + bill_usage) option" where [simp]:
  "anthropic_FetchUsage be a key w =
    (if isPlaceholder key then Some (Inr (estimatedUsage ProviderAnthropic w ''dry run'' (be_Unix be)))
     else if \<not> anthropic_isAdminKey key then Some (Inr (unavailableUsage ProviderAnthropic w ''admin key needed'' (be_Unix be)))
     else map_option (usage_answer ProviderAnthropic be w ''anthropic usage'' '': no admin permission'' decode_anthropic_total
            (\<lambda>(i, o', c). (blank_usage ProviderAnthropic w SourceOfficial ConfidenceExact [] (be_Unix be))
                \<lparr>bu_InputTokens := i, bu_OutputTokens := o', bu_CacheTokens := c\<rparr>))
          (bill_call be a (anthropic_report a key (Some (anthropic_payload be w)))))"

definition gemini_FetchUsage :: "bill_env \<Rightarrow> string \<Rightarrow> bill_window \<Rightarrow> (go_error + bill_usage) option" where [simp]:
  "gemini_FetchUsage be key w =
    Some (Inr (unavailableUsage ProviderGemini w ''cloud monitoring permission needed'' (be_Unix be)))"

definition unsupported_FetchUsage :: "bill_env \<Rightarrow> string \<Rightarrow> bill_window \<Rightarrow> (go_error + bill_usage) option" where [simp]:
  "unsupported_FetchUsage be key w =
    Some (Inl bill_ErrUnsupported)"

fun FetchUsage :: "bill_env \<Rightarrow> adapter \<Rightarrow> string \<Rightarrow> bill_window \<Rightarrow> (go_error + bill_usage) option" where
  "FetchUsage be (OpenAIAdapter a) key w = openai_FetchUsage be a key w"
| "FetchUsage be (AnthropicAdapter a) key w = anthropic_FetchUsage be a key w"
| "FetchUsage be GeminiAdapter key w = gemini_FetchUsage be key w"
| "FetchUsage be (UnsupportedAdapter p) key w = unsupported_FetchUsage be key w"

section \<open>Cost and quota\<close>

definition decode_amount :: "json \<Rightarrow> (real \<times> string) option" where
  "decode_amount j = do {
     ms \<leftarrow> as_object j; as \<leftarrow> as_object (member ''amount'' ms); v \<leftarrow> as_real (member ''value'' as);
     c \<leftarrow> str_field ''currency'' as; Some (v, c) }"

definition decode_costs :: "json \<Rightarrow> (real \<times> string) list option" where
  "decode_costs j = do { ms \<leftarrow> as_object j; as_list decode_amount (member ''data'' ms) }"

definition add_amount :: "real \<times> string \<Rightarrow> bill_cost \<Rightarrow> bill_cost" where
  "add_amount d c = c\<lparr>bc_Amount := bc_Amount c + fst d, bc_Currency := (if snd d = [] then bc_Currency c else snd d)\<rparr>"

definition cost_answer :: "bill_env \<Rightarrow> go_error + upstream_response \<Rightarrow> go_error + bill_cost" where
  "cost_answer be res =
    (case res of
       Inl e \<Rightarrow> Inl e
     | Inr resp \<Rightarrow>
         (case us_End resp of
            Some e \<Rightarrow> Inl e
          | None \<Rightarrow>
              if us_Status resp \<noteq> 200
              then Inl (TextError (''openai cost: HTTP '' @ itoa (us_Status resp) @ '': '' @ truncate_text (us_Data resp) 300))
              else (case Option.bind (json_parse (us_Data resp)) decode_costs of
                  None \<Rightarrow> Inl (WrapError ''openai cost: parse: '' (TextError ''json'') [])
                | Some ds \<Rightarrow> Inr (fold add_amount ds
                    ((blank_cost ProviderOpenAI SourceOfficial ConfidenceExact [] (be_Unix be))\<lparr>bc_Currency := ''usd''\<rparr>)))))"

definition openai_FetchCost :: "bill_env \<Rightarrow> http_adapter \<Rightarrow> string \<Rightarrow> bill_window \<Rightarrow> (go_error + bill_cost) option" where [simp]:
  "openai_FetchCost be a key w =
    (if isPlaceholder key then Some (Inr (blank_cost ProviderOpenAI SourceEstimated ConfidenceEstimated ''dry run'' (be_Unix be)))
     else if \<not> openai_isAdminKey key
       then Some (Inr (blank_cost ProviderOpenAI SourceOfficial ConfidenceUnavailable ''organisation admin credential needed'' (be_Unix be)))
     else map_option (cost_answer be)
       (bill_call be a (openai_get a key (''/organization/costs?start_time='' @ itoa (bw_Start w) @ ''&bucket_width=1d''))))"

definition anthropic_FetchCost :: "bill_env \<Rightarrow> http_adapter \<Rightarrow> string \<Rightarrow> bill_window \<Rightarrow> (go_error + bill_cost) option" where [simp]:
  "anthropic_FetchCost be a key w =
    Some (Inr (blank_cost ProviderAnthropic SourceOfficial ConfidenceEstimated ''to be estimated from prices'' (be_Unix be)))"

definition gemini_FetchCost :: "bill_env \<Rightarrow> string \<Rightarrow> bill_window \<Rightarrow> (go_error + bill_cost) option" where [simp]:
  "gemini_FetchCost be key w =
    Some (Inr (blank_cost ProviderGemini SourceOfficial ConfidenceUnavailable ''cloud billing permission needed'' (be_Unix be)))"

definition unsupported_FetchCost :: "bill_env \<Rightarrow> string \<Rightarrow> bill_window \<Rightarrow> (go_error + bill_cost) option" where [simp]:
  "unsupported_FetchCost be key w =
    Some (Inl bill_ErrUnsupported)"

fun FetchCost :: "bill_env \<Rightarrow> adapter \<Rightarrow> string \<Rightarrow> bill_window \<Rightarrow> (go_error + bill_cost) option" where
  "FetchCost be (OpenAIAdapter a) key w = openai_FetchCost be a key w"
| "FetchCost be (AnthropicAdapter a) key w = anthropic_FetchCost be a key w"
| "FetchCost be GeminiAdapter key w = gemini_FetchCost be key w"
| "FetchCost be (UnsupportedAdapter p) key w = unsupported_FetchCost be key w"

definition FetchQuota :: "adapter \<Rightarrow> string \<Rightarrow> go_error" where
  "FetchQuota a key = bill_ErrUnsupported"

section \<open>Reconciliation\<close>

definition interpret_diff :: "real \<Rightarrow> real \<Rightarrow> bill_confidence \<Rightarrow> string" where
  "interpret_diff off obs offConf =
    (let d = \<bar>off - obs\<bar> in
     if offConf = ConfidenceUnavailable then ''official unavailable, observation counts''
     else if 0 < d \<and> 1 / 10 < d / max off 1 then ''large difference''
     else if 0 < d then ''small difference'' else ''consistent'')"

definition diff_of :: "string \<Rightarrow> (bill_usage \<Rightarrow> int) \<Rightarrow> bill_usage \<Rightarrow> bill_usage option \<Rightarrow> diff_entry" where
  "diff_of metric f off obs =
    (let x = of_int (f off); y = (case obs of None \<Rightarrow> 0 | Some u \<Rightarrow> of_int (f u)) in
     \<lparr>de_Metric = metric, de_Official = x, de_Observed = y, de_Diff = x - y, de_OfficialConf = bu_Confidence off,
      de_ObservedConf = (case obs of None \<Rightarrow> ConfidenceUnavailable | Some u \<Rightarrow> bu_Confidence u),
      de_Interpretation = interpret_diff x y (bu_Confidence off)\<rparr>)"

definition Reconcile :: "int \<Rightarrow> bill_provider \<Rightarrow> bill_window \<Rightarrow> bill_usage option \<Rightarrow> bill_usage option \<Rightarrow> reconciliation" where
  "Reconcile t p w official observed = \<lparr>rn_Provider = p, rn_Window = w,
     rn_Entries = (case official of None \<Rightarrow> []
       | Some off \<Rightarrow> [diff_of ''input_tokens'' bu_InputTokens off observed, diff_of ''output_tokens'' bu_OutputTokens off observed,
           diff_of ''cache_tokens'' bu_CacheTokens off observed, diff_of ''requests'' bu_Requests off observed]),
     rn_Generated = t\<rparr>"

section \<open>What a number means\<close>

lemma wrap64_add: "wrap64 (wrap64 x + y) = wrap64 (x + y)"
proof -
  have "wrap64 (wrap64 x + y) = ((x + 2 ^ 63) mod 2 ^ 64 + y) mod 2 ^ 64 - 2 ^ 63"
    unfolding wrap64_def by (rule arg_cong [where f = "\<lambda>z. z mod 2 ^ 64 - 2 ^ 63"]) linarith
  also have "\<dots> = (x + 2 ^ 63 + y) mod 2 ^ 64 - 2 ^ 63" by (simp only: mod_add_left_eq)
  finally show ?thesis by (simp only: wrap64_def ac_simps)
qed

lemma wrap64_idem: "wrap64 (wrap64 x) = wrap64 x" and wrap64_0: "wrap64 0 = 0"
  using wrap64_add [of x 0] by (simp_all add: wrap64_def)

lemma add_result_fields:
  "add_result r u = u\<lparr>bu_InputTokens := wrap64 (bu_InputTokens u + fst r), bu_OutputTokens := wrap64 (bu_OutputTokens u + fst (snd r)),
     bu_CacheTokens := wrap64 (bu_CacheTokens u + fst (snd (snd r))), bu_Requests := wrap64 (bu_Requests u + snd (snd (snd r)))\<rparr>"
  by (cases r) (simp add: add_result_def)

lemma fold_add_result:
  assumes "wrap64 (bu_InputTokens u) = bu_InputTokens u" "wrap64 (bu_OutputTokens u) = bu_OutputTokens u"
    "wrap64 (bu_CacheTokens u) = bu_CacheTokens u" "wrap64 (bu_Requests u) = bu_Requests u"
  shows "fold add_result rs u = u\<lparr>bu_InputTokens := wrap64 (bu_InputTokens u + sum_list (map fst rs)),
     bu_OutputTokens := wrap64 (bu_OutputTokens u + sum_list (map (fst \<circ> snd) rs)),
     bu_CacheTokens := wrap64 (bu_CacheTokens u + sum_list (map (fst \<circ> snd \<circ> snd) rs)),
     bu_Requests := wrap64 (bu_Requests u + sum_list (map (snd \<circ> snd \<circ> snd) rs))\<rparr>"
  using assms
proof (induction rs arbitrary: u)
  case (Cons r rs)
  note step = add_result_fields [of r u]
  have "fold add_result rs (add_result r u) = (add_result r u)\<lparr>bu_InputTokens := wrap64 (bu_InputTokens (add_result r u) + sum_list (map fst rs)),
     bu_OutputTokens := wrap64 (bu_OutputTokens (add_result r u) + sum_list (map (fst \<circ> snd) rs)),
     bu_CacheTokens := wrap64 (bu_CacheTokens (add_result r u) + sum_list (map (fst \<circ> snd \<circ> snd) rs)),
     bu_Requests := wrap64 (bu_Requests (add_result r u) + sum_list (map (snd \<circ> snd \<circ> snd) rs))\<rparr>"
    by (rule Cons.IH) (simp_all add: step wrap64_idem)
  then show ?case by (simp add: step wrap64_add add.assoc comp_def)
qed simp


text \<open>
  An adapter made by \<open>NewAdapter\<close> has no client: with an admin key whose URL can be built,
  reading usage or probing a credential panics.
\<close>

theorem NewAdapter_panics:
  assumes "openai_isAdminKey key" and "\<not> isPlaceholder key" and "\<And>u. be_BadURL be u = None"
  shows "FetchUsage be (NewAdapter ProviderOpenAI) key w = None \<and> FetchCost be (NewAdapter ProviderOpenAI) key w = None \<and>
    adapter_CapabilityMatrix be (NewAdapter ProviderOpenAI) key = None"
  using assms by (simp add: NewAdapter_def bill_call_def openai_probe_def Let_def)

lemma NewAdapter_panics_witness:
  "FetchUsage \<lparr>be_BadURL = (\<lambda>u. None), be_Day = (\<lambda>t. []), be_Unix = 0\<rparr> (NewAdapter ProviderOpenAI) ''sk-admin-1'' \<lparr>bw_Start = 0, bw_End = 1\<rparr> = None"
proof -
  have k: "openai_isAdminKey ''sk-admin-1''" "\<not> isPlaceholder ''sk-admin-1''" by code_simp+
  show ?thesis using NewAdapter_panics [OF k, of "\<lparr>be_BadURL = (\<lambda>u. None), be_Day = (\<lambda>t. []), be_Unix = 0\<rparr>"] by simp
qed

text \<open>
  The report lists the four metrics side by side and sums nothing: each difference is official
  minus observed, and it is called consistent exactly when the two agree, unless the official
  number is unavailable.
\<close>

lemma interpret_diff_consistent: "interpret_diff x y ConfidenceUnavailable \<noteq> ''consistent''"
  "conf \<noteq> ConfidenceUnavailable \<Longrightarrow> (interpret_diff x y conf = ''consistent'') = (x = y)"
  by (simp_all add: interpret_diff_def Let_def)

lemma diff_of_fields:
  "de_OfficialConf (diff_of m f off obs) = bu_Confidence off"
  "de_Diff (diff_of m f off obs) = de_Official (diff_of m f off obs) - de_Observed (diff_of m f off obs)"
  "de_Interpretation (diff_of m f off obs) = interpret_diff (de_Official (diff_of m f off obs)) (de_Observed (diff_of m f off obs)) (bu_Confidence off)"
  by (simp_all add: diff_of_def Let_def)

lemma Reconcile_entries:
  assumes "e \<in> set (rn_Entries (Reconcile t p w official observed))"
  shows "\<exists>off. official = Some off \<and> de_OfficialConf e = bu_Confidence off \<and>
     de_Diff e = de_Official e - de_Observed e \<and>
     (de_Interpretation e = ''consistent'') = (de_Official e = de_Observed e \<and> bu_Confidence off \<noteq> ConfidenceUnavailable)"
proof -
  obtain off m f where "official = Some off" "e = diff_of m f off observed"
    using assms by (cases official) (auto simp: Reconcile_def)
  then show ?thesis
    by (cases "bu_Confidence off = ConfidenceUnavailable") (simp_all add: diff_of_fields interpret_diff_consistent)
qed

end
