(* ===== verification/Trail.thy ===== *)
theory Trail
  imports Router "HOL-Library.Sublist"
begin

text \<open>
  What a decision says of its run: the router's record of the candidates it contacted, in
  order, and of how each attempt ended. It bounds the failover loop: no candidate is contacted
  twice.
\<close>

definition label :: "candidate \<Rightarrow> string" where
  "label c = cd_AccountID c @ ''@'' @ cd_ModelID c"

text \<open>The reasons a run records when it contacted \<open>n\<close> candidates.\<close>

definition reasons_of :: "bool \<Rightarrow> nat \<Rightarrow> string list" where
  "reasons_of served n = (if served then replicate (n - 1) ''failover'' @ [''ok''] else replicate n ''failover'')"

definition trail :: "decision \<Rightarrow> bool \<Rightarrow> string list \<Rightarrow> decision \<Rightarrow> bool" where
  "trail d served tried d' \<longleftrightarrow> d_Candidates d' = d_Candidates d @ tried \<and> (served \<longrightarrow> tried \<noteq> []) \<and>
     d_ReasonCodes d' = d_ReasonCodes d @ reasons_of served (length tried) \<and>
     d_Selected d' = (if tried = [] then d_Selected d else last tried) \<and>
     d_RequestID d' = d_RequestID d \<and> d_Alias d' = d_Alias d \<and> d_PolicyID d' = d_PolicyID d"

lemma trail_simps:
  "trail d False [] d"
  "trail d True [label c] (add_reason ''ok'' (select c d))"
  "trail d False [label c] (add_reason ''failover'' (select c d))"
  by (simp_all add: trail_def reasons_of_def add_reason_def select_def label_def Let_def)

lemma trail_step:
  assumes "trail (add_reason ''failover'' (select c d)) b tried d'"
  shows "trail d b (label c # tried) d'"
  using assms by (cases tried) (auto simp: trail_def reasons_of_def add_reason_def select_def label_def Let_def)

lemma forward_loop_trail:
  assumes "forward_loop hook resolve fwd lat al req rid i cs d le s = ((r, d'), s')"
  shows "\<exists>tried. subseq tried (map label cs) \<and> trail d (is_ok r) tried d'"
  using assms
proof (induction cs arbitrary: i d le s)
  case Nil
  then show ?case using trail_simps(1) by auto
next
  case (Cons c cs)
  obtain res s0 where res: "resolve i (cd_AccountID c) s = (res, s0)" by (metis surj_pair)
  show ?case
  proof (cases res)
    case (Inl e)
    with Cons.prems res have "forward_loop hook resolve fwd lat al req rid (Suc i) cs d e s0 = ((r, d'), s')" by simp
    from Cons.IH [OF this] show ?thesis by auto
  next
    case (Inr tgt)
    obtain att s1 where st: "startAttempt hook rid c al i s0 = (att, s1)" by fastforce
    show ?thesis
    proof (cases "fwd i (NewConnector (t_ProviderKind (rt_Target tgt))) (rt_Target tgt) (req\<lparr>cr_Model := cd_ModelID c\<rparr>)")
      case (Inr resp)
      with \<open>res = Inr tgt\<close> res Cons.prems st have "r = Inr resp" "d' = add_reason ''ok'' (select c d)" by auto
      then have "trail d (is_ok r) [label c] d'" using trail_simps(2) by simp
      moreover have "subseq [label c] (map label (c # cs))" by simp
      ultimately show ?thesis by blast
    next
      case (Inl e)
      show ?thesis
      proof (cases "safeToRetry (Some e)")
        case True
        with Inl \<open>res = Inr tgt\<close> res Cons.prems st obtain s2 where
          "forward_loop hook resolve fwd lat al req rid (Suc i) cs (add_reason ''failover'' (select c d)) e s2 = ((r, d'), s')"
          by auto
        from Cons.IH [OF this] obtain tried where
          "subseq tried (map label cs)" "trail (add_reason ''failover'' (select c d)) (is_ok r) tried d'" by blast
        then have "subseq (label c # tried) (map label (c # cs))" "trail d (is_ok r) (label c # tried) d'"
          using trail_step by auto
        then show ?thesis by blast
      next
        case False
        with Inl \<open>res = Inr tgt\<close> res Cons.prems st have "r = Inl e" "d' = add_reason ''failover'' (select c d)" by auto
        then have "trail d (is_ok r) [label c] d'" using trail_simps(3) by simp
        moreover have "subseq [label c] (map label (c # cs))" by simp
        ultimately show ?thesis by blast
      qed
    qed
  qed
qed


end
