(* ===== verification/Schema.thy ===== *)
theory Schema
  imports Errs Complex_Main
begin

text \<open>
  The schema and its migrations (\<open>internal/db/db.go\<close>). A migration is SQL text; here it is
  the list of its statements, in a small language of the ones the text uses, with an
  interpreter over a catalog of tables (columns, keys, rows) and indexes. The interpreter has
  the checks of SQLite the statements can fail on: an object that exists or does not,
  \<open>NOT NULL\<close>, \<open>PRIMARY KEY\<close>, \<open>UNIQUE\<close>, \<open>CHECK\<close> and, with \<open>foreign_keys(ON)\<close>, \<open>REFERENCES\<close>.
  \<open>Migrate\<close> runs the statements of a migration in one transaction. What the driver can refuse
  (an I/O error of a statement, of BEGIN or of COMMIT) is an argument.
\<close>

section \<open>Tables\<close>

datatype sql_value = SqlNull | SqlText string | SqlInt int | SqlReal real

record sql_column =
  col_Name :: string
  col_NotNull :: bool
  col_Default :: sql_value
  col_Ref :: "string option"

type_synonym sql_row = "(string \<times> sql_value) list"

text \<open>\<open>tb_NonEmpty\<close> is the CHECK that one of some columns is not the empty string.\<close>

record sql_table =
  tb_Columns :: "sql_column list"
  tb_Keys :: "string list list"
  tb_NonEmpty :: "string list"
  tb_Rows :: "sql_row list"

record sql_index =
  ix_Table :: string
  ix_Columns :: "string list"
  ix_Unique :: bool

record catalog =
  ct_Tables :: "(string \<times> sql_table) list"
  ct_Indexes :: "(string \<times> sql_index) list"

definition field :: "sql_row \<Rightarrow> string \<Rightarrow> sql_value" where
  "field r c = (case map_of r c of None \<Rightarrow> SqlNull | Some v \<Rightarrow> v)"

text \<open>Two rows collide on a key when all its columns are equal and none is NULL.\<close>

fun keys_distinct :: "string list \<Rightarrow> sql_row list \<Rightarrow> bool" where
  "keys_distinct ks [] = True"
| "keys_distinct ks (r # rs) \<longleftrightarrow>
    (let v = map (field r) ks in SqlNull \<in> set v \<or> v \<notin> set (map (\<lambda>r'. map (field r') ks) rs)) \<and> keys_distinct ks rs"

definition row_error :: "catalog \<Rightarrow> sql_table \<Rightarrow> sql_row \<Rightarrow> string option" where
  "row_error ct tb r =
    (if \<exists>c \<in> set (tb_Columns tb). col_NotNull c \<and> field r (col_Name c) = SqlNull then Some ''NOT NULL constraint failed''
     else if tb_NonEmpty tb \<noteq> [] \<and> (\<forall>c \<in> set (tb_NonEmpty tb). field r c = SqlText []) then Some ''CHECK constraint failed''
     else if \<exists>c \<in> set (tb_Columns tb). field r (col_Name c) \<noteq> SqlNull \<and>
         (case col_Ref c of None \<Rightarrow> False
          | Some p \<Rightarrow> (case map_of (ct_Tables ct) p of None \<Rightarrow> True
              | Some ptb \<Rightarrow> field r (col_Name c) \<notin> set (map (\<lambda>r'. field r' ''id'') (tb_Rows ptb))))
       then Some ''FOREIGN KEY constraint failed'' else None)"

section \<open>Statements\<close>

datatype sql_expr = Col string | NullIfEmpty string

datatype sql_stmt =
    CreateTable string "sql_column list" "string list list" "string list"
  | AddColumn string sql_column
  | CreateIndex bool string string "string list"
  | InsertSelect string "(string \<times> sql_expr) list" string
  | DropTable string
  | RenameTable string string

definition expr_value :: "sql_row \<Rightarrow> sql_expr \<Rightarrow> sql_value" where
  "expr_value r x = (case x of Col c \<Rightarrow> field r c
     | NullIfEmpty c \<Rightarrow> (if field r c = SqlText [] then SqlNull else field r c))"

definition column_names :: "sql_table \<Rightarrow> string list" where
  "column_names tb = map col_Name (tb_Columns tb)"

definition built_row :: "sql_table \<Rightarrow> (string \<times> sql_expr) list \<Rightarrow> sql_row \<Rightarrow> sql_row" where
  "built_row tb xs r = map (\<lambda>c. (col_Name c,
     case map_of xs (col_Name c) of None \<Rightarrow> col_Default c | Some x \<Rightarrow> expr_value r x)) (tb_Columns tb)"

text \<open>The keys of a table and of the unique indexes on it.\<close>

definition table_keys :: "catalog \<Rightarrow> string \<Rightarrow> sql_table \<Rightarrow> string list list" where
  "table_keys ct n tb = tb_Keys tb @ map (ix_Columns \<circ> snd) (filter (\<lambda>i. ix_Unique (snd i) \<and> ix_Table (snd i) = n) (ct_Indexes ct))"

definition set_table :: "string \<Rightarrow> sql_table \<Rightarrow> catalog \<Rightarrow> catalog" where
  "set_table n tb ct = ct\<lparr>ct_Tables := map (\<lambda>p. if fst p = n then (n, tb) else p) (ct_Tables ct)\<rparr>"

definition name_taken :: "catalog \<Rightarrow> string \<Rightarrow> bool" where
  "name_taken ct n \<longleftrightarrow> n \<in> set (map fst (ct_Tables ct)) \<or> n \<in> set (map fst (ct_Indexes ct))"

definition referenced :: "catalog \<Rightarrow> string \<Rightarrow> bool" where
  "referenced ct n \<longleftrightarrow> (\<exists>p \<in> set (ct_Tables ct). fst p \<noteq> n \<and>
     (\<exists>c \<in> set (tb_Columns (snd p)). col_Ref c = Some n \<and> (\<exists>r \<in> set (tb_Rows (snd p)). field r (col_Name c) \<noteq> SqlNull)))"

definition rename_ref :: "string \<Rightarrow> string \<Rightarrow> sql_table \<Rightarrow> sql_table" where
  "rename_ref a b tb = tb\<lparr>tb_Columns := map (\<lambda>c. if col_Ref c = Some a then c\<lparr>col_Ref := Some b\<rparr> else c) (tb_Columns tb)\<rparr>"

fun exec :: "sql_stmt \<Rightarrow> catalog \<Rightarrow> string + catalog" where
  "exec (CreateTable n cols keys chk) ct =
    (if name_taken ct n then Inl ''object already exists''
     else Inr (ct\<lparr>ct_Tables := ct_Tables ct @ [(n, \<lparr>tb_Columns = cols, tb_Keys = keys, tb_NonEmpty = chk, tb_Rows = []\<rparr>)]\<rparr>))"
| "exec (AddColumn n c) ct =
    (case map_of (ct_Tables ct) n of
       None \<Rightarrow> Inl ''no such table''
     | Some tb \<Rightarrow>
         if col_Name c \<in> set (column_names tb) then Inl ''duplicate column name''
         else if col_NotNull c \<and> col_Default c = SqlNull then Inl ''cannot add a NOT NULL column with default value NULL''
         else Inr (set_table n (tb\<lparr>tb_Columns := tb_Columns tb @ [c],
                tb_Rows := map (\<lambda>r. r @ [(col_Name c, col_Default c)]) (tb_Rows tb)\<rparr>) ct))"
| "exec (CreateIndex u i n cols) ct =
    (if name_taken ct i then Inl ''object already exists''
     else (case map_of (ct_Tables ct) n of
       None \<Rightarrow> Inl ''no such table''
     | Some tb \<Rightarrow>
         if \<not> set cols \<subseteq> set (column_names tb) then Inl ''no such column''
         else if u \<and> \<not> keys_distinct cols (tb_Rows tb) then Inl ''UNIQUE constraint failed''
         else Inr (ct\<lparr>ct_Indexes := ct_Indexes ct @ [(i, \<lparr>ix_Table = n, ix_Columns = cols, ix_Unique = u\<rparr>)]\<rparr>)))"
| "exec (InsertSelect n xs src) ct =
    (case (map_of (ct_Tables ct) n, map_of (ct_Tables ct) src) of
       (Some tb, Some stb) \<Rightarrow>
         (let new = map (built_row tb xs) (tb_Rows stb); rows = tb_Rows tb @ new in
          if \<not> set (map fst xs) \<subseteq> set (column_names tb) then Inl ''no such column''
          else (case List.find (\<lambda>r. row_error ct tb r \<noteq> None) new of
              Some r \<Rightarrow> Inl (case row_error ct tb r of None \<Rightarrow> [] | Some e \<Rightarrow> e)
            | None \<Rightarrow> if \<exists>ks \<in> set (table_keys ct n tb). \<not> keys_distinct ks rows then Inl ''UNIQUE constraint failed''
                else Inr (set_table n (tb\<lparr>tb_Rows := rows\<rparr>) ct)))
     | _ \<Rightarrow> Inl ''no such table'')"
| "exec (DropTable n) ct =
    (if n \<notin> set (map fst (ct_Tables ct)) then Inl ''no such table''
     else if referenced ct n then Inl ''FOREIGN KEY constraint failed''
     else Inr \<lparr>ct_Tables = filter (\<lambda>p. fst p \<noteq> n) (ct_Tables ct), ct_Indexes = filter (\<lambda>i. ix_Table (snd i) \<noteq> n) (ct_Indexes ct)\<rparr>)"
| "exec (RenameTable a b) ct =
    (if a \<notin> set (map fst (ct_Tables ct)) then Inl ''no such table''
     else if name_taken ct b then Inl ''object already exists''
     else Inr \<lparr>ct_Tables = map (\<lambda>p. (if fst p = a then b else fst p, rename_ref a b (snd p))) (ct_Tables ct),
       ct_Indexes = map (\<lambda>i. (fst i, if ix_Table (snd i) = a then (snd i)\<lparr>ix_Table := b\<rparr> else snd i)) (ct_Indexes ct)\<rparr>)"

fun exec_all :: "sql_stmt list \<Rightarrow> catalog \<Rightarrow> string + catalog" where
  "exec_all [] ct = Inr ct"
| "exec_all (st # sts) ct = (case exec st ct of Inl e \<Rightarrow> Inl e | Inr ct' \<Rightarrow> exec_all sts ct')"

section \<open>The migrations\<close>

text \<open>
  The columns of the SQL text: \<open>NOT NULL\<close> without and with a default, a reference to the
  \<open>id\<close> of a table, and a column that may be NULL (as a TEXT primary key may in SQLite).
\<close>

definition must_col :: "string \<Rightarrow> sql_column" where
  "must_col n = \<lparr>col_Name = n, col_NotNull = True, col_Default = SqlNull, col_Ref = None\<rparr>"

definition dflt_col :: "string \<Rightarrow> sql_value \<Rightarrow> sql_column" where
  "dflt_col n v = \<lparr>col_Name = n, col_NotNull = True, col_Default = v, col_Ref = None\<rparr>"

definition ref_col :: "string \<Rightarrow> string \<Rightarrow> sql_column" where
  "ref_col n t = \<lparr>col_Name = n, col_NotNull = True, col_Default = SqlNull, col_Ref = Some t\<rparr>"

definition null_col :: "string \<Rightarrow> sql_column" where
  "null_col n = \<lparr>col_Name = n, col_NotNull = False, col_Default = SqlNull, col_Ref = None\<rparr>"

definition initialSchema :: "sql_stmt list" where
  "initialSchema = [
     CreateTable ''providers''
       [null_col ''id'', must_col ''kind'', must_col ''name'', dflt_col ''base_url'' (SqlText []),
        dflt_col ''capabilities'' (SqlText ''[]''), must_col ''created_at'', must_col ''updated_at'']
       [[''id'']] [],
     CreateTable ''accounts''
       [null_col ''id'', ref_col ''provider_id'' ''providers'', must_col ''name'',
        dflt_col ''status'' (SqlText ''active''), dflt_col ''vault_provider'' (SqlText []),
        dflt_col ''secret_service'' (SqlText []), dflt_col ''secret_account'' (SqlText []),
        dflt_col ''secret_fingerprint'' (SqlText []), dflt_col ''last_verified_at'' (SqlText []),
        must_col ''created_at'', must_col ''updated_at'']
       [[''id'']] [],
     CreateIndex False ''idx_accounts_provider'' ''accounts'' [''provider_id''],
     CreateTable ''models''
       [null_col ''id'', ref_col ''provider_id'' ''providers'', must_col ''upstream_id'',
        dflt_col ''canonical_alias'' (SqlText []), dflt_col ''context_limit'' (SqlInt 0),
        dflt_col ''capabilities'' (SqlText ''[]''), must_col ''created_at'']
       [[''id'']] [],
     CreateIndex False ''idx_models_provider'' ''models'' [''provider_id''],
     CreateTable ''account_models''
       [ref_col ''account_id'' ''accounts'', ref_col ''model_id'' ''models'', dflt_col ''listed'' (SqlInt 0),
        dflt_col ''probed'' (SqlInt 0), dflt_col ''usable'' (SqlInt 0),
        dflt_col ''last_checked_at'' (SqlText [])]
       [[''account_id'', ''model_id'']] [],
     CreateTable ''quota_snapshots''
       [null_col ''id'', ref_col ''account_id'' ''accounts'', must_col ''quota_type'', must_col ''limit_value'',
        must_col ''used'', must_col ''remaining'', dflt_col ''reset_at'' (SqlText []), must_col ''source'',
        must_col ''confidence'', must_col ''taken_at'']
       [[''id'']] [],
     CreateIndex False ''idx_quota_snapshots_account'' ''quota_snapshots'' [''account_id'', ''taken_at''],
     CreateTable ''usage_events''
       [null_col ''id'', must_col ''request_id'', must_col ''account_id'', must_col ''model_id'',
        dflt_col ''input_tokens'' (SqlInt 0), dflt_col ''output_tokens'' (SqlInt 0),
        dflt_col ''cache_tokens'' (SqlInt 0), dflt_col ''reasoning_tokens'' (SqlInt 0),
        dflt_col ''status_code'' (SqlInt 0), dflt_col ''latency_ms'' (SqlInt 0),
        dflt_col ''error_class'' (SqlText []), must_col ''occurred_at'']
       [[''id'']] [],
     CreateIndex False ''idx_usage_events_account'' ''usage_events'' [''account_id'', ''occurred_at''],
     CreateIndex False ''idx_usage_events_model'' ''usage_events'' [''model_id'', ''occurred_at''],
     CreateTable ''health_samples''
       [null_col ''id'', must_col ''account_id'', must_col ''model_id'', dflt_col ''ttft_ms'' (SqlInt 0),
        dflt_col ''latency_ms'' (SqlInt 0), dflt_col ''status_code'' (SqlInt 0),
        dflt_col ''error_class'' (SqlText []), must_col ''sampled_at'']
       [[''id'']] [],
     CreateIndex False ''idx_health_samples_model'' ''health_samples'' [''model_id'', ''sampled_at''],
     CreateTable ''routing_policies''
       [null_col ''id'', must_col ''name'', dflt_col ''alias'' (SqlText []),
        dflt_col ''candidates'' (SqlText ''[]''), dflt_col ''priority'' (SqlInt 0),
        dflt_col ''weight'' (SqlInt 1), dflt_col ''enabled'' (SqlInt 1), must_col ''created_at'']
       [[''id'']] [],
     CreateTable ''price_versions''
       [null_col ''id'', must_col ''provider_id'', must_col ''model_id'', dflt_col ''input_price'' (SqlReal 0),
        dflt_col ''output_price'' (SqlReal 0), dflt_col ''cache_price'' (SqlReal 0),
        dflt_col ''currency'' (SqlText ''usd''), must_col ''effective_at'',
        dflt_col ''source'' (SqlText ''manual'')]
       [[''id'']] [],
     CreateIndex False ''idx_price_versions_model'' ''price_versions'' [''model_id'', ''effective_at''],
     CreateTable ''audit_events''
       [null_col ''id'', dflt_col ''actor'' (SqlText []), must_col ''action'', dflt_col ''target'' (SqlText []),
        dflt_col ''detail'' (SqlText []), must_col ''occurred_at'']
       [[''id'']] [],
     CreateIndex False ''idx_audit_events_at'' ''audit_events'' [''occurred_at'']]"

definition account_mode_migration :: "sql_stmt list" where
  "account_mode_migration = [
     AddColumn ''accounts'' (dflt_col ''mode'' (SqlText ''relay_and_monitor'')),
     AddColumn ''accounts'' (dflt_col ''auth_type'' (SqlText ''api_key'')),
     AddColumn ''accounts'' (dflt_col ''billing_mode'' (SqlText ''unknown'')),
     AddColumn ''accounts'' (dflt_col ''auth_state'' (SqlText ''unknown'')),
     CreateIndex True ''idx_models_provider_upstream'' ''models'' [''provider_id'', ''upstream_id'']]"

definition access_tokens_migration :: "sql_stmt list" where
  "access_tokens_migration = [
     CreateTable ''access_tokens''
       [null_col ''id'', must_col ''name'', must_col ''key_hash'', dflt_col ''key_prefix'' (SqlText []),
        dflt_col ''enabled'' (SqlInt 1), must_col ''created_at'', dflt_col ''last_used_at'' (SqlText [])]
       [[''id''], [''key_hash'']] []]"

definition projects_migration :: "sql_stmt list" where
  "projects_migration = [
     AddColumn ''access_tokens'' (dflt_col ''project_id'' (SqlText [])),
     AddColumn ''access_tokens'' (dflt_col ''model_whitelist'' (SqlText ''[]'')),
     AddColumn ''access_tokens'' (dflt_col ''expires_at'' (SqlText [])),
     AddColumn ''access_tokens'' (dflt_col ''max_concurrency'' (SqlInt 0)),
     CreateTable ''projects''
       [null_col ''id'', must_col ''name'', must_col ''created_at'', must_col ''updated_at'']
       [[''id'']] [],
     CreateTable ''response_bindings''
       [null_col ''response_id'', must_col ''account_id'', dflt_col ''model_id'' (SqlText []),
        must_col ''created_at'', must_col ''expires_at'']
       [[''response_id'']] [],
     CreateIndex False ''idx_response_bindings_account'' ''response_bindings'' [''account_id'', ''created_at'']]"

definition account_capabilities_migration :: "sql_stmt list" where
  "account_capabilities_migration = [
     CreateTable ''account_capabilities''
       [ref_col ''account_id'' ''accounts'', must_col ''capability'', must_col ''status'',
        dflt_col ''reason'' (SqlText []), dflt_col ''connector_version'' (SqlText []), must_col ''checked_at'',
        must_col ''updated_at'']
       [[''account_id'', ''capability'']] []]"

definition quota_pools_migration :: "sql_stmt list" where
  "quota_pools_migration = [
     CreateTable ''quota_pools''
       [null_col ''id'', ref_col ''provider_id'' ''providers'', dflt_col ''external_org'' (SqlText []),
        dflt_col ''scope'' (SqlText ''account''), must_col ''created_at'', must_col ''updated_at'']
       [[''id'']] [],
     CreateTable ''quota_pool_members''
       [ref_col ''pool_id'' ''quota_pools'', ref_col ''account_id'' ''accounts'',
        dflt_col ''model_scope'' (SqlText ''*'')]
       [[''pool_id'', ''account_id'']] [],
     CreateTable ''quota_snapshots_new''
       [null_col ''id'', ref_col ''account_id'' ''accounts'', dflt_col ''pool_id'' (SqlText []),
        must_col ''window_type'', null_col ''limit_value'', null_col ''used'', null_col ''remaining'',
        null_col ''reset_at'', dflt_col ''source'' (SqlText ''observed''), dflt_col ''source_ref'' (SqlText []),
        dflt_col ''confidence'' (SqlText ''reported''), dflt_col ''freshness'' (SqlText ''unknown''),
        dflt_col ''unit'' (SqlText ''percent''), dflt_col ''connector_version'' (SqlText []),
        dflt_col ''operator'' (SqlText []), dflt_col ''manual_expires_at'' (SqlText []), must_col ''taken_at'',
        dflt_col ''last_success_at'' (SqlText [])]
       [[''id'']] [''pool_id'', ''window_type''],
     InsertSelect ''quota_snapshots_new''
       [(''id'', Col ''id''), (''account_id'', Col ''account_id''), (''window_type'', Col ''quota_type''),
        (''limit_value'', Col ''limit_value''), (''used'', Col ''used''), (''remaining'', Col ''remaining''),
        (''reset_at'', NullIfEmpty ''reset_at''), (''source'', Col ''source''),
        (''confidence'', Col ''confidence''), (''taken_at'', Col ''taken_at'')]
       ''quota_snapshots'',
     DropTable ''quota_snapshots'',
     RenameTable ''quota_snapshots_new'' ''quota_snapshots'',
     CreateIndex False ''idx_quota_snapshots_account'' ''quota_snapshots'' [''account_id'', ''taken_at''],
     CreateIndex False ''idx_quota_snapshots_pool'' ''quota_snapshots'' [''pool_id'', ''taken_at'']]"

definition refresh_jobs_migration :: "sql_stmt list" where
  "refresh_jobs_migration = [
     CreateTable ''refresh_jobs''
       [null_col ''id'', must_col ''account_id'', must_col ''capability'',
        dflt_col ''state'' (SqlText ''pending''), dflt_col ''started_at'' (SqlText []),
        dflt_col ''finished_at'' (SqlText []), dflt_col ''next_run_at'' (SqlText []),
        dflt_col ''last_success_at'' (SqlText []), dflt_col ''retry_count'' (SqlInt 0),
        dflt_col ''last_error_code'' (SqlText []), must_col ''created_at'', must_col ''updated_at'']
       [[''id''], [''account_id'', ''capability'']] []]"

definition request_attempts_migration :: "sql_stmt list" where
  "request_attempts_migration = [
     CreateTable ''request_attempts''
       [null_col ''id'', must_col ''request_id'', must_col ''attempt_id'', dflt_col ''account_id'' (SqlText []),
        dflt_col ''provider_id'' (SqlText []), dflt_col ''logical_model'' (SqlText []),
        dflt_col ''actual_model'' (SqlText []), dflt_col ''protocol'' (SqlText ''chat.completions''),
        dflt_col ''access_token_id'' (SqlText []), dflt_col ''project_id'' (SqlText []),
        dflt_col ''status'' (SqlText ''started''), dflt_col ''input_tokens'' (SqlInt 0),
        dflt_col ''output_tokens'' (SqlInt 0), dflt_col ''cache_read_tokens'' (SqlInt 0),
        dflt_col ''cache_write_tokens'' (SqlInt 0), dflt_col ''reasoning_tokens'' (SqlInt 0),
        dflt_col ''metering'' (SqlText ''unknown''), dflt_col ''latency_ms'' (SqlInt 0),
        dflt_col ''status_code'' (SqlInt 0), dflt_col ''error_class'' (SqlText []),
        dflt_col ''reason_code'' (SqlText []), dflt_col ''price_version'' (SqlText []), must_col ''occurred_at'',
        dflt_col ''finished_at'' (SqlText [])]
       [[''id''], [''request_id'', ''attempt_id'']] [],
     CreateIndex False ''idx_request_attempts_request'' ''request_attempts'' [''request_id''],
     CreateIndex False ''idx_request_attempts_account'' ''request_attempts'' [''account_id'', ''occurred_at'']]"

definition price_versions_migration :: "sql_stmt list" where
  "price_versions_migration = [
     AddColumn ''price_versions'' (dflt_col ''input_price_nano'' (SqlInt 0)),
     AddColumn ''price_versions'' (dflt_col ''output_price_nano'' (SqlInt 0)),
     AddColumn ''price_versions'' (dflt_col ''cache_read_price_nano'' (SqlInt 0)),
     AddColumn ''price_versions'' (dflt_col ''cache_write_price_nano'' (SqlInt 0)),
     CreateIndex False ''idx_price_versions_model_time'' ''price_versions'' [''model_id'', ''effective_at'']]"

record migration =
  mg_Version :: int
  mg_Name :: string
  mg_Up :: "sql_stmt list"

definition Migrations :: "migration list" where
  "Migrations = [
     \<lparr>mg_Version = 1, mg_Name = ''initial_schema'', mg_Up = initialSchema\<rparr>,
     \<lparr>mg_Version = 2, mg_Name = ''account_mode_and_model_identity'', mg_Up = account_mode_migration\<rparr>,
     \<lparr>mg_Version = 3, mg_Name = ''access_tokens'', mg_Up = access_tokens_migration\<rparr>,
     \<lparr>mg_Version = 4, mg_Name = ''projects_token_scoping_and_response_bindings'', mg_Up = projects_migration\<rparr>,
     \<lparr>mg_Version = 5, mg_Name = ''account_capabilities'', mg_Up = account_capabilities_migration\<rparr>,
     \<lparr>mg_Version = 6, mg_Name = ''quota_pools_and_snapshot_semantics'', mg_Up = quota_pools_migration\<rparr>,
     \<lparr>mg_Version = 7, mg_Name = ''refresh_jobs'', mg_Up = refresh_jobs_migration\<rparr>,
     \<lparr>mg_Version = 8, mg_Name = ''request_attempts'', mg_Up = request_attempts_migration\<rparr>,
     \<lparr>mg_Version = 9, mg_Name = ''price_versions_fixed_point'', mg_Up = price_versions_migration\<rparr>]"

definition KnownVersion :: int where
  "KnownVersion = mg_Version (last Migrations)"

section \<open>Migrate\<close>

text \<open>
  The database: its catalog, and the rows (version, name, time) of \<open>schema_migrations\<close>, which
  is \<open>None\<close> before the table exists. The environment holds what the driver refuses, for each
  version where the call is made once per migration, and the clock.
\<close>

type_synonym applied_row = "int \<times> string \<times> string"

record schema_db =
  sd_Catalog :: catalog
  sd_Applied :: "applied_row list option"

record mig_env =
  me_Create :: "go_error option"
  me_Version :: "go_error option"
  me_Begin :: "int \<Rightarrow> go_error option"
  me_Exec :: "int \<Rightarrow> go_error option"
  me_Record :: "int \<Rightarrow> go_error option"
  me_Commit :: "int \<Rightarrow> go_error option"
  me_Now :: "int \<Rightarrow> string"

definition applied_rows :: "schema_db \<Rightarrow> applied_row list" where
  "applied_rows db = (case sd_Applied db of None \<Rightarrow> [] | Some rs \<Rightarrow> rs)"

definition currentVersion :: "schema_db \<Rightarrow> int" where
  "currentVersion db = (case map fst (applied_rows db) of [] \<Rightarrow> 0 | v # vs \<Rightarrow> fold max vs v)"

definition migrate_error :: "migration \<Rightarrow> go_error \<Rightarrow> go_error" where
  "migrate_error m e = WrapError (''db: migrate v'' @ itoa (mg_Version m) @ '' '' @ mg_Name m @ '': '') e []"

definition record_error :: "migration \<Rightarrow> go_error \<Rightarrow> go_error" where
  "record_error m e = WrapError (''db: record v'' @ itoa (mg_Version m) @ '': '') e []"

text \<open>One migration: the transaction either commits as a whole or leaves the database as it was.\<close>

definition migrate_one :: "mig_env \<Rightarrow> migration \<Rightarrow> schema_db \<Rightarrow> go_error + schema_db" where
  "migrate_one env m db =
    (case me_Begin env (mg_Version m) of
       Some e \<Rightarrow> Inl e
     | None \<Rightarrow>
    (case me_Exec env (mg_Version m) of
       Some e \<Rightarrow> Inl (migrate_error m e)
     | None \<Rightarrow>
    (case exec_all (mg_Up m) (sd_Catalog db) of
       Inl msg \<Rightarrow> Inl (migrate_error m (TextError msg))
     | Inr ct \<Rightarrow>
    (case me_Record env (mg_Version m) of
       Some e \<Rightarrow> Inl (record_error m e)
     | None \<Rightarrow>
         if mg_Version m \<in> set (map fst (applied_rows db)) then Inl (record_error m (TextError ''UNIQUE constraint failed''))
         else (case me_Commit env (mg_Version m) of
             Some e \<Rightarrow> Inl e
           | None \<Rightarrow> Inr \<lparr>sd_Catalog = ct,
               sd_Applied = Some (applied_rows db @ [(mg_Version m, mg_Name m, me_Now env (mg_Version m))])\<rparr>)))))"

fun run_migrations ::
  "mig_env \<Rightarrow> migration list \<Rightarrow> int \<Rightarrow> schema_db \<Rightarrow> (int \<times> go_error option) \<times> schema_db" where
  "run_migrations env [] applied db = ((applied, None), db)"
| "run_migrations env (m # ms) applied db =
    (if mg_Version m \<le> applied then run_migrations env ms applied db
     else (case migrate_one env m db of
         Inl e \<Rightarrow> ((applied, Some e), db)
       | Inr db' \<Rightarrow> run_migrations env ms (mg_Version m) db'))"

definition newer_error :: "int \<Rightarrow> go_error" where
  "newer_error applied = TextError (''db: schema version '' @ itoa applied @ '' is newer than supported '' @ itoa KnownVersion
     @ ''; upgrade the application before using this database'')"

definition Migrate :: "mig_env \<Rightarrow> schema_db \<Rightarrow> (int \<times> go_error option) \<times> schema_db" where
  "Migrate env db =
    (case me_Create env of
       Some e \<Rightarrow> ((0, Some (WrapError ''db: create schema_migrations: '' e [])), db)
     | None \<Rightarrow>
         (let db1 = db\<lparr>sd_Applied := Some (applied_rows db)\<rparr>; applied = currentVersion db1 in
          case me_Version env of
            Some e \<Rightarrow> ((0, Some e), db1)
          | None \<Rightarrow>
              if KnownVersion < applied then ((applied, Some (newer_error applied)), db1)
              else run_migrations env Migrations applied db1))"

definition empty_schema :: schema_db where
  "empty_schema = \<lparr>sd_Catalog = \<lparr>ct_Tables = [], ct_Indexes = []\<rparr>, sd_Applied = None\<rparr>"

definition no_faults :: mig_env where
  "no_faults = \<lparr>me_Create = None, me_Version = None, me_Begin = (\<lambda>v. None), me_Exec = (\<lambda>v. None),
     me_Record = (\<lambda>v. None), me_Commit = (\<lambda>v. None), me_Now = (\<lambda>v. [])\<rparr>"

section \<open>Versions\<close>

lemma fold_max_ge: "(v :: int) \<le> fold max vs v" and fold_max_in: "fold max vs v \<in> insert v (set vs)"
proof -
  show "v \<le> fold max vs v" by (induction vs arbitrary: v) (auto intro: order_trans [OF max.cobounded2])
  show "fold max vs v \<in> insert v (set vs)"
  proof (induction vs arbitrary: v)
    case (Cons w vs)
    show ?case using Cons [of "max w v"] by (auto simp: max_def split: if_splits)
  qed simp
qed

lemma fold_max_bound: "(\<forall>w \<in> set vs. w \<le> fold max vs v) \<and> (v :: int) \<le> fold max vs v"
proof (induction vs arbitrary: v)
  case (Cons w vs)
  show ?case using Cons [of "max w v"] by auto
qed simp

lemma currentVersion_bound: "x \<in> set (map fst (applied_rows db)) \<Longrightarrow> x \<le> currentVersion db"
  using fold_max_bound by (fastforce simp: currentVersion_def split: list.split)

lemma currentVersion_append:
  assumes "\<And>x. x \<in> set (map fst (applied_rows db)) \<Longrightarrow> x < v" and "0 < v \<or> applied_rows db \<noteq> []"
  shows "currentVersion (db\<lparr>sd_Applied := Some (applied_rows db @ [(v, n, t)])\<rparr>) = v"
proof (cases "map fst (applied_rows db)")
  case Nil
  then show ?thesis by (simp add: currentVersion_def applied_rows_def split: option.splits)
next
  case (Cons w ws)
  have "fold max ws w < v" using assms(1) Cons fold_max_in [of ws w] by (metis list.simps(15))
  then show ?thesis using Cons by (simp add: currentVersion_def applied_rows_def split: option.splits)
qed

text \<open>What a database is, apart from when its migrations ran.\<close>

definition schema_view :: "schema_db \<Rightarrow> catalog \<times> (int \<times> string) list" where
  "schema_view db = (sd_Catalog db, map (\<lambda>(v, n, t). (v, n)) (applied_rows db))"

lemma view_versions: "map fst (applied_rows db) = map fst (snd (schema_view db))"
  by (simp add: schema_view_def comp_def case_prod_unfold)

lemma currentVersion_view: "schema_view db = schema_view db' \<Longrightarrow> currentVersion db = currentVersion db'"
  by (simp add: currentVersion_def view_versions)

lemma migrate_one_Inr:
  assumes "migrate_one env m db = Inr db'"
  shows "exec_all (mg_Up m) (sd_Catalog db) = Inr (sd_Catalog db') \<and>
    schema_view db' = (sd_Catalog db', snd (schema_view db) @ [(mg_Version m, mg_Name m)]) \<and>
    mg_Version m \<notin> set (map fst (applied_rows db))"
  using assms by (auto simp: migrate_one_def schema_view_def applied_rows_def split: option.splits sum.splits if_splits)

text \<open>Without faults a migration depends on the database only through its view.\<close>

definition fault_free :: "mig_env \<Rightarrow> bool" where
  "fault_free env \<longleftrightarrow> me_Create env = None \<and> me_Version env = None \<and>
     (\<forall>v. me_Begin env v = None \<and> me_Exec env v = None \<and> me_Record env v = None \<and> me_Commit env v = None)"

lemma migrate_one_ok:
  assumes "fault_free env"
  shows "migrate_one env m db = (case exec_all (mg_Up m) (sd_Catalog db) of
      Inl msg \<Rightarrow> Inl (migrate_error m (TextError msg))
    | Inr ct \<Rightarrow> if mg_Version m \<in> set (map fst (snd (schema_view db))) then Inl (record_error m (TextError ''UNIQUE constraint failed''))
        else Inr \<lparr>sd_Catalog = ct, sd_Applied = Some (applied_rows db @ [(mg_Version m, mg_Name m, me_Now env (mg_Version m))])\<rparr>)"
  using assms by (auto simp: migrate_one_def fault_free_def view_versions [symmetric] split: sum.split)

definition same_run :: "(int \<times> go_error option) \<times> schema_db \<Rightarrow> (int \<times> go_error option) \<times> schema_db \<Rightarrow> bool" where
  "same_run r r' \<longleftrightarrow> fst r = fst r' \<and> schema_view (snd r) = schema_view (snd r')"

lemma run_view:
  assumes "fault_free ok" and "schema_view db = schema_view db'"
  shows "same_run (run_migrations ok ms a db) (run_migrations ok ms a db')"
  using assms(2)
proof (induction ms arbitrary: a db db')
  case (Cons m ms)
  have c: "sd_Catalog db = sd_Catalog db'" "snd (schema_view db) = snd (schema_view db')" using Cons.prems by (auto simp: schema_view_def)
  have v: "schema_view \<lparr>sd_Catalog = ct, sd_Applied = Some (applied_rows db @ [(v, n, t)])\<rparr> =
      schema_view \<lparr>sd_Catalog = ct, sd_Applied = Some (applied_rows db' @ [(v, n, t)])\<rparr>" for ct v n t
    using Cons.prems by (simp add: schema_view_def applied_rows_def)
  show ?case
    using c Cons.IH [OF v] Cons.IH [OF Cons.prems]
    by (auto simp: migrate_one_ok [OF assms(1)] same_run_def Cons.prems split: sum.split)
qed (simp add: same_run_def)

text \<open>A run that stops can be taken up again where it stopped.\<close>

lemma run_resume:
  assumes "fault_free ok" and "run_migrations env ms a db = ((v, e), db1)"
    and "sorted (map mg_Version ms)"
  shows "a \<le> v \<and> same_run (run_migrations ok ms v db1) (run_migrations ok ms a db)"
  using assms(2,3)
proof (induction ms arbitrary: a db)
  case Nil
  then show ?case by (simp add: same_run_def)
next
  case (Cons m ms)
  have tl: "sorted (map mg_Version ms)" using Cons.prems(2) by simp
  show ?case
  proof (cases "mg_Version m \<le> a")
    case True
    with Cons.prems(1) have "run_migrations env ms a db = ((v, e), db1)" by simp
    from Cons.IH [OF this tl] True show ?thesis by simp
  next
    case False
    show ?thesis
    proof (cases "migrate_one env m db")
      case (Inl x)
      with False Cons.prems(1) show ?thesis by (simp add: same_run_def)
    next
      case (Inr db2)
      with False Cons.prems(1) have r: "run_migrations env ms (mg_Version m) db2 = ((v, e), db1)" by simp
      note ih = Cons.IH [OF r tl]
      let ?t = "\<lparr>sd_Catalog = sd_Catalog db2, sd_Applied = Some (applied_rows db @ [(mg_Version m, mg_Name m, me_Now ok (mg_Version m))])\<rparr>"
      note one = migrate_one_Inr [OF Inr]
      have "mg_Version m \<notin> set (map fst (snd (schema_view db)))" using one by (simp only: view_versions not_False_eq_True)
      then have o: "migrate_one ok m db = Inr ?t" using one by (simp add: migrate_one_ok [OF assms(1)])
      have w: "schema_view db2 = schema_view ?t" using one by (simp add: schema_view_def applied_rows_def)
      have "same_run (run_migrations ok ms (mg_Version m) db2) (run_migrations ok ms (mg_Version m) ?t)"
        by (rule run_view [OF assms(1) w])
      with ih False o show ?thesis by (auto simp: same_run_def)
    qed
  qed
qed

text \<open>What a run leaves: the version it returns is the version the database records.\<close>

lemma exec_all_append: "exec_all (xs @ ys) ct = (case exec_all xs ct of Inl e \<Rightarrow> Inl e | Inr ct' \<Rightarrow> exec_all ys ct')"
  by (induction xs arbitrary: ct) (auto split: sum.split)

lemma migrate_one_version:
  assumes "migrate_one env m db = Inr db'" and "currentVersion db < mg_Version m" and "0 < mg_Version m"
  shows "currentVersion db' = mg_Version m"
proof -
  let ?d = "db\<lparr>sd_Applied := Some (applied_rows db @ [(mg_Version m, mg_Name m, [])])\<rparr>"
  have "map fst (applied_rows db') = map fst (applied_rows db) @ [mg_Version m]"
    using migrate_one_Inr [OF assms(1)] by (simp add: view_versions)
  also have "\<dots> = map fst (applied_rows ?d)" by (simp add: applied_rows_def)
  finally have "map fst (applied_rows db') = map fst (applied_rows ?d)" .
  then have "currentVersion db' = currentVersion ?d" by (simp only: currentVersion_def)
  also have "\<dots> = mg_Version m"
    by (rule currentVersion_append) (use assms(2,3) currentVersion_bound in fastforce)+
  finally show ?thesis .
qed

definition pending :: "int \<Rightarrow> int \<Rightarrow> migration list \<Rightarrow> migration list" where
  "pending a v ms = filter (\<lambda>m. a < mg_Version m \<and> mg_Version m \<le> v) ms"

lemma pending_none: "pending a a ms = []"
  by (auto simp: pending_def filter_empty_conv)

lemma run_version:
  assumes "run_migrations env ms a db = ((v, e), db')" and "currentVersion db = a"
    and "sorted_wrt (<) (map mg_Version ms)" and "\<forall>m \<in> set ms. 0 < mg_Version m"
  shows "currentVersion db' = v \<and> exec_all (concat (map mg_Up (pending a v ms))) (sd_Catalog db) = Inr (sd_Catalog db')
    \<and> (e = None) = (\<forall>m \<in> set ms. mg_Version m \<le> v) \<and> a \<le> v \<and> (v = a \<or> v \<in> mg_Version ` set ms)"
  using assms
proof (induction ms arbitrary: a db)
  case (Cons m ms)
  have tl: "sorted_wrt (<) (map mg_Version ms)" and ge: "\<forall>x \<in> set ms. mg_Version m < mg_Version x" using Cons.prems(3) by auto
  have pos: "\<forall>m \<in> set ms. 0 < mg_Version m" "0 < mg_Version m" using Cons.prems(4) by auto
  show ?case
  proof (cases "mg_Version m \<le> a")
    case True
    with Cons.prems have r: "run_migrations env ms a db = ((v, e), db')" by simp
    show ?thesis using Cons.IH [OF r Cons.prems(2) tl pos(1)] True by (auto simp: pending_def)
  next
    case False
    show ?thesis
    proof (cases "migrate_one env m db")
      case (Inl x)
      with False Cons.prems(1) have "v = a" "db' = db" "e \<noteq> None" by auto
      then show ?thesis using Cons.prems(2) False by (auto simp: pending_none)
    next
      case (Inr db2)
      with False Cons.prems(1) have r: "run_migrations env ms (mg_Version m) db2 = ((v, e), db')" by simp
      have "currentVersion db2 = mg_Version m"
        using migrate_one_version [OF Inr] False Cons.prems(2) pos(2) by simp
      note ih = Cons.IH [OF r this tl pos(1)]
      have "pending a v (m # ms) = m # pending (mg_Version m) v ms"
        using False ge ih by (auto simp: pending_def intro!: filter_cong)
      then show ?thesis using ih False migrate_one_Inr [OF Inr] by (auto simp: exec_all_append)
    qed
  qed
qed (simp add: pending_def)

section \<open>Starting a server\<close>

lemma Migrations_sorted: "sorted_wrt (<) (map mg_Version Migrations)" "\<forall>m \<in> set Migrations. 0 < mg_Version m"
  by (simp_all add: Migrations_def)

lemma known_9: "KnownVersion = 9" and versions_le_9: "(\<forall>m \<in> set Migrations. mg_Version m \<le> v) = (9 \<le> v)"
  "v \<in> mg_Version ` set Migrations \<Longrightarrow> v \<le> 9"
  by (auto simp: KnownVersion_def Migrations_def)

lemma created_view [simp]:
  "schema_view (db\<lparr>sd_Applied := Some (applied_rows db)\<rparr>) = schema_view db"
  "currentVersion (db\<lparr>sd_Applied := Some (applied_rows db)\<rparr>) = currentVersion db"
  "applied_rows (db\<lparr>sd_Applied := Some (applied_rows db)\<rparr>) = applied_rows db"
  by (simp_all add: schema_view_def currentVersion_def applied_rows_def)

lemma Migrate_success:
  assumes "Migrate env db = ((v, None), db')"
  shows "v = KnownVersion \<and> currentVersion db' = KnownVersion"
proof -
  have r: "run_migrations env Migrations (currentVersion db) (db\<lparr>sd_Applied := Some (applied_rows db)\<rparr>) = ((v, None), db')"
    and "\<not> KnownVersion < currentVersion db"
    using assms by (auto simp: Migrate_def Let_def split: option.split_asm if_split_asm)
  then show ?thesis
    using run_version [OF r _ Migrations_sorted] versions_le_9(2) [of v] by (auto simp: known_9 versions_le_9(1))
qed

text \<open>
  C34: a migration runs completely or not at all, whatever fails. When the version cannot be
  read or is newer than the program's, nothing is changed and an error refuses the start.
  Otherwise the version returned is the version the database records, its catalog is the one
  that all migrations up to that version make of the old one, and the run is without error
  exactly when that version is the newest.
\<close>

theorem Migrate_whole_migrations:
  "case Migrate env db of ((v, e), db') \<Rightarrow>
     if me_Create env = None \<and> me_Version env = None \<and> currentVersion db \<le> KnownVersion
     then currentVersion db' = v \<and> currentVersion db \<le> v \<and> (if e = None then v = KnownVersion else v < KnownVersion) \<and>
       exec_all (concat (map mg_Up (pending (currentVersion db) v Migrations))) (sd_Catalog db) = Inr (sd_Catalog db')
     else e \<noteq> None \<and> schema_view db' = schema_view db"
proof -
  let ?db1 = "db\<lparr>sd_Applied := Some (applied_rows db)\<rparr>"
  obtain v e db' where r: "run_migrations env Migrations (currentVersion db) ?db1 = ((v, e), db')" by (metis surj_pair)
  from run_version [OF r _ Migrations_sorted] show ?thesis
    using versions_le_9(2) [of v] by (auto simp: Migrate_def Let_def r known_9 versions_le_9(1) split: option.split)
qed

lemma Migrate_ok:
  assumes "fault_free ok"
  shows "Migrate ok db = (if KnownVersion < currentVersion db
    then ((currentVersion db, Some (newer_error (currentVersion db))), db\<lparr>sd_Applied := Some (applied_rows db)\<rparr>)
    else run_migrations ok Migrations (currentVersion db) (db\<lparr>sd_Applied := Some (applied_rows db)\<rparr>))"
  using assms by (simp add: Migrate_def Let_def fault_free_def)

text \<open>
  C35: a start that fails half way loses nothing. Whatever the driver refused in one start, the
  next start without faults ends where it would have ended without the failed one: the same
  version or error, the same catalog, the same record of migrations. With no fault at all this
  says that starting again changes nothing.
\<close>

theorem Migrate_resumes:
  assumes "fault_free ok"
  shows "same_run (Migrate ok (snd (Migrate env db))) (Migrate ok db)"
proof -
  let ?db1 = "db\<lparr>sd_Applied := Some (applied_rows db)\<rparr>"
  have same: "same_run (Migrate ok d) (Migrate ok d')" if "schema_view d = schema_view d'" for d d'
    using that run_view [OF assms, of "d\<lparr>sd_Applied := Some (applied_rows d)\<rparr>" "d'\<lparr>sd_Applied := Some (applied_rows d')\<rparr>"]
      currentVersion_view [OF that] assms
    by (auto simp: Migrate_ok same_run_def)
  obtain v e db' where r: "run_migrations env Migrations (currentVersion db) ?db1 = ((v, e), db')" by (metis surj_pair)
  have s: "sorted (map mg_Version Migrations)" by (simp add: Migrations_def)
  note rv = run_version [OF r _ Migrations_sorted]
  show ?thesis
  proof (cases "me_Create env = None \<and> me_Version env = None \<and> currentVersion db \<le> KnownVersion")
    case True
    then have m: "snd (Migrate env db) = db'" by (simp add: Migrate_def Let_def r)
    have v: "v \<le> KnownVersion" using rv True versions_le_9(2) [of v] by (auto simp: known_9)
    have "same_run (run_migrations ok Migrations v (db'\<lparr>sd_Applied := Some (applied_rows db')\<rparr>)) (run_migrations ok Migrations v db')"
      by (rule run_view [OF assms]) simp
    moreover have "same_run (run_migrations ok Migrations v db') (run_migrations ok Migrations (currentVersion db) ?db1)"
      using run_resume [OF assms r s] by simp
    ultimately show ?thesis
      using True v rv by (simp add: m Migrate_ok [OF assms] same_run_def)
  next
    case False
    then have "schema_view (snd (Migrate env db)) = schema_view db" by (auto simp: Migrate_def Let_def split: option.split)
    then show ?thesis by (rule same)
  qed
qed

text \<open>A start whose fifth migration cannot be committed, and the next one.\<close>

lemma Migrate_resumes_witness:
  "\<exists>db. snd (fst (Migrate (no_faults\<lparr>me_Commit := (\<lambda>v. if v = 5 then Some io_EOF else None)\<rparr>) empty_schema)) \<noteq> None \<and>
     same_run (Migrate no_faults db) (Migrate no_faults empty_schema)"
proof -
  let ?env = "no_faults\<lparr>me_Commit := (\<lambda>v. if v = 5 then Some io_EOF else None)\<rparr>"
  have "fault_free no_faults" by (simp add: fault_free_def no_faults_def)
  from Migrate_resumes [OF this, of ?env empty_schema]
  have "same_run (Migrate no_faults (snd (Migrate ?env empty_schema))) (Migrate no_faults empty_schema)" .
  moreover have "snd (fst (Migrate ?env empty_schema)) \<noteq> None" by code_simp
  ultimately show ?thesis by blast
qed

text \<open>The constraints of a catalog: the keys of each table and its references.\<close>

definition references :: "sql_table \<Rightarrow> (string \<times> string) list" where
  "references tb = concat (map (\<lambda>c. case col_Ref c of None \<Rightarrow> [] | Some p \<Rightarrow> [(col_Name c, p)]) (tb_Columns tb))"

definition schema_keys :: "catalog \<Rightarrow> (string \<times> string list list) list" where
  "schema_keys ct = map (\<lambda>p. (fst p, table_keys ct (fst p) (snd p))) (ct_Tables ct)"

definition schema_references :: "catalog \<Rightarrow> (string \<times> string \<times> string) list" where
  "schema_references ct = concat (map (\<lambda>p. map (Pair (fst p)) (references (snd p))) (ct_Tables ct))"

text \<open>
  An empty file becomes a database of version 9 without error, whose keys and references
  are the ones the store relies on: these are the constraints the model of the repository
  enforces and its integrity invariant is stated for.
\<close>

theorem fresh_schema_constraints:
  "case Migrate no_faults empty_schema of (r, db) \<Rightarrow> r = (9, None) \<and>
     schema_keys (sd_Catalog db) = [
       (''providers'', [[''id'']]), (''accounts'', [[''id'']]), (''models'', [[''id''], [''provider_id'', ''upstream_id'']]),
       (''account_models'', [[''account_id'', ''model_id'']]), (''usage_events'', [[''id'']]), (''health_samples'', [[''id'']]),
       (''routing_policies'', [[''id'']]), (''price_versions'', [[''id'']]), (''audit_events'', [[''id'']]),
       (''access_tokens'', [[''id''], [''key_hash'']]), (''projects'', [[''id'']]), (''response_bindings'', [[''response_id'']]),
       (''account_capabilities'', [[''account_id'', ''capability'']]), (''quota_pools'', [[''id'']]),
       (''quota_pool_members'', [[''pool_id'', ''account_id'']]), (''quota_snapshots'', [[''id'']]),
       (''refresh_jobs'', [[''id''], [''account_id'', ''capability'']]),
       (''request_attempts'', [[''id''], [''request_id'', ''attempt_id'']])] \<and>
     schema_references (sd_Catalog db) = [
       (''accounts'', ''provider_id'', ''providers''), (''models'', ''provider_id'', ''providers''),
       (''account_models'', ''account_id'', ''accounts''), (''account_models'', ''model_id'', ''models''),
       (''account_capabilities'', ''account_id'', ''accounts''), (''quota_pools'', ''provider_id'', ''providers''),
       (''quota_pool_members'', ''pool_id'', ''quota_pools''), (''quota_pool_members'', ''account_id'', ''accounts''),
       (''quota_snapshots'', ''account_id'', ''accounts'')]"
  by code_simp

lemma set_table_other: "n \<noteq> k \<Longrightarrow> map_of (ct_Tables (set_table n tb ct)) k = map_of (ct_Tables ct) k"
proof -
  have "n \<noteq> k \<Longrightarrow> map_of (map (\<lambda>p. if fst p = n then (n, tb) else p) ps) k = map_of ps k" for ps
    by (induction ps) auto
  then show "n \<noteq> k \<Longrightarrow> map_of (ct_Tables (set_table n tb ct)) k = map_of (ct_Tables ct) k" by (simp add: set_table_def)
qed

lemma AddColumn_other:
  "exec (AddColumn n c) ct = Inr ct' \<Longrightarrow> n \<noteq> k \<Longrightarrow> map_of (ct_Tables ct') k = map_of (ct_Tables ct) k"
  by (auto simp: set_table_other split: option.splits if_splits)

lemma unique_index_fails:
  "map_of (ct_Tables ct) n = Some tb \<Longrightarrow> \<not> keys_distinct cols (tb_Rows tb) \<Longrightarrow> \<exists>e. exec (CreateIndex True i n cols) ct = Inl e"
  by simp

lemma account_mode_blocked:
  assumes "map_of (ct_Tables ct) ''models'' = Some tb" and "\<not> keys_distinct [''provider_id'', ''upstream_id''] (tb_Rows tb)"
  shows "\<exists>e. exec_all account_mode_migration ct = Inl e"
proof -
  have step: "\<exists>e. exec_all (AddColumn ''accounts'' c # sts) ct = Inl e"
    if "\<And>ct. map_of (ct_Tables ct) ''models'' = Some tb \<Longrightarrow> \<exists>e. exec_all sts ct = Inl e" "map_of (ct_Tables ct) ''models'' = Some tb"
    for c sts ct
    using that AddColumn_other [of "''accounts''" c ct _ "''models''"]
    by (cases "exec (AddColumn ''accounts'' c) ct") (auto simp del: exec.simps)
  have "\<exists>e. exec_all [CreateIndex True ''idx_models_provider_upstream'' ''models'' [''provider_id'', ''upstream_id'']] ct = Inl e"
    if "map_of (ct_Tables ct) ''models'' = Some tb" for ct
    using unique_index_fails [OF that assms(2), of "''idx_models_provider_upstream''"] by (auto simp del: exec.simps)
  then show ?thesis
    unfolding account_mode_migration_def by (intro step assms(1)) simp_all
qed

text \<open>
  C36: the upgrade of a database of version 1 that lists one upstream model twice for a provider,
  which its schema allowed, fails on every start, and changes nothing: the unique index of
  version 2 cannot be built, no migration removes the duplicate first, and the server, which
  does not start without it, cannot be used to do so.
\<close>

theorem duplicate_models_block_upgrade:
  assumes "currentVersion db = 1" and "map_of (ct_Tables (sd_Catalog db)) ''models'' = Some tb"
    and "\<not> keys_distinct [''provider_id'', ''upstream_id''] (tb_Rows tb)"
  shows "snd (fst (Migrate env db)) \<noteq> None \<and> schema_view (snd (Migrate env db)) = schema_view db"
proof -
  obtain ms where ms: "Migrations = \<lparr>mg_Version = 1, mg_Name = ''initial_schema'', mg_Up = initialSchema\<rparr> #
      \<lparr>mg_Version = 2, mg_Name = ''account_mode_and_model_identity'', mg_Up = account_mode_migration\<rparr> # ms"
    by (auto simp: Migrations_def)
  have "\<exists>e. migrate_one env \<lparr>mg_Version = 2, mg_Name = n, mg_Up = account_mode_migration\<rparr> (db\<lparr>sd_Applied := s\<rparr>) = Inl e" for n s
    using account_mode_blocked [OF assms(2,3)] by (auto simp: migrate_one_def split: option.split)
  from this [of "''account_mode_and_model_identity''" "Some (applied_rows db)"]
  show ?thesis using assms(1) by (auto simp: Migrate_def Let_def ms known_9 split: option.split)
qed

text \<open>A database of version 1 with one provider and the same model twice.\<close>

definition twice_listed :: sql_table where
  "twice_listed = \<lparr>tb_Columns = [], tb_Keys = [[''id'']], tb_NonEmpty = [],
     tb_Rows = [[(''id'', SqlText ''m1''), (''provider_id'', SqlText ''p''), (''upstream_id'', SqlText ''gpt'')],
       [(''id'', SqlText ''m2''), (''provider_id'', SqlText ''p''), (''upstream_id'', SqlText ''gpt'')]]\<rparr>"

lemma duplicate_models_block_upgrade_witness:
  "snd (fst (Migrate no_faults \<lparr>sd_Catalog = \<lparr>ct_Tables = [(''models'', twice_listed)], ct_Indexes = []\<rparr>,
     sd_Applied = Some [(1, ''initial_schema'', ''t'')]\<rparr>)) \<noteq> None"
  by (rule duplicate_models_block_upgrade [where tb = twice_listed, THEN conjunct1])
    (simp_all add: currentVersion_def applied_rows_def twice_listed_def field_def Let_def)

end
