(* ===== verification/Startup.thy ===== *)
theory Startup
  imports Server Schema Store Vault
begin

text \<open>
  The entry point of the server (\<open>cmd/server/main.go\<close>): the static handler of the panel and
  the start. The lexical functions of \<open>path/filepath\<close> are written out for a separator \<open>/\<close>;
  what \<open>os.Stat\<close> says is an argument, and \<open>http.ServeFile\<close> is the answer that names the file.
\<close>

section \<open>Paths\<close>

abbreviation slash :: char where "slash \<equiv> CHR ''/''"

text \<open>One element of a path, on the stack of the elements before it.\<close>

definition clean_step :: "bool \<Rightarrow> string \<Rightarrow> string list \<Rightarrow> string list" where
  "clean_step rooted seg out =
    (if seg = [] \<or> seg = ''.'' then out
     else if seg = ''..'' then
       (case out of [] \<Rightarrow> if rooted then [] else [''..'']
        | s # rest \<Rightarrow> if s = ''..'' then ''..'' # out else rest)
     else seg # out)"

definition is_rooted :: "string \<Rightarrow> bool" where
  "is_rooted p \<longleftrightarrow> has_prefix p ''/''"

definition clean_segs :: "string \<Rightarrow> string list" where
  "clean_segs p = rev (fold (clean_step (is_rooted p)) (split_on slash p) [])"

definition path_text :: "bool \<Rightarrow> string list \<Rightarrow> string" where
  "path_text rooted ws = (if rooted then slash # join_with ''/'' ws else if ws = [] then ''.'' else join_with ''/'' ws)"

definition filepath_Clean :: "string \<Rightarrow> string" where
  "filepath_Clean p = (if p = [] then ''.'' else path_text (is_rooted p) (clean_segs p))"

definition filepath_Join :: "string \<Rightarrow> string \<Rightarrow> string" where
  "filepath_Join a b =
    (case filter (\<lambda>x. x \<noteq> []) [a, b] of [] \<Rightarrow> [] | xs \<Rightarrow> filepath_Clean (join_with ''/'' xs))"

section \<open>The static handler\<close>

datatype static_answer = StaticJSON404 | StaticNotFound | StaticFile string

text \<open>\<open>stat f\<close> is whether \<open>f\<close> is a directory, \<open>None\<close> when it cannot be read.\<close>

definition staticHandler :: "string \<Rightarrow> (string \<Rightarrow> bool option) \<Rightarrow> string \<Rightarrow> static_answer" where
  "staticHandler dir stat p =
    (if p \<noteq> ''/'' \<and> (has_prefix p ''/api/'' \<or> has_prefix p ''/v1/'') then StaticJSON404
     else (let clean = filepath_Clean (slash # p); full = filepath_Join dir clean in
       if \<not> has_prefix full (filepath_Clean dir @ ''/'') \<and> full \<noteq> filepath_Clean dir then StaticNotFound
       else if stat full = Some False then StaticFile full
       else StaticFile (filepath_Join dir ''index.html'')))"

section \<open>What it can reach\<close>

text \<open>An element that stays below: not empty, no dots, no separator.\<close>

definition plain :: "string \<Rightarrow> bool" where
  "plain s \<longleftrightarrow> s \<noteq> [] \<and> s \<noteq> ''.'' \<and> s \<noteq> ''..'' \<and> slash \<notin> set s"

lemma split_on_piece: "w \<in> set (split_on sep s) \<Longrightarrow> sep \<notin> set w"
  by (induction s arbitrary: w) (auto split: list.splits if_splits)

lemma split_on_append: "split_on sep (a @ sep # b) = split_on sep a @ split_on sep b"
  by (induction a) (auto split: list.splits)

lemma split_on_word: "sep \<notin> set w \<Longrightarrow> split_on sep w = [w]"
  by (induction w) auto

lemma join_Cons: "join_with sep (w # ws) = (if ws = [] then w else w @ sep @ join_with sep ws)"
  by (cases ws) auto

lemma split_join: "ws \<noteq> [] \<Longrightarrow> \<forall>w \<in> set ws. sep \<notin> set w \<Longrightarrow> split_on sep (join_with [sep] ws) = ws"
  by (induction ws) (auto simp: join_Cons split_on_word split_on_append)

lemma join_append: "ws \<noteq> [] \<Longrightarrow> vs \<noteq> [] \<Longrightarrow> join_with sep (ws @ vs) = join_with sep ws @ sep @ join_with sep vs"
  by (induction ws) (auto simp: join_Cons)

text \<open>Cleaning a rooted path leaves plain elements; plain elements are pushed as they are.\<close>

lemma clean_rooted_plain:
  "list_all plain out \<Longrightarrow> \<forall>s \<in> set segs. slash \<notin> set s \<Longrightarrow> list_all plain (fold (clean_step True) segs out)"
proof (induction segs arbitrary: out)
  case (Cons s segs)
  have "list_all plain (clean_step True s out)"
    using Cons.prems by (auto simp: clean_step_def plain_def list_all_iff split: list.split)
  with Cons show ?case by simp
qed simp

lemma clean_plain_push: "list_all plain ws \<Longrightarrow> fold (clean_step b) ws out = rev ws @ out"
  by (induction ws arbitrary: out) (auto simp: clean_step_def plain_def)

lemma clean_url_path:
  obtains ws where "list_all plain ws" and "filepath_Clean (slash # p) = slash # join_with ''/'' ws"
    and "ws = clean_segs (slash # p)"
proof -
  have "list_all plain (clean_segs (slash # p))"
    using clean_rooted_plain [of "[]" "split_on slash (slash # p)"] split_on_piece
    by (auto simp: clean_segs_def is_rooted_def has_prefix_def list_all_iff)
  then show thesis by (rule that) (simp_all add: filepath_Clean_def path_text_def is_rooted_def has_prefix_def)
qed

text \<open>Where elements below the directory are found.\<close>

definition place :: "string \<Rightarrow> string list \<Rightarrow> string" where
  "place dir ws = path_text (is_rooted dir) (clean_segs dir @ ws)"

lemma split_rooted_join: "list_all plain ws \<Longrightarrow> split_on slash (slash # join_with ''/'' ws) = [] # (if ws = [] then [[]] else ws)"
  by (auto simp: split_join plain_def list_all_iff)

lemma clean_below:
  assumes "dir \<noteq> []" and "list_all plain ws" and "split_on slash b = pre @ ws" and "set pre \<subseteq> {[]}"
  shows "filepath_Clean (dir @ slash # b) = place dir ws"
proof -
  have r: "is_rooted (dir @ slash # b) = is_rooted dir"
    using assms(1) by (cases dir) (auto simp: is_rooted_def has_prefix_def)
  have pre: "fold (clean_step c) pre out = out" for c out
    using assms(4) by (induction pre arbitrary: out) (auto simp: clean_step_def)
  have "clean_segs (dir @ slash # b) = clean_segs dir @ ws"
    using assms(2,3) by (simp add: clean_segs_def r split_on_append clean_plain_push pre)
  then show ?thesis using assms(1) r by (simp add: filepath_Clean_def place_def)
qed

lemma join_below:
  assumes "dir \<noteq> []" and "list_all plain ws"
  shows "filepath_Join dir (slash # join_with ''/'' ws) = place dir ws"
proof -
  have "filepath_Clean (dir @ slash # slash # join_with ''/'' ws) = place dir ws"
    by (rule clean_below [where pre = "if ws = [] then [[], []] else [[]]"]) (use assms in \<open>auto simp: split_join plain_def list_all_iff\<close>)
  then show ?thesis using assms(1) by (simp add: filepath_Join_def)
qed

lemma plain_index: "list_all plain [''index.html'']"
  by (simp add: plain_def)

lemma join_index: "dir \<noteq> [] \<Longrightarrow> filepath_Join dir ''index.html'' = place dir [''index.html'']"
  using clean_below [of dir "[''index.html'']" "''index.html''" "[]"] plain_index
  by (simp add: filepath_Join_def)

text \<open>The test of the prefix: it holds for every path below, but for a directory without elements.\<close>

lemma below_prefix:
  assumes "dir \<noteq> []" and "list_all plain ws"
  shows "(\<not> has_prefix (place dir ws) (filepath_Clean dir @ ''/'') \<and> place dir ws \<noteq> filepath_Clean dir) = (clean_segs dir = [] \<and> ws \<noteq> [])"
proof (cases "ws = [] \<or> clean_segs dir \<noteq> []")
  case True
  then show ?thesis
    using assms(1) by (auto simp: place_def filepath_Clean_def path_text_def join_append has_prefix_iff)
next
  case False
  then obtain w ws' where ws: "ws = w # ws'" and w: "plain w" and e: "clean_segs dir = []" using assms(2) by (cases ws) auto
  obtain c w' where c: "w = c # w'" "c \<noteq> slash" using w by (cases w) (auto simp: plain_def)
  have "\<not> has_prefix (join_with ''/'' ws) ''./''" and "join_with ''/'' ws \<noteq> ''.''"
    using w split_on_word [of slash "''.''"]
    by (auto simp: ws join_Cons plain_def has_prefix_iff append_eq_Cons_conv split: if_splits)
  moreover have "\<not> has_prefix (slash # join_with ''/'' ws) ''//''" "slash # join_with ''/'' ws \<noteq> ''/''"
    using c by (auto simp: ws join_Cons has_prefix_iff)
  ultimately show ?thesis
    using assms(1) e ws by (simp add: place_def filepath_Clean_def path_text_def)
qed

text \<open>
  C38: the panel serves nothing outside its directory. Whatever path is requested and whatever
  the file system holds, a request that is not of the API is answered with the file below the
  directory that the plain elements of the path name, when there is one, and with
  \<open>index.html\<close> of the directory otherwise; no dots of the path are left to climb with. The
  test of the prefix refuses nothing, except for the directories \<open>.\<close> and \<open>/\<close>, whose
  cleaned names have no element: of these it refuses every path but the root.
\<close>

theorem static_panel_confined:
  assumes "dir \<noteq> []"
  shows "\<exists>ws. list_all plain ws \<and> staticHandler dir stat p =
    (if p \<noteq> ''/'' \<and> (has_prefix p ''/api/'' \<or> has_prefix p ''/v1/'') then StaticJSON404
     else if clean_segs dir = [] \<and> ws \<noteq> [] then StaticNotFound
     else StaticFile (place dir (if stat (place dir ws) = Some False then ws else [''index.html''])))"
proof -
  obtain ws where ws: "list_all plain ws" "filepath_Clean (slash # p) = slash # join_with ''/'' ws"
    by (rule clean_url_path)
  have "staticHandler dir stat p =
    (if p \<noteq> ''/'' \<and> (has_prefix p ''/api/'' \<or> has_prefix p ''/v1/'') then StaticJSON404
     else if clean_segs dir = [] \<and> ws \<noteq> [] then StaticNotFound
     else StaticFile (place dir (if stat (place dir ws) = Some False then ws else [''index.html''])))"
    unfolding staticHandler_def Let_def ws(2) join_below [OF assms ws(1)] join_index [OF assms] below_prefix [OF assms ws(1)]
    by simp
  with ws(1) show ?thesis by blast
qed

lemma static_panel_confined_witness:
  "\<exists>ws. list_all plain ws \<and> staticHandler ''/srv/web'' (\<lambda>f. None) ''/../../etc/passwd'' =
     StaticFile (place ''/srv/web'' [''index.html''])"
  using static_panel_confined [of "''/srv/web''" "\<lambda>f. None" "''/../../etc/passwd''"]
  by (auto simp: has_prefix_def clean_segs_def is_rooted_def clean_step_def)

text \<open>Paths as the program sees them.\<close>

lemma static_examples:
  "staticHandler ''web/'' (\<lambda>f. if f = ''web/a.js'' then Some False else None) ''/x/../a.js'' = StaticFile ''web/a.js''"
  "staticHandler ''.'' (\<lambda>f. Some False) ''/a.js'' = StaticNotFound"
  "staticHandler ''./'' (\<lambda>f. Some False) ''/a.js'' = StaticNotFound"
  "staticHandler ''../web'' (\<lambda>f. None) ''/../../..'' = StaticFile ''../web/index.html''"
  by code_simp+

section \<open>The start\<close>

datatype log_level = LevelDebug | LevelInfo | LevelWarn | LevelError

definition newLogger :: "string \<Rightarrow> log_level" where
  "newLogger level = (if level = ''debug'' then LevelDebug else if level = ''warn'' then LevelWarn
     else if level = ''error'' then LevelError else LevelInfo)"

text \<open>
  What the start meets: the environment and the configuration file, what the operating system
  refuses, the driver during the migrations, the platform of the vault, and two instants.
\<close>

record boot_env =
  su_Env :: "string \<Rightarrow> string"
  su_Read :: "string \<Rightarrow> string option"
  su_Mkdir :: "string \<Rightarrow> go_error option"
  su_Open :: "string \<Rightarrow> go_error option"
  su_Mig :: mig_env
  su_GOOS :: string
  su_Security :: bool
  su_nw :: string
  su_nw' :: string
  su_Stat :: "string \<Rightarrow> bool option"
  su_Listen :: "string \<Rightarrow> go_error option"

datatype vault_kind = KeychainKind | InMemoryKind

record started_server =
  sv_Config :: config
  sv_Level :: log_level
  sv_Version :: int
  sv_Vault :: vault_kind
  sv_Guard :: guard
  sv_Static :: "string option"

definition after_mark :: "go_error + nat \<times> db \<Rightarrow> db \<Rightarrow> db" where
  "after_mark r s = (case r of Inl e \<Rightarrow> s | Inr (n, s') \<Rightarrow> s')"

text \<open>
  \<open>run\<close> up to the listening server. The schema and the rows of the one database file are the
  two parts of the world; a failed mark of the interrupted work is ignored, as in the code.
\<close>

definition run_start :: "boot_env \<Rightarrow> schema_db \<times> db \<Rightarrow> (go_error + started_server) \<times> (schema_db \<times> db)" where
  "run_start env w =
    (case Load (su_Env env) (su_Read env) filepath_Join of
       Inl e \<Rightarrow> (Inl e, w)
     | Inr cfg \<Rightarrow>
    (case su_Mkdir env (DataDir cfg) of
       Some e \<Rightarrow> (Inl e, w)
     | None \<Rightarrow>
    (case su_Open env (DBPath cfg) of
       Some e \<Rightarrow> (Inl e, w)
     | None \<Rightarrow>
    (case Migrate (su_Mig env) (fst w) of
       ((v, Some e), sd) \<Rightarrow> (Inl e, (sd, snd w))
     | ((v, None), sd) \<Rightarrow>
         (let s1 = after_mark (MarkStaleAttemptsInterrupted (su_nw env) (snd w)) (snd w);
              s2 = after_mark (MarkInterruptedRefreshJobs (su_nw' env) s1) s1
          in case su_Listen env (HTTPAddr cfg) of
               Some e \<Rightarrow> (Inl e, (sd, s2))
             | None \<Rightarrow> (Inr \<lparr>sv_Config = cfg, sv_Level = newLogger (LogLevel cfg), sv_Version = v,
                 sv_Vault = (if NewKeychainVault (su_GOOS env) (su_Security env) = None then KeychainKind else InMemoryKind),
                 sv_Guard = NewGuard (LocalOnly cfg) (AdminKey cfg),
                 sv_Static = (if StaticDir cfg \<noteq> [] \<and> su_Stat env (StaticDir cfg) = Some True then Some (StaticDir cfg) else None)\<rparr>,
                 (sd, s2)))))))"

lemma marked_attempts:
  assumes "db_down s = None"
  shows "after_mark (MarkStaleAttemptsInterrupted nw s) s = s\<lparr>request_attempts := upd_where (\<lambda>r. ra_Status r = ''started'')
    (\<lambda>r. r\<lparr>ra_Status := ''interrupted'', ra_Metering := ''unknown'', ra_FinishedAt := nw\<rparr>) (request_attempts s)\<rparr>"
  using assms by (simp add: after_mark_def MarkStaleAttemptsInterrupted_def with_db_def)

lemma marked_jobs:
  assumes "db_down s = None"
  shows "after_mark (MarkInterruptedRefreshJobs nw s) s = s\<lparr>refresh_jobs := upd_where job_active
    (\<lambda>r. r\<lparr>rj_State := ''interrupted'', rj_UpdatedAt := nw\<rparr>) (refresh_jobs s)\<rparr>"
  using assms by (simp add: after_mark_def MarkInterruptedRefreshJobs_def with_db_def)

lemma upd_where_gone: "(\<And>r. p r \<Longrightarrow> \<not> p (f r)) \<Longrightarrow> \<not> has_row p (upd_where p f rows)"
  by (auto simp: has_row_iff set_upd_where)

lemma filter_upd_where:
  "(\<And>r. p r \<Longrightarrow> \<not> q (f r)) \<Longrightarrow> filter q (upd_where p f rows) = filter (\<lambda>r. q r \<and> \<not> p r) rows"
  by (induction rows) auto

lemma run_start_Inr:
  assumes "run_start env (sd, s) = (Inr sv, w)"
  obtains cfg v sd' where "Load (su_Env env) (su_Read env) filepath_Join = Inr cfg"
    and "Migrate (su_Mig env) sd = ((v, None), sd')" and "sv_Version sv = v" and "sv_Guard sv = NewGuard (LocalOnly cfg) (AdminKey cfg)"
    and "sv_Static sv = (if StaticDir cfg \<noteq> [] \<and> su_Stat env (StaticDir cfg) = Some True then Some (StaticDir cfg) else None)"
    and "w = (sd', after_mark (MarkInterruptedRefreshJobs (su_nw' env) (after_mark (MarkStaleAttemptsInterrupted (su_nw env) s) s))
       (after_mark (MarkStaleAttemptsInterrupted (su_nw env) s) s))"
  using assms
  by (auto simp: run_start_def Let_def split: sum.split_asm option.split_asm prod.split_asm)

text \<open>
  C37: what holds when the server listens. The schema has the newest version, the guard is
  closed for remote peers without the admin key, the panel has a directory, and no work of an
  earlier process is left open: attempts that were started and refresh jobs that were active
  are interrupted, and all other rows are as they were.
\<close>

theorem started_server_is_ready:
  assumes "run_start env (sd, s) = (Inr sv, (sd', s'))" and "db_down s = None"
  shows "sv_Version sv = KnownVersion \<and> currentVersion sd' = KnownVersion \<and>
    (g_localOnly (sv_Guard sv) \<or> g_adminKey (sv_Guard sv) \<noteq> []) \<and>
    sv_Static sv \<noteq> Some [] \<and>
    \<not> has_row (\<lambda>r. ra_Status r = ''started'') (request_attempts s') \<and> \<not> has_row job_active (refresh_jobs s') \<and>
    filter (\<lambda>r. ra_Status r \<noteq> ''interrupted'') (request_attempts s') =
      filter (\<lambda>r. ra_Status r \<notin> {''interrupted'', ''started''}) (request_attempts s) \<and>
    s' = s\<lparr>request_attempts := request_attempts s', refresh_jobs := refresh_jobs s'\<rparr>"
proof -
  obtain cfg v where l: "Load (su_Env env) (su_Read env) filepath_Join = Inr cfg"
    and m: "Migrate (su_Mig env) sd = ((v, None), sd')" and v: "sv_Version sv = v"
    and g: "sv_Guard sv = NewGuard (LocalOnly cfg) (AdminKey cfg)" and st: "sv_Static sv \<noteq> Some []"
    and s': "s' = after_mark (MarkInterruptedRefreshJobs (su_nw' env) (after_mark (MarkStaleAttemptsInterrupted (su_nw env) s) s))
       (after_mark (MarkStaleAttemptsInterrupted (su_nw env) s) s)"
    using assms(1) by (cases rule: run_start_Inr) (auto split: if_splits)
  define A where "A = upd_where (\<lambda>r. ra_Status r = ''started'')
    (\<lambda>r. r\<lparr>ra_Status := ''interrupted'', ra_Metering := ''unknown'', ra_FinishedAt := su_nw env\<rparr>) (request_attempts s)"
  define J where "J = upd_where job_active (\<lambda>r. r\<lparr>rj_State := ''interrupted'', rj_UpdatedAt := su_nw' env\<rparr>) (refresh_jobs s)"
  have e: "s' = s\<lparr>request_attempts := A, refresh_jobs := J\<rparr>"
    using s' assms(2) by (simp add: marked_attempts marked_jobs A_def J_def)
  have "LocalOnly cfg \<or> AdminKey cfg \<noteq> []" using Load_Inr [OF l] by blast
  moreover have "\<not> has_row (\<lambda>r. ra_Status r = ''started'') A" "\<not> has_row job_active J"
    unfolding A_def J_def by (rule upd_where_gone; simp add: job_active_def)+
  moreover have "filter (\<lambda>r. ra_Status r \<noteq> ''interrupted'') A = filter (\<lambda>r. ra_Status r \<notin> {''interrupted'', ''started''}) (request_attempts s)"
    unfolding A_def by (simp add: filter_upd_where)
  ultimately show ?thesis
    using Migrate_success [OF m] v g st by (simp add: e NewGuard_def)
qed

text \<open>A first start on an empty machine, with an attempt a crash left open.\<close>

definition demo_start :: boot_env where
  "demo_start = \<lparr>su_Env = demo_env, su_Read = (\<lambda>p. None), su_Mkdir = (\<lambda>d. None), su_Open = (\<lambda>d. None), su_Mig = no_faults,
     su_GOOS = ''linux'', su_Security = False, su_nw = ''t'', su_nw' = ''t'', su_Stat = (\<lambda>d. None), su_Listen = (\<lambda>a. None)\<rparr>"

lemma demo_started:
  "\<exists>sv sd' s' (cfg :: config). run_start demo_start (empty_schema, empty_db) = (Inr sv, (sd', s')) \<and>
     sv_Guard sv = NewGuard (LocalOnly cfg) (AdminKey cfg) \<and> \<not> LocalOnly cfg"
proof -
  obtain cfg where c: "Load demo_env (\<lambda>p. None) filepath_Join = Inr cfg" "\<not> LocalOnly cfg"
    by (auto simp: Load_def apply_env_def env_local_def demo_env_def Default_def Let_def parse_bool_def env_or_def)
  have m: "fst (Migrate no_faults empty_schema) = (9, None)" by code_simp
  then obtain sd' where "Migrate no_faults empty_schema = ((9, None), sd')" by (metis prod.collapse)
  then obtain sv s' where "run_start demo_start (empty_schema, empty_db) = (Inr sv, (sd', s'))"
    and "sv_Guard sv = NewGuard (LocalOnly cfg) (AdminKey cfg)"
    using c by (simp add: run_start_def demo_start_def Let_def)
  with c(2) show ?thesis by blast
qed

lemma started_server_is_ready_witness:
  "\<exists>sv sd' s'. run_start demo_start (empty_schema, empty_db) = (Inr sv, (sd', s')) \<and> sv_Version sv = 9 \<and> g_adminKey (sv_Guard sv) \<noteq> []"
proof -
  obtain sv sd' s' and cfg :: config where r: "run_start demo_start (empty_schema, empty_db) = (Inr sv, (sd', s'))"
    and g: "sv_Guard sv = NewGuard (LocalOnly cfg) (AdminKey cfg)" "\<not> LocalOnly cfg"
    using demo_started by blast
  have "db_down empty_db = None" by (simp add: empty_db_def)
  from started_server_is_ready [OF r this] r g show ?thesis by (auto simp: known_9 NewGuard_def)
qed

end
