(* ===== verification/JsonFuel.thy ===== *)
theory JsonFuel
  imports Json
begin

text \<open>
  The fuel of the JSON parser is enough: it reads every text to its end or to a syntax error,
  and no fuel beyond the one \<open>json_parse\<close> and \<open>json_decode\<close> give changes the result. So a
  request body the model refuses is one the decoder refuses, never one it gave up on.
\<close>

section \<open>A value is not empty\<close>

lemma length_skip_ws: "length (skip_ws s) \<le> length s"
  by (induction s) auto

lemma prepend_Some: "prepend xs r = Some (s, rest) \<longleftrightarrow> (\<exists>s'. r = Some (s', rest) \<and> s = xs @ s')"
  by (cases r) (auto simp: prepend_def)

text \<open>One step of a string literal: it ends, or what follows is read by the same function.\<close>

lemma parse_str_surrogate:
  assumes "(case s2 of
       q # w # g1 # g2 # g3 # g4 # s3 \<Rightarrow>
         (case hex4 g1 g2 g3 g4 of
            Some v \<Rightarrow> if q = CHR 0x5C \<and> w = CHR ''u'' \<and> low_surrogate v then prepend (a v) (parse_str s3)
                else prepend b (parse_str (q # w # g1 # g2 # g3 # g4 # s3))
          | None \<Rightarrow> prepend b (parse_str (q # w # g1 # g2 # g3 # g4 # s3)))
     | _ \<Rightarrow> prepend b (parse_str s2)) = Some (x, rest)"
  shows "\<exists>t y. parse_str t = Some (y, rest) \<and> length t \<le> length s2"
proof (cases "\<exists>q w g1 g2 g3 g4 s3. s2 = q # w # g1 # g2 # g3 # g4 # s3")
  case True
  then obtain q w g1 g2 g3 g4 s3 where s2: "s2 = q # w # g1 # g2 # g3 # g4 # s3" by blast
  have "\<exists>y. parse_str s3 = Some (y, rest) \<or> parse_str s2 = Some (y, rest)"
    using assms unfolding s2 by (auto simp: prepend_Some simp del: parse_str.simps split: option.split_asm if_split_asm)
  then show ?thesis by (auto simp: s2 simp del: parse_str.simps intro: exI [of _ s3])
next
  case False
  have "(case s2 of q # w # g1 # g2 # g3 # g4 # s3 \<Rightarrow> f q w g1 g2 g3 g4 s3 | _ \<Rightarrow> z) = z" for f and z :: "(string \<times> string) option"
    using False by (auto split: list.split)
  with assms have "prepend b (parse_str s2) = Some (x, rest)" by simp
  then show ?thesis by (auto simp: prepend_Some simp del: parse_str.simps)
qed

lemma parse_str_step:
  assumes "parse_str (c # s) = Some (x, rest)"
  shows "rest = s \<or> (\<exists>t y. parse_str t = Some (y, rest) \<and> length t \<le> length s)"
proof (cases "c = CHR 0x5C")
  case False
  with assms show ?thesis by (auto simp: prepend_Some split: if_splits)
next
  case True
  then obtain e s1 where s: "s = e # s1" using assms by (cases s) auto
  show ?thesis
  proof (cases "e = CHR ''u''")
    case False
    with assms True s show ?thesis by (auto simp: prepend_Some split: option.splits)
  next
    case True
    show ?thesis
    proof (cases "\<exists>h1 h2 h3 h4 s2. s1 = h1 # h2 # h3 # h4 # s2")
      case False
      have "(case s1 of h1 # h2 # h3 # h4 # s2 \<Rightarrow> f h1 h2 h3 h4 s2 | _ \<Rightarrow> z) = z" for f and z :: "(string \<times> string) option"
        using False by (auto split: list.split)
      with assms True \<open>c = CHR 0x5C\<close> s have False by simp
      then show ?thesis ..
    next
      case True
      then obtain h1 h2 h3 h4 s2 where s1: "s1 = h1 # h2 # h3 # h4 # s2" by blast
      with assms \<open>e = CHR ''u''\<close> \<open>c = CHR 0x5C\<close> s obtain u where "hex4 h1 h2 h3 h4 = Some u" by (cases "hex4 h1 h2 h3 h4") simp_all
      with assms \<open>e = CHR ''u''\<close> \<open>c = CHR 0x5C\<close> s s1 have "\<exists>t y. parse_str t = Some (y, rest) \<and> length t \<le> length s2"
        using parse_str_surrogate [where ?s2.0 = s2 and x = x and rest = rest and b = "utf8 65533"
            and a = "\<lambda>v. utf8 (65536 + (u - 55296) * 1024 + (v - 56320))"]
        by (cases "high_surrogate u"; cases "low_surrogate u") (auto simp: prepend_Some simp del: parse_str.simps(2) simp: parse_str.simps(2) [of "CHR 0x5C"])
      then show ?thesis by (auto simp: s s1 simp del: parse_str.simps intro: le_trans)
    qed
  qed
qed

lemma parse_str_shorter: "parse_str s = Some (x, rest) \<Longrightarrow> length rest < length s"
proof (induction s arbitrary: x rest rule: length_induct)
  case (1 s)
  then obtain c s' where s: "s = c # s'" by (cases s) auto
  from parse_str_step [OF "1.prems" [unfolded s]] show ?case
  proof
    assume "\<exists>t y. parse_str t = Some (y, rest) \<and> length t \<le> length s'"
    then obtain t y where t: "parse_str t = Some (y, rest)" "length t \<le> length s'" by blast
    with "1.IH" [rule_format, of t y rest] show ?thesis by (simp add: s)
  qed (simp add: s)
qed

lemma length_span_digits: "span_digits s = (ds, r) \<Longrightarrow> length s = length ds + length r"
  by (auto simp: span_digits_def) (metis length_append takeWhile_dropWhile_id)

lemma parse_exp_shorter: "parse_exp s = Some (e, rest) \<Longrightarrow> length rest \<le> length s"
  by (cases s) (auto simp: parse_exp_def Let_def split: if_splits prod.splits dest!: length_span_digits)

lemma parse_num_shorter:
  assumes "parse_num s = Some (j, rest)"
  shows "length rest < length s"
proof -
  define s1 where "s1 = (if s \<noteq> [] \<and> hd s = CHR ''-'' then tl s else s)"
  obtain ds s2 where d: "span_digits s1 = (ds, s2)" by fastforce
  obtain fs s3 where f: "(if s2 \<noteq> [] \<and> hd s2 = CHR ''.'' then span_digits (tl s2) else ([], s2)) = (fs, s3)" by fastforce
  have ds: "ds \<noteq> []" and "\<exists>ex. parse_exp s3 = Some (ex, rest)"
    using assms unfolding parse_num_def Let_def s1_def [symmetric] d f prod.case
    by (auto split: if_splits option.splits)
  then have "length rest \<le> length s3" using parse_exp_shorter by blast
  moreover have "length s3 \<le> length s2"
    using f length_span_digits [of "tl s2" fs s3] by (auto split: if_splits)
  moreover have "length s2 < length s1" using length_span_digits [OF d] ds by (cases ds) auto
  moreover have "length s1 \<le> length s" by (simp add: s1_def)
  ultimately show ?thesis by linarith
qed

lemma hd_tl_shorter: "t \<noteq> [] \<Longrightarrow> length t \<le> n \<Longrightarrow> length (tl t) < n"
  by (cases t) auto

lemma skip_tl: "skip_ws s \<noteq> [] \<Longrightarrow> length (tl (skip_ws s)) < length s"
  using hd_tl_shorter [OF _ length_skip_ws] .

lemma skip_skip_tl: "skip_ws s \<noteq> [] \<Longrightarrow> length (skip_ws (tl (skip_ws s))) < length s"
  using skip_tl length_skip_ws le_less_trans by blast

text \<open>What a value, an element and a member are read by.\<close>

lemma parse_value_cases:
  assumes "parse_value (Suc n) s = Some (v, r)"
  defines "t \<equiv> skip_ws s"
  shows "t \<noteq> [] \<and> (length r < length t \<or> (\<exists>ms. parse_members n (skip_ws (tl t)) = Some (ms, r)) \<or> (\<exists>vs. parse_elems n (skip_ws (tl t)) = Some (vs, r)))"
proof -
  have v: "(if t = [] then None
     else if hd t = CHR ''{'' then
        (if skip_ws (tl t) \<noteq> [] \<and> hd (skip_ws (tl t)) = CHR ''}'' then Some (JObj [], tl (skip_ws (tl t)))
         else map_option (\<lambda>(ms, rest). (JObj ms, rest)) (parse_members n (skip_ws (tl t))))
     else if hd t = CHR ''['' then
        (if skip_ws (tl t) \<noteq> [] \<and> hd (skip_ws (tl t)) = CHR '']'' then Some (JArr [], tl (skip_ws (tl t)))
         else map_option (\<lambda>(vs, rest). (JArr vs, rest)) (parse_elems n (skip_ws (tl t))))
     else if hd t = CHR 0x22 then map_option (\<lambda>(x, rest). (JStr x, rest)) (parse_str (tl t))
     else if has_prefix t ''null'' then Some (JNull, drop 4 t)
     else if has_prefix t ''true'' then Some (JBool True, drop 4 t)
     else if has_prefix t ''false'' then Some (JBool False, drop 5 t)
     else parse_num t) = Some (v, r)"
    using assms(1) unfolding parse_value.simps Let_def t_def [symmetric] .
  have ne: "t \<noteq> []" using v by auto
  then have tl: "length (tl t) < length t" by (cases t) auto
  then have sk: "length (skip_ws (tl t)) < length t" using length_skip_ws le_less_trans by blast
  have "length (drop 4 t) < length t" "length (drop 5 t) < length t" using ne by (cases t; simp)+
  moreover have "length (tl (skip_ws (tl t))) < length t" using sk by (cases "skip_ws (tl t)") auto
  moreover have "parse_str (tl t) = Some (x, r) \<Longrightarrow> length r < length t" for x using parse_str_shorter [of "tl t" x r] tl by simp
  moreover have "parse_num t = Some (v, r) \<Longrightarrow> length r < length t" by (rule parse_num_shorter)
  ultimately show ?thesis using v ne by (auto split: if_splits)
qed

lemma parse_elems_cases:
  assumes "parse_elems (Suc n) s = Some (vs, r)"
  shows "\<exists>v r1. parse_value n s = Some (v, r1) \<and> skip_ws r1 \<noteq> [] \<and>
    (r = tl (skip_ws r1) \<or> (\<exists>vs'. parse_elems n (tl (skip_ws r1)) = Some (vs', r)))"
  using assms by (auto simp: Let_def split: option.splits if_splits)

lemma parse_members_cases:
  assumes "parse_members (Suc n) s = Some (ms, r)"
  shows "\<exists>k r0 v r1. skip_ws s \<noteq> [] \<and> parse_str (tl (skip_ws s)) = Some (k, r0) \<and> skip_ws r0 \<noteq> [] \<and>
    parse_value n (tl (skip_ws r0)) = Some (v, r1) \<and> skip_ws r1 \<noteq> [] \<and>
    (r = tl (skip_ws r1) \<or> (\<exists>ms'. parse_members n (tl (skip_ws r1)) = Some (ms', r)))"
  using assms by (auto simp: Let_def split: option.splits if_splits prod.splits)

lemma parse_shorter:
  "(\<forall>s v r. parse_value n s = Some (v, r) \<longrightarrow> length r < length s) \<and>
   (\<forall>s vs r. parse_elems n s = Some (vs, r) \<longrightarrow> length r < length s) \<and>
   (\<forall>s ms r. parse_members n s = Some (ms, r) \<longrightarrow> length r < length s)"
proof (induction n)
  case (Suc n)
  have V: "length r < length s" if "parse_value (Suc n) s = Some (v, r)" for s v r
    using parse_value_cases [OF that] Suc.IH skip_skip_tl [of s] length_skip_ws [of s] by (meson le_less_trans less_trans less_le_trans)
  have E: "length r < length s" if "parse_elems (Suc n) s = Some (vs, r)" for s vs r
    using parse_elems_cases [OF that] Suc.IH skip_tl by (meson less_trans)
  have M: "length r < length s" if "parse_members (Suc n) s = Some (ms, r)" for s ms r
    using parse_members_cases [OF that] Suc.IH skip_tl parse_str_shorter by (meson less_trans)
  show ?case using V E M by blast
qed simp

lemmas value_shorter = parse_shorter [THEN conjunct1, rule_format]

section \<open>More fuel changes nothing\<close>

lemma fuel_enough:
  "(\<forall>s. 2 * length s < n \<longrightarrow> parse_value (Suc n) s = parse_value n s) \<and>
   (\<forall>s. 2 * length s + 1 < n \<longrightarrow> parse_elems (Suc n) s = parse_elems n s) \<and>
   (\<forall>s. 2 * length s + 1 < n \<longrightarrow> parse_members (Suc n) s = parse_members n s)"
proof (induction n)
  case (Suc n)
  have V: "parse_value (Suc (Suc n)) s = parse_value (Suc n) s" if "2 * length s < Suc n" for s
  proof (cases "skip_ws s = []")
    case False
    have "2 * length (skip_ws (tl (skip_ws s))) + 1 < n" using skip_skip_tl [OF False] that by linarith
    then show ?thesis using Suc.IH by (simp only: parse_value.simps Let_def)
  qed simp
  have E: "parse_elems (Suc (Suc n)) s = parse_elems (Suc n) s" if "2 * length s + 1 < Suc n" for s
  proof -
    have v: "parse_value (Suc n) s = parse_value n s" using Suc.IH that by simp
    show ?thesis
    proof (cases "parse_value n s")
      case (Some p)
      obtain w r where p: "p = (w, r)" by fastforce
      have "parse_elems (Suc n) (tl (skip_ws r)) = parse_elems n (tl (skip_ws r))" if "skip_ws r \<noteq> []"
        using Suc.IH skip_tl [OF that] value_shorter [OF Some [unfolded p]] \<open>2 * length s + 1 < Suc n\<close> by simp
      then show ?thesis
        unfolding parse_elems.simps(2) [of "Suc n" s] parse_elems.simps(2) [of n s] v Some p by (auto simp: Let_def simp del: parse_elems.simps)
    qed (simp only: parse_elems.simps v option.case)
  qed
  have M: "parse_members (Suc (Suc n)) s = parse_members (Suc n) s" if "2 * length s + 1 < Suc n" for s
  proof (cases "skip_ws s = [] \<or> parse_str (tl (skip_ws s)) = None")
    case False
    then obtain k r0 where k: "parse_str (tl (skip_ws s)) = Some (k, r0)" "skip_ws s \<noteq> []" by auto
    have r0: "length r0 < length s" using parse_str_shorter [OF k(1)] skip_tl [OF k(2)] by simp
    have v: "parse_value (Suc n) (tl (skip_ws r0)) = parse_value n (tl (skip_ws r0))" if "skip_ws r0 \<noteq> []"
      using Suc.IH skip_tl [OF that] r0 \<open>2 * length s + 1 < Suc n\<close> by simp
    have m: "parse_members (Suc n) (tl (skip_ws r1)) = parse_members n (tl (skip_ws r1))"
      if "parse_value n (tl (skip_ws r0)) = Some (w, r1)" "skip_ws r0 \<noteq> []" "skip_ws r1 \<noteq> []" for w r1
      using Suc.IH skip_tl [OF that(3)] value_shorter [OF that(1)] skip_tl [OF that(2)] r0 \<open>2 * length s + 1 < Suc n\<close> by simp
    show ?thesis
      unfolding parse_members.simps(2) [of "Suc n" s] parse_members.simps(2) [of n s] Let_def k(1) option.case prod.case
      using v m k(2) by (auto simp del: parse_members.simps parse_value.simps split: option.split)
  next
    case True
    then show ?thesis
      unfolding parse_members.simps(2) [of "Suc n" s] parse_members.simps(2) [of n s] Let_def by (elim disjE) simp_all
  qed
  show ?case using V E M by blast
qed simp

text \<open>
  The parser's verdict is final: with the fuel it is given, \<open>json_parse\<close> and \<open>json_decode\<close>
  answer as with any larger one.
\<close>

lemma parse_value_fuel: "2 * length s < n \<Longrightarrow> n \<le> m \<Longrightarrow> parse_value m s = parse_value n s"
proof (induction m)
  case (Suc m)
  show ?case
  proof (cases "n \<le> m")
    case True
    with Suc show ?thesis using fuel_enough [of m] by simp
  next
    case False
    with Suc.prems show ?thesis by (simp add: le_Suc_eq)
  qed
qed simp

lemma json_parse_fuel:
  assumes "2 * length s < n"
  shows "json_decode s = map_option fst (parse_value n s)"
    and "json_parse s = (case parse_value n s of None \<Rightarrow> None | Some (j, rest) \<Rightarrow> if skip_ws rest = [] then Some j else None)"
proof -
  have "parse_value n s = parse_value (2 * length s + 2) s"
    using parse_value_fuel [of s "2 * length s + 1" n] parse_value_fuel [of s "2 * length s + 1" "2 * length s + 2"] assms by simp
  then show "json_decode s = map_option fst (parse_value n s)"
    and "json_parse s = (case parse_value n s of None \<Rightarrow> None | Some (j, rest) \<Rightarrow> if skip_ws rest = [] then Some j else None)"
    by (simp_all add: json_decode_def json_parse_def)
qed

end
