(* ===== verification/Tools.thy ===== *)
theory Tools
  imports Health Billing Vault JsonFuel
begin

text \<open>
  The command-line tools: \<open>cmd/vaultctl\<close>, \<open>cmd/healthcheck\<close> and \<open>cmd/billingcheck\<close>. Their
  arguments are what is left after \<open>flag.Parse\<close>; a run ends with an exit code and what it
  printed. Lines of text are texts, a printed record is the record itself.
\<close>

section \<open>vaultctl\<close>

record tool_run =
  tr_Code :: int
  tr_Out :: string
  tr_Err :: string

definition tool_ok :: "string \<Rightarrow> tool_run" where
  "tool_ok out = \<lparr>tr_Code = 0, tr_Out = out, tr_Err = []\<rparr>"

definition tool_fail :: "int \<Rightarrow> string \<Rightarrow> tool_run" where
  "tool_fail code msg = \<lparr>tr_Code = code, tr_Out = [], tr_Err = msg\<rparr>"

definition vault_usage :: string where
  "vault_usage = ''usage: vaultctl <store|get|delete|redact> ...''"

text \<open>
  \<open>bufio.Reader.ReadString('\n')\<close> on the standard input: its bytes and how it ends, with
  \<open>None\<close> for the end of the file. The line is all there is when it has no end.
\<close>

definition read_line :: "string \<times> go_error option \<Rightarrow> string \<times> go_error option" where
  "read_line inp = (if CHR 0x0A \<in> set (fst inp) then (takeWhile (\<lambda>c. c \<noteq> CHR 0x0A) (fst inp) @ [CHR 0x0A], None)
     else (fst inp, snd inp))"

text \<open>\<open>kv()\<close> is the vault, or the error of \<open>NewKeychainVault\<close>, after which the tool exits.\<close>

type_synonym 'v tool_vault = "go_error + 'v vault_ops"

definition cmdStore :: "'v tool_vault \<Rightarrow> string list \<Rightarrow> string \<times> go_error option \<Rightarrow> 'v \<Rightarrow> tool_run \<times> 'v" where
  "cmdStore kv args inp v =
    (case args of
       [service, account] \<Rightarrow>
         (case read_line inp of
            (line, Some e) \<Rightarrow> (tool_fail 1 (''read stdin: '' @ error_text e), v)
          | (line, None) \<Rightarrow>
              (let secret = trim_right_of (\<lambda>c. c = CHR 0x0D \<or> c = CHR 0x0A) line in
               if secret = [] then (tool_fail 1 ''empty secret'', v)
               else (case kv of
                   Inl e \<Rightarrow> (tool_fail 1 (''vault: '' @ error_text e), v)
                 | Inr ops \<Rightarrow> (case v_Store ops service account secret v of
                       (Inl e, v') \<Rightarrow> (tool_fail 1 (''store: '' @ error_text e), v')
                     | (Inr ref, v') \<Rightarrow> (tool_ok (''stored ref: service='' @ sr_Service ref @ '' account='' @ sr_Account ref
                         @ '' fingerprint='' @ sr_Fingerprint ref), v')))))
     | _ \<Rightarrow> (tool_fail 2 ''usage: vaultctl store <service> <account>  (secret via stdin)'', v))"

definition tool_ref :: "string \<Rightarrow> string \<Rightarrow> secret_ref" where
  "tool_ref service account = \<lparr>sr_VaultProvider = [], sr_Service = service, sr_Account = account, sr_Fingerprint = [], sr_CreatedAt = []\<rparr>"

definition cmdGet :: "'v tool_vault \<Rightarrow> (string \<Rightarrow> string) \<Rightarrow> string list \<Rightarrow> 'v \<Rightarrow> tool_run" where
  "cmdGet kv sha args v =
    (case args of
       [service, account] \<Rightarrow>
         (case kv of
            Inl e \<Rightarrow> tool_fail 1 (''vault: '' @ error_text e)
          | Inr ops \<Rightarrow> (case v_Get ops (tool_ref service account) v of
                Inl e \<Rightarrow> tool_fail 1 (''get: '' @ error_text e)
              | Inr s \<Rightarrow> tool_ok (''found: fingerprint='' @ ShortFingerprint sha s @ '' len='' @ itoa (int (length s)))))
     | _ \<Rightarrow> tool_fail 2 ''usage: vaultctl get <service> <account>'')"

definition cmdDelete :: "'v tool_vault \<Rightarrow> string list \<Rightarrow> 'v \<Rightarrow> tool_run \<times> 'v" where
  "cmdDelete kv args v =
    (case args of
       [service, account] \<Rightarrow>
         (case kv of
            Inl e \<Rightarrow> (tool_fail 1 (''vault: '' @ error_text e), v)
          | Inr ops \<Rightarrow> (case v_Delete ops (tool_ref service account) v of
                (Some e, v') \<Rightarrow> (tool_fail 1 (''delete: '' @ error_text e), v')
              | (None, v') \<Rightarrow> (tool_ok ''deleted'', v')))
     | _ \<Rightarrow> (tool_fail 2 ''usage: vaultctl delete <service> <account>'', v))"

definition cmdRedact :: "string list \<Rightarrow> tool_run" where
  "cmdRedact args = tool_ok (Redact (join_with '' '' args))"

definition vaultctl ::
  "'v tool_vault \<Rightarrow> (string \<Rightarrow> string) \<Rightarrow> string \<times> go_error option \<Rightarrow> string list \<Rightarrow> 'v \<Rightarrow> tool_run \<times> 'v" where
  "vaultctl kv sha inp args v =
    (case args of
       [] \<Rightarrow> (tool_fail 2 vault_usage, v)
     | cmd # rest \<Rightarrow>
         if cmd = ''store'' then cmdStore kv rest inp v
         else if cmd = ''get'' then (cmdGet kv sha rest v, v)
         else if cmd = ''delete'' then cmdDelete kv rest v
         else if cmd = ''redact'' then (cmdRedact rest, v)
         else (tool_fail 2 vault_usage, v))"

section \<open>healthcheck\<close>

definition decode_sample :: "json \<Rightarrow> health_sample option" where
  "decode_sample j = do {
     ms \<leftarrow> as_object j; m \<leftarrow> str_field ''model_id'' ms; c \<leftarrow> str_field ''connection_id'' ms;
     t \<leftarrow> as_real (member ''ttft_ms'' ms); l \<leftarrow> as_real (member ''latency_ms'' ms); st \<leftarrow> int_field ''status_code'' ms;
     e \<leftarrow> str_field ''error_class'' ms; at' \<leftarrow> int_field ''sampled_at'' ms;
     Some \<lparr>hs_ModelID = m, hs_ConnectionID = c, hs_TTFTMS = t, hs_LatencyMS = l, hs_StatusCode = st,
       hs_ErrorClass = e, hs_SampledAt = at'\<rparr> }"

text \<open>The decoder's loop over a stream of values; it ends because every value has some text.\<close>

function decode_stream :: "string \<Rightarrow> health_sample list option" where
  "decode_stream s =
    (if skip_ws s = [] then Some []
     else (case parse_value (2 * length s + 2) s of
         None \<Rightarrow> None
       | Some (j, rest) \<Rightarrow> (case decode_sample j of
             None \<Rightarrow> None
           | Some x \<Rightarrow> map_option ((#) x) (decode_stream rest))))"
  by pat_completeness auto
termination
  by (relation "measure length") (auto simp del: parse_value.simps dest: value_shorter)

declare decode_stream.simps [simp del]

definition read_samples :: "string \<Rightarrow> health_sample list option" where
  "read_samples d =
    (if d \<noteq> [] \<and> hd d = CHR ''['' then Option.bind (json_parse d) (as_list decode_sample) else decode_stream d)"

definition sample_key :: "health_sample \<Rightarrow> string" where
  "sample_key s = (if hs_ConnectionID s \<noteq> [] then hs_ConnectionID s @ ''|'' @ hs_ModelID s else hs_ModelID s)"

text \<open>The groups; the program prints them in the order of a map, which is any order.\<close>

definition grouped :: "health_sample list \<Rightarrow> (string \<times> health_sample list) list" where
  "grouped ss = map (\<lambda>k. (k, filter (\<lambda>s. sample_key s = k) ss)) (remdups (map sample_key ss))"

definition check_group :: "int \<Rightarrow> bool \<Rightarrow> bool \<Rightarrow> health_sample list \<Rightarrow> string + health_result" where
  "check_group t limited engine g = (if engine then fst (Observe t g limited NewEngine) else Inr (Evaluate t g limited))"

text \<open>The outcome: the text of the error before an exit with 1, or what is printed for each group.\<close>

definition healthcheck :: "int \<Rightarrow> bool \<Rightarrow> bool \<Rightarrow> go_error + string \<Rightarrow> string + (string \<times> health_result) list" where
  "healthcheck t limited engine inp =
    (case inp of
       Inl e \<Rightarrow> Inl (''read: '' @ error_text e)
     | Inr d \<Rightarrow> (case read_samples d of
         None \<Rightarrow> Inl (if d \<noteq> [] \<and> hd d = CHR ''['' then ''parse array: json'' else ''parse line: json'')
       | Some ss \<Rightarrow>
           (case those (map (\<lambda>(k, g). case check_group t limited engine g of Inl e \<Rightarrow> None | Inr r \<Rightarrow> Some (k, r)) (grouped ss)) of
              None \<Rightarrow> Inl (''observe: '' @ errNoSamples)
            | Some rs \<Rightarrow> Inr rs)))"

section \<open>billingcheck\<close>

definition provider_of :: "string \<Rightarrow> bill_provider" where
  "provider_of s = (if s = ''openai'' then ProviderOpenAI else if s = ''anthropic'' then ProviderAnthropic
     else if s = ''gemini'' then ProviderGemini else ProviderOther s)"

text \<open>The report: capabilities, usage, cost and, with a file of observed usage, the reconciliation.\<close>

record bill_report =
  rp_Matrix :: "capability_result list"
  rp_Usage :: bill_usage
  rp_Cost :: bill_cost
  rp_Reconciled :: "reconciliation option"

definition observed_usage :: "bill_provider \<Rightarrow> bill_usage \<Rightarrow> bill_usage" where
  "observed_usage p u = u\<lparr>bu_Provider := p, bu_Source := SourceObserved, bu_Confidence := ConfidenceExact\<rparr>"

text \<open>
  \<open>obs\<close> is the file of \<open>-observed\<close>, if it was given: an error of reading or parsing it, or the
  usage it holds. \<open>None\<close> is a panic, \<open>Inl\<close> the error before an exit with 1.
\<close>

definition billingcheck ::
  "bill_env \<Rightarrow> string \<Rightarrow> string \<Rightarrow> bill_window \<Rightarrow> (string + bill_usage) option \<Rightarrow> (string + bill_report) option" where
  "billingcheck be provider key w obs =
    (let a = NewAdapter (provider_of provider) in
     case adapter_CapabilityMatrix be a key of
       None \<Rightarrow> None
     | Some matrix \<Rightarrow>
    (case FetchUsage be a key w of
       None \<Rightarrow> None
     | Some (Inl e) \<Rightarrow> Some (Inl (''usage: '' @ error_text e))
     | Some (Inr u) \<Rightarrow>
    (case FetchCost be a key w of
       None \<Rightarrow> None
     | Some (Inl e) \<Rightarrow> Some (Inl (''cost: '' @ error_text e))
     | Some (Inr c) \<Rightarrow>
    (case obs of
       None \<Rightarrow> Some (Inr \<lparr>rp_Matrix = matrix, rp_Usage = u, rp_Cost = c, rp_Reconciled = None\<rparr>)
     | Some (Inl msg) \<Rightarrow> Some (Inl msg)
     | Some (Inr o') \<Rightarrow> Some (Inr \<lparr>rp_Matrix = matrix, rp_Usage = u, rp_Cost = c,
         rp_Reconciled = Some (Reconcile (be_Unix be) (adapter_Provider a) w (Some u) (Some (observed_usage (provider_of provider) o')))\<rparr>)))))"

section \<open>What the tools show\<close>

lemma takeWhile_until: "c \<notin> set s \<Longrightarrow> takeWhile (\<lambda>x. x \<noteq> c) (s @ c # r) = s"
  by (induction s) auto

lemma keychain_Store_added:
  assumes "sec [''add-generic-password'', ''-s'', ks @ ''-'' @ svc, ''-a'', acct, ''-w'', w, ''-U''] k = (Inr out, k')"
  shows "v_Store (keychain_vault sec ks sha nw) svc acct w k =
    (Inr \<lparr>sr_VaultProvider = ''macos-keychain'', sr_Service = ks @ ''-'' @ svc, sr_Account = acct,
        sr_Fingerprint = ShortFingerprint sha w, sr_CreatedAt = nw\<rparr>, k')"
  using assms by (simp add: keychain_vault_def keychain_Store_def keychain_run_def Let_def)

lemma keychain_Get_find:
  "v_Get (keychain_vault sec ks sha nw) (tool_ref svc acct) k =
    (case fst (sec [''find-generic-password'', ''-s'', svc, ''-a'', acct, ''-w''] k) of
       Inl (errb, ex) \<Rightarrow> Inl (missing_error (KeychainError ''find-generic-password'' (if trim_space errb = [] then ex else trim_space errb)))
     | Inr out \<Rightarrow> Inr (trim_space out))"
  by (cases "sec [''find-generic-password'', ''-s'', svc, ''-a'', acct, ''-w''] k")
    (simp add: keychain_vault_def keychain_Get_def keychain_run_def tool_ref_def Let_def split: sum.split prod.split)

text \<open>
  C40: \<open>vaultctl get\<close> does not find what \<open>vaultctl store\<close> has stored. The vault puts its own name
  before the service of a new secret and looks a reference up as it is. So when the Keychain
  keeps an entry for each service and account, storing a line under a service does not change
  what \<open>get\<close> prints for that service; the secret is found under the prefixed name only. What
  is printed of a secret is its fingerprint and its length.
\<close>

theorem vaultctl_get_misses_store:
  fixes sec :: "'k security"
  assumes keeps: "\<And>svc acct w k. \<exists>out k'. sec [''add-generic-password'', ''-s'', svc, ''-a'', acct, ''-w'', w, ''-U''] k = (Inr out, k') \<and>
      fst (sec [''find-generic-password'', ''-s'', svc, ''-a'', acct, ''-w''] k') = Inr (w @ [CHR 0x0A]) \<and>
      (\<forall>svc'. svc' \<noteq> svc \<longrightarrow> fst (sec [''find-generic-password'', ''-s'', svc', ''-a'', acct, ''-w''] k') =
         fst (sec [''find-generic-password'', ''-s'', svc', ''-a'', acct, ''-w''] k))"
    and line: "CHR 0x0A \<notin> set secret" "CHR 0x0D \<notin> set secret" "secret \<noteq> []"
  shows "case vaultctl (Inr (keychain_vault sec ks sha nw)) sha (secret @ [CHR 0x0A], None) [''store'', svc, acct] k of (r, k') \<Rightarrow>
     tr_Code r = 0 \<and>
     fst (vaultctl (Inr (keychain_vault sec ks sha nw)) sha inp [''get'', svc, acct] k') =
       fst (vaultctl (Inr (keychain_vault sec ks sha nw)) sha inp [''get'', svc, acct] k) \<and>
     fst (vaultctl (Inr (keychain_vault sec ks sha nw)) sha inp [''get'', ks @ ''-'' @ svc, acct] k') =
       tool_ok (''found: fingerprint='' @ ShortFingerprint sha (trim_space secret) @ '' len='' @ itoa (int (length (trim_space secret))))"
proof -
  define pre where "pre = ks @ ''-'' @ svc"
  have ne: "svc \<noteq> pre" by (simp add: pre_def)
  obtain out k' where add: "sec [''add-generic-password'', ''-s'', pre, ''-a'', acct, ''-w'', secret, ''-U''] k = (Inr out, k')"
    and find: "fst (sec [''find-generic-password'', ''-s'', pre, ''-a'', acct, ''-w''] k') = Inr (secret @ [CHR 0x0A])"
    and other: "fst (sec [''find-generic-password'', ''-s'', svc, ''-a'', acct, ''-w''] k') =
         fst (sec [''find-generic-password'', ''-s'', svc, ''-a'', acct, ''-w''] k)"
    using keeps [of pre acct secret k] ne by metis
  have l: "read_line (secret @ [CHR 0x0A], None) = (secret @ [CHR 0x0A], None)" using line(1) by (simp add: read_line_def takeWhile_until)
  have last: "last secret \<noteq> CHR 0x0A" "last secret \<noteq> CHR 0x0D" using line last_in_set [of secret] by metis+
  then have tr: "trim_right_of (\<lambda>c. c = CHR 0x0D \<or> c = CHR 0x0A) (secret @ [CHR 0x0A]) = secret"
    using line(3) by (cases secret rule: rev_cases) (simp_all add: trim_right_of_def)
  show ?thesis
    using keychain_Store_added [where sec = sec and ks = ks and svc = svc and acct = acct and w = secret and k = k
        and sha = sha and nw = nw, OF add [unfolded pre_def]] find other
    by (simp add: vaultctl_def cmdStore_def cmdGet_def l tr line(3) keychain_Get_find pre_def trim_space_newline tool_ok_def)
qed

lemma vaultctl_get_misses_store_witness:
  "case vaultctl (Inr (keychain_vault demo_security ''midroute'' id ''0'')) id (''sk-1'' @ [CHR 0x0A], None) [''store'', ''s'', ''a''] (\<lambda>x. []) of
     (r, k') \<Rightarrow> tr_Code r = 0 \<and>
       fst (vaultctl (Inr (keychain_vault demo_security ''midroute'' id ''0'')) id ([], None) [''get'', ''s'', ''a''] k') =
         fst (vaultctl (Inr (keychain_vault demo_security ''midroute'' id ''0'')) id ([], None) [''get'', ''s'', ''a''] (\<lambda>x. []))"
proof -
  have "\<exists>out k'. demo_security [''add-generic-password'', ''-s'', svc, ''-a'', acct, ''-w'', w, ''-U''] k = (Inr out, k') \<and>
      fst (demo_security [''find-generic-password'', ''-s'', svc, ''-a'', acct, ''-w''] k') = Inr (w @ [CHR 0x0A]) \<and>
      (\<forall>svc'. svc' \<noteq> svc \<longrightarrow> fst (demo_security [''find-generic-password'', ''-s'', svc', ''-a'', acct, ''-w''] k') =
         fst (demo_security [''find-generic-password'', ''-s'', svc', ''-a'', acct, ''-w''] k))" for svc acct w k
    by (simp add: demo_security_def numeral_eq_Suc)
  from vaultctl_get_misses_store [where sec = demo_security and secret = "''sk-1''" and ks = "''midroute''" and sha = id and nw = "''0''"
      and svc = "''s''" and acct = "''a''" and inp = "([], None)" and k = "\<lambda>x. []", OF this]
  show ?thesis by (auto split: prod.splits)
qed

lemma Observe_once:
  assumes "g \<noteq> []"
  shows "\<exists>r. fst (Observe t g limited NewEngine) = Inr r \<and> hr_SampleCount r = length g \<and>
    hr_Status r = (if length g < 20 then StatusUnknown else StatusHealthy)"
proof -
  have n: "hr_SampleCount (Evaluate t g limited) = length g" using assms by (simp add: Evaluate_def ComputeMetrics_def Let_def)
  show ?thesis
    using assms n by (auto simp: Observe_def NewEngine_def minStableSamples_def fresh_window_def settle_def Let_def split: prod.splits)
qed

lemma those_Some: "those xs = Some ys \<longleftrightarrow> xs = map Some ys"
  by (induction xs arbitrary: ys) (auto split: option.splits simp: map_eq_Cons_conv Cons_eq_map_conv)

lemma grouped_nonempty: "(k, g) \<in> set (grouped ss) \<Longrightarrow> g \<noteq> []"
  by (auto simp: grouped_def filter_empty_conv)

text \<open>
  With \<open>-engine\<close> the tool calls every window calm. Each group is observed once, by an engine
  of its own, and no engine leaves \<open>healthy\<close> on one window: whatever the samples, the status
  reported is \<open>healthy\<close>, or \<open>unknown\<close> for fewer than twenty. Without the flag it is the status
  of the fault the samples show. No group ends in the error for no samples.
\<close>

theorem healthcheck_statuses:
  "case healthcheck t limited engine (Inr d) of
     Inl e \<Rightarrow> read_samples d = None
   | Inr rs \<Rightarrow> list_all (\<lambda>(k, r).
       if engine then hr_Status r = (if hr_SampleCount r < 20 then StatusUnknown else StatusHealthy)
       else hr_Status r = ToStatus (hr_Fault r)) rs"
proof (cases "read_samples d")
  case None
  then show ?thesis by (simp add: healthcheck_def)
next
  case (Some ss)
  define f where "f = (\<lambda>(k :: string, g). case check_group t limited engine g of Inl e \<Rightarrow> None | Inr r \<Rightarrow> Some (k, r))"
  have f: "\<exists>r. f (k, g) = Some (k, r) \<and> (if engine then hr_Status r = (if hr_SampleCount r < 20 then StatusUnknown else StatusHealthy)
       else hr_Status r = ToStatus (hr_Fault r))" if "(k, g) \<in> set (grouped ss)" for k g
    using Observe_once [OF grouped_nonempty [OF that], of t limited]
    by (cases engine) (auto simp: f_def check_group_def Evaluate_def Let_def split: sum.split)
  define rs where "rs = map (the \<circ> f) (grouped ss)"
  have "f x = Some (the (f x))" if "x \<in> set (grouped ss)" for x using f that by (cases x) fastforce
  then have rs: "map f (grouped ss) = map Some rs" by (simp add: rs_def)
  have "healthcheck t limited engine (Inr d) = Inr rs"
    using rs those_Some [of "map f (grouped ss)" rs] by (simp add: healthcheck_def Some f_def)
  moreover have "list_all (\<lambda>(k, r). if engine then hr_Status r = (if hr_SampleCount r < 20 then StatusUnknown else StatusHealthy)
       else hr_Status r = ToStatus (hr_Fault r)) rs"
    using f by (fastforce simp: rs_def list_all_iff)
  ultimately show ?thesis by simp
qed

text \<open>Adapters without a client: what they read, and when they panic.\<close>

definition sent_upstream :: "bill_provider \<Rightarrow> string \<Rightarrow> bool" where
  "sent_upstream p key \<longleftrightarrow> \<not> isPlaceholder key \<and>
     (p = ProviderOpenAI \<and> openai_isAdminKey key \<or> p = ProviderAnthropic \<and> anthropic_isAdminKey key)"

definition no_usage :: "bill_usage \<Rightarrow> bool" where
  "no_usage u \<longleftrightarrow> bu_Confidence u \<in> {ConfidenceEstimated, ConfidenceUnavailable} \<and>
     bu_InputTokens u = 0 \<and> bu_OutputTokens u = 0 \<and> bu_Requests u = 0"

lemma no_client_call: "bill_call be \<lparr>ad_baseURL = b, ad_client = None\<rparr> out = map_option Inl (be_BadURL be (ho_URL out))"
  by (simp add: bill_call_def split: option.split)

lemma no_usage_blank: "no_usage (unavailableUsage p w note t)" "no_usage (estimatedUsage p w note t)"
  by (simp_all add: no_usage_def unavailableUsage_def estimatedUsage_def blank_usage_def)

lemma no_client_usage:
  "case FetchUsage be (NewAdapter p) key w of None \<Rightarrow> True | Some (Inl e) \<Rightarrow> True | Some (Inr u) \<Rightarrow> no_usage u"
  by (cases p) (auto simp: NewAdapter_def no_client_call no_usage_blank option.map_comp comp_def usage_answer_def split: option.split)

lemma no_client_panics:
  "FetchUsage be (NewAdapter p) key w = None \<Longrightarrow> sent_upstream p key"
  "FetchCost be (NewAdapter p) key w = None \<Longrightarrow> sent_upstream p key"
  "adapter_CapabilityMatrix be (NewAdapter p) key = None \<Longrightarrow> sent_upstream p key"
  by (cases p; simp add: NewAdapter_def sent_upstream_def Let_def split: if_splits)+

text \<open>
  \<open>billingcheck\<close> never reports a number of a platform. It asks \<open>NewAdapter\<close>, whose adapters
  have no client: a run with a key that would be sent upstream panics, and every report a run
  does print has a usage of zero, marked estimated or unavailable.
\<close>

theorem billingcheck_reads_nothing:
  "case billingcheck be provider key w obs of
     None \<Rightarrow> \<not> isPlaceholder key \<and> (provider = ''openai'' \<and> openai_isAdminKey key \<or> provider = ''anthropic'' \<and> anthropic_isAdminKey key)
   | Some (Inl msg) \<Rightarrow> True
   | Some (Inr r) \<Rightarrow> bu_Confidence (rp_Usage r) \<in> {ConfidenceEstimated, ConfidenceUnavailable} \<and>
       bu_InputTokens (rp_Usage r) = 0 \<and> bu_OutputTokens (rp_Usage r) = 0 \<and> bu_Requests (rp_Usage r) = 0"
proof -
  let ?a = "NewAdapter (provider_of provider)" and ?K = "sent_upstream (provider_of provider) key"
  have K: "?K = (\<not> isPlaceholder key \<and> (provider = ''openai'' \<and> openai_isAdminKey key \<or> provider = ''anthropic'' \<and> anthropic_isAdminKey key))"
    by (simp add: sent_upstream_def provider_of_def)
  show ?thesis
    using no_client_usage [of be "provider_of provider" key w] no_client_panics(1) [of be "provider_of provider" key w]
      no_client_panics(2) [of be "provider_of provider" key w] no_client_panics(3) [of be "provider_of provider" key]
    by (auto simp: billingcheck_def K [symmetric] Let_def no_usage_def split: option.split sum.split)
qed

end
