(* ===== verification/Mux.thy ===== *)
theory Mux
  imports Startup
begin

text \<open>
  How a request finds its handler: what the server uses of \<open>net/http\<close>'s \<open>ServeMux\<close> (patterns
  without method, host or wildcard), and the patterns that \<open>httpserver.New\<close>, \<open>App.Mount\<close>
  (\<open>internal/api/api.go\<close>) and \<open>run\<close> (\<open>cmd/server/main.go\<close>) register. The mux reads the
  escaped path of a request, segment by segment, while the handlers and the guard read the
  decoded one.
\<close>

section \<open>ServeMux\<close>

definition unhex :: "char \<Rightarrow> char \<Rightarrow> char option" where
  "unhex a b = (case (hex_digit a, hex_digit b) of
      (Some x, Some y) \<Rightarrow> Some (char_of (nat (16 * x + y))) | _ \<Rightarrow> None)"

text \<open>\<open>url.PathUnescape\<close>\<close>

fun path_unescape :: "string \<Rightarrow> string option" where
  "path_unescape [] = Some []"
| "path_unescape (c # s) =
    (if c = CHR ''%'' then
       (case s of
          a # b # t \<Rightarrow> (case (unhex a b, path_unescape t) of (Some d, Some u) \<Rightarrow> Some (d # u) | _ \<Rightarrow> None)
        | _ \<Rightarrow> None)
     else map_option ((#) c) (path_unescape s))"

definition mux_segment :: "string \<Rightarrow> string" where
  "mux_segment s = (case path_unescape s of None \<Rightarrow> s | Some u \<Rightarrow> u)"

text \<open>
  The segments of a path as the routing tree reads them: the first character is dropped, each
  segment is decoded where it can be, and a slash at the end is the segment \<open>/\<close>.
\<close>

function (sequential) mux_segments :: "string \<Rightarrow> string list" where
  "mux_segments [] = []"
| "mux_segments (c # p) =
    (if c = slash \<and> p = [] then [''/'']
     else mux_segment (takeWhile (\<lambda>x. x \<noteq> slash) p) # mux_segments (dropWhile (\<lambda>x. x \<noteq> slash) p))"
  by pat_completeness auto
termination
  by (relation "measure length") (auto simp: less_Suc_eq_le length_dropWhile_le)

text \<open>\<open>path.Clean\<close> that keeps a slash at the end.\<close>

definition cleanPath :: "string \<Rightarrow> string" where
  "cleanPath p =
    (if p = [] then ''/''
     else (let np = filepath_Clean (if is_rooted p then p else slash # p) in
           if has_suffix p ''/'' \<and> np \<noteq> ''/'' then np @ ''/'' else np))"

text \<open>A pattern that ends in a slash stands for the whole subtree.\<close>

datatype pattern = Exact "string list" | Subtree "string list"

definition parse_pattern :: "string \<Rightarrow> pattern" where
  "parse_pattern p = (let ws = split_on slash (tl p) in if last ws = [] then Subtree (butlast ws) else Exact ws)"

fun admits :: "string list \<Rightarrow> pattern \<Rightarrow> bool" where
  "admits ss (Exact ws) \<longleftrightarrow> ss = ws"
| "admits ss (Subtree ws) \<longleftrightarrow> take (length ws) ss = ws \<and> length ws < length ss"

text \<open>The more specific of two patterns: an exact one, or the longer subtree.\<close>

fun weight :: "pattern \<Rightarrow> nat" where
  "weight (Exact ws) = Suc (length ws)"
| "weight (Subtree ws) = length ws"

definition mux_lookup :: "(string \<times> 'e) list \<Rightarrow> string list \<Rightarrow> (pattern \<times> 'e) option" where
  "mux_lookup tab ss =
    fold (\<lambda>(pat, e) found. let q = parse_pattern pat in
        if admits ss q \<and> (case found of None \<Rightarrow> True | Some (q', e') \<Rightarrow> weight q' < weight q)
        then Some (q, e) else found) tab None"

definition mux_match :: "(string \<times> 'e) list \<Rightarrow> string \<Rightarrow> (pattern \<times> 'e) option" where
  "mux_match tab p = mux_lookup tab (mux_segments p)"

text \<open>\<open>exactMatch\<close>: a subtree matches exactly when nothing is left below it.\<close>

definition exact_match :: "string \<Rightarrow> (pattern \<times> 'e) option \<Rightarrow> bool" where
  "exact_match p m = (case m of
      None \<Rightarrow> False
    | Some (Exact ws, e) \<Rightarrow> True
    | Some (Subtree ws, e) \<Rightarrow> has_suffix p ''/'' \<and> length (filter (\<lambda>c. c = slash) p) = Suc (length ws))"

definition slash_redirect :: "(string \<times> 'e) list \<Rightarrow> string \<Rightarrow> bool" where
  "slash_redirect tab p \<longleftrightarrow> \<not> exact_match p (mux_match tab p) \<and> \<not> has_suffix p ''/''
     \<and> exact_match (p @ ''/'') (mux_match tab (p @ ''/''))"

datatype 'e found = FoundBadRequest | FoundNothing | FoundRedirect string | FoundHandler 'e

definition serve_mux :: "(string \<times> 'e) list \<Rightarrow> string \<Rightarrow> string \<Rightarrow> 'e found" where
  "serve_mux tab meth esc =
    (if esc = ''*'' then FoundBadRequest
     else (let p = (if meth = ''CONNECT'' then esc else cleanPath esc) in
       if slash_redirect tab p then FoundRedirect (p @ ''/'')
       else if p \<noteq> esc then FoundRedirect p
       else (case mux_match tab p of None \<Rightarrow> FoundNothing | Some (q, e) \<Rightarrow> FoundHandler e)))"

section \<open>The patterns of the server\<close>

text \<open>The handlers of \<open>App\<close>, and beside them those of the base server and of the panel.\<close>

datatype mounted =
    R_providers | R_provider | R_accounts | R_account | R_models | R_tokens | R_token | R_projects | R_project
  | R_policies | R_policy | R_pools | R_pool | R_jobs | R_job | R_requests | R_request | R_prices | R_usage | R_oauth
  | R_gw_models | R_chat | R_responses | R_messages | R_count_tokens

datatype endpoint = R_healthz | R_readyz | R_session | R_static | R_app mounted

definition New_routes :: "(string \<times> endpoint) list" where
  "New_routes = [(''/healthz'', R_healthz), (''/readyz'', R_readyz), (''/api/v1/session'', R_session)]"

definition Mount_routes :: "(string \<times> mounted) list" where
  "Mount_routes =
    [(''/api/v1/providers'', R_providers), (''/api/v1/providers/'', R_provider),
     (''/api/v1/accounts'', R_accounts), (''/api/v1/accounts/'', R_account),
     (''/api/v1/models'', R_models),
     (''/api/v1/tokens'', R_tokens), (''/api/v1/tokens/'', R_token),
     (''/api/v1/projects'', R_projects), (''/api/v1/projects/'', R_project),
     (''/api/v1/routing-policies'', R_policies), (''/api/v1/routing-policies/'', R_policy),
     (''/api/v1/quota-pools'', R_pools), (''/api/v1/quota-pools/'', R_pool),
     (''/api/v1/jobs'', R_jobs), (''/api/v1/jobs/'', R_job),
     (''/api/v1/requests'', R_requests), (''/api/v1/requests/'', R_request),
     (''/api/v1/price-versions'', R_prices), (''/api/v1/usage/summary'', R_usage), (''/api/v1/oauth/'', R_oauth),
     (''/v1/models'', R_gw_models), (''/v1/chat/completions'', R_chat), (''/v1/responses'', R_responses),
     (''/v1/messages'', R_messages), (''/v1/messages/count_tokens'', R_count_tokens)]"

text \<open>The panel is mounted when a directory for it is configured and exists.\<close>

definition server_routes :: "bool \<Rightarrow> (string \<times> endpoint) list" where
  "server_routes panel = New_routes @ map (\<lambda>(pat, m). (pat, R_app m)) Mount_routes @ (if panel then [(''/'', R_static)] else [])"

lemma serve_mux_examples:
  "serve_mux (server_routes True) ''GET'' ''/api/v1/accounts/a1/verify'' = FoundHandler (R_app R_account)"
  "serve_mux (server_routes True) ''GET'' ''/api/v1/accounts'' = FoundHandler (R_app R_accounts)"
  "serve_mux (server_routes True) ''GET'' ''/api/v1/oauth'' = FoundRedirect ''/api/v1/oauth/''"
  "serve_mux (server_routes True) ''GET'' ''//api/v1/accounts'' = FoundRedirect ''/api/v1/accounts''"
  "serve_mux (server_routes True) ''GET'' ''/v1/../api/v1/accounts'' = FoundRedirect ''/api/v1/accounts''"
  "serve_mux (server_routes True) ''CONNECT'' ''/v1/../api/v1/accounts'' = FoundHandler R_static"
  "serve_mux (server_routes True) ''GET'' ''/v1/%2e%2e/api/v1/accounts'' = FoundHandler R_static"
  "serve_mux (server_routes False) ''GET'' ''/v1/embeddings'' = FoundNothing"
  "serve_mux (server_routes False) ''POST'' ''/%761/models'' = FoundHandler (R_app R_gw_models)"
  by code_simp+

section \<open>The two paths of a request agree\<close>

lemma unhex_slash: "unhex slash b = None" "unhex a slash = None"
  by (simp_all add: unhex_def hex_digit_def split: option.split)

text \<open>Decoding never merges two segments.\<close>

lemma path_unescape_slash:
  assumes "path_unescape (a @ slash # b) = Some u"
  shows "\<exists>x y. path_unescape a = Some x \<and> path_unescape b = Some y \<and> u = x @ slash # y"
  using assms
proof (induction a arbitrary: u rule: path_unescape.induct)
  case 1
  then show ?case by auto
next
  case (2 c s)
  show ?case
  proof (cases "c = CHR ''%''")
    case False
    with 2 show ?thesis by fastforce
  next
    case c: True
    show ?thesis
    proof (cases s rule: remdups_adj.cases)
      case (3 h k r)
      with 2 c show ?thesis by (fastforce split: option.splits)
    next
      case (2 h)
      with \<open>path_unescape ((c # s) @ slash # b) = Some u\<close> c show ?thesis by (auto simp: unhex_slash split: list.splits option.splits)
    next
      case 1
      with \<open>path_unescape ((c # s) @ slash # b) = Some u\<close> c show ?thesis by (auto simp: unhex_slash split: list.splits option.splits)
    qed
  qed
qed

lemma first_segment:
  assumes "path_unescape (slash # p) = Some q" and "p \<noteq> []"
  obtains rest where "q = slash # hd (mux_segments (slash # p)) @ rest"
    and "rest = [] \<and> tl (mux_segments (slash # p)) = [] \<or> (\<exists>r. rest = slash # r)"
proof -
  let ?w = "takeWhile (\<lambda>x. x \<noteq> slash) p" and ?d = "dropWhile (\<lambda>x. x \<noteq> slash) p"
  have ss: "mux_segments (slash # p) = mux_segment ?w # mux_segments ?d" using assms(2) by simp
  obtain u where u: "path_unescape p = Some u" "q = slash # u" using assms(1) by auto
  show thesis
  proof (cases ?d)
    case Nil
    then have "?w = p" by (metis append_Nil2 takeWhile_dropWhile_id)
    with ss have "mux_segments (slash # p) = [mux_segment p]" unfolding Nil by (simp del: mux_segments.simps(2))
    with u show ?thesis by (intro that [of "[]"]) (simp_all add: mux_segment_def del: mux_segments.simps(2))
  next
    case (Cons c r)
    then have "c = slash" using hd_dropWhile [of "\<lambda>x. x \<noteq> slash" p] by auto
    with Cons have "p = ?w @ slash # r" by (metis takeWhile_dropWhile_id)
    with u(1) path_unescape_slash [of ?w r u] obtain x y where "path_unescape ?w = Some x" "u = x @ slash # y" by auto
    with u(2) ss show ?thesis by (intro that [of "slash # y"]) (simp_all add: mux_segment_def)
  qed
qed

section \<open>Which handlers a path reaches\<close>

lemma mux_match_in:
  assumes "mux_match tab p = Some (q, e)"
  shows "\<exists>pat. (pat, e) \<in> set tab \<and> q = parse_pattern pat \<and> admits (mux_segments p) q"
proof -
  let ?f = "\<lambda>(pat, e) found. let q = parse_pattern pat in
      if admits (mux_segments p) q \<and> (case found of None \<Rightarrow> True | Some (q', e') \<Rightarrow> weight q' < weight q) then Some (q, e) else found"
  have "fold ?f xs a = Some (q, e) \<Longrightarrow> a = Some (q, e) \<or> (\<exists>pat. (pat, e) \<in> set xs \<and> q = parse_pattern pat \<and> admits (mux_segments p) q)" for xs a
    by (induction xs arbitrary: a) (fastforce simp: Let_def split: if_splits)+
  from this [of tab None] assms show ?thesis by (simp add: mux_match_def mux_lookup_def)
qed

lemma serve_mux_handler: "serve_mux tab meth esc = FoundHandler e \<Longrightarrow> \<exists>q. mux_match tab esc = Some (q, e)"
  by (auto simp: serve_mux_def Let_def split: if_splits option.splits)

text \<open>The first word of the patterns of an endpoint; the panel takes every path.\<close>

definition inference :: "mounted \<Rightarrow> bool" where
  "inference m \<longleftrightarrow> m \<in> {R_gw_models, R_chat, R_responses, R_messages, R_count_tokens}"

fun first_word :: "endpoint \<Rightarrow> string" where
  "first_word R_healthz = ''healthz''" | "first_word R_readyz = ''readyz''" | "first_word R_session = ''api''"
| "first_word R_static = []"
| "first_word (R_app m) = (if inference m then ''v1'' else ''api'')"

lemma routes_first_word:
  "list_all (\<lambda>(pat, e). case parse_pattern pat of
      Exact ws \<Rightarrow> e \<noteq> R_static \<and> ws \<noteq> [] \<and> hd ws = first_word e
    | Subtree ws \<Rightarrow> if ws = [] then e = R_static else hd ws = first_word e) (server_routes True)"
  by code_simp

lemma reached_first_word:
  assumes "serve_mux (server_routes panel) meth esc = FoundHandler e" and "e \<noteq> R_static"
  shows "mux_segments esc \<noteq> [] \<and> hd (mux_segments esc) = first_word e"
proof -
  obtain pat where p: "(pat, e) \<in> set (server_routes panel)" "admits (mux_segments esc) (parse_pattern pat)"
    by (metis mux_match_in serve_mux_handler [OF assms(1)])
  then have "(pat, e) \<in> set (server_routes True)" by (auto simp: server_routes_def split: if_splits)
  from bspec [OF routes_first_word [unfolded list_all_iff] this] have "case parse_pattern pat of
      Exact ws \<Rightarrow> e \<noteq> R_static \<and> ws \<noteq> [] \<and> hd ws = first_word e
    | Subtree ws \<Rightarrow> if ws = [] then e = R_static else hd ws = first_word e" by simp
  with p(2) assms(2) show ?thesis
    by (cases "parse_pattern pat"; cases "mux_segments esc") (auto split: if_splits simp: neq_Nil_conv)
qed

text \<open>
  The escaped path of a request that has been parsed: empty, \<open>*\<close>, or rooted, and always an
  escape of the decoded one.
\<close>

definition escaped_path :: "string \<Rightarrow> string \<Rightarrow> bool" where
  "escaped_path esc p \<longleftrightarrow> path_unescape esc = Some p \<and> (esc = [] \<or> esc = ''*'' \<or> hd esc = slash)"

lemma escaped_rooted:
  assumes "escaped_path esc (slash # p)" and "p \<noteq> []"
  obtains rest where "p = hd (mux_segments esc) @ rest"
    and "rest = [] \<and> tl (mux_segments esc) = [] \<or> (\<exists>r. rest = slash # r)"
proof -
  obtain s where esc: "esc = slash # s" using assms(1) by (cases esc) (auto simp: escaped_path_def split: if_splits)
  have "s \<noteq> []" using assms by (auto simp: escaped_path_def esc)
  moreover have "path_unescape (slash # s) = Some (slash # p)" using assms(1) by (simp add: escaped_path_def esc)
  ultimately show thesis using first_segment [of s "slash # p"] that by (metis esc list.inject)
qed

text \<open>A path below \<open>/v1/\<close> reaches the inference plane or the panel, however it is escaped.\<close>

lemma unguarded_plane:
  assumes "escaped_path esc p" and "has_prefix p ''/v1/''"
    and "serve_mux (server_routes panel) meth esc = FoundHandler e" and "e \<noteq> R_static"
  shows "\<exists>m. e = R_app m \<and> inference m"
proof -
  obtain q where q: "p = slash # ''v1'' @ slash # q" using assms(2) by (auto simp: has_prefix_iff)
  obtain rest where r: "''v1'' @ slash # q = hd (mux_segments esc) @ rest" "rest = [] \<or> (\<exists>r. rest = slash # r)"
    using escaped_rooted [of esc "''v1'' @ slash # q"] assms(1) q by auto
  have "hd (mux_segments esc) = first_word e" using reached_first_word [OF assms(3,4)] by simp
  with r assms(4) show ?thesis by (cases e) (auto simp: Cons_eq_append_conv split: if_splits)
qed

text \<open>The two probes reach their handlers only.\<close>

lemma probe_reached:
  assumes "escaped_path esc p" and "p = ''/healthz'' \<or> p = ''/readyz''"
    and "serve_mux (server_routes panel) meth esc = FoundHandler e"
  shows "e = (if p = ''/healthz'' then R_healthz else R_readyz)"
proof -
  define w where "w = tl p"
  have w: "p = slash # w" "w = ''healthz'' \<or> w = ''readyz''" "w \<noteq> []" "slash \<notin> set w" using assms(2) by (auto simp: w_def)
  obtain rest where r: "w = hd (mux_segments esc) @ rest" "rest = [] \<and> tl (mux_segments esc) = [] \<or> (\<exists>r. rest = slash # r)"
    using escaped_rooted [of esc w] assms(1) w by auto
  with w(4) have "rest = []" by auto
  moreover have "mux_segments esc \<noteq> []" using assms(1) by (cases esc) (auto simp: escaped_path_def w(1))
  ultimately have ss: "mux_segments esc = [w]" using r by (cases "mux_segments esc") auto
  have "mux_lookup (server_routes panel) [''healthz''] = Some (Exact [''healthz''], R_healthz)"
    "mux_lookup (server_routes panel) [''readyz''] = Some (Exact [''readyz''], R_readyz)"
    by (induct panel; code_simp)+
  with serve_mux_handler [OF assms(3)] ss w(1,2) show ?thesis by (auto simp: mux_match_def)
qed

end
