(* ===== verification/App.thy ===== *)
theory App
  imports Mux Messages OauthFlows
begin

text \<open>
  The whole server: the routes of \<open>httpserver.New\<close>, of \<open>App.Mount\<close> (\<open>internal/api/api.go\<close>)
  and of \<open>run\<close> (\<open>cmd/server/main.go\<close>) behind \<open>Server.Handler\<close>, over one state: the guard's
  sessions, the database and the vault, the OAuth flows, and the concurrency leases. What one
  request draws from outside (clock, random ids, network, the client's connection) is its
  environment.
\<close>

section \<open>One request\<close>

record 'v srv_env =
  sx_App :: "'v app_env"
  sx_Start :: start_env
  sx_Gate :: "'v gate_env"
  sx_Resp :: resp_env
  sx_H24 :: string
  sx_H4 :: string
  sx_DB :: db_store
  sx_Up :: int
  sx_Cookie :: "int \<Rightarrow> string"
  sx_Session :: "string option"
  sx_Panel :: "(string \<times> (string \<Rightarrow> bool option)) option"
  sx_Serve :: "http_request \<Rightarrow> static_answer \<Rightarrow> http_response"
  sx_Redirect :: "http_request \<Rightarrow> string \<Rightarrow> http_response"

type_synonym 'v app_state = "'v flow_world \<times> access_state"
type_synonym 'v app_route = "http_request \<Rightarrow> 'v app_state \<Rightarrow> http_response \<times> 'v app_state"

definition on_world :: "'v app_handler \<Rightarrow> 'v app_route" where
  "on_world h r st = (let (resp, w) = h r (fw_world (fst st)) in (resp, ((fst st)\<lparr>fw_world := w\<rparr>, snd st)))"

definition on_db :: "db_handler \<Rightarrow> 'v app_route" where
  "on_db h = on_world (\<lambda>r w. let (resp, s) = h r (fst w) in (resp, (s, snd w)))"

definition on_flows :: "(http_request \<Rightarrow> 'v flow_world \<Rightarrow> http_response \<times> 'v flow_world) \<Rightarrow> 'v app_route" where
  "on_flows h r st = (let (resp, fw) = h r (fst st) in (resp, (fw, snd st)))"

text \<open>What the client of a response writer gets: a header that was never sent is sent as 200.\<close>

definition writer_response :: "client_writer \<Rightarrow> http_response" where
  "writer_response cw = \<lparr>rs_Status = (case cw_Status cw of None \<Rightarrow> 200 | Some st \<Rightarrow> st),
     rs_Headers = cw_Headers cw, rs_Body = TextBody (concat (cw_Out cw))\<rparr>"

definition written ::
  "(token \<Rightarrow> http_request \<Rightarrow> 'v world \<Rightarrow> client_writer \<times> 'v world) \<Rightarrow> 'v token_handler" where
  "written h tok r w = (let (cw, w') = h tok r w in (writer_response cw, w'))"

text \<open>\<open>requireToken\<close> in front of a handler.\<close>

definition token_route :: "'v gate_env \<Rightarrow> 'v token_handler \<Rightarrow> 'v app_route" where
  "token_route gv h r st = (let (resp, (w, a)) = requireToken gv h r (fw_world (fst st), snd st)
     in (resp, ((fst st)\<lparr>fw_world := w\<rparr>, a)))"

section \<open>The routes\<close>

fun app_route :: "'v srv_env \<Rightarrow> mounted \<Rightarrow> 'v app_route" where
  "app_route x R_providers = on_db (handleProviders (ev_nw (sx_App x)) (ev_Rand (sx_App x)))"
| "app_route x R_provider = on_db (providerAction (ev_Now (sx_App x)) (ev_nw (sx_App x)))"
| "app_route x R_accounts = on_world (handleAccounts (sx_App x))"
| "app_route x R_account = on_world (accountAction (sx_App x))"
| "app_route x R_models = on_db handleModels"
| "app_route x R_tokens = on_db (handleTokens (gv_Sha (sx_Gate x)) (ev_Now (sx_App x)) (ev_nw (sx_App x)) (sx_H24 x) (sx_H4 x))"
| "app_route x R_token = on_db (tokenAction (ev_Now (sx_App x)) (ev_nw (sx_App x)))"
| "app_route x R_projects = on_db (handleProjects (ev_Now (sx_App x)) (ev_nw (sx_App x)) (ev_Rand (sx_App x)))"
| "app_route x R_project = on_db (projectAction (ev_Now (sx_App x)) (ev_nw (sx_App x)))"
| "app_route x R_policies = on_db handleRoutingPolicies"
| "app_route x R_policy = on_db (handleRoutingPolicyByAlias (ev_nw (sx_App x)) (ev_Rand (sx_App x)))"
| "app_route x R_pools = on_db (handleQuotaPools (ev_Now (sx_App x)) (ev_nw (sx_App x)))"
| "app_route x R_pool = on_db handleQuotaPoolSnapshots"
| "app_route x R_jobs = on_db handleJobs"
| "app_route x R_job = on_db handleJob"
| "app_route x R_requests = on_db handleRequests"
| "app_route x R_request = on_db handleRequestDetail"
| "app_route x R_prices = on_db (handlePriceVersions (ev_Now (sx_App x)) (ev_nw (sx_App x)) (ev_Rand (sx_App x)))"
| "app_route x R_usage = on_db handleUsageSummary"
| "app_route x R_oauth = on_flows (oauthAction (sx_App x) (sx_Start x))"
| "app_route x R_gw_models = token_route (sx_Gate x) (handleGatewayModels (sx_Gate x))"
| "app_route x R_chat = token_route (sx_Gate x) (handleChatCompletions (sx_Gate x))"
| "app_route x R_responses = token_route (sx_Gate x) (written (handleResponses (sx_App x) (sx_Resp x)))"
| "app_route x R_messages = token_route (sx_Gate x) (written (handleAnthropicMessages (sx_App x) (sx_Resp x) (sx_Gate x)))"
| "app_route x R_count_tokens = token_route (sx_Gate x) (written (handleAnthropicCountTokens (sx_App x) (sx_Resp x)))"

definition page_not_found :: http_response where
  "page_not_found = \<lparr>rs_Status = 404, rs_Headers = [(''Content-Type'', ''text/plain; charset=utf-8'')],
     rs_Body = TextBody (''404 page not found'' @ [CHR 0x0A])\<rparr>"

definition bad_request_line :: http_response where
  "bad_request_line = \<lparr>rs_Status = 400, rs_Headers = [(''Connection'', ''close'')], rs_Body = TextBody []\<rparr>"

text \<open>
  The handlers of the base server, of the panel and of the application. The session endpoint
  works on the guard; the panel is reached only when it is mounted.
\<close>

fun endpoint_route :: "'v srv_env \<Rightarrow> int \<Rightarrow> endpoint \<Rightarrow> 'v app_state route" where
  "endpoint_route x t R_healthz r w = (healthz (sx_DB x), w)"
| "endpoint_route x t R_readyz r w = (readyz (sx_DB x) (sx_Up x), w)"
| "endpoint_route x t R_session r w =
    (let (resp, g') = handleSession (ev_Fmt (sx_App x)) (sx_Cookie x) (sx_Session x) t r (fst w) in (resp, (g', snd w)))"
| "endpoint_route x t R_static r w = (case sx_Panel x of
      None \<Rightarrow> (page_not_found, w)
    | Some (dir, stat) \<Rightarrow> (sx_Serve x r (staticHandler dir stat (rq_Path r)), w))"
| "endpoint_route x t (R_app m) r w = (let (resp, st) = app_route x m r (snd w) in (resp, (fst w, st)))"

definition full_mux :: "'v srv_env \<Rightarrow> int \<Rightarrow> string \<Rightarrow> 'v app_state route" where
  "full_mux x t esc r w =
    (case serve_mux (server_routes (sx_Panel x \<noteq> None)) (rq_Method r) esc of
       FoundBadRequest \<Rightarrow> (bad_request_line, w)
     | FoundNothing \<Rightarrow> (page_not_found, w)
     | FoundRedirect p \<Rightarrow> (sx_Redirect x r p, w)
     | FoundHandler e \<Rightarrow> endpoint_route x t e r w)"

text \<open>One request: \<open>esc\<close> is its escaped path, \<open>t\<close> the clock of the guard.\<close>

definition serve :: "'v srv_env \<Rightarrow> int \<Rightarrow> string \<Rightarrow> 'v app_state route" where
  "serve x t esc = Handler (full_mux x t esc) t"

section \<open>The two planes are separated\<close>

lemma inference_token:
  assumes "inference m"
  shows "\<exists>h. app_route x m = token_route (sx_Gate x) h"
  using assms by (cases m) (auto simp: inference_def)

lemma Authenticate_refused:
  "fst (Authenticate sha t_now nw r s) = Inl e \<Longrightarrow> Authenticate sha t_now nw r s = (Inl ErrUnauthorized, s)"
  by (auto simp: Authenticate_def Let_def split: sum.splits if_splits option.splits)

lemma token_route_refused:
  assumes "fst (Authenticate (gv_Sha gv) (gv_Now gv) (gv_nw gv) r (fst (fw_world (fst st)))) = Inl e"
  shows "rs_Status (fst (token_route gv h r st)) = 401 \<and> snd (token_route gv h r st) = st"
proof -
  obtain s v where w: "fw_world (fst st) = (s, v)" by fastforce
  have A: "Authenticate (gv_Sha gv) (gv_Now gv) (gv_nw gv) r s = (Inl ErrUnauthorized, s)"
    using Authenticate_refused [of "gv_Sha gv" "gv_Now gv" "gv_nw gv" r s e] assms w by simp
  with w show ?thesis
    by (cases st) (auto simp add: token_route_def requireToken_def Let_def errs_new_def flow_world.surjective flow_world.update_convs)
qed

text \<open>The answers of a request that no handler of the application has seen.\<close>

definition turned_away :: "'v srv_env \<Rightarrow> http_request \<Rightarrow> http_response \<Rightarrow> bool" where
  "turned_away x r resp \<longleftrightarrow> rs_Status resp = 401 \<or> rs_Status resp = 403 \<or> resp = page_not_found \<or> resp = bad_request_line
     \<or> (\<exists>p. resp = sx_Redirect x r p) \<or> resp = sx_Serve x r StaticJSON404"

lemma turned_away_mux:
  assumes "escaped_path esc (rq_Path r)" and "has_prefix (rq_Path r) ''/v1/''"
    and "fst (Authenticate (gv_Sha (sx_Gate x)) (gv_Now (sx_Gate x)) (gv_nw (sx_Gate x)) r (fst (fw_world (fst st)))) = Inl e"
  shows "turned_away x r (fst (full_mux x t esc r (g, st))) \<and> snd (full_mux x t esc r (g, st)) = (g, st)"
proof (cases "serve_mux (server_routes (sx_Panel x \<noteq> None)) (rq_Method r) esc")
  case (FoundHandler ep)
  show ?thesis
  proof (cases "ep = R_static")
    case True
    have "rq_Path r \<noteq> ''/''" using assms(2) by (auto simp: has_prefix_def)
    with True FoundHandler assms(2) show ?thesis
      by (auto simp: full_mux_def turned_away_def staticHandler_def split: option.splits)
  next
    case False
    from unguarded_plane [OF assms(1,2) FoundHandler False] obtain m where "ep = R_app m" "inference m" by blast
    moreover obtain h where h: "app_route x m = token_route (sx_Gate x) h" using inference_token [of m x] \<open>inference m\<close> by blast
    moreover obtain resp where "token_route (sx_Gate x) h r st = (resp, st)" "rs_Status resp = 401"
      using token_route_refused [OF assms(3), of h] by (metis prod.collapse)
    ultimately show ?thesis using FoundHandler by (simp add: full_mux_def turned_away_def)
  qed
qed (auto simp: full_mux_def turned_away_def)

text \<open>
  C1: the inference plane and the management plane are closed to each other, however a path
  is spelled. A request whose decoded path lies below \<open>/v1/\<close> and that carries no accepted token
  reaches no handler and changes nothing, whatever session, admin key or loopback address it
  comes with; any other request that the guard refuses changes nothing but the guard's
  sessions, whatever token it carries. Neither double slashes, dots, percent escapes nor the
  method \<open>CONNECT\<close>, whose path the mux does not clean, lead past this. Only the two probes
  answer everybody.
\<close>

theorem planes_separated:
  assumes "escaped_path esc (rq_Path r)"
    and "if has_prefix (rq_Path r) ''/v1/''
         then \<not> is_ok (fst (Authenticate (gv_Sha (sx_Gate x)) (gv_Now (sx_Gate x)) (gv_nw (sx_Gate x)) r (fst (fw_world (fst st)))))
         else fst (Authorize g t r) \<noteq> None"
  shows "snd (snd (serve x t esc r (g, st))) = st \<and>
    (turned_away x r (fst (serve x t esc r (g, st))) \<or>
     (rq_Path r, fst (serve x t esc r (g, st))) \<in> {(''/healthz'', healthz (sx_DB x)), (''/readyz'', readyz (sx_DB x) (sx_Up x))})"
proof (cases "has_prefix (rq_Path r) ''/v1/''")
  case True
  then have "rq_Path r \<noteq> ''/healthz''" "rq_Path r \<noteq> ''/readyz''" by (auto simp: has_prefix_def)
  moreover obtain e where "fst (Authenticate (gv_Sha (sx_Gate x)) (gv_Now (sx_Gate x)) (gv_nw (sx_Gate x)) r (fst (fw_world (fst st)))) = Inl e"
    using assms(2) True by (cases "fst (Authenticate (gv_Sha (sx_Gate x)) (gv_Now (sx_Gate x)) (gv_nw (sx_Gate x)) r (fst (fw_world (fst st))))") auto
  ultimately show ?thesis
    using turned_away_mux [OF assms(1) True, of x st e t g] True by (simp add: serve_def Handler_def)
next
  case False
  show ?thesis
  proof (cases "rq_Path r = ''/healthz'' \<or> rq_Path r = ''/readyz''")
    case probe: True
    then have "serve x t esc r (g, st) = full_mux x t esc r (g, st)" by (simp add: serve_def Handler_def)
    with probe probe_reached [OF assms(1) probe, of "sx_Panel x \<noteq> None" "rq_Method r"] show ?thesis
      by (cases "serve_mux (server_routes (sx_Panel x \<noteq> None)) (rq_Method r) esc")
        (auto simp: full_mux_def turned_away_def split: if_splits)
  next
    case no_probe: False
    obtain e g' where A: "Authorize g t r = (Some e, g')" using assms(2) False by (cases "Authorize g t r") auto
    have "rs_Status (writeError e) = 401 \<or> rs_Status (writeError e) = 403" using Authorize_codes [OF A] by auto
    with False no_probe A show ?thesis by (auto simp: serve_def Handler_def turned_away_def)
  qed
qed

text \<open>A path that only looks like the inference plane, from a client without any credential.\<close>

definition smuggled :: http_request where
  "smuggled = \<lparr>rq_Method = ''DELETE'', rq_Path = ''/v1/../api/v1/accounts/a1'', rq_Host = ''gw:18100'',
     rq_RemoteAddr = ''10.0.0.9:4000'', rq_Headers = [], rq_Cookies = [], rq_Query = [], rq_Body = []\<rparr>"

lemma planes_separated_witness:
  "\<forall>(x :: 'v srv_env) g st. snd (snd (serve x 0 ''/v1/%2e%2e/api/v1/accounts/a1'' smuggled (g, st))) = st"
proof (intro allI)
  fix x :: "'v srv_env" and g st
  have "escaped_path ''/v1/%2e%2e/api/v1/accounts/a1'' (rq_Path smuggled)" by code_simp
  moreover have "has_prefix (rq_Path smuggled) ''/v1/''" by code_simp
  moreover have "bearerToken smuggled = []" by code_simp
  then have "Authenticate sha t_now nw smuggled s = (Inl ErrUnauthorized, s)" for sha t_now nw s
    by (simp add: Authenticate_def)
  ultimately show "snd (snd (serve x 0 ''/v1/%2e%2e/api/v1/accounts/a1'' smuggled (g, st))) = st"
    by (intro planes_separated [THEN conjunct1]) simp_all
qed

end
