(* ===== verification/Contract.thy ===== *)
theory Contract
  imports App
begin

text \<open>
  The shape of every answer of the application (\<open>internal/errs\<close>, \<open>httpserver.WriteError\<close>):
  either a success, or one of the stable error codes with the HTTP status of that code and the
  JSON object clients decode.
\<close>

section \<open>Stable answers\<close>

definition succeeded :: "http_response \<Rightarrow> bool" where
  "succeeded resp \<longleftrightarrow> rs_Status resp = 200 \<or> rs_Status resp = 201 \<or> rs_Status resp = 202"

text \<open>The body is a JSON value, or its text on a connection, which may be gone before it is written.\<close>

definition stable_error :: "biz_error \<Rightarrow> http_response \<Rightarrow> bool" where
  "stable_error e resp \<longleftrightarrow> rs_Status resp = HTTPStatus (biz_code e) \<and>
     (rs_Body resp = JsonBody (error_body e) \<or> rs_Body resp = TextBody (render (\<lambda>x. []) (error_body e) @ [CHR 0x0A])
      \<or> rs_Body resp = TextBody [])"

definition typed :: "http_response \<Rightarrow> bool" where
  "typed resp \<longleftrightarrow> succeeded resp \<or> (\<exists>e. stable_error e resp)"

lemma typed_success [simp]:
  "typed (writeJSON 200 j)" "typed (writeJSON 201 j)" "typed (writeJSON 202 j)" "typed (data_list js)" "typed ok_true"
  "typed (stream_response bs)"
  by (simp_all add: typed_def succeeded_def stream_response_def)

lemma typed_error [simp]: "typed (writeError e)" "typed (invalid m)" "typed (internal_error m err)"
  by (auto simp: typed_def stable_error_def invalid_def internal_error_def intro!: exI)

lemma typed_bad [simp]: "typed bad_method" "typed bad_path" "typed (not_found_or a b err)" "typed (no_account err)"
  by (simp_all add: bad_method_def bad_path_def not_found_or_def no_account_def)

lemma typed_headers [simp]: "typed (resp\<lparr>rs_Headers := hs\<rparr>) = typed resp"
  by (simp add: typed_def succeeded_def stable_error_def)

lemma typed_list [simp]: "typed (list_answer m enc res)"
  by (simp add: list_answer_def split: sum.split)

section \<open>Management\<close>

lemma admin_typed:
  "typed (fst (handleProviders nw rnd r s))" "typed (fst (providerAction t nw r s))" "typed (fst (handleModels r s))"
  "typed (fst (handleTokens sha t nw h24 h4 r s))" "typed (fst (tokenAction t nw r s))" "typed (fst (handleProjects t nw rnd r s))"
  "typed (fst (projectAction t nw r s))" "typed (fst (handleRoutingPolicies r s))" "typed (fst (handleRoutingPolicyByAlias nw rnd r s))"
  "typed (fst (handlePriceVersions t nw rnd r s))" "typed (fst (handleUsageSummary r s))" "typed (fst (handleQuotaPools t nw r s))"
  "typed (fst (handleQuotaPoolSnapshots r s))" "typed (fst (handleJob r s))" "typed (fst (handleJobs r s))"
  "typed (fst (handleRequests r s))" "typed (fst (handleRequestDetail r s))"
  by (auto simp: handleProviders_def providerAction_def provider_update_def provider_delete_def handleModels_def
      handleTokens_def createToken_def token_in_error_def tokenAction_def handleProjects_def projectAction_def
      handleRoutingPolicies_def handleRoutingPolicyByAlias_def handlePriceVersions_def handleUsageSummary_def
      handleQuotaPools_def handleQuotaPoolSnapshots_def handleJob_def handleJobs_def handleRequests_def
      handleRequestDetail_def Let_def split: option.splits sum.splits if_splits)

lemma patches_typed:
  "patch_status env i st s = (Some resp, s') \<Longrightarrow> typed resp" "patch_name env i old nm s = (Some resp, s') \<Longrightarrow> typed resp"
  by (auto simp: patch_status_def patch_name_def split: option.splits sum.splits if_splits)

lemma account_typed:
  "typed (fst (createAccount env r w))" "typed (fst (updateAccount env i r w))" "typed (fst (deleteAccount env i w))"
  "typed (fst (rotateCredential env i acc r w))" "typed (fst (revokeAccount env i r w))" "typed (fst (accountManualQuota env i r w))"
  "typed (fst (refreshAccount env i r w))" "typed (fst (verify_action env i t w))" "typed (fst (discover_action env i acc t w))"
  by (auto simp: createAccount_def updateAccount_def deleteAccount_def rotateCredential_def revokeAccount_def
      accountManualQuota_def refreshAccount_def verify_action_def discover_action_def Let_def
      split: option.split sum.split prod.split dest: patches_typed)

lemma accounts_typed: "typed (fst (handleAccounts env r w))" "typed (fst (accountAction env r w))"
proof -
  have "typed (fst (accountSubAction env i action r w))" for i action
    by (simp add: accountSubAction_def account_typed accountQuota_def split: sum.split prod.split)
  then show "typed (fst (handleAccounts env r w))" "typed (fst (accountAction env r w))"
    by (auto simp: handleAccounts_def accountAction_def Let_def account_typed split: sum.split)
qed

lemma oauth_typed: "typed (fst (oauthAction env se r w))"
proof -
  have sp: "typed resp" if "start_provider env se n pid s = (Inl resp, s')" for n pid s resp s'
    using that by (auto simp: start_provider_def split: sum.splits prod.splits if_splits)
  have "typed (fst (oauthStart env se n r w))" for n
    by (auto simp: oauthStart_def start_answer_def Let_def split: option.split sum.split prod.split dest: sp)
  moreover have "typed (fst (oauthComplete env n r w))" for n
    by (auto simp: oauthComplete_def oauth_created_def Let_def split: option.split sum.split prod.split)
  moreover have "typed (oauthFlowStatus n st w)" for n st
    by (simp add: oauthFlowStatus_def split: option.split)
  ultimately show ?thesis by (simp add: oauthAction_def Let_def)
qed

section \<open>Gateway\<close>

lemma chat_typed: "typed (fst (handleChatCompletions gv tok r s))" "typed (fst (handleGatewayModels gv tok r s))"
proof -
  have "typed (fst (streamChat gv tok req rid s))" "typed (fst (plainChat gv tok req rid s))" for req rid
    by (auto simp: streamChat_def plainChat_def Let_def split: prod.split sum.split)
  then show "typed (fst (handleChatCompletions gv tok r s))" "typed (fst (handleGatewayModels gv tok r s))"
    by (auto simp: handleChatCompletions_def handleGatewayModels_def checkModelAllowed_def Let_def
        split: option.split sum.split)
qed

text \<open>A writer that was not used, or whose header is already sent as 200.\<close>

definition calm :: "client_writer \<Rightarrow> bool" where
  "calm cw \<longleftrightarrow> cw = new_writer \<or> cw_Status cw = Some 200"

lemma calm_new [simp]: "calm new_writer"
  by (simp add: calm_def)

lemma calm_status: "calm cw \<Longrightarrow> cw_Status (send_header 200 hs cw) = Some 200"
  by (auto simp: calm_def send_header_def new_writer_def)

lemma write_out_status [simp]: "cw_Status (snd (write_out re b cw)) = cw_Status cw"
  by (simp add: write_out_def split: option.split)

lemma calm_typed: "calm cw \<Longrightarrow> typed (writer_response cw)"
  by (auto simp: calm_def new_writer_def writer_response_def typed_def succeeded_def)

lemma calm_error: "calm cw \<Longrightarrow> typed (writer_response (answer_error re e cw))"
  by (auto simp: calm_def new_writer_def writer_response_def typed_def succeeded_def stable_error_def answer_error_def
      send_header_def write_out_def split: option.split intro!: exI [of _ e])

lemma stream_keeps:
  assumes "\<And>b w. Q w \<Longrightarrow> Q (snd (cb b w))"
  shows "Q w \<Longrightarrow> Q (snd (streamSSE cb ctx ending i ls tail meta w))"
proof (induction ls arbitrary: i meta w)
  case Nil
  with assms [OF Nil, of tail] show ?case by (auto split: option.split prod.split)
next
  case (Cons l ls)
  with assms [OF Cons.prems, of l] show ?case by (auto split: option.split prod.split)
qed

lemma responses_Forward_keeps:
  assumes "\<And>b w. Q w \<Longrightarrow> Q (snd (cb b w))" and "Q w" and "responses_Forward bad net ctx t body stream cb w = (x, w')"
  shows "Q w'"
proof -
  have plain: "Q w1" if "forward_plain resp cb w = (y, w1)" for resp y w1
    using assms(1) [OF assms(2), of "take maxBody (us_Data resp)"] assms(2) that
    by (auto simp: forward_plain_def Let_def split: option.splits prod.splits if_splits)
  have sse: "Q w1" if "streamSSE cb ctx ending 0 ls tail zero_meta w = (y, w1)" for ending ls tail y w1
    using stream_keeps [of Q cb w ctx ending 0 ls tail zero_meta] assms(1,2) that by simp
  show ?thesis
  proof (cases "bad (ho_URL (responses_request t body stream))")
    case (Some e)
    with assms(2,3) show ?thesis by (simp add: responses_Forward_def Let_def)
  next
    case ok: None
    show ?thesis
    proof (cases "net (responses_request t body stream)")
      case (Inl e)
      with assms(2,3) ok show ?thesis by (simp add: responses_Forward_def Let_def)
    next
      case (Inr resp)
      obtain ls tail where l: "split_lines (us_Data resp) = (ls, tail)" by (metis surj_pair)
      obtain m1 e1 w1 where p: "forward_plain resp cb w = ((m1, e1), w1)" by (metis surj_pair)
      obtain m2 e2 w2 where s: "streamSSE cb ctx (us_End resp) 0 ls tail zero_meta w = ((m2, e2), w2)" by (metis surj_pair)
      have "w' = w \<or> w' = w1 \<or> w' = w2"
        using assms(3) by (simp add: responses_Forward_def Let_def ok Inr l p s split: if_splits)
      with assms(2) plain [OF p] sse [OF s] show ?thesis by blast
    qed
  qed
qed

lemma forwardResponses_calm:
  assumes "calm (snd st)" and "forwardResponses env re i t body stream rid c st = (e, (s', cw'))"
  shows "calm cw'"
proof -
  let ?Q = "\<lambda>w. calm (snd w) \<and> (if fst w then cw_Status (snd w) = Some 200 else True)"
  have cb: "?Q (snd (resp_callback re stream b w))" if "?Q w" for b w
  proof -
    define cw1 where "cw1 = (if fst w then snd w else send_header 200 (if stream then [] else [(''Content-Type'', ''application/json'')]) (snd w))"
    have "cw_Status cw1 = Some 200" using that calm_status [of "snd w"] by (cases "fst w") (simp_all add: cw1_def)
    moreover obtain er cw2 where o': "write_out re b cw1 = (er, cw2)" by (metis surj_pair)
    ultimately have "cw_Status cw2 = Some 200" using write_out_status [of re b cw1] by simp
    then show ?thesis by (simp add: resp_callback_def cw1_def [symmetric] o' calm_def)
  qed
  obtain meta err started cw where F: "responses_Forward (re_BadURL re) (re_Net re i) (re_Ctx re i) t body stream
      (resp_callback re stream) (False, snd st) = ((meta, err), (started, cw))" by (metis surj_pair)
  have "calm cw" using responses_Forward_keeps [of ?Q, OF cb _ F] assms(1) by simp
  then show ?thesis using assms(2) by (auto simp: forwardResponses_def F Let_def split: option.splits if_splits)
qed

lemma responses_loop_calm:
  "calm (snd st) \<Longrightarrow> calm (snd (snd (responses_loop env re body stream rid i cs le st))) \<or>
    (\<exists>e cw. calm cw \<and> snd (snd (responses_loop env re body stream rid i cs le st)) = answer_error re e cw \<and>
       fst (responses_loop env re body stream rid i cs le st) = None)"
proof (induction cs arbitrary: i le st)
  case Nil
  then show ?case by simp
next
  case (Cons c cs)
  obtain s v cw where st: "st = ((s, v), cw)" by (metis surj_pair)
  show ?case
  proof (cases "GetAccount (rc_accountID c) s")
    case (Inl e)
    with Cons st show ?thesis by simp
  next
    case (Inr acc)
    obtain t s1 v1 where t: "resolveTarget env acc [] (s, v) = (t, (s1, v1))" by (metis surj_pair)
    show ?thesis
    proof (cases t)
      case (Inl e)
      with Cons st show ?thesis by (simp add: \<open>GetAccount (rc_accountID c) s = Inr acc\<close> t)
    next
      case tg: (Inr tg)
      show ?thesis
      proof (cases "rewriteResponsesModel body (rc_modelID c)")
        case (Inl e)
        with Cons.prems st show ?thesis by (auto simp: Inr t tg)
      next
        case up: (Inr up)
        obtain e s2 cw2 where f: "forwardResponses env re i \<lparr>rp_BaseURL = t_BaseURL tg, rp_Token = t_APIKey tg\<rparr>
            (Json.render (\<lambda>x. []) up) stream rid c (s1, cw) = (e, (s2, cw2))" by (metis surj_pair)
        with forwardResponses_calm [OF _ f] Cons.prems st have "calm cw2" by simp
        with Cons.IH show ?thesis by (auto simp: st Inr t tg up f split: option.split)
      qed
    qed
  qed
qed

lemma handleResponses_typed: "typed (writer_response (fst (handleResponses env re tok r w)))"
proof -
  have "typed (writer_response (snd (relay_responses env re body m stream rid cands (w, new_writer))))" for body m stream rid cands
  proof -
    obtain o' s1 v1 cw1 where l: "responses_loop env re body stream rid 0 cands None (w, new_writer) = (o', ((s1, v1), cw1))"
      by (metis surj_pair)
    from responses_loop_calm [of "(w, new_writer)" env re body stream rid 0 cands None]
    have "calm cw1 \<or> (\<exists>e cw. calm cw \<and> cw1 = answer_error re e cw \<and> o' = None)" by (simp add: l)
    then show ?thesis
      by (auto simp: relay_responses_def l Let_def calm_typed calm_error split: option.split)
  qed
  then show ?thesis
    by (auto simp: handleResponses_def Let_def calm_error split: option.split sum.split prod.split) (metis snd_conv)
qed

text \<open>The event reader of the Messages endpoint only writes: the status stays.\<close>

lemma feed_status: "cw_Status (snd (feed (message_cb re) bs cw)) = cw_Status cw"
proof (induction bs arbitrary: cw)
  case Nil
  then show ?case by simp
next
  case (Cons b bs)
  obtain e cw2 where o': "message_cb re b cw = (e, cw2)" by (metis surj_pair)
  then have "cw_Status cw2 = cw_Status cw" using write_out_status [of re b cw] by (simp add: message_cb_def)
  with Cons o' show ?case by (auto split: option.split)
qed

lemma events_status: "consumeAnthropicSSE ce reads ending (message_cb re) cw = (e, cw') \<Longrightarrow> cw_Status cw' = cw_Status cw"
proof -
  assume a: "consumeAnthropicSSE ce reads ending (message_cb re) cw = (e, cw')"
  obtain evs rest where c: "cut_events (concat reads) = (evs, rest)" by (metis surj_pair)
  have cut_nil: "cut_events [] = ([], [])" by (subst cut_events.simps) simp
  let ?all = "if ending = None \<and> rest \<noteq> [] then evs @ [rest] else evs"
  have "consumeAnthropicSSE ce reads ending (message_cb re) cw =
      (case feed (message_cb re) ?all cw of (Some e, w') \<Rightarrow> (Some e, w') | (None, w') \<Rightarrow> (end_error ce ending, w'))"
    using anthropic_loop_feed [of "[]" "message_cb re" ce ending reads cw]
    by (simp add: consumeAnthropicSSE_def c Let_def cut_nil del: cut_events.simps)
  with a feed_status [of re ?all cw] show ?thesis by (auto split: prod.splits option.splits)
qed

lemma forwardAnthropic_calm:
  assumes "calm (snd st)" and "forwardAnthropic env re gv i r t body stream rid aid m st = (e, (s', cw'))"
  shows "calm cw'"
proof -
  have "calm cw2" if "consumeAnthropicSSE ce reads ending (message_cb re) (send_header 200 hs (snd st)) = (er, cw2)" for ce reads ending hs er cw2
    using events_status [OF that] calm_status [OF assms(1)] by (simp add: calm_def)
  moreover have "calm (snd (write_out re b (send_header 200 hs (snd st))))" for b hs
    using calm_status [OF assms(1)] by (simp add: calm_def)
  ultimately show ?thesis
    using assms by (auto simp: forwardAnthropic_def Let_def split: option.splits sum.splits prod.splits if_splits)
qed

lemma messages_loop_calm:
  "calm (snd st) \<Longrightarrow> calm (snd (snd (messages_loop env re gv r stream rid i cs le st))) \<or>
    (\<exists>e cw. calm cw \<and> snd (snd (messages_loop env re gv r stream rid i cs le st)) = answer_error re e cw \<and>
       fst (messages_loop env re gv r stream rid i cs le st) = None)"
proof (induction cs arbitrary: i le st)
  case Nil
  then show ?case by simp
next
  case (Cons c cs)
  obtain s v cw where st: "st = ((s, v), cw)" by (metis surj_pair)
  show ?case
  proof (cases "GetAccount (cd_AccountID c) s")
    case (Inl e)
    with Cons st show ?thesis by simp
  next
    case acc: (Inr acc)
    obtain t s1 v1 where t: "resolveTarget env acc [] (s, v) = (t, (s1, v1))" by (metis surj_pair)
    show ?thesis
    proof (cases t)
      case (Inl e)
      with Cons st show ?thesis by (simp add: acc t)
    next
      case tg: (Inr tg)
      show ?thesis
      proof (cases "rewriteAnthropicModel (rq_Body r) (cd_ModelID c)")
        case (Inl e)
        with Cons.prems st show ?thesis by (auto simp: acc t tg)
      next
        case up: (Inr up)
        obtain e s2 cw2 where f: "forwardAnthropic env re gv i r tg (Json.render (\<lambda>x. []) up) stream rid (ac_ID acc) (cd_ModelID c)
            (s1, cw) = (e, (s2, cw2))" by (metis surj_pair)
        with forwardAnthropic_calm [OF _ f] Cons.prems st have "calm cw2" by simp
        with Cons.IH show ?thesis by (auto simp: st acc t tg up f split: option.split)
      qed
    qed
  qed
qed

lemma messages_typed:
  "typed (writer_response (fst (handleAnthropicMessages env re gv tok r w)))"
  "typed (writer_response (fst (handleAnthropicCountTokens env re tok r w)))"
proof -
  have "typed (writer_response (snd (relay_messages_to env re gv r stream rid cands (w, new_writer))))" for stream rid cands
  proof -
    obtain o' s1 v1 cw1 where l: "messages_loop env re gv r stream rid 0 cands None (w, new_writer) = (o', ((s1, v1), cw1))"
      by (metis surj_pair)
    from messages_loop_calm [of "(w, new_writer)" env re gv r stream rid 0 cands None]
    have "calm cw1 \<or> (\<exists>e cw. calm cw \<and> cw1 = answer_error re e cw \<and> o' = None)" by (simp add: l)
    then show ?thesis by (auto simp: relay_messages_to_def l calm_typed calm_error split: option.split)
  qed
  then show "typed (writer_response (fst (handleAnthropicMessages env re gv tok r w)))"
    by (auto simp: handleAnthropicMessages_def Let_def calm_error split: option.split sum.split prod.split) (metis snd_conv)
  have "calm (snd (write_out re b (send_header 200 hs new_writer)))" for b hs
    using calm_status [OF calm_new] by (simp add: calm_def)
  then have "typed (writer_response (count_answer re r t up))" for t up
    by (auto simp: count_answer_def Let_def calm_error calm_typed split: option.split sum.split)
  then show "typed (writer_response (fst (handleAnthropicCountTokens env re tok r w)))"
    by (auto simp: handleAnthropicCountTokens_def Let_def calm_error split: option.split sum.split list.split prod.split)
qed

section \<open>Every answer\<close>

lemma token_route_typed:
  assumes "\<And>tok r w. typed (fst (h tok r w))"
  shows "typed (fst (token_route gv h r st))"
  using assms by (simp add: token_route_def requireToken_def Let_def case_prod_beta split: sum.split)

lemma routes_fst:
  "fst (on_world h r st) = fst (h r (fw_world (fst st)))" "fst (on_db dh r st) = fst (dh r (fst (fw_world (fst st))))"
  "fst (on_flows fh r st) = fst (fh r (fst st))"
  "fst (written wh tok r w) = writer_response (fst (wh tok r w))"
  by (simp_all add: on_world_def on_db_def on_flows_def written_def case_prod_beta)

text \<open>
  C3: every answer of the application has one of two shapes, whatever the request, the state
  and the platforms do: a success (200, 201 or 202), or a stable error, whose status is that of
  its code and whose body is \<open>{"error": {"code", "message", "retryable"}}\<close>. A stream that
  fails after its header was sent has the status 200.
\<close>

theorem answers_typed: "typed (fst (app_route x m r st))"
  by (cases m; simp only: app_route.simps)
    (intro token_route_typed | simp add: routes_fst admin_typed accounts_typed oauth_typed chat_typed
      handleResponses_typed messages_typed)+

end
