(* ===== verification/Integrity.thy ===== *)
theory Integrity
  imports App
begin

text \<open>
  What holds of the database whatever is requested. A property of the database that every call
  of the repository keeps is kept by every handler, whatever it answers and wherever it stops:
  the handlers reach the database through the repository only. The first such property is that
  keys and references stay intact; \<open>Lifetime\<close> adds the journals.
\<close>

section \<open>A property the repository keeps\<close>

locale store_invariant =
  fixes P :: "db \<Rightarrow> bool"
  assumes run_op_keeps: "P s \<Longrightarrow> run_op nw op s = Inr s' \<Longrightarrow> P s'"
begin

lemmas op_keeps_plain =
  run_op_keeps [rotated, where op = "OpCreateProvider p", simplified]
  run_op_keeps [rotated, where op = "OpUpdateProvider i nm bu", simplified]
  run_op_keeps [rotated, where op = "OpDeleteProvider i", simplified]
  run_op_keeps [rotated, where op = "OpCreateAccount acc", simplified]
  run_op_keeps [rotated, where op = "OpSetAccountStatus i v", simplified]
  run_op_keeps [rotated, where op = "OpSetAccountAuthState i v", simplified]
  run_op_keeps [rotated, where op = "OpUpdateAccountSecretRef i acc", simplified]
  run_op_keeps [rotated, where op = "OpSetAccountVerifiedAt i v", simplified]
  run_op_keeps [rotated, where op = "OpSetAccountCredentialRef i v sv ac fp", simplified]
  run_op_keeps [rotated, where op = "OpSetAccountName i v", simplified]
  run_op_keeps [rotated, where op = "OpDeleteAccount i", simplified]
  run_op_keeps [rotated, where op = "OpUpsertModels ms", simplified]
  run_op_keeps [rotated, where op = "OpSaveAccountModels i infos", simplified]
  run_op_keeps [rotated, where op = "OpSaveRoutingPolicy pol", simplified]
  run_op_keeps [rotated, where op = "OpDeleteRoutingPolicy i", simplified]
  run_op_keeps [rotated, where op = "OpRecordUsageEvent ue", simplified]
  run_op_keeps [rotated, where op = "OpSaveAccountCapabilities i caps", simplified]
  run_op_keeps [rotated, where op = "OpSaveQuotaPool pool", simplified]
  run_op_keeps [rotated, where op = "OpSaveQuotaSnapshot q", simplified]
  run_op_keeps [rotated, where op = "OpUpsertRefreshJob j", simplified]
  run_op_keeps [rotated, where op = "OpUpdateRefreshJobState i st fi nx su rc cd", simplified]
  run_op_keeps [rotated, where op = "OpCreateAttempt ra", simplified]
  run_op_keeps [rotated, where op = "OpFinishAttempt ra", simplified]
  run_op_keeps [rotated, where op = "OpUpsertPriceVersion pr", simplified]
  run_op_keeps [rotated, where op = "OpCreateToken tok", simplified]
  run_op_keeps [rotated, where op = "OpSetTokenEnabled i en", simplified]
  run_op_keeps [rotated, where op = "OpDeleteToken i", simplified]
  run_op_keeps [rotated, where op = "OpTouchToken i", simplified]
  run_op_keeps [rotated, where op = "OpCreateProject pj", simplified]
  run_op_keeps [rotated, where op = "OpDeleteProject i", simplified]
  run_op_keeps [rotated, where op = "OpSaveResponseBinding rb", simplified]
  run_op_keeps [rotated, where op = "OpRecordAuditEvent ac an tg dt ti", simplified]
  for p i nm bu acc v sv ac fp ms infos pol ue caps pool q j st fi nx su rc cd ra pr tok en pj rb an tg dt ti

lemma marks_keep_any:
  "MarkInterruptedRefreshJobs nw s = Inr (n, s') \<Longrightarrow> P s \<Longrightarrow> P s'"
  "MarkStaleAttemptsInterrupted nw s = Inr (n, s') \<Longrightarrow> P s \<Longrightarrow> P s'"
  using run_op_keeps [of s nw OpMarkInterruptedRefreshJobs s'] run_op_keeps [of s nw OpMarkStaleAttemptsInterrupted s']
  by simp_all

lemmas op_keeps = op_keeps_plain marks_keep_any

lemma keep_db_keeps [simp]:
  assumes "P s"
  shows "P (keep_db s (SetAccountStatus i v nw s))" "P (keep_db s (SetAccountAuthState i v nw s))"
    "P (keep_db s (SetAccountVerifiedAt i v nw s))" "P (keep_db s (UpdateAccountSecretRef i acc nw s))"
    "P (keep_db s (RecordAuditEvent a1 a2 a3 a4 ti nw s))" "P (keep_db s (RecordUsageEvent ue nw s))"
    "P (keep_db s (CreateAttempt ra nw s))" "P (keep_db s (FinishAttempt ra nw s))"
    "P (keep_db s (SaveResponseBinding rb nw s))"
  using assms by (auto simp: keep_db_def split: sum.split dest: op_keeps)

lemma audit_keeps [simp]: "P s \<Longrightarrow> P (audit t nw a g d s)" "P s \<Longrightarrow> P (audit_in env a g d s)"
  by (simp_all add: audit_def audit_in_def)

section \<open>Management handlers\<close>

lemma admin_keeps:
  assumes "P s"
  shows "P (snd (handleProviders nw rnd r s))" "P (snd (providerAction t nw r s))" "P (snd (handleModels r s))"
    "P (snd (handleTokens sha t nw h24 h4 r s))" "P (snd (tokenAction t nw r s))" "P (snd (handleProjects t nw rnd r s))"
    "P (snd (projectAction t nw r s))" "P (snd (handleRoutingPolicies r s))" "P (snd (handleRoutingPolicyByAlias nw rnd r s))"
    "P (snd (handlePriceVersions t nw rnd r s))" "P (snd (handleUsageSummary r s))" "P (snd (handleQuotaPools t nw r s))"
    "P (snd (handleQuotaPoolSnapshots r s))" "P (snd (handleJob r s))" "P (snd (handleJobs r s))"
    "P (snd (handleRequests r s))" "P (snd (handleRequestDetail r s))"
  using assms
  by (auto simp: handleProviders_def providerAction_def provider_update_def provider_delete_def handleModels_def
      handleTokens_def createToken_def tokenAction_def handleProjects_def projectAction_def handleRoutingPolicies_def
      handleRoutingPolicyByAlias_def handlePriceVersions_def handleUsageSummary_def handleQuotaPools_def
      handleQuotaPoolSnapshots_def handleJob_def handleJobs_def handleRequests_def handleRequestDetail_def Let_def
      split: option.split sum.split dest: op_keeps)

lemma resolve_keeps:
  assumes "P (fst w)"
  shows "P (fst (snd (resolveTarget env acc m w)))"
  using assms by (auto simp: resolveTarget_def resolveOAuthTarget_def Let_def split: sum.split option.split prod.split)

lemma RunDiscover_keeps:
  assumes "P (fst w)"
  shows "P (fst (snd (RunDiscover env acc w)))"
  using resolve_keeps [OF assms, of env acc "[]"]
  by (auto simp: RunDiscover_def split: sum.split prod.split dest: op_keeps)

lemma Check_keeps:
  assumes "P (fst w)"
  shows "P (fst (snd (Check env acc w)))"
  using resolve_keeps [OF assms, of env acc "[]"] assms
  by (auto simp: Check_def Let_def split: sum.split prod.split dest: op_keeps)

text \<open>The same for the state a call is seen to end in.\<close>

lemma ends:
  assumes "P (fst w)"
  shows "resolveTarget env acc m w = (res, (s', v')) \<Longrightarrow> P s'" "RunDiscover env acc w = (err, (s', v')) \<Longrightarrow> P s'"
    "Check env acc w = (caps, (s', v')) \<Longrightarrow> P s'"
  using resolve_keeps [OF assms, of env acc m] RunDiscover_keeps [OF assms, of env acc] Check_keeps [OF assms, of env acc]
  by simp_all

lemma run_stmt_keeps:
  assumes "P (fst w)" and "\<And>s s'. f s = Inr s' \<Longrightarrow> P s \<Longrightarrow> P s'"
  shows "P (fst (run_stmt fst_part f w))"
  using assms by (auto simp: run_stmt_def fst_part_def split: sum.split)

lemma runJob_keeps:
  assumes "P (fst w)" and "\<And>i w. P (fst w) \<Longrightarrow> P (fst (snd (fn i w)))"
  shows "P (fst (runJob fst_part cfg ck job fn w))"
proof -
  obtain err w1 where e: "fn (rj_AccountID job) w = (err, w1)" by (cases "fn (rj_AccountID job) w") auto
  with assms(2) [OF assms(1), of "rj_AccountID job"] have "P (fst w1)" by simp
  then show ?thesis
    by (auto simp: runJob_def Let_def e intro!: run_stmt_keeps dest: op_keeps split: option.split)
qed

lemma Enqueue_keeps:
  assumes "P (fst w)" and "\<And>cp fn i w. jobs cp = Some fn \<Longrightarrow> P (fst w) \<Longrightarrow> P (fst (snd (fn i w)))"
  shows "P (fst (snd (Enqueue fst_part jobs cfg ck fl acct cp w)))"
  using assms
  by (auto simp: Enqueue_def Let_def fst_part_def split: option.split sum.split dest: op_keeps
      intro!: runJob_keeps [unfolded fst_part_def])

lemma sched_jobs_keep: "sched_jobs env cp = Some fn \<Longrightarrow> P (fst w) \<Longrightarrow> P (fst (snd (fn i w)))"
  by (auto simp: sched_jobs_def RunDiscover_keeps split: if_splits sum.split prod.split intro: ends(3))

lemma create_account_keeps: "P (fst w) \<Longrightarrow> P (fst (snd (createAccount env r w)))"
  by (auto simp: createAccount_def Let_def split: option.split sum.split prod.split dest: op_keeps)

lemma patches_keep:
  "patch_status env i st s = (resp, s') \<Longrightarrow> P s \<Longrightarrow> P s'" "patch_name env i old nm s = (resp, s') \<Longrightarrow> P s \<Longrightarrow> P s'"
  by (auto simp: patch_status_def patch_name_def split: option.splits sum.splits if_splits dest: op_keeps)

lemma update_account_keeps: "P (fst w) \<Longrightarrow> P (fst (snd (updateAccount env i r w)))"
  by (auto simp: updateAccount_def split: option.split sum.split prod.split dest!: patches_keep)

lemma delete_account_keeps: "P (fst w) \<Longrightarrow> P (fst (snd (deleteAccount env i w)))"
  by (auto simp: deleteAccount_def split: sum.split dest: op_keeps)

lemma rotate_keeps: "P (fst w) \<Longrightarrow> P (fst (snd (rotateCredential env i acc r w)))"
  by (auto simp: rotateCredential_def Let_def split: option.split sum.split prod.split dest: op_keeps)

lemma revoke_keeps: "P (fst w) \<Longrightarrow> P (fst (snd (revokeAccount env i r w)))"
  by (auto simp: revokeAccount_def Let_def split: option.split sum.split prod.split)

lemma manual_quota_keeps: "P (fst w) \<Longrightarrow> P (fst (snd (accountManualQuota env i r w)))"
  by (auto simp: accountManualQuota_def ManualSupplement_def Let_def map_sum_Inr split: option.split sum.split dest: op_keeps)

lemma refresh_keeps:
  assumes "P (fst w)"
  shows "P (fst (snd (refreshAccount env i r w)))"
proof -
  have "P (fst (snd (Enqueue fst_part (sched_jobs env) DefaultConfig (ev_Sched env) (ev_Inflight env) i cp w)))" for cp
    using assms by (intro Enqueue_keeps) (auto intro: sched_jobs_keep)
  then have "Enqueue fst_part (sched_jobs env) DefaultConfig (ev_Sched env) (ev_Inflight env) i cp w = (x, (s', v')) \<Longrightarrow> P s'" for cp x s' v'
    by (metis fst_conv snd_conv)
  then show ?thesis
    using assms by (auto simp: refreshAccount_def split: sum.split option.split prod.split)
qed

lemma verify_keeps: "P (fst w) \<Longrightarrow> P (fst (snd (verify_action env i t w)))"
  by (auto simp: verify_action_def Let_def split: option.split)

lemma discover_keeps: "P (fst w) \<Longrightarrow> P (fst (snd (discover_action env i acc t w)))"
  by (auto simp: discover_action_def split: sum.split dest: op_keeps)

lemmas account_keeps = create_account_keeps update_account_keeps delete_account_keeps rotate_keeps revoke_keeps
  manual_quota_keeps refresh_keeps verify_keeps discover_keeps

lemma sub_action_keeps:
  assumes "P (fst w)"
  shows "P (fst (snd (accountSubAction env i action r w)))"
proof (cases "GetAccount i (fst w)")
  case (Inl e)
  with assms show ?thesis by (simp add: accountSubAction_def)
next
  case (Inr acc)
  obtain t w1 where t: "resolveTarget env acc [] w = (t, w1)" by (metis surj_pair)
  have "P (fst w1)" using resolve_keeps [OF assms, of env acc "[]"] t by simp
  moreover obtain cs w2 where c: "Check env acc w = (cs, w2)" by (metis surj_pair)
  moreover have "P (fst w2)" using Check_keeps [OF assms, of env acc] c by simp
  ultimately show ?thesis
    using assms by (simp add: accountSubAction_def Inr t account_keeps split: sum.split)
qed

lemma accounts_keep:
  assumes "P (fst w)"
  shows "P (fst (snd (handleAccounts env r w)))" "P (fst (snd (accountAction env r w)))"
  using assms by (auto simp: handleAccounts_def accountAction_def Let_def account_keeps sub_action_keeps split: sum.split)

section \<open>OAuth flows\<close>

lemma set_flow_world [simp]: "fw_world (set_flow k f w) = fw_world w"
  by (simp add: set_flow_def)

lemma exchange_world [simp]: "fst (fw_world (snd (flow_exchange env p n cb w))) = fst (fw_world w)"
  by (simp add: flow_exchange_def split: prod.split)

lemma check_world [simp]: "fw_world (snd (flow_check k res w)) = fw_world w"
  by (auto simp: flow_check_def split: sum.split)

lemma create_keeps: "P (fst (fw_world w)) \<Longrightarrow> P (fst (fw_world (snd (flow_create env k fl ref w))))"
  by (auto simp: flow_create_def Let_def split: sum.split prod.split dest: op_keeps)

lemma complete_keeps:
  assumes "P (fst (fw_world w))"
  shows "P (fst (fw_world (snd (completeFlowAccount env fl cb w))))"
proof (cases "ev_OAuth env (fl_provider fl)")
  case None
  with assms show ?thesis by (simp add: completeFlowAccount_def)
next
  case (Some p)
  obtain res w1 where e: "flow_exchange env p (fl_provider fl) cb w = (res, w1)" by (metis surj_pair)
  obtain ans w2 where c: "flow_check (fl_state fl) res w1 = (ans, w2)" by (metis surj_pair)
  have "P (fst (fw_world w2))"
    using assms exchange_world [of env p "fl_provider fl" cb w] check_world [of "fl_state fl" res w1] by (simp add: e c)
  then show ?thesis by (simp add: completeFlowAccount_def Some e c create_keeps split: sum.split)
qed

lemma oauth_keeps:
  assumes "P (fst (fw_world w))"
  shows "P (fst (fw_world (snd (oauthAction env se r w))))"
proof -
  have sp: "P (snd (start_provider env se n pid s))" if "P s" for n pid s
    using that by (auto simp: start_provider_def ensureProvider_def Let_def split: sum.split option.split prod.split dest: op_keeps)
  have start: "P (fst (fw_world (snd (oauthStart env se n r w))))" for n
    using assms sp [OF assms, of n "lenient_field ''provider_id'' (rq_Body r)"]
    by (auto simp: oauthStart_def Let_def flows_add_def split: option.split sum.split prod.split)
  have fin: "P (fst (fw_world (snd (oauthComplete env n r w))))" for n
    using assms complete_keeps [OF assms, of env]
    by (auto simp: oauthComplete_def Let_def split: option.split sum.split prod.split) (metis snd_conv)+
  show ?thesis using assms start fin by (simp add: oauthAction_def Let_def)
qed

section \<open>The gateway\<close>

lemma hooks_keep:
  assumes "P s"
  shows "P (snd (hook_Start (Recorder rc) i info s))" "P (hook_Finish (Recorder rc) i rid att res s)"
  using assms by (simp_all add: Recorder_def Recorder_StartAttempt_def Recorder_FinishAttempt_def)

lemma feed_keeps:
  assumes "\<And>b w. Q w \<Longrightarrow> Q (snd (cb b w))"
  shows "Q w \<Longrightarrow> Q (snd (feed cb bs w))"
proof (induction bs arbitrary: w)
  case Nil
  then show ?case by simp
next
  case (Cons b bs)
  with assms [OF Cons.prems, of b] show ?case by (auto split: prod.split option.split)
qed

lemma streamer_keeps:
  assumes "P (fst (ss_world s))"
  shows "P (fst (ss_world (snd (snd (real_streamer ce i impl t req (wrapped (on_chunk gv)) (fl, s))))))"
proof -
  obtain bs where bs: "snd (real_streamer ce i impl t req (wrapped (on_chunk gv)) (fl, s)) = snd (feed (wrapped (on_chunk gv)) bs (fl, s))"
    using conn.only_callback by blast
  have "P (fst (ss_world (snd (snd (feed (wrapped (on_chunk gv)) bs (fl, s))))))"
    using assms by (intro feed_keeps [of "\<lambda>w. P (fst (ss_world (snd w)))"])
      (auto simp: wrapped_def on_chunk_def write_chunk_def split: prod.split option.split)
  then show ?thesis by (simp add: bs)
qed

text \<open>The recorder and the resolver of a request, where the database is a part of the state.\<close>

lemma lifted_keep:
  assumes "\<And>s t. rd (wr s t) = s" and "P (rd t)"
  shows "P (rd (snd (hook_Start (hook_on rd wr (Recorder rc)) i info t)))"
    "P (rd (hook_Finish (hook_on rd wr (Recorder rc)) i rid att res t))"
  using hooks_keep [OF assms(2)]
  by (auto simp: hook_on_def assms(1) split: prod.split) (metis snd_conv)

lemma router_keeps:
  assumes "P (fst w)"
  shows "P (fst (snd (world_resolver gv i a w)))"
  using assms resolve_keeps [OF assms] by (auto simp: world_resolver_def ResolveForRouter_def split: sum.split prod.split) (metis fst_conv snd_conv)+

lemma stream_router_keeps:
  assumes "P (fst (ss_world st))"
  shows "P (fst (ss_world (snd (stream_resolver gv i a st))))"
  using router_keeps [OF assms, of gv i a] by (auto simp: stream_resolver_def split: prod.split)

lemma run_stream_keeps: "P (fst w) \<Longrightarrow> P (fst (ss_world (snd (run_stream gv tok req rid w))))"
  unfolding run_stream_def stream_hook_def
  by (rule ForwardStream_keeps [where Q = "\<lambda>st. P (fst (ss_world st))"])
    (simp_all add: lifted_keep [where rd = "fst \<circ> ss_world", simplified] stream_router_keeps streamer_keeps)

lemma usage_keeps [simp]: "P s \<Longrightarrow> P (recordUsage gv rid m d u ec s)"
  by (simp add: recordUsage_def)

lemma chat_keeps:
  assumes "P (fst w)"
  shows "P (fst (snd (handleChatCompletions gv tok r w)))" "P (fst (snd (handleGatewayModels gv tok r w)))"
proof -
  have "P (fst (snd (streamChat gv tok req rid w)))" for req rid
    using run_stream_keeps [OF assms, of gv tok req rid]
    by (auto simp: streamChat_def Let_def split: prod.split sum.split)
  moreover have "P (fst (snd (plainChat gv tok req rid w)))" for req rid
  proof -
    have "P (fst (snd (Forward fst (Some (world_hook (Recorder (request_recorder gv tok)))) (world_resolver gv)
        (real_forwarder (gv_Calls gv)) (gv_Lat gv) (gv_Unix gv) (cr_Model req) req rid w)))"
      unfolding world_hook_def
      by (rule Forward_keeps [where Q = "\<lambda>w. P (fst w)"]) (simp_all add: lifted_keep router_keeps assms)
    then show ?thesis by (auto simp: plainChat_def Let_def split: prod.split sum.split)
  qed
  ultimately show "P (fst (snd (handleChatCompletions gv tok r w)))" "P (fst (snd (handleGatewayModels gv tok r w)))"
    using assms by (auto simp: handleChatCompletions_def handleGatewayModels_def Let_def split: option.split sum.split)
qed

section \<open>Responses and messages\<close>

lemma responses_usage_keeps [simp]: "P s \<Longrightarrow> P (recordResponsesUsage env re i rid m aid meta ec s)"
  by (simp add: recordResponsesUsage_def)

lemma forwardResponses_keeps: "P (fst st) \<Longrightarrow> P (fst (snd (forwardResponses env re i t body stream rid c st)))"
  by (auto simp: forwardResponses_def Let_def split: prod.split option.split)

lemma responses_loop_keeps:
  "P (fst (fst st)) \<Longrightarrow> P (fst (fst (snd (responses_loop env re body stream rid i cs le st))))"
proof (induction cs arbitrary: i le st)
  case Nil
  then show ?case by simp
next
  case (Cons c cs)
  obtain s v cw where st: "st = ((s, v), cw)" by (metis surj_pair)
  show ?case
  proof (cases "GetAccount (rc_accountID c) s")
    case (Inl e)
    with Cons st show ?thesis by simp
  next
    case (Inr acc)
    obtain t s1 v1 where t: "resolveTarget env acc [] (s, v) = (t, (s1, v1))" by (metis surj_pair)
    have s1: "P s1" using resolve_keeps [of "(s, v)" env acc "[]"] Cons.prems st t by simp
    have fw: "P s2" if "forwardResponses env re i tg b stream rid c (s1, cw) = (e, (s2, cw2))" for tg b e s2 cw2
      using forwardResponses_keeps [of "(s1, cw)" env re i tg b stream rid c] s1 that by simp
    show ?thesis
      using Cons.IH s1 fw by (auto simp: st Inr t split: sum.split prod.split option.split)
  qed
qed

lemma relay_responses_keeps:
  assumes "P (fst (fst st))"
  shows "P (fst (fst (relay_responses env re body m stream rid cands st)))"
  using responses_loop_keeps [OF assms, of env re body stream rid 0 cands None]
  by (auto simp: relay_responses_def Let_def split: prod.split option.split)

lemma handleResponses_keeps: "P (fst w) \<Longrightarrow> P (fst (snd (handleResponses env re tok r w)))"
  using relay_responses_keeps [of "(w, new_writer)"]
  by (auto simp: handleResponses_def Let_def split: option.split sum.split prod.split) (metis fst_conv)

lemma forwardAnthropic_keeps: "P (fst st) \<Longrightarrow> P (fst (snd (forwardAnthropic env re gv i r t body stream rid aid m st)))"
  by (auto simp: forwardAnthropic_def recordAnthropicUsage_def Let_def split: prod.split option.split sum.split)

lemma messages_loop_keeps:
  "P (fst (fst st)) \<Longrightarrow> P (fst (fst (snd (messages_loop env re gv r stream rid i cs le st))))"
proof (induction cs arbitrary: i le st)
  case Nil
  then show ?case by simp
next
  case (Cons c cs)
  obtain s v cw where st: "st = ((s, v), cw)" by (metis surj_pair)
  show ?case
  proof (cases "GetAccount (cd_AccountID c) s")
    case (Inl e)
    with Cons st show ?thesis by simp
  next
    case (Inr acc)
    obtain t s1 v1 where t: "resolveTarget env acc [] (s, v) = (t, (s1, v1))" by (metis surj_pair)
    have s1: "P s1" using resolve_keeps [of "(s, v)" env acc "[]"] Cons.prems st t by simp
    have fw: "P s2" if "forwardAnthropic env re gv i r tg b stream rid a m (s1, cw) = (e, (s2, cw2))" for tg b a m e s2 cw2
      using forwardAnthropic_keeps [of "(s1, cw)" env re gv i r tg b stream rid a m] s1 that by simp
    show ?thesis
      using Cons.IH s1 fw by (auto simp: st Inr t split: sum.split prod.split option.split)
  qed
qed

lemma messages_keep:
  assumes "P (fst w)"
  shows "P (fst (snd (handleAnthropicMessages env re gv tok r w)))" "P (fst (snd (handleAnthropicCountTokens env re tok r w)))"
proof -
  have "P (fst (fst (relay_messages_to env re gv r stream rid cands (w, new_writer))))" for stream rid cands
    using messages_loop_keeps [of "(w, new_writer)" env re gv r stream rid 0 cands None] assms
    by (auto simp: relay_messages_to_def Let_def split: prod.split option.split)
  then show "P (fst (snd (handleAnthropicMessages env re gv tok r w)))"
    using assms by (auto simp: handleAnthropicMessages_def Let_def split: option.split sum.split prod.split) (metis fst_conv)
  show "P (fst (snd (handleAnthropicCountTokens env re tok r w)))"
    using assms
    by (auto simp: handleAnthropicCountTokens_def Let_def split: option.split sum.split prod.split list.split intro: ends(1))
qed

section \<open>Every request\<close>

lemma token_route_keeps:
  assumes "P (fst (fw_world (fst st)))" and "\<And>tok r w. P (fst w) \<Longrightarrow> P (fst (snd (h tok r w)))"
  shows "P (fst (fw_world (fst (snd (token_route gv h r st)))))"
proof -
  obtain s v where w: "fw_world (fst st) = (s, v)" by (metis surj_pair)
  obtain res s1 where A: "Authenticate (gv_Sha gv) (gv_Now gv) (gv_nw gv) r s = (res, s1)" by (metis surj_pair)
  have "P s1" using A assms(1) w
    by (auto simp: Authenticate_def Let_def split: if_splits sum.splits option.splits dest: op_keeps)
  with assms(2) [of "(s1, v)"] show ?thesis
    by (auto simp: token_route_def requireToken_def w A Let_def split: sum.split prod.split) (metis fst_conv snd_conv)+
qed

lemma app_route_keeps:
  assumes "P (fst (fw_world (fst st)))"
  shows "P (fst (fw_world (fst (snd (app_route x m r st)))))"
proof -
  have w: "P (fst (fw_world (fst (snd (on_world h r st)))))" if "P (fst (snd (h r (fw_world (fst st)))))" for h
    using that by (auto simp: on_world_def split: prod.split)
  have d: "P (fst (fw_world (fst (snd (on_db h r st)))))" if "P (snd (h r (fst (fw_world (fst st)))))" for h
    using that by (auto simp: on_db_def on_world_def split: prod.split)
  have f: "P (fst (fw_world (fst (snd (on_flows h r st)))))" if "P (fst (fw_world (snd (h r (fst st)))))" for h
    using that by (auto simp: on_flows_def split: prod.split)
  have k: "P (fst (fw_world (fst (snd (token_route gv h r st)))))"
    if "\<And>tok r w. P (fst w) \<Longrightarrow> P (fst (snd (h tok r w)))" for gv h
    using assms that by (rule token_route_keeps)
  have c: "P (fst (snd (written h tok r w)))" if "P (fst (snd (h tok r w)))" for h tok r and w :: "'a world"
    using that by (auto simp: written_def split: prod.split)
  show ?thesis
    by (cases m; simp only: app_route.simps)
      (intro w d f k c; simp add: assms admin_keeps accounts_keep oauth_keeps chat_keeps
        handleResponses_keeps messages_keep)+
qed

lemma serve_keeps:
  assumes "P (fst (fw_world (fst (snd w))))"
  shows "P (fst (fw_world (fst (snd (snd (serve x t esc r w))))))"
proof -
  have mux: "P (fst (fw_world (fst (snd (snd (full_mux x t esc r (g, snd w)))))))" for g
  proof (cases "serve_mux (server_routes (sx_Panel x \<noteq> None)) (rq_Method r) esc")
    case (FoundHandler e)
    have "P (fst (fw_world (fst st)))" if "app_route x m r (snd w) = (resp, st)" for m resp st
      using app_route_keeps [OF assms, of x m r] that by simp
    with assms FoundHandler show ?thesis
      by (cases e) (auto simp: full_mux_def split: option.split prod.split)
  qed (use assms in \<open>simp_all add: full_mux_def\<close>)
  with mux [of "fst w"] assms show ?thesis
    by (auto simp: serve_def Handler_def split: prod.split option.split)
qed

lemma listener_keeps:
  assumes "P (fst (fw_world w))"
  shows "P (fst (fw_world (listener_done env fl ev w)))"
  using assms complete_keeps [OF assms] by (auto simp: listener_done_def split: sum.split)

lemma marks_keep:
  assumes "P s"
  shows "P (after_mark (MarkStaleAttemptsInterrupted nw s) s)" "P (after_mark (MarkInterruptedRefreshJobs nw s) s)"
  using assms by (auto simp: after_mark_def split: sum.split dest: op_keeps)

lemma start_keeps: "run_start env (sd, s) = (Inr sv, (sd', s')) \<Longrightarrow> P s \<Longrightarrow> P s'"
  by (erule run_start_Inr) (simp add: marks_keep)

end

section \<open>Keys and references\<close>

interpretation wf: store_invariant db_wf
  by unfold_locales (rule run_op_wf)

end
