(* ===== verification/Lifetime.thy ===== *)
theory Lifetime
  imports Integrity "HOL-Library.Sublist"
begin

text \<open>
  The server over its whole life: any sequence of requests, authorization callbacks, failures
  of the database and restarts, with whatever clocks, random values, networks and clients.
\<close>

section \<open>Journals\<close>

text \<open>The rows nothing may remove: audit events, usage events, and which attempts were made.\<close>

type_synonym journal = "audit_event list \<times> usage_event_row list \<times> (string \<times> string) list"

definition journal_of :: "db \<Rightarrow> journal" where
  "journal_of s = (audit_events s, usage_events s, map attempt_key (request_attempts s))"

definition extends :: "journal \<Rightarrow> journal \<Rightarrow> bool" where
  "extends j j' \<longleftrightarrow> prefix (fst j) (fst j') \<and> prefix (fst (snd j)) (fst (snd j')) \<and> prefix (snd (snd j)) (snd (snd j'))"

lemma extends_refl [simp]: "extends j j"
  by (simp add: extends_def)

lemma extends_trans: "extends i j \<Longrightarrow> extends j k \<Longrightarrow> extends i k"
  by (auto simp: extends_def intro: prefix_order.trans)

lemma row_steps_keep_journal:
  "upsert_model nw m s = Inr s' \<Longrightarrow> journal_of s' = journal_of s"
  "upsert_account_model aid nw mi s = Inr s' \<Longrightarrow> journal_of s' = journal_of s"
  "upsert_capability aid nw c s = Inr s' \<Longrightarrow> journal_of s' = journal_of s"
  "insert_pool_member pid aid s = Inr s' \<Longrightarrow> journal_of s' = journal_of s"
  "upsert_pool p nw s = Inr s' \<Longrightarrow> journal_of s' = journal_of s"
  by (auto simp: journal_of_def upsert_model_def upsert_account_model_def upsert_capability_def insert_pool_member_def
      upsert_pool_def op_simps Let_def split: if_splits)

lemma in_tx_journal:
  assumes "\<And>x s s'. f x s = Inr s' \<Longrightarrow> journal_of s' = journal_of s" and "in_tx f xs s = Inr s'"
  shows "journal_of s' = journal_of s"
  using in_tx_wf [of "\<lambda>t. journal_of t = journal_of s" f s xs s'] assms by simp

lemmas tx_journal = row_steps_keep_journal [THEN in_tx_journal]

lemma finish_keeps_keys: "map attempt_key (upd_where p (finish_row a nw) rows) = map attempt_key rows"
  by (induction rows) (auto simp: upd_where_def)

lemma run_op_journal_same:
  assumes "run_op nw op s = Inr s'" and "\<nexists>e. op = OpRecordUsageEvent e" and "\<nexists>a b c d t. op = OpRecordAuditEvent a b c d t"
    and "\<nexists>a. op = OpCreateAttempt a"
  shows "journal_of s' = journal_of s"
  using assms
proof (cases op)
  case (OpUpsertModels ms)
  with assms tx_journal(1) show ?thesis by (auto simp: UpsertModels_def op_simps)
next
  case (OpSaveAccountModels i ms)
  with assms tx_journal(2) show ?thesis by (auto simp: SaveAccountModels_def op_simps)
next
  case (OpSaveAccountCapabilities i cs)
  with assms tx_journal(3) show ?thesis by (auto simp: SaveAccountCapabilities_def op_simps)
next
  case (OpSaveQuotaPool p)
  have "journal_of s' = journal_of s1" if "in_tx (insert_pool_member (qp_ID p)) ms s1 = Inr s'" for ms s1
    using that by (rule in_tx_journal [rotated]) (rule row_steps_keep_journal(4))
  with OpSaveQuotaPool assms(1) show ?thesis
    by (auto simp: SaveQuotaPool_def op_simps row_steps_keep_journal(5) split: sum.splits)
qed (use assms in \<open>auto simp: journal_of_def CreateProvider_def UpdateProvider_def DeleteProvider_def CreateAccount_def
    SetAccountStatus_def SetAccountAuthState_def UpdateAccountSecretRef_def SetAccountVerifiedAt_def
    SetAccountCredentialRef_def SetAccountName_def DeleteAccount_def SaveRoutingPolicy_def DeleteRoutingPolicy_def
    SaveQuotaSnapshot_def UpsertRefreshJob_def UpdateRefreshJobState_def MarkInterruptedRefreshJobs_def
    FinishAttempt_def MarkStaleAttemptsInterrupted_def UpsertPriceVersion_def CreateToken_def SetTokenEnabled_def
    DeleteToken_def TouchToken_def CreateProject_def DeleteProject_def SaveResponseBinding_def finish_keeps_keys
    map_upd_where attempt_key_def finish_row_def op_simps map_sum_Inr Let_def split: if_splits sum.splits\<close>)

lemma run_op_journal: "run_op nw op s = Inr s' \<Longrightarrow> extends (journal_of s) (journal_of s')"
  using run_op_journal_same [of nw op s s']
  by (cases op) (auto simp: journal_of_def extends_def RecordUsageEvent_def RecordAuditEvent_def CreateAttempt_def op_simps
      Let_def split: if_splits)


interpretation journals: store_invariant "\<lambda>s. extends j (journal_of s)" for j
  by unfold_locales (blast intro: extends_trans run_op_journal)

abbreviation database :: "guard \<times> 'v app_state \<Rightarrow> db" where
  "database w \<equiv> fst (fw_world (fst (snd w)))"

text \<open>
  C11: the journals are only appended to. Whatever is requested, by whom and with what answer,
  no audit event, no usage event and no attempt that was ever recorded is removed or, for the
  events, changed, and their order stays.
\<close>

theorem journals_append_only:
  "let s = database w; s' = database (snd (serve x t esc r w)) in
     prefix (audit_events s) (audit_events s') \<and> prefix (usage_events s) (usage_events s') \<and>
     prefix (map attempt_key (request_attempts s)) (map attempt_key (request_attempts s'))"
  using journals.serve_keeps [of "journal_of (database w)" w x t esc r]
  by (simp add: extends_def journal_of_def Let_def)

section \<open>A life\<close>

text \<open>
  The state of the process is the guard, the flows and the leases; the database and the vault
  outlive it, an in-memory vault excepted. A restart is \<open>run\<close> on the database that is left.
\<close>

definition restarted :: "started_server \<Rightarrow> db \<Rightarrow> 'v \<Rightarrow> guard \<times> 'v app_state" where
  "restarted sv s v = (sv_Guard sv, (\<lparr>fw_world = (s, v), fw_states = (\<lambda>p. Map.empty), fw_flows = Map.empty\<rparr>, new_access))"

inductive alive :: "guard \<times> 'v app_state \<Rightarrow> bool" where
  first_start: "run_start env (sd, empty_db) = (Inr sv, (sd', s)) \<Longrightarrow> alive (restarted sv s v)"
| request: "alive w \<Longrightarrow> alive (snd (serve x t esc r w))"
| callback: "alive (g, (fw, a)) \<Longrightarrow> alive (g, (listener_done env fl ev fw, a))"
| fault: "alive (g, (fw, a)) \<Longrightarrow> alive (g, (fw\<lparr>fw_world := ((fst (fw_world fw))\<lparr>db_down := e\<rparr>, snd (fw_world fw))\<rparr>, a))"
| restart: "alive w \<Longrightarrow> run_start env (sd, database w) = (Inr sv, (sd', s)) \<Longrightarrow> alive (restarted sv s v)"

inductive_cases aliveE: "alive w"

text \<open>
  C2: in every state the server can reach, through any requests, authorization callbacks,
  failures of the database and crashes with restarts, the keys of every table are distinct and
  every reference has its row.
\<close>

theorem alive_integrity: "alive w \<Longrightarrow> keys_wf (database w) \<and> refs_wf (database w)"
proof -
  assume "alive w"
  then have "db_wf (database w)"
  proof induction
    case (first_start env sd sv sd' s v)
    then show ?case using wf.start_keeps db_wf_empty by (simp add: restarted_def)
  next
    case (request w x t esc r)
    then show ?case by (intro wf.serve_keeps)
  next
    case (callback g fw a env fl ev)
    then show ?case by (simp add: wf.listener_keeps)
  next
    case (fault g fw a e)
    then show ?case using db_wf_plain(10) by simp
  next
    case (restart w env sd sv sd' s v)
    then show ?case using wf.start_keeps by (simp add: restarted_def)
  qed
  then show ?thesis by (simp add: db_wf_def)
qed

lemma alive_integrity_witness:
  "\<exists>w :: guard \<times> unit app_state. \<forall>x. alive w \<and> keys_wf (database (snd (serve x 0 ''/api/v1/tokens'' smuggled w)))"
proof -
  obtain sv sd' s' where "run_start demo_start (empty_schema, empty_db) = (Inr sv, (sd', s'))" using demo_started by blast
  then have a: "alive (restarted sv s' ())" by (rule first_start)
  then have "keys_wf (database (snd (serve x 0 ''/api/v1/tokens'' smuggled (restarted sv s' ()))))" for x
    by (intro alive_integrity [THEN conjunct1] request)
  with a show ?thesis by blast
qed

end
