(* ===== verification/Spec2Isabelle.thy ===== *)
theory Spec2Isabelle
  imports StoreInv Attempts Server Access Connectors Oauth ApiAccounts Messages OauthFlows Health Billing Trail Startup Tools
    Contract Lifetime
begin

text \<open>
  A model of the midroute server (\<open>src/apps/server\<close>, Go): a local gateway that fronts several
  AI platforms with one OpenAI-compatible interface. Paths below are relative to
  \<open>src/apps/server/internal\<close> unless they begin with \<open>cmd\<close>.

  \<^bold>\<open>The program.\<close> A request enters through \<open>httpserver.Handler\<close>. Paths below \<open>/v1/\<close> are the
  inference plane: \<open>requireToken\<close> checks an access token and takes a concurrency lease, the
  router picks candidates from a routing policy, a connector speaks the protocol of the
  platform, and each attempt and its usage are recorded. All other paths but the two probes are
  the management plane behind the session guard: providers, accounts, tokens, projects,
  policies, quota, jobs, OAuth flows. State lives in one SQLite database, in a vault for
  credentials (Keychain or memory), and in memory: sessions, authorization states and flows,
  leases, refreshes under way. The handlers reach the database through \<open>repository.Store\<close> only,
  the vault through its three operations only, and the platforms through the connectors only.

  \<^bold>\<open>Theories and code.\<close>

  \<^item> \<open>Prelude\<close>: fallible results, keyed tables, the collections \<open>frame_simps\<close> and \<open>inv_intros\<close>.
    \<open>GoLib\<close>: \<open>strings\<close>, \<open>strconv\<close>, \<open>net\<close>, \<open>time\<close>. \<open>Json\<close> and \<open>JsonFuel\<close>: \<open>encoding/json\<close>, printing,
    parsing, their round trip, and that the fuel of the parser suffices. \<open>Http\<close>: requests,
    responses, \<open>writeJSON\<close>, \<open>writeError\<close>. \<open>Mux\<close>: \<open>ServeMux\<close> and the route tables of
    \<open>httpserver.New\<close>, \<open>App.Mount\<close> and \<open>cmd/server/main.go\<close>.
  \<^item> \<open>Errs\<close>: \<open>errs/errs.go\<close> and Go error trees (\<open>errors.Is\<close>, \<open>errors.As\<close>). \<open>Domain\<close>:
    \<open>domain/domain.go\<close>.
  \<^item> \<open>Schema\<close>: \<open>db/db.go\<close>, the SQL of the nine migrations as data with an interpreter, and
    \<open>Migrate\<close>. \<open>Store\<close>: every method of \<open>repository/repository.go\<close> on tables as lists of rows,
    with the constraints of the schema as errors. \<open>StoreInv\<close>: keys and references.
  \<^item> \<open>Connector\<close>, \<open>Sse\<close>, \<open>Convert\<close>, \<open>Connectors\<close>: \<open>connectors/*.go\<close>, error classification, the two
    event readers, the conversion of requests and answers of each protocol, the connectors with
    the HTTP client as a parameter. \<open>Responses\<close>: \<open>protocols/responses/responses.go\<close>.
  \<^item> \<open>Router\<close> and \<open>Trail\<close>: \<open>router/router.go\<close>. \<open>Attempts\<close>: \<open>usage/attempts/recorder.go\<close>.
  \<^item> \<open>Session\<close>, \<open>Server\<close>: \<open>session/session.go\<close>, \<open>httpserver/httpserver.go\<close>, \<open>config/config.go\<close>.
    \<open>Access\<close>: \<open>access/access.go\<close>.
  \<^item> \<open>Vault\<close>: \<open>credentials/*.go\<close>. \<open>Oauth\<close>: \<open>connectors/oauth/*.go\<close>. \<open>OauthFlows\<close>: the flows of
    \<open>api/responses_oauth.go\<close>.
  \<^item> \<open>Quota\<close>: \<open>quota/*.go\<close>. \<open>Scheduler\<close>: \<open>scheduler/scheduler.go\<close>. \<open>Health\<close>: \<open>health/health.go\<close>.
    \<open>Billing\<close>: \<open>usage/*.go\<close>.
  \<^item> \<open>ApiJson\<close>, \<open>ApiAdmin\<close>, \<open>Accounts\<close>, \<open>ApiAccounts\<close>, \<open>Gateway\<close>: \<open>api/api.go\<close> and
    \<open>accounts/accounts.go\<close>. \<open>RespApi\<close>: the Responses endpoint of \<open>api/responses_oauth.go\<close>.
    \<open>Messages\<close>: \<open>api/anthropic.go\<close>.
  \<^item> \<open>Startup\<close>: \<open>cmd/server/main.go\<close>. \<open>Tools\<close>: \<open>cmd/vaultctl\<close>, \<open>cmd/healthcheck\<close>,
    \<open>cmd/billingcheck\<close>.
  \<^item> \<open>App\<close>: one request to the whole server. \<open>Contract\<close>: the shape of every answer. \<open>Integrity\<close>:
    what the repository keeps, every handler keeps. \<open>Lifetime\<close>: requests, callbacks, faults and
    restarts in any order.

  \<^bold>\<open>How the code is read.\<close> A struct is a record, an enumeration of strings keeps its strings, a
  fallible call returns \<open>go_error + 'a\<close>. A handler is a function of its environment, the request
  and the state, to the response and the state. What comes from outside the program is in the
  environment: clocks, random ids, the network, the client's connection, SHA-256, the text of a
  formatted time. Each candidate of a request has its own network, context, clock and ids,
  numbered by its position. Messages in Chinese are given as an English gloss; codes, statuses
  and keys are those of the source. JSON is really printed and parsed; keys are compared
  exactly, where Go's decoder also folds their case. \<open>float64\<close> is a real (with a separate NaN
  where a header may hold one) or a decimal; int64 sums of official usage wrap. \<open>ORDER BY\<close> is a
  stable sort, iteration over a Go map is any order. A critical section runs at once; where
  interleavings matter (leases, refreshes of one credential) they are steps of an inductive
  relation. Streams are lists of chunks and the error that ends them.

  \<^bold>\<open>What is shown.\<close> For the whole server: the two planes are closed to each other however a path
  is spelled (\<open>App\<close>), keys and references hold in every state of its life and journals only
  grow (\<open>Lifetime\<close>), every answer is a success or a stable error (\<open>Contract\<close>). For its parts: who is let in (\<open>Session\<close>, \<open>Access\<close>, \<open>Server\<close>), which
  candidates are tried and what the client gets (\<open>Router\<close>, \<open>Trail\<close>, \<open>Gateway\<close>, \<open>RespApi\<close>,
  \<open>Messages\<close>), what each connector does with a stream or a refusal (\<open>Sse\<close>, \<open>Connectors\<close>), that
  secrets are masked and kept (\<open>Vault\<close>, \<open>ApiAccounts\<close>), that authorization states are used once
  and refreshes are shared (\<open>Oauth\<close>), that migrations are whole and resumable (\<open>Schema\<close>), that a
  restart leaves no work open (\<open>Startup\<close>, \<open>Scheduler\<close>), how health is judged (\<open>Health\<close>, a
  refinement of an abstract machine) and when a number is exact (\<open>Billing\<close>). Where the code
  does not do what it means to, the theorem states what it does: \<open>Messages\<close>, \<open>OauthFlows\<close>,
  \<open>RespApi\<close>, \<open>Tools\<close>, \<open>ApiAccounts\<close>, \<open>Schema\<close> hold such results.

  \<^bold>\<open>Interfaces.\<close> A locale states what a component relies on, and is interpreted on the code's
  own definitions: \<open>attempt_ledger\<close> (\<open>recorder\<close> in \<open>Attempts\<close>), \<open>streaming_connector\<close> (\<open>conn\<close> in
  \<open>Connectors\<close>), \<open>routed_ledger\<close> (a ledger with a resolver that may refresh tokens, \<open>plain\<close> in
  \<open>Gateway\<close>) and the join \<open>recorded_stream\<close> (\<open>streamed\<close> in \<open>Gateway\<close>), \<open>emitter\<close> (\<open>oai\<close>,
  \<open>trl\<close>), \<open>sliding_sessions\<close> (\<open>sess\<close>), \<open>secret_vault\<close> (\<open>mv\<close>), \<open>db_field\<close> (\<open>world\<close>),
  \<open>store_invariant\<close> (\<open>wf\<close> for keys and references, \<open>journals\<close> for what is only appended).

  \<^bold>\<open>Bounds and fuel.\<close> The JSON parser runs on fuel \<open>2 * length + 2\<close>; \<open>JsonFuel\<close> shows that more
  changes nothing. All other loops end by their structure: the lists of candidates, chunks,
  migrations, rows. Request bodies are cut or refused at the limits of the source. Uses of \<open>'v\<close>
  stand for the state of any vault.

  \<^bold>\<open>Not modelled.\<close> Listening, signals, graceful shutdown and TLS; logging; how random ids and
  random texts are made; the constructors that only fill a struct; \<open>testutil\<close> and
  \<open>credentials/time.go\<close>; the pragmas of \<open>db.Open\<close>. SQLite, the HTTP client, the \<open>security\<close> tool
  and the browser are parameters. The vault may change under a restart in any way. Two requests are served one after the other, except where
  a relation of steps says otherwise.
\<close>

end
